(* ===== verification/Prelude.thy ===== *)
theory Prelude
  imports
    Main
    "HOL-Library.Word"
    "HOL-Library.Char_ord"
    "HOL-Library.List_Lexorder"
    "HOL-Library.Product_Lexorder"
begin

text \<open>
  Shared vocabulary of the development: the machine types, the part of the Rust standard
  library on strings, numbers and results that the sources use, and the lemmas on them that
  every component needs.

  A Rust \<^verbatim>\<open>String\<close> or \<^verbatim>\<open>&str\<close> is the list of its UTF-8 bytes, written as a HOL
  \<^typ>\<open>string\<close>; a \<^verbatim>\<open>Vec<u8>\<close> or \<^verbatim>\<open>&[u8]\<close> is a list of 8-bit words. A
  \<^verbatim>\<open>Result<T, E>\<close> is \<open>'e + 'a\<close> with \<open>Inl\<close> for \<^verbatim>\<open>Err\<close> and \<open>Inr\<close> for \<^verbatim>\<open>Ok\<close>.
  Every function of this theory with a Rust counterpart has its name (with \<open>_str\<close> or a
  similar suffix where HOL already uses the name).
\<close>

section \<open>Machine types\<close>

type_synonym u8 = "8 word"
type_synonym u64 = "64 word"
type_synonym bytes = "u8 list"

text \<open>Signed machine integers that the code only stores, compares and prints are \<^typ>\<open>int\<close>
  with their range stated where it matters; a point in time is the number of nanoseconds
  since the Unix epoch.\<close>

type_synonym time = int
type_synonym uuid = nat

definition saturating_sub :: "u64 \<Rightarrow> u64 \<Rightarrow> u64" where
  "saturating_sub a b = (if a < b then 0 else a - b)"

lemma unat_saturating_sub [simp]: "unat (saturating_sub a b) = unat a - unat b"
proof (cases "a < b")
  case True
  then have "unat a < unat b" by (simp add: word_less_nat_alt)
  with True show ?thesis by (simp add: saturating_sub_def)
next
  case False
  then have "b \<le> a" by simp
  then show ?thesis using False by (simp add: saturating_sub_def unat_sub)
qed

lemma unat_minus_one: "(x :: u64) \<noteq> 0 \<Longrightarrow> unat (x - 1) = unat x - 1"
  by (metis unat_1 unat_sub word_gt_0 word_le_less_eq word_less_1 less_le_not_le
      linorder_not_less)

text \<open>The numeric cast \<^verbatim>\<open>x as u64\<close> of an \<^verbatim>\<open>i64\<close> keeps the low 64 bits.\<close>

definition i64_as_u64 :: "int \<Rightarrow> u64" where
  "i64_as_u64 x = word_of_int x"

lemma unat_i64_as_u64: "0 \<le> x \<Longrightarrow> x < 2 ^ 63 \<Longrightarrow> unat (i64_as_u64 x) = nat x"
  by (simp add: i64_as_u64_def unat_eq_nat_uint take_bit_int_eq_self uint_word_of_int_eq)

section \<open>Results\<close>

text \<open>\<^verbatim>\<open>Option::unwrap_or\<close>, \<^verbatim>\<open>Option::ok_or\<close>, \<^verbatim>\<open>Result::ok\<close> and \<^verbatim>\<open>Result::map_err\<close>.\<close>

definition unwrap_or :: "'a option \<Rightarrow> 'a \<Rightarrow> 'a" where
  "unwrap_or x d = (case x of None \<Rightarrow> d | Some y \<Rightarrow> y)"

lemma unwrap_or_simps [simp]:
  "unwrap_or None d = d" "unwrap_or (Some y) d = y"
  by (simp_all add: unwrap_or_def)

definition ok_or :: "'a option \<Rightarrow> 'e \<Rightarrow> 'e + 'a" where
  "ok_or x e = (case x of None \<Rightarrow> Inl e | Some y \<Rightarrow> Inr y)"

lemma ok_or_simps [simp]: "ok_or None e = Inl e" "ok_or (Some y) e = Inr y"
  by (simp_all add: ok_or_def)

lemma ok_or_Inr [simp]: "ok_or x e = Inr y \<longleftrightarrow> x = Some y"
  by (cases x) auto

definition map_err :: "('e \<Rightarrow> 'f) \<Rightarrow> 'e + 'a \<Rightarrow> 'f + 'a" where
  "map_err f r = (case r of Inl e \<Rightarrow> Inl (f e) | Inr x \<Rightarrow> Inr x)"

lemma map_err_simps [simp]: "map_err f (Inl e) = Inl (f e)" "map_err f (Inr x) = Inr x"
  by (simp_all add: map_err_def)

lemma map_err_Inr [simp]: "map_err f r = Inr x \<longleftrightarrow> r = Inr x"
  by (cases r) auto

text \<open>The \<^verbatim>\<open>?\<close> operator on a plain result: stop at an error, go on with the value.\<close>

definition and_then :: "'e + 'a \<Rightarrow> ('a \<Rightarrow> 'e + 'b) \<Rightarrow> 'e + 'b" where
  "and_then r f = (case r of Inl e \<Rightarrow> Inl e | Inr x \<Rightarrow> f x)"

lemma and_then_simps [simp]: "and_then (Inl e) f = Inl e" "and_then (Inr x) f = f x"
  by (simp_all add: and_then_def)

lemma and_then_Inr [simp]: "and_then r f = Inr y \<longleftrightarrow> (\<exists>x. r = Inr x \<and> f x = Inr y)"
  by (cases r) auto

section \<open>Strings\<close>

abbreviation ord_of :: "char \<Rightarrow> nat" where
  "ord_of c \<equiv> of_char c"

definition as_bytes :: "string \<Rightarrow> bytes" where
  "as_bytes s = map of_char s"

lemma length_as_bytes [simp]: "length (as_bytes s) = length s"
  by (simp add: as_bytes_def)

definition starts_with :: "'a list \<Rightarrow> 'a list \<Rightarrow> bool" where
  "starts_with p s \<longleftrightarrow> take (length p) s = p"

definition ends_with :: "'a list \<Rightarrow> 'a list \<Rightarrow> bool" where
  "ends_with p s \<longleftrightarrow> length p \<le> length s \<and> drop (length s - length p) s = p"

definition strip_prefix :: "'a list \<Rightarrow> 'a list \<Rightarrow> 'a list option" where
  "strip_prefix p s = (if starts_with p s then Some (drop (length p) s) else None)"

lemma starts_with_iff: "starts_with p s \<longleftrightarrow> (\<exists>t. s = p @ t)"
proof
  assume "starts_with p s"
  then have "s = p @ drop (length p) s"
    by (metis append_take_drop_id starts_with_def)
  then show "\<exists>t. s = p @ t" ..
qed (auto simp: starts_with_def)

lemma strip_prefix_Some [simp]: "strip_prefix p s = Some t \<longleftrightarrow> s = p @ t"
  by (auto simp: strip_prefix_def starts_with_iff)

lemma ends_with_iff: "ends_with p s \<longleftrightarrow> (\<exists>t. s = t @ p)"
proof
  assume *: "ends_with p s"
  then have "s = take (length s - length p) s @ p"
    by (metis append_take_drop_id ends_with_def)
  then show "\<exists>t. s = t @ p" ..
qed (auto simp: ends_with_def)

text \<open>\<^verbatim>\<open>str::find\<close> of a substring: the byte offset of its first occurrence.\<close>

fun find_str :: "'a list \<Rightarrow> 'a list \<Rightarrow> nat option" where
  "find_str p [] = (if p = [] then Some 0 else None)"
| "find_str p (c # cs) =
     (if starts_with p (c # cs) then Some 0 else map_option Suc (find_str p cs))"

definition contains_str :: "'a list \<Rightarrow> 'a list \<Rightarrow> bool" where
  "contains_str p s \<longleftrightarrow> find_str p s \<noteq> None"

lemma find_str_Some_iff: "find_str p s \<noteq> None \<longleftrightarrow> (\<exists>a b. s = a @ p @ b)"
proof (induction p s rule: find_str.induct)
  case (1 p)
  then show ?case by auto
next
  case (2 p c cs)
  show ?case
  proof (cases "starts_with p (c # cs)")
    case True
    then obtain t where "c # cs = [] @ p @ t" by (auto simp: starts_with_iff)
    with True show ?thesis by (metis find_str.simps(2) option.distinct(1))
  next
    case False
    with "2.IH" have "find_str p (c # cs) \<noteq> None \<longleftrightarrow> (\<exists>a b. cs = a @ p @ b)"
      by auto
    also have "\<dots> \<longleftrightarrow> (\<exists>a b. c # cs = a @ p @ b)"
      using False by (metis (no_types, lifting) append_Cons append_Nil list.exhaust list.inject
          starts_with_iff)
    finally show ?thesis .
  qed
qed

lemma contains_str_iff: "contains_str p s \<longleftrightarrow> (\<exists>a b. s = a @ p @ b)"
  unfolding contains_str_def by (rule find_str_Some_iff)

text \<open>\<^verbatim>\<open>str::split\<close>, \<^verbatim>\<open>split_once\<close> and \<^verbatim>\<open>splitn\<close> at a one-byte separator, and \<^verbatim>\<open>[_]::join\<close>.\<close>

fun split_on :: "'a \<Rightarrow> 'a list \<Rightarrow> 'a list list" where
  "split_on d [] = [[]]"
| "split_on d (c # cs) =
     (if c = d then [] # split_on d cs
      else (case split_on d cs of [] \<Rightarrow> [[c]] | x # xs \<Rightarrow> (c # x) # xs))"

definition split_once :: "'a \<Rightarrow> 'a list \<Rightarrow> ('a list \<times> 'a list) option" where
  "split_once d s =
     (if d \<in> set s then Some (takeWhile (\<lambda>c. c \<noteq> d) s, tl (dropWhile (\<lambda>c. c \<noteq> d) s)) else None)"

fun splitn :: "nat \<Rightarrow> 'a \<Rightarrow> 'a list \<Rightarrow> 'a list list" where
  "splitn 0 d s = []"
| "splitn (Suc 0) d s = [s]"
| "splitn (Suc (Suc n)) d s =
     (case split_once d s of None \<Rightarrow> [s] | Some (a, b) \<Rightarrow> a # splitn (Suc n) d b)"

fun join_str :: "'a list \<Rightarrow> 'a list list \<Rightarrow> 'a list" where
  "join_str sep [] = []"
| "join_str sep [x] = x"
| "join_str sep (x # y # ys) = x @ sep @ join_str sep (y # ys)"

lemma split_on_not_Nil [simp]: "split_on d s \<noteq> []"
  by (induction s) (auto split: list.splits)

lemma split_on_no_sep: "x \<in> set (split_on d s) \<Longrightarrow> d \<notin> set x"
  by (induction s arbitrary: x) (auto split: list.splits if_splits)

lemma split_on_id [simp]: "d \<notin> set s \<Longrightarrow> split_on d s = [s]"
  by (induction s) auto

lemma join_Cons: "join_str sep (x # xs) = (if xs = [] then x else x @ sep @ join_str sep xs)"
  by (cases xs) auto

lemma join_split [simp]: "join_str [d] (split_on d s) = s"
proof (induction s)
  case (Cons c cs)
  obtain x xs where x: "split_on d cs = x # xs"
    using split_on_not_Nil by (metis neq_Nil_conv)
  with Cons show ?case by (cases xs) (auto simp: join_Cons)
qed simp

lemma split_on_append:
  "d \<notin> set a \<Longrightarrow> split_on d (a @ d # b) = a # split_on d b"
  by (induction a) auto

lemma split_join:
  "xs \<noteq> [] \<Longrightarrow> (\<And>x. x \<in> set xs \<Longrightarrow> d \<notin> set x) \<Longrightarrow> split_on d (join_str [d] xs) = xs"
proof (induction xs)
  case (Cons x xs)
  then show ?case by (cases xs) (auto simp: join_Cons split_on_append)
qed simp

lemma split_once_append [simp]:
  "d \<notin> set a \<Longrightarrow> split_once d (a @ d # b) = Some (a, b)"
  by (auto simp: split_once_def takeWhile_append dropWhile_append)

lemma split_once_Some:
  "split_once d s = Some (a, b) \<longleftrightarrow> s = a @ d # b \<and> d \<notin> set a"
proof
  assume *: "split_once d s = Some (a, b)"
  then have "d \<in> set s" by (auto simp: split_once_def split: if_splits)
  then obtain u v where uv: "s = u @ d # v" "d \<notin> set u" by (metis split_list_first)
  with * show "s = a @ d # b \<and> d \<notin> set a" by simp
qed simp

lemma split_once_None: "split_once d s = None \<longleftrightarrow> d \<notin> set s"
  by (simp add: split_once_def)

text \<open>\<^verbatim>\<open>trim_end_matches\<close> removes a suffix as often as it occurs (the pattern is not empty);
  \<^verbatim>\<open>trim_start_matches\<close> of one character drops its leading occurrences.\<close>

function trim_end_matches :: "'a list \<Rightarrow> 'a list \<Rightarrow> 'a list" where
  "trim_end_matches p s =
     (if p \<noteq> [] \<and> ends_with p s
      then trim_end_matches p (take (length s - length p) s) else s)"
  by pat_completeness auto
termination
  by (relation "measure (\<lambda>(p, s). length s)")
    (auto simp: ends_with_def simp flip: length_greater_0_conv)

declare trim_end_matches.simps [simp del]

definition trim_start_char :: "'a \<Rightarrow> 'a list \<Rightarrow> 'a list" where
  "trim_start_char c s = dropWhile (\<lambda>x. x = c) s"

lemma trim_end_matches_append:
  "p \<noteq> [] \<Longrightarrow> trim_end_matches p (s @ p) = trim_end_matches p s"
  by (subst trim_end_matches.simps) (simp add: ends_with_def)

lemma trim_end_matches_id: "\<not> ends_with p s \<Longrightarrow> trim_end_matches p s = s"
  by (subst trim_end_matches.simps) simp

lemma trim_end_matches_not_ends:
  "p \<noteq> [] \<Longrightarrow> \<not> ends_with p (trim_end_matches p s)"
proof (induction p s rule: trim_end_matches.induct)
  case (1 p s)
  then show ?case by (subst trim_end_matches.simps) auto
qed

text \<open>\<^verbatim>\<open>str::trim\<close> drops Unicode white space at both ends. The white-space characters of
  Unicode are six ASCII characters and the ones below, given by their UTF-8 bytes.\<close>

definition ascii_space :: "nat \<Rightarrow> bool" where
  "ascii_space n \<longleftrightarrow> (9 \<le> n \<and> n \<le> 13) \<or> n = 32"

definition space2 :: "nat \<Rightarrow> nat \<Rightarrow> bool" where
  "space2 a b \<longleftrightarrow> a = 194 \<and> (b = 133 \<or> b = 160)"

definition space3 :: "nat \<Rightarrow> nat \<Rightarrow> nat \<Rightarrow> bool" where
  "space3 a b c \<longleftrightarrow>
     (a = 225 \<and> b = 154 \<and> c = 128) \<or>
     (a = 226 \<and> b = 128 \<and> ((128 \<le> c \<and> c \<le> 138) \<or> c = 168 \<or> c = 169 \<or> c = 175)) \<or>
     (a = 226 \<and> b = 129 \<and> c = 159) \<or>
     (a = 227 \<and> b = 128 \<and> c = 128)"

fun trim_start :: "string \<Rightarrow> string" where
  "trim_start (a # b # c # s) =
     (if ascii_space (ord_of a) then trim_start (b # c # s)
      else if space2 (ord_of a) (ord_of b) then trim_start (c # s)
      else if space3 (ord_of a) (ord_of b) (ord_of c) then trim_start s
      else a # b # c # s)"
| "trim_start [a, b] =
     (if ascii_space (ord_of a) then trim_start [b]
      else if space2 (ord_of a) (ord_of b) then [] else [a, b])"
| "trim_start [a] = (if ascii_space (ord_of a) then [] else [a])"
| "trim_start [] = []"

fun trim_end_rev :: "string \<Rightarrow> string" where
  "trim_end_rev (c # b # a # s) =
     (if ascii_space (ord_of c) then trim_end_rev (b # a # s)
      else if space2 (ord_of b) (ord_of c) then trim_end_rev (a # s)
      else if space3 (ord_of a) (ord_of b) (ord_of c) then trim_end_rev s
      else c # b # a # s)"
| "trim_end_rev [b, a] =
     (if ascii_space (ord_of b) then trim_end_rev [a]
      else if space2 (ord_of a) (ord_of b) then [] else [b, a])"
| "trim_end_rev [a] = (if ascii_space (ord_of a) then [] else [a])"
| "trim_end_rev [] = []"

definition trim_str :: "string \<Rightarrow> string" where
  "trim_str s = rev (trim_end_rev (rev (trim_start s)))"

section \<open>Numbers in strings\<close>

text \<open>\<^verbatim>\<open>str::parse\<close> for integers: an optional sign (\<open>-\<close> for signed types only), at least
  one ASCII digit, and a value within the type.\<close>

definition is_digit :: "char \<Rightarrow> bool" where
  "is_digit c \<longleftrightarrow> 48 \<le> ord_of c \<and> ord_of c \<le> 57"

fun digits_value :: "nat \<Rightarrow> string \<Rightarrow> nat option" where
  "digits_value acc [] = Some acc"
| "digits_value acc (c # cs) =
     (if is_digit c then digits_value (10 * acc + (ord_of c - 48)) cs else None)"

definition parse_digits :: "string \<Rightarrow> nat option" where
  "parse_digits s = (if s = [] then None else digits_value 0 s)"

definition strip_plus :: "string \<Rightarrow> string" where
  "strip_plus s = (case s of c # cs \<Rightarrow> if c = CHR ''+'' then cs else s | [] \<Rightarrow> [])"

definition parse_unsigned :: "nat \<Rightarrow> string \<Rightarrow> nat option" where
  "parse_unsigned bound s =
     (case parse_digits (strip_plus s) of
        None \<Rightarrow> None | Some n \<Rightarrow> if n < bound then Some n else None)"

definition parse_u64 :: "string \<Rightarrow> u64 option" where
  "parse_u64 s = map_option of_nat (parse_unsigned (2 ^ 64) s)"

definition parse_signed :: "nat \<Rightarrow> string \<Rightarrow> int option" where
  "parse_signed half s =
     (case s of
        c # cs \<Rightarrow>
          if c = CHR ''-'' then
            (case parse_digits cs of
               None \<Rightarrow> None | Some n \<Rightarrow> if n \<le> half then Some (- int n) else None)
          else (case parse_digits (strip_plus s) of
               None \<Rightarrow> None | Some n \<Rightarrow> if n < half then Some (int n) else None)
      | [] \<Rightarrow> None)"

abbreviation parse_i64 :: "string \<Rightarrow> int option" where
  "parse_i64 \<equiv> parse_signed (2 ^ 63)"

abbreviation parse_i32 :: "string \<Rightarrow> int option" where
  "parse_i32 \<equiv> parse_signed (2 ^ 31)"

definition parse_bool :: "string \<Rightarrow> bool option" where
  "parse_bool s =
     (if s = ''true'' then Some True else if s = ''false'' then Some False else None)"

text \<open>\<^verbatim>\<open>to_string\<close> and \<^verbatim>\<open>{}\<close> of integers.\<close>

fun show_nat :: "nat \<Rightarrow> string" where
  "show_nat n =
     (if n < 10 then [char_of (48 + n)] else show_nat (n div 10) @ [char_of (48 + n mod 10)])"

declare show_nat.simps [simp del]

definition show_int :: "int \<Rightarrow> string" where
  "show_int i = (if i < 0 then CHR ''-'' # show_nat (nat (- i)) else show_nat (nat i))"

lemma digits_value_append:
  "digits_value acc (s @ t) =
     (case digits_value acc s of None \<Rightarrow> None | Some n \<Rightarrow> digits_value n t)"
  by (induction s arbitrary: acc) auto

lemma code_digit [simp]: "d < 10 \<Longrightarrow> ord_of (char_of (48 + d)) = 48 + d"
  by (simp add: of_char_of)

lemma show_nat_not_Nil [simp]: "show_nat n \<noteq> []"
  by (subst show_nat.simps) simp

lemma digits_value_show_nat: "digits_value 0 (show_nat n) = Some n"
proof (induction n rule: show_nat.induct)
  case (1 n)
  show ?case
  proof (cases "n < 10")
    case True
    then show ?thesis by (subst show_nat.simps) (simp add: is_digit_def)
  next
    case False
    have "n mod 10 < 10" by simp
    then show ?thesis using False 1
      by (subst show_nat.simps) (simp add: digits_value_append is_digit_def)
  qed
qed

lemma show_nat_digits: "c \<in> set (show_nat n) \<Longrightarrow> is_digit c"
proof (induction n rule: show_nat.induct)
  case (1 n)
  have "n mod 10 < 10" by simp
  with 1 show ?case
    by (auto simp: is_digit_def show_nat.simps [of n] split: if_splits)
qed

lemma parse_show_nat: "n < bound \<Longrightarrow> parse_unsigned bound (show_nat n) = Some n"
proof -
  assume n: "n < bound"
  obtain c cs where c: "show_nat n = c # cs"
    by (metis neq_Nil_conv show_nat_not_Nil)
  then have "c \<noteq> CHR ''+''"
    using show_nat_digits [of c n] by (auto simp: is_digit_def)
  with c have "strip_plus (show_nat n) = show_nat n" by (simp add: strip_plus_def)
  with n show ?thesis
    by (simp add: parse_unsigned_def parse_digits_def digits_value_show_nat)
qed

text \<open>ASCII lower case, as \<^verbatim>\<open>to_lowercase\<close> computes it on the ASCII strings it is used on.\<close>

definition ascii_lower :: "char \<Rightarrow> char" where
  "ascii_lower c = (if 65 \<le> ord_of c \<and> ord_of c \<le> 90 then char_of (ord_of c + 32) else c)"

definition to_lowercase :: "string \<Rightarrow> string" where
  "to_lowercase s = map ascii_lower s"

text \<open>The number of characters of a UTF-8 string: its bytes without the continuation bytes.\<close>

definition is_continuation :: "char \<Rightarrow> bool" where
  "is_continuation c \<longleftrightarrow> 128 \<le> ord_of c \<and> ord_of c < 192"

definition char_count :: "string \<Rightarrow> nat" where
  "char_count s = length (filter (\<lambda>c. \<not> is_continuation c) s)"

end
