(* ===== verification/Models.thy ===== *)
theory Models
  imports Prelude Complex_Main
begin

text \<open>
  \<^verbatim>\<open>src/local-storage/src/models.rs\<close>: the rows of the database tables and the records the
  API answers with. A record's fields carry the initials of its struct. A
  \<^verbatim>\<open>serde_json::Value\<close> is kept as its JSON text and an \<^verbatim>\<open>f32\<close> as the exact quotient it
  stands for. The structs that no function of the sources builds or reads
  (\<^verbatim>\<open>FileListResponse\<close>, \<^verbatim>\<open>BucketInfo\<close>, \<^verbatim>\<open>StorageStatsResponse\<close>, \<^verbatim>\<open>PopularFile\<close>,
  \<^verbatim>\<open>HealthResponse\<close>, \<^verbatim>\<open>MemoryUsage\<close>, \<^verbatim>\<open>SearchRequest\<close>, \<^verbatim>\<open>ErrorResponse\<close>) are left out.
\<close>

record stored_file =
  sf_id :: uuid
  sf_bucket :: string
  sf_key :: string
  sf_filename :: string
  sf_file_path :: string
  sf_file_size :: int
  sf_original_size :: int
  sf_content_type :: string
  sf_hash_blake3 :: string
  sf_hash_md5 :: string
  sf_metadata :: "string option"
  sf_is_compressed :: "bool option"
  sf_is_encrypted :: "bool option"
  sf_compression_algorithm :: "string option"
  sf_encryption_algorithm :: "string option"
  sf_compression_ratio :: "rat option"
  sf_upload_time :: "time option"
  sf_last_accessed :: "time option"
  sf_access_count :: int
  sf_encryption_key_id :: "string option"
  sf_compression_enabled :: "bool option"
  sf_encryption_enabled :: "bool option"
  sf_compression_level :: "int option"
  sf_cache_status :: "string option"
  sf_last_cache_update :: "time option"
  sf_cache_hits :: "int option"
  sf_cache_priority :: "int option"
  sf_expires_at :: "time option"

abbreviation is_compressed :: "stored_file \<Rightarrow> bool" where
  "is_compressed f \<equiv> unwrap_or (sf_is_compressed f) False"

abbreviation is_encrypted :: "stored_file \<Rightarrow> bool" where
  "is_encrypted f \<equiv> unwrap_or (sf_is_encrypted f) False"

record encryption_key =
  ek_id :: int
  ek_key_id :: string
  ek_key_data :: bytes
  ek_algorithm :: string
  ek_created_at :: "time option"
  ek_updated_at :: "time option"
  ek_is_active :: "bool option"
  ek_description :: "string option"

record cache_config =
  cc_id :: int
  cc_max_cache_size_gb :: "rat option"
  cc_cache_ttl_seconds :: "int option"
  cc_preload_enabled :: "bool option"
  cc_min_access_count :: "int option"
  cc_cache_priority_weights :: "string option"
  cc_auto_cache_threshold :: "int option"
  cc_updated_at :: "time option"

record storage_stats =
  st_total_files :: int
  st_total_size :: int
  st_compressed_files :: int
  st_encrypted_files :: int
  st_compression_ratio :: "rat option"
  st_last_updated :: time

record file_info =
  fi_id :: uuid
  fi_bucket :: string
  fi_key :: string
  fi_filename :: string
  fi_file_size :: int
  fi_original_size :: int
  fi_content_type :: string
  fi_hash_blake3 :: string
  fi_hash_md5 :: string
  fi_metadata :: "string option"
  fi_is_compressed :: bool
  fi_is_encrypted :: bool
  fi_compression_algorithm :: "string option"
  fi_encryption_algorithm :: "string option"
  fi_compression_ratio :: "rat option"
  fi_upload_time :: time
  fi_last_accessed :: "time option"
  fi_access_count :: int
  fi_compression_enabled :: bool
  fi_encryption_enabled :: bool
  fi_encryption_key_id :: "string option"
  fi_expires_at :: "time option"

text \<open>\<^verbatim>\<open>From<StoredFile>\<close>: an unset flag reads as false and an unset upload time as the epoch;
  the on-disk path and the cache columns do not leave the server.\<close>

definition file_info_from :: "stored_file \<Rightarrow> file_info" where
  "file_info_from file =
     \<lparr>fi_id = sf_id file,
      fi_bucket = sf_bucket file,
      fi_key = sf_key file,
      fi_filename = sf_filename file,
      fi_file_size = sf_file_size file,
      fi_original_size = sf_original_size file,
      fi_content_type = sf_content_type file,
      fi_hash_blake3 = sf_hash_blake3 file,
      fi_hash_md5 = sf_hash_md5 file,
      fi_metadata = sf_metadata file,
      fi_is_compressed = unwrap_or (sf_is_compressed file) False,
      fi_is_encrypted = unwrap_or (sf_is_encrypted file) False,
      fi_compression_algorithm = sf_compression_algorithm file,
      fi_encryption_algorithm = sf_encryption_algorithm file,
      fi_compression_ratio = sf_compression_ratio file,
      fi_upload_time = unwrap_or (sf_upload_time file) 0,
      fi_last_accessed = sf_last_accessed file,
      fi_access_count = sf_access_count file,
      fi_compression_enabled = unwrap_or (sf_compression_enabled file) False,
      fi_encryption_enabled = unwrap_or (sf_encryption_enabled file) False,
      fi_encryption_key_id = sf_encryption_key_id file,
      fi_expires_at = sf_expires_at file\<rparr>"

record upload_response =
  ur_id :: uuid
  ur_bucket :: string
  ur_key :: string
  ur_file_size :: int
  ur_content_type :: string
  ur_hash_blake3 :: string
  ur_hash_md5 :: string
  ur_is_compressed :: bool
  ur_is_encrypted :: bool
  ur_compression_ratio :: "rat option"
  ur_upload_time :: time
  ur_compression_enabled :: bool
  ur_encryption_enabled :: bool
  ur_encryption_key_id :: "string option"
  ur_expires_at :: "time option"

definition upload_response_from :: "stored_file \<Rightarrow> upload_response" where
  "upload_response_from file =
     \<lparr>ur_id = sf_id file,
      ur_bucket = sf_bucket file,
      ur_key = sf_key file,
      ur_file_size = sf_file_size file,
      ur_content_type = sf_content_type file,
      ur_hash_blake3 = sf_hash_blake3 file,
      ur_hash_md5 = sf_hash_md5 file,
      ur_is_compressed = unwrap_or (sf_is_compressed file) False,
      ur_is_encrypted = unwrap_or (sf_is_encrypted file) False,
      ur_compression_ratio = sf_compression_ratio file,
      ur_upload_time = unwrap_or (sf_upload_time file) 0,
      ur_compression_enabled = unwrap_or (sf_compression_enabled file) False,
      ur_encryption_enabled = unwrap_or (sf_encryption_enabled file) False,
      ur_encryption_key_id = sf_encryption_key_id file,
      ur_expires_at = sf_expires_at file\<rparr>"

lemma file_info_from_simps [simp]:
  "fi_id (file_info_from f) = sf_id f"
  "fi_bucket (file_info_from f) = sf_bucket f"
  "fi_key (file_info_from f) = sf_key f"
  "fi_file_size (file_info_from f) = sf_file_size f"
  "fi_original_size (file_info_from f) = sf_original_size f"
  "fi_content_type (file_info_from f) = sf_content_type f"
  "fi_hash_md5 (file_info_from f) = sf_hash_md5 f"
  "fi_upload_time (file_info_from f) = unwrap_or (sf_upload_time f) 0"
  "fi_expires_at (file_info_from f) = sf_expires_at f"
  by (simp_all add: file_info_from_def)

text \<open>The identity of an object is its bucket and key.\<close>

abbreviation object_of :: "stored_file \<Rightarrow> string \<times> string" where
  "object_of f \<equiv> (sf_bucket f, sf_key f)"

end
