(* ===== verification/Object_Table.thy ===== *)
theory Object_Table
  imports Prelude
begin

text \<open>
  The interface that the service expects of a store of named values: the \<open>files\<close> table with
  its upsert, and the cache. The provider may add bookkeeping of its own to a value
  (\<open>core\<close> takes it away) and may refuse to store one. The clients' facts, proved once here,
  say that such a store is a finite map and that a sequence of accepted commands leaves in it
  what the same updates leave in the map.
\<close>

datatype ('k, 'v) command = Put 'v | Remove 'k

fun run_commands ::
  "('v \<Rightarrow> 's \<Rightarrow> 'e + 's) \<Rightarrow> ('k \<Rightarrow> 's \<Rightarrow> 's) \<Rightarrow> ('k, 'v) command list \<Rightarrow> 's \<Rightarrow> 'e + 's" where
  "run_commands put del [] s = Inr s"
| "run_commands put del (Put v # cs) s =
     and_then (put v s) (run_commands put del cs)"
| "run_commands put del (Remove k # cs) s = run_commands put del cs (del k s)"

fun map_commands ::
  "('v \<Rightarrow> 'k) \<Rightarrow> ('v \<Rightarrow> 'c) \<Rightarrow> ('k, 'v) command list \<Rightarrow> ('k \<Rightarrow> 'c option) \<Rightarrow> ('k \<Rightarrow> 'c option)" where
  "map_commands name core [] m = m"
| "map_commands name core (Put v # cs) m = map_commands name core cs (m(name v \<mapsto> core v))"
| "map_commands name core (Remove k # cs) m = map_commands name core cs (m(k := None))"

locale object_table =
  fixes get :: "'k \<Rightarrow> 's \<Rightarrow> 'v option"
    and put :: "'v \<Rightarrow> 's \<Rightarrow> 'e + 's"
    and del :: "'k \<Rightarrow> 's \<Rightarrow> 's"
    and name :: "'v \<Rightarrow> 'k"
    and core :: "'v \<Rightarrow> 'c"
    and inv :: "'s \<Rightarrow> bool"
  assumes put_inv: "inv s \<Longrightarrow> put v s = Inr s' \<Longrightarrow> inv s'"
    and del_inv: "inv s \<Longrightarrow> inv (del k s)"
    and get_put_same: "inv s \<Longrightarrow> put v s = Inr s' \<Longrightarrow>
      \<exists>v'. get (name v) s' = Some v' \<and> core v' = core v"
    and get_put_other: "inv s \<Longrightarrow> put v s = Inr s' \<Longrightarrow> k \<noteq> name v \<Longrightarrow> get k s' = get k s"
    and get_del_same: "inv s \<Longrightarrow> get k (del k s) = None"
    and get_del_other: "inv s \<Longrightarrow> k' \<noteq> k \<Longrightarrow> get k' (del k s) = get k' s"
begin

lemma put_refines:
  assumes "inv s" "put v s = Inr s'"
  shows "(\<lambda>k. map_option core (get k s')) = (\<lambda>k. map_option core (get k s))(name v \<mapsto> core v)"
proof
  fix k
  show "map_option core (get k s') = ((\<lambda>k. map_option core (get k s))(name v \<mapsto> core v)) k"
    using get_put_same [OF assms] get_put_other [OF assms, of k] by (cases "k = name v") auto
qed

lemma del_refines:
  assumes "inv s"
  shows "(\<lambda>k'. map_option core (get k' (del k s))) = (\<lambda>k'. map_option core (get k' s))(k := None)"
  using get_del_same [OF assms] get_del_other [OF assms] by auto

lemma run_inv: "inv s \<Longrightarrow> run_commands put del cs s = Inr s' \<Longrightarrow> inv s'"
proof (induction cs arbitrary: s)
  case (Cons c cs)
  then show ?case by (cases c) (auto dest: put_inv del_inv)
qed simp

lemma run_refines:
  "inv s \<Longrightarrow> run_commands put del cs s = Inr s' \<Longrightarrow>
     (\<lambda>k. map_option core (get k s')) =
       map_commands name core cs (\<lambda>k. map_option core (get k s))"
proof (induction cs arbitrary: s)
  case (Cons c cs)
  show ?case
  proof (cases c)
    case (Put v)
    with Cons.prems obtain t where t: "put v s = Inr t" "run_commands put del cs t = Inr s'"
      by auto
    then show ?thesis
      using Cons.IH [OF put_inv [OF Cons.prems(1) t(1)] t(2)] put_refines [OF Cons.prems(1) t(1)]
      by (simp add: Put)
  next
    case (Remove k)
    then show ?thesis
      using Cons.IH [OF del_inv [OF Cons.prems(1)]] Cons.prems del_refines [OF Cons.prems(1), of k]
      by simp
  qed
qed simp

lemma last_put_wins:
  assumes "inv s" "put v s = Inr t" "put v' t = Inr u" "name v' = name v"
  shows "\<exists>w. get (name v) u = Some w \<and> core w = core v'"
  using get_put_same [OF put_inv [OF assms(1,2)] assms(3)] assms(4) by simp

end

end
