(* ===== verification/Database.thy ===== *)
theory Database
  imports Models Object_Table
begin

text \<open>
  The PostgreSQL tables of \<^verbatim>\<open>src/local-storage/migrations\<close> that the service works on, and
  the statements of its sources as functions of them: a query returns a value or a
  \<open>pg_error\<close>, a statement also the new tables. A table is a list of rows in some physical
  order. The constraints of the schema (lengths, checks, unique and foreign keys, cascading
  delete) are part of the statements; the statistics triggers write a table that no source
  file reads and are left out. Where SQL leaves the result open (\<^verbatim>\<open>LIMIT 1\<close> without an
  order) the choice is an argument. Microsecond rounding of stored times is not modelled.
\<close>

section \<open>Tables\<close>

record bucket_row =
  bk_name :: string
  bk_created_at :: time
  bk_is_active :: bool

record db =
  db_files :: "stored_file list"
  db_buckets :: "bucket_row list"
  db_keys :: "encryption_key list"
  db_next_key_id :: int
  db_cache_config :: "cache_config option"

datatype pg_error =
    Too_long
  | Not_null_violation
  | Check_violation
  | Foreign_key_violation
  | Unique_violation
  | Row_not_found
  | Negative_limit

definition bucket_names :: "db \<Rightarrow> string list" where
  "bucket_names d = map bk_name (db_buckets d)"

definition key_ids :: "db \<Rightarrow> string list" where
  "key_ids d = map ek_key_id (db_keys d)"

section \<open>The constraints of the schema\<close>

text \<open>A text fits into a column of at most \<open>n\<close> characters. PostgreSQL also cuts off spaces
  beyond the limit at the end of a text and refuses zero bytes; the model refuses every text that
  is too long and takes zero bytes.\<close>

definition varchar :: "nat \<Rightarrow> string \<Rightarrow> bool" where
  "varchar n s \<longleftrightarrow> char_count s \<le> n"

definition varchar_option :: "nat \<Rightarrow> string option \<Rightarrow> bool" where
  "varchar_option n s = (case s of None \<Rightarrow> True | Some t \<Rightarrow> varchar n t)"

definition row_lengths_ok :: "stored_file \<Rightarrow> bool" where
  "row_lengths_ok f \<longleftrightarrow>
     varchar 255 (sf_bucket f) \<and> varchar 1024 (sf_key f) \<and> varchar 1024 (sf_filename f) \<and>
     varchar 255 (sf_content_type f) \<and> varchar 64 (sf_hash_blake3 f) \<and>
     varchar 32 (sf_hash_md5 f) \<and> varchar_option 50 (sf_compression_algorithm f) \<and>
     varchar_option 50 (sf_encryption_algorithm f) \<and> varchar_option 64 (sf_encryption_key_id f)"

definition row_not_null :: "stored_file \<Rightarrow> bool" where
  "row_not_null f \<longleftrightarrow>
     sf_is_compressed f \<noteq> None \<and> sf_is_encrypted f \<noteq> None \<and> sf_upload_time f \<noteq> None"

definition ratio_ok :: "rat option \<Rightarrow> bool" where
  "ratio_ok r = (case r of None \<Rightarrow> True | Some q \<Rightarrow> 0 \<le> q \<and> q \<le> 1)"

definition row_checks :: "stored_file \<Rightarrow> bool" where
  "row_checks f \<longleftrightarrow>
     0 \<le> sf_file_size f \<and> 0 \<le> sf_original_size f \<and> 0 \<le> sf_access_count f \<and>
     ratio_ok (sf_compression_ratio f)"

definition key_reference_ok :: "db \<Rightarrow> stored_file \<Rightarrow> bool" where
  "key_reference_ok d f =
     (case sf_encryption_key_id f of None \<Rightarrow> True | Some k \<Rightarrow> k \<in> set (key_ids d))"

definition bucket_reference_ok :: "db \<Rightarrow> stored_file \<Rightarrow> bool" where
  "bucket_reference_ok d f \<longleftrightarrow> sf_bucket f \<in> set (bucket_names d)"

definition row_ok :: "db \<Rightarrow> stored_file \<Rightarrow> bool" where
  "row_ok d f \<longleftrightarrow>
     row_lengths_ok f \<and> row_not_null f \<and> row_checks f \<and> bucket_reference_ok d f \<and>
     key_reference_ok d f"

section \<open>Statements on \<open>files\<close>\<close>

definition is_object :: "string \<Rightarrow> string \<Rightarrow> stored_file \<Rightarrow> bool" where
  "is_object b k f \<longleftrightarrow> sf_bucket f = b \<and> sf_key f = k"

definition sql_get_file :: "string \<Rightarrow> string \<Rightarrow> db \<Rightarrow> stored_file option" where
  "sql_get_file b k d = find (is_object b k) (db_files d)"

text \<open>\<^verbatim>\<open>ON CONFLICT (bucket, key) DO UPDATE\<close>: the columns of the \<^verbatim>\<open>SET\<close> list come from the new
  row, the others (the id and the cache columns) stay.\<close>

definition overwrite_row :: "stored_file \<Rightarrow> stored_file \<Rightarrow> stored_file" where
  "overwrite_row new old =
     new\<lparr>sf_id := sf_id old, sf_bucket := sf_bucket old, sf_key := sf_key old,
         sf_cache_status := sf_cache_status old,
         sf_last_cache_update := sf_last_cache_update old,
         sf_cache_hits := sf_cache_hits old, sf_cache_priority := sf_cache_priority old\<rparr>"

text \<open>An inserted row has the defaults of the columns that the statement does not list.\<close>

definition fresh_row :: "stored_file \<Rightarrow> stored_file" where
  "fresh_row new =
     new\<lparr>sf_cache_status := Some ''not_cached'', sf_last_cache_update := None,
         sf_cache_hits := Some 0, sf_cache_priority := Some 0\<rparr>"

definition sql_save_file :: "stored_file \<Rightarrow> db \<Rightarrow> pg_error + db" where
  "sql_save_file f d =
     (if \<not> row_lengths_ok f then Inl Too_long
      else if \<not> row_not_null f then Inl Not_null_violation
      else if \<not> row_checks f then Inl Check_violation
      else if sql_get_file (sf_bucket f) (sf_key f) d \<noteq> None then
        (if key_reference_ok d f then
           Inr (d\<lparr>db_files := map (\<lambda>r. if is_object (sf_bucket f) (sf_key f) r
                                    then overwrite_row f r else r) (db_files d)\<rparr>)
         else Inl Foreign_key_violation)
      else if sf_id f \<in> set (map sf_id (db_files d)) then Inl Unique_violation
      else if \<not> bucket_reference_ok d f \<or> \<not> key_reference_ok d f then Inl Foreign_key_violation
      else Inr (d\<lparr>db_files := db_files d @ [fresh_row f]\<rparr>))"

definition sql_delete_file :: "string \<Rightarrow> string \<Rightarrow> db \<Rightarrow> nat \<times> db" where
  "sql_delete_file b k d =
     (length (filter (is_object b k) (db_files d)),
      d\<lparr>db_files := filter (\<lambda>f. \<not> is_object b k f) (db_files d)\<rparr>)"

definition sql_count_other_references :: "string \<Rightarrow> string \<Rightarrow> string \<Rightarrow> db \<Rightarrow> nat" where
  "sql_count_other_references path b k d =
     length (filter (\<lambda>f. sf_file_path f = path \<and> \<not> is_object b k f) (db_files d))"

definition sql_count_references :: "string \<Rightarrow> db \<Rightarrow> nat" where
  "sql_count_references path d = length (filter (\<lambda>f. sf_file_path f = path) (db_files d))"

definition sql_file_by_hash :: "nat \<Rightarrow> string \<Rightarrow> db \<Rightarrow> stored_file option" where
  "sql_file_by_hash choice h d =
     (let rows = filter (\<lambda>f. sf_hash_blake3 f = h) (db_files d)
      in if rows = [] then None else Some (rows ! (choice mod length rows)))"

definition sql_expired :: "time \<Rightarrow> db \<Rightarrow> (string \<times> string) list" where
  "sql_expired now d =
     map object_of
       (filter (\<lambda>f. case sf_expires_at f of None \<Rightarrow> False | Some t \<Rightarrow> t < now) (db_files d))"

definition sql_update_access :: "time \<Rightarrow> uuid \<Rightarrow> db \<Rightarrow> db" where
  "sql_update_access now i d =
     d\<lparr>db_files := map (\<lambda>f. if sf_id f = i
          then f\<lparr>sf_last_accessed := Some now, sf_access_count := sf_access_count f + 1\<rparr>
          else f) (db_files d)\<rparr>"

definition sql_update_cache_status ::
  "time \<Rightarrow> uuid \<Rightarrow> string \<Rightarrow> int option \<Rightarrow> db \<Rightarrow> db" where
  "sql_update_cache_status now i status hits d =
     d\<lparr>db_files := map (\<lambda>f. if sf_id f = i
          then f\<lparr>sf_cache_status := Some status, sf_last_cache_update := Some now,
                 sf_cache_hits := (case hits of None \<Rightarrow> sf_cache_hits f | Some h \<Rightarrow> Some h)\<rparr>
          else f) (db_files d)\<rparr>"

definition sql_clear_cache_status :: "time \<Rightarrow> db \<Rightarrow> db" where
  "sql_clear_cache_status now d =
     d\<lparr>db_files := map (\<lambda>f. if sf_cache_status f = Some ''cached''
          then f\<lparr>sf_cache_status := Some ''not_cached'', sf_last_cache_update := Some now\<rparr>
          else f) (db_files d)\<rparr>"

definition sql_update_file_key :: "uuid \<Rightarrow> string option \<Rightarrow> db \<Rightarrow> pg_error + db" where
  "sql_update_file_key i k d =
     (if sf_id ` set (db_files d) \<inter> {i} = {} then Inr d
      else if \<not> varchar_option 64 k then Inl Too_long
      else if (case k of None \<Rightarrow> False | Some kid \<Rightarrow> kid \<notin> set (key_ids d))
      then Inl Foreign_key_violation
      else Inr (d\<lparr>db_files := map (\<lambda>f. if sf_id f = i then f\<lparr>sf_encryption_key_id := k\<rparr> else f)
                   (db_files d)\<rparr>))"

section \<open>Pattern matching and listings\<close>

text \<open>\<^verbatim>\<open>LIKE\<close>: \<open>%\<close> stands for any string, \<open>_\<close> for one character (all the bytes of it) and a
  backslash takes the next character literally.\<close>

function like :: "string \<Rightarrow> string \<Rightarrow> bool" where
  "like [] s = (s = [])"
| "like (p # ps) s =
     (if p = CHR ''%'' then like ps s \<or> (case s of [] \<Rightarrow> False | _ # cs \<Rightarrow> like (p # ps) cs)
      else if p = CHR ''_'' then
        (case s of [] \<Rightarrow> False | _ # cs \<Rightarrow> like ps (dropWhile is_continuation cs))
      else if p = CHR 0x5C \<and> ps \<noteq> [] then
        (case s of [] \<Rightarrow> False | c # cs \<Rightarrow> c = hd ps \<and> like (tl ps) cs)
      else (case s of [] \<Rightarrow> False | c # cs \<Rightarrow> c = p \<and> like ps cs))"
  by pat_completeness auto
termination
  by (relation "measure (\<lambda>(p, s). length p + length s)")
    (auto simp: less_Suc_eq_le intro: add_mono le_SucI length_dropWhile_le)

declare like.simps [simp del]

definition plain_pattern_char :: "char \<Rightarrow> bool" where
  "plain_pattern_char c \<longleftrightarrow> c \<noteq> CHR ''%'' \<and> c \<noteq> CHR ''_'' \<and> c \<noteq> CHR 0x5C"

lemma like_percent: "like [CHR ''%''] s"
  by (induction s) (simp_all add: like.simps)

lemma like_prefix:
  "list_all plain_pattern_char p \<Longrightarrow> like (p @ ''%'') s \<longleftrightarrow> starts_with p s"
proof (induction p arbitrary: s)
  case Nil
  then show ?case by (simp add: like_percent starts_with_def)
next
  case (Cons c p)
  then show ?case
    by (cases s) (auto simp: like.simps(2) [of c "p @ ''%''"] plain_pattern_char_def starts_with_def)
qed

definition upload_order :: "stored_file \<Rightarrow> int" where
  "upload_order f = - unwrap_or (sf_upload_time f) 0"

text \<open>\<^verbatim>\<open>LIMIT\<close> and \<^verbatim>\<open>OFFSET\<close> refuse negative values.\<close>

definition limit_offset :: "int \<Rightarrow> int \<Rightarrow> 'a list \<Rightarrow> pg_error + 'a list" where
  "limit_offset lmt off rows =
     (if lmt < 0 \<or> off < 0 then Inl Negative_limit
      else Inr (take (nat lmt) (drop (nat off) rows)))"

definition sql_list_files ::
  "string \<Rightarrow> string option \<Rightarrow> int \<Rightarrow> int \<Rightarrow> db \<Rightarrow> pg_error + stored_file list" where
  "sql_list_files b prefix lmt off d =
     limit_offset lmt off (sort_key upload_order
       (filter (\<lambda>f. sf_bucket f = b \<and>
          (case prefix of None \<Rightarrow> True | Some p \<Rightarrow> like (p @ ''%'') (sf_key f))) (db_files d)))"

text \<open>\<^verbatim>\<open>ILIKE\<close> compares after folding the case, which depends on the database's locale.\<close>

definition ilike :: "(string \<Rightarrow> string) \<Rightarrow> string \<Rightarrow> string \<Rightarrow> bool" where
  "ilike fold_case p s = like (fold_case p) (fold_case s)"

definition search_hit :: "(string \<Rightarrow> string) \<Rightarrow> string \<Rightarrow> stored_file \<Rightarrow> bool" where
  "search_hit fold_case query f =
     (let p = ''%'' @ query @ ''%'' in
      ilike fold_case p (sf_key f) \<or> ilike fold_case p (sf_filename f) \<or>
      ilike fold_case p (sf_content_type f) \<or>
      (case sf_metadata f of None \<Rightarrow> False | Some m \<Rightarrow> ilike fold_case p m))"

definition sql_search_files ::
  "(string \<Rightarrow> string) \<Rightarrow> string \<Rightarrow> string \<Rightarrow> int \<Rightarrow> db \<Rightarrow> pg_error + stored_file list" where
  "sql_search_files fold_case b query lmt d =
     limit_offset lmt 0 (sort_key upload_order
       (filter (\<lambda>f. (b = [] \<or> sf_bucket f = b) \<and> search_hit fold_case query f) (db_files d)))"

definition sum_i64 :: "int list \<Rightarrow> int" where
  "sum_i64 xs = (if sum_list xs < 2 ^ 63 then sum_list xs else 0)"

definition sql_bucket_stats :: "string \<Rightarrow> db \<Rightarrow> int \<times> int" where
  "sql_bucket_stats b d =
     (let rows = filter (\<lambda>f. sf_bucket f = b) (db_files d)
      in (int (length rows), sum_i64 (map sf_file_size rows)))"

definition average :: "rat list \<Rightarrow> rat" where
  "average xs = (if xs = [] then 0 else sum_list xs / of_nat (length xs))"

definition sql_total_stats :: "time \<Rightarrow> db \<Rightarrow> storage_stats" where
  "sql_total_stats now d =
     \<lparr>st_total_files = int (length (db_files d)),
      st_total_size = sum_i64 (map sf_file_size (db_files d)),
      st_compressed_files = int (length (filter is_compressed (db_files d))),
      st_encrypted_files = int (length (filter is_encrypted (db_files d))),
      st_compression_ratio = Some (average (List.map_filter sf_compression_ratio (db_files d))),
      st_last_updated = now\<rparr>"

section \<open>Statements on \<open>buckets\<close>\<close>

definition sql_bucket_exists :: "string \<Rightarrow> db \<Rightarrow> bool" where
  "sql_bucket_exists b d \<longleftrightarrow> b \<in> set (bucket_names d)"

definition sql_create_bucket :: "time \<Rightarrow> string \<Rightarrow> db \<Rightarrow> pg_error + db" where
  "sql_create_bucket now b d =
     (if \<not> varchar 255 b then Inl Too_long
      else if sql_bucket_exists b d then Inr d
      else Inr (d\<lparr>db_buckets := db_buckets d @
             [\<lparr>bk_name = b, bk_created_at = now, bk_is_active = True\<rparr>]\<rparr>))"

text \<open>Deleting a bucket row deletes its file rows (\<^verbatim>\<open>ON DELETE CASCADE\<close>).\<close>

definition sql_delete_bucket :: "string \<Rightarrow> db \<Rightarrow> nat \<times> db" where
  "sql_delete_bucket b d =
     (length (filter (\<lambda>r. bk_name r = b) (db_buckets d)),
      d\<lparr>db_buckets := filter (\<lambda>r. bk_name r \<noteq> b) (db_buckets d),
        db_files := (if sql_bucket_exists b d then filter (\<lambda>f. sf_bucket f \<noteq> b) (db_files d)
                     else db_files d)\<rparr>)"

definition sql_list_buckets :: "db \<Rightarrow> (string \<times> time) list" where
  "sql_list_buckets d =
     map (\<lambda>r. (bk_name r, bk_created_at r)) (sort_key bk_name (filter bk_is_active (db_buckets d)))"

section \<open>Statements on \<open>encryption_keys\<close>\<close>

definition sql_create_key ::
  "time \<Rightarrow> string \<Rightarrow> bytes \<Rightarrow> string \<Rightarrow> string option \<Rightarrow> db \<Rightarrow> pg_error + encryption_key \<times> db" where
  "sql_create_key now key_id key_data algorithm description d =
     (let row = \<lparr>ek_id = db_next_key_id d, ek_key_id = key_id, ek_key_data = key_data,
                 ek_algorithm = algorithm, ek_created_at = Some now, ek_updated_at = Some now,
                 ek_is_active = Some True, ek_description = description\<rparr>
      in if \<not> varchar 64 key_id \<or> \<not> varchar 50 algorithm then Inl Too_long
         else if key_id \<in> set (key_ids d) then Inl Unique_violation
         else Inr (row, d\<lparr>db_keys := db_keys d @ [row], db_next_key_id := db_next_key_id d + 1\<rparr>))"

definition sql_get_key :: "string \<Rightarrow> db \<Rightarrow> encryption_key option" where
  "sql_get_key key_id d =
     find (\<lambda>k. ek_key_id k = key_id \<and> ek_is_active k = Some True) (db_keys d)"

definition sql_list_keys :: "db \<Rightarrow> encryption_key list" where
  "sql_list_keys d =
     sort_key (\<lambda>k. - unwrap_or (ek_created_at k) 0)
       (filter (\<lambda>k. ek_is_active k = Some True) (db_keys d))"

definition sql_deactivate_key :: "time \<Rightarrow> string \<Rightarrow> db \<Rightarrow> db" where
  "sql_deactivate_key now key_id d =
     d\<lparr>db_keys := map (\<lambda>k. if ek_key_id k = key_id
          then k\<lparr>ek_is_active := Some False, ek_updated_at := Some now\<rparr> else k) (db_keys d)\<rparr>"

definition sql_files_with_key :: "string \<Rightarrow> db \<Rightarrow> stored_file list" where
  "sql_files_with_key key_id d =
     sort_key upload_order (filter (\<lambda>f. sf_encryption_key_id f = Some key_id) (db_files d))"

section \<open>The integrity of the tables\<close>

definition db_wf :: "db \<Rightarrow> bool" where
  "db_wf d \<longleftrightarrow>
     distinct (map object_of (db_files d)) \<and> distinct (map sf_id (db_files d)) \<and>
     distinct (bucket_names d) \<and> distinct (key_ids d) \<and>
     (\<forall>f \<in> set (db_files d). row_ok d f)"

lemma db_wf_rows: "db_wf d \<Longrightarrow> f \<in> set (db_files d) \<Longrightarrow> row_ok d f"
  by (simp add: db_wf_def)

lemma sql_get_file_Some:
  "sql_get_file b k d = Some f \<Longrightarrow> f \<in> set (db_files d) \<and> sf_bucket f = b \<and> sf_key f = k"
  by (auto simp: sql_get_file_def find_Some_iff is_object_def)

lemma sql_get_file_None:
  "sql_get_file b k d = None \<longleftrightarrow> (b, k) \<notin> object_of ` set (db_files d)"
  by (auto simp: sql_get_file_def find_None_iff is_object_def)

lemma find_object_unique:
  "distinct (map object_of fs) \<Longrightarrow> f \<in> set fs \<Longrightarrow> is_object b k f \<Longrightarrow> find (is_object b k) fs = Some f"
  by (induction fs) (auto simp: is_object_def)

lemma sql_get_file_iff:
  "db_wf d \<Longrightarrow> sql_get_file b k d = Some f \<longleftrightarrow> f \<in> set (db_files d) \<and> is_object b k f"
  using find_object_unique [of "db_files d" f b k] sql_get_file_Some [of b k d f]
  by (auto simp: sql_get_file_def db_wf_def is_object_def)

text \<open>A statement that rewrites rows in place keeps the integrity when it leaves their
  identity alone and every new row satisfies the constraints.\<close>

lemma row_ok_files_irrelevant [simp]: "row_ok (d\<lparr>db_files := fs\<rparr>) f = row_ok d f"
  by (simp add: row_ok_def bucket_reference_ok_def key_reference_ok_def bucket_names_def
      key_ids_def cong: option.case_cong)

lemma db_wf_map_rows:
  assumes "db_wf d" "\<And>f. f \<in> set (db_files d) \<Longrightarrow> object_of (g f) = object_of f \<and> sf_id (g f) = sf_id f"
    and "\<And>f. f \<in> set (db_files d) \<Longrightarrow> row_ok d (g f)"
  shows "db_wf (d\<lparr>db_files := map g (db_files d)\<rparr>)"
proof -
  have "map object_of (map g (db_files d)) = map object_of (db_files d)"
    "map sf_id (map g (db_files d)) = map sf_id (db_files d)"
    using assms(2) by simp_all
  then show ?thesis
    using assms(1,3) by (simp add: db_wf_def bucket_names_def key_ids_def del: map_map)
qed

lemma db_wf_filter_rows: "db_wf d \<Longrightarrow> db_wf (d\<lparr>db_files := filter P (db_files d)\<rparr>)"
  by (auto simp: db_wf_def distinct_map_filter bucket_names_def key_ids_def)

lemmas row_ok_defs =
  row_ok_def row_lengths_ok_def row_not_null_def row_checks_def key_reference_ok_def
  bucket_reference_ok_def

lemma overwrite_row_simps [simp]:
  "sf_id (overwrite_row new old) = sf_id old"
  "sf_bucket (overwrite_row new old) = sf_bucket old"
  "sf_key (overwrite_row new old) = sf_key old"
  "sf_file_path (overwrite_row new old) = sf_file_path new"
  "sf_expires_at (overwrite_row new old) = sf_expires_at new"
  "sf_hash_blake3 (overwrite_row new old) = sf_hash_blake3 new"
  by (simp_all add: overwrite_row_def)

lemma fresh_row_simps [simp]:
  "sf_id (fresh_row new) = sf_id new"
  "sf_bucket (fresh_row new) = sf_bucket new"
  "sf_key (fresh_row new) = sf_key new"
  "sf_file_path (fresh_row new) = sf_file_path new"
  "sf_expires_at (fresh_row new) = sf_expires_at new"
  "sf_hash_blake3 (fresh_row new) = sf_hash_blake3 new"
  by (simp_all add: fresh_row_def)

lemma row_ok_fresh [simp]: "row_ok d (fresh_row f) = row_ok d f"
  by (simp add: row_ok_defs fresh_row_def cong: option.case_cong)

lemma row_ok_overwrite:
  "row_ok d old \<Longrightarrow> row_lengths_ok new \<Longrightarrow> row_not_null new \<Longrightarrow> row_checks new \<Longrightarrow>
     key_reference_ok d new \<Longrightarrow> row_ok d (overwrite_row new old)"
  by (simp add: row_ok_defs overwrite_row_def cong: option.case_cong)

lemma db_wf_save_file:
  assumes "db_wf d" "sql_save_file f d = Inr d'"
  shows "db_wf d'"
proof (cases "sql_get_file (sf_bucket f) (sf_key f) d = None")
  case True
  then have "d' = d\<lparr>db_files := db_files d @ [fresh_row f]\<rparr>" "row_ok d f"
    "sf_id f \<notin> sf_id ` set (db_files d)"
    using assms(2) by (auto simp: sql_save_file_def row_ok_def split: if_splits)
  moreover have "object_of f \<notin> object_of ` set (db_files d)"
    using True by (simp add: sql_get_file_None)
  ultimately show ?thesis
    using assms(1) by (simp add: db_wf_def bucket_names_def key_ids_def)
next
  case False
  then have d': "d' = d\<lparr>db_files := map (\<lambda>r. if is_object (sf_bucket f) (sf_key f) r
      then overwrite_row f r else r) (db_files d)\<rparr>"
    and new: "row_lengths_ok f" "row_not_null f" "row_checks f" "key_reference_ok d f"
    using assms(2) by (auto simp: sql_save_file_def split: if_splits)
  show ?thesis
    unfolding d' using new db_wf_rows [OF assms(1)]
    by (intro db_wf_map_rows assms(1)) (auto intro: row_ok_overwrite)
qed

lemma db_wf_delete_file: "db_wf d \<Longrightarrow> db_wf (snd (sql_delete_file b k d))"
  by (simp add: sql_delete_file_def db_wf_filter_rows)

lemma db_wf_update_access: "db_wf d \<Longrightarrow> db_wf (sql_update_access now i d)"
  unfolding sql_update_access_def
  by (intro db_wf_map_rows) (auto simp: row_ok_defs dest!: db_wf_rows cong: option.case_cong)

lemma db_wf_update_cache_status: "db_wf d \<Longrightarrow> db_wf (sql_update_cache_status now i st h d)"
  unfolding sql_update_cache_status_def
  by (intro db_wf_map_rows) (auto simp: row_ok_defs dest!: db_wf_rows cong: option.case_cong)

lemma db_wf_clear_cache_status: "db_wf d \<Longrightarrow> db_wf (sql_clear_cache_status now d)"
  unfolding sql_clear_cache_status_def
  by (intro db_wf_map_rows) (auto simp: row_ok_defs dest!: db_wf_rows cong: option.case_cong)

lemma db_wf_update_file_key:
  assumes "db_wf d" "sql_update_file_key i k d = Inr d'"
  shows "db_wf d'"
proof (cases "i \<in> sf_id ` set (db_files d)")
  case False
  then show ?thesis using assms by (auto simp: sql_update_file_key_def split: if_splits)
next
  case True
  then have k: "varchar_option 64 k" "\<And>kid. k = Some kid \<Longrightarrow> kid \<in> set (key_ids d)"
    and d': "d' = d\<lparr>db_files := map (\<lambda>f. if sf_id f = i then f\<lparr>sf_encryption_key_id := k\<rparr> else f)
                   (db_files d)\<rparr>"
    using assms(2) by (auto simp: sql_update_file_key_def split: if_splits option.splits)
  show ?thesis
    unfolding d' using k db_wf_rows [OF assms(1)]
    by (intro db_wf_map_rows assms(1)) (auto simp: row_ok_defs split: option.splits)
qed

lemma db_wf_create_bucket:
  assumes "db_wf d" "sql_create_bucket now b d = Inr d'"
  shows "db_wf d'"
proof (cases "sql_bucket_exists b d")
  case True
  then show ?thesis using assms by (auto simp: sql_create_bucket_def split: if_splits)
next
  case False
  then have d': "d' = d\<lparr>db_buckets := db_buckets d @
             [\<lparr>bk_name = b, bk_created_at = now, bk_is_active = True\<rparr>]\<rparr>"
    using assms(2) by (auto simp: sql_create_bucket_def split: if_splits)
  then have names: "bucket_names d' = bucket_names d @ [b]" "key_ids d' = key_ids d"
    by (simp_all add: bucket_names_def key_ids_def)
  then have "\<And>f. row_ok d f \<Longrightarrow> row_ok d' f"
    by (simp add: row_ok_defs cong: option.case_cong)
  then show ?thesis
    using assms(1) False names by (auto simp: db_wf_def d' sql_bucket_exists_def)
qed

lemma db_wf_delete_bucket:
  assumes "db_wf d"
  shows "db_wf (snd (sql_delete_bucket b d))"
proof (cases "sql_bucket_exists b d")
  case False
  then have "filter (\<lambda>r. bk_name r \<noteq> b) (db_buckets d) = db_buckets d"
    by (auto simp: sql_bucket_exists_def bucket_names_def intro: filter_True)
  with False assms show ?thesis by (simp add: sql_delete_bucket_def)
next
  case True
  let ?d = "snd (sql_delete_bucket b d)"
  have names: "bucket_names ?d = filter (\<lambda>n. n \<noteq> b) (bucket_names d)" "key_ids ?d = key_ids d"
    by (simp_all add: sql_delete_bucket_def bucket_names_def key_ids_def filter_map o_def)
  then have ok: "\<And>f. row_ok d f \<Longrightarrow> sf_bucket f \<noteq> b \<Longrightarrow> row_ok ?d f"
    by (simp add: row_ok_defs cong: option.case_cong)
  have files: "db_files ?d = filter (\<lambda>f. sf_bucket f \<noteq> b) (db_files d)"
    using True by (simp add: sql_delete_bucket_def)
  show ?thesis
    unfolding db_wf_def files names using assms ok
    by (auto simp: db_wf_def distinct_map_filter)
qed

lemma db_wf_create_key:
  assumes "db_wf d" "sql_create_key now i kd a desc d = Inr (row, d')"
  shows "db_wf d'"
proof -
  have d': "d' = d\<lparr>db_keys := db_keys d @ [row], db_next_key_id := db_next_key_id d + 1\<rparr>"
    and new: "i \<notin> set (key_ids d)" "ek_key_id row = i"
    using assms(2) by (auto simp: sql_create_key_def Let_def split: if_splits)
  then have names: "bucket_names d' = bucket_names d" "key_ids d' = key_ids d @ [i]"
    by (simp_all add: bucket_names_def key_ids_def)
  then have "\<And>f. row_ok d f \<Longrightarrow> row_ok d' f"
    by (auto simp: row_ok_defs split: option.splits)
  then show ?thesis
    using assms(1) new names by (auto simp: db_wf_def d')
qed

lemma db_wf_deactivate_key:
  assumes "db_wf d"
  shows "db_wf (sql_deactivate_key now i d)"
proof -
  let ?d = "sql_deactivate_key now i d"
  have names: "bucket_names ?d = bucket_names d" "key_ids ?d = key_ids d"
    by (auto simp: sql_deactivate_key_def bucket_names_def key_ids_def)
  then have "\<And>f. row_ok ?d f = row_ok d f"
    by (simp add: row_ok_defs cong: option.case_cong)
  then show ?thesis
    using assms names by (simp add: db_wf_def sql_deactivate_key_def)
qed

lemmas db_wf_intros =
  db_wf_save_file db_wf_delete_file db_wf_update_access db_wf_update_cache_status
  db_wf_clear_cache_status db_wf_update_file_key db_wf_create_bucket db_wf_delete_bucket
  db_wf_create_key db_wf_deactivate_key

section \<open>The \<open>files\<close> table is a map\<close>

text \<open>The columns that an upload determines: everything but the id and the cache columns.\<close>

definition upload_columns :: "stored_file \<Rightarrow> stored_file" where
  "upload_columns f =
     f\<lparr>sf_id := 0, sf_cache_status := None, sf_last_cache_update := None,
       sf_cache_hits := None, sf_cache_priority := None\<rparr>"

lemma upload_columns_overwrite [simp]:
  "object_of old = object_of new \<Longrightarrow> upload_columns (overwrite_row new old) = upload_columns new"
  by (simp add: upload_columns_def overwrite_row_def)

lemma upload_columns_fresh [simp]: "upload_columns (fresh_row new) = upload_columns new"
  by (simp add: upload_columns_def fresh_row_def)

lemma find_append: "find P (xs @ ys) = (case find P xs of Some x \<Rightarrow> Some x | None \<Rightarrow> find P ys)"
  by (induction xs) auto

lemma find_SomeD: "find P xs = Some x \<Longrightarrow> P x \<and> x \<in> set xs"
  by (induction xs) (auto split: if_splits)

lemma find_map_rows:
  "(\<And>f. f \<in> set fs \<Longrightarrow> P (g f) = P f) \<Longrightarrow> find P (map g fs) = map_option g (find P fs)"
  by (induction fs) auto

lemma sql_get_save_same:
  assumes "sql_save_file f d = Inr d'"
  shows "sql_get_file (sf_bucket f) (sf_key f) d' =
    Some (case sql_get_file (sf_bucket f) (sf_key f) d of
            Some old \<Rightarrow> overwrite_row f old | None \<Rightarrow> fresh_row f)"
proof (cases "sql_get_file (sf_bucket f) (sf_key f) d")
  case None
  then have "d' = d\<lparr>db_files := db_files d @ [fresh_row f]\<rparr>"
    using assms by (auto simp: sql_save_file_def split: if_splits)
  with None show ?thesis
    by (auto simp: sql_get_file_def find_append is_object_def)
next
  case (Some old)
  then have "d' = d\<lparr>db_files := map (\<lambda>r. if is_object (sf_bucket f) (sf_key f) r
      then overwrite_row f r else r) (db_files d)\<rparr>"
    using assms by (auto simp: sql_save_file_def split: if_splits)
  moreover have "is_object (sf_bucket f) (sf_key f) old"
    using sql_get_file_Some [OF Some] by (simp add: is_object_def)
  ultimately show ?thesis
    using Some by (simp add: sql_get_file_def find_map_rows is_object_def)
qed

lemma sql_get_save_other:
  assumes "sql_save_file f d = Inr d'" "(b, k) \<noteq> object_of f"
  shows "sql_get_file b k d' = sql_get_file b k d"
proof -
  have ne: "\<not> is_object b k f" using assms(2) by (auto simp: is_object_def)
  show ?thesis
  proof (cases "sql_get_file (sf_bucket f) (sf_key f) d")
    case None
    then have "d' = d\<lparr>db_files := db_files d @ [fresh_row f]\<rparr>"
      using assms(1) by (auto simp: sql_save_file_def split: if_splits)
    with ne show ?thesis
      by (auto simp: sql_get_file_def find_append is_object_def split: option.splits)
  next
    case (Some old)
    let ?g = "\<lambda>r. if is_object (sf_bucket f) (sf_key f) r then overwrite_row f r else r"
    have d': "d' = d\<lparr>db_files := map ?g (db_files d)\<rparr>"
      using assms(1) Some by (auto simp: sql_save_file_def split: if_splits)
    have same: "is_object b k (?g r) = is_object b k r" for r
      by (simp add: is_object_def)
    have id: "?g r = r" if "is_object b k r" for r
      using that ne by (auto simp: is_object_def)
    have "map_option ?g (find (is_object b k) (db_files d)) = find (is_object b k) (db_files d)"
    proof (cases "find (is_object b k) (db_files d)")
      case (Some r)
      then show ?thesis using id [of r] find_SomeD [OF Some] by (simp only: option.map)
    qed simp
    then show ?thesis
      unfolding d' using same by (simp add: sql_get_file_def find_map_rows)
  qed
qed

lemma find_filter_rows:
  "find P (filter Q xs) = find (\<lambda>x. P x \<and> Q x) xs"
  by (induction xs) auto

lemma sql_get_delete:
  "sql_get_file b k (snd (sql_delete_file b' k' d)) =
     (if (b, k) = (b', k') then None else sql_get_file b k d)"
proof (cases "(b, k) = (b', k')")
  case True
  then show ?thesis
    by (auto simp: sql_delete_file_def sql_get_file_def find_None_iff)
next
  case False
  then have "(\<lambda>f. is_object b k f \<and> \<not> is_object b' k' f) = is_object b k"
    by (auto simp: is_object_def)
  then have "sql_get_file b k (snd (sql_delete_file b' k' d)) = sql_get_file b k d"
    by (simp add: sql_delete_file_def sql_get_file_def find_filter_rows)
  with False show ?thesis by (simp only: if_False)
qed

interpretation files: object_table
  "\<lambda>(b, k). sql_get_file b k" sql_save_file "\<lambda>(b, k) d. snd (sql_delete_file b k d)"
  object_of upload_columns db_wf
proof unfold_locales
  fix d d' :: db and f :: stored_file and k k' :: "string \<times> string"
  show "db_wf d \<Longrightarrow> sql_save_file f d = Inr d' \<Longrightarrow> db_wf d'"
    by (rule db_wf_save_file)
  show "db_wf d \<Longrightarrow> db_wf ((case k of (b, k) \<Rightarrow> \<lambda>d. snd (sql_delete_file b k d)) d)"
    by (cases k) (simp add: db_wf_delete_file)
  show "db_wf d \<Longrightarrow> sql_save_file f d = Inr d' \<Longrightarrow>
      \<exists>v'. (case object_of f of (b, k) \<Rightarrow> sql_get_file b k) d' = Some v' \<and>
        upload_columns v' = upload_columns f"
    by (auto simp: sql_get_save_same split: option.splits dest!: sql_get_file_Some)
  show "db_wf d \<Longrightarrow> sql_save_file f d = Inr d' \<Longrightarrow> k \<noteq> object_of f \<Longrightarrow>
      (case k of (b, k) \<Rightarrow> sql_get_file b k) d' = (case k of (b, k) \<Rightarrow> sql_get_file b k) d"
    by (cases k) (simp add: sql_get_save_other)
  show "db_wf d \<Longrightarrow> (case k of (b, k) \<Rightarrow> sql_get_file b k)
      ((case k of (b, k) \<Rightarrow> \<lambda>d. snd (sql_delete_file b k d)) d) = None"
    by (cases k) (simp add: sql_get_delete)
  show "db_wf d \<Longrightarrow> k' \<noteq> k \<Longrightarrow> (case k' of (b, k) \<Rightarrow> sql_get_file b k)
      ((case k of (b, k) \<Rightarrow> \<lambda>d. snd (sql_delete_file b k d)) d) =
      (case k' of (b, k) \<Rightarrow> sql_get_file b k) d"
    by (cases k; cases k') (simp only: case_prod_conv sql_get_delete if_False prod.inject)
qed

end
