(* ===== verification/File_System.thy ===== *)
theory File_System
  imports Prelude
begin

text \<open>
  Paths and files as the service uses them: \<^verbatim>\<open>PathBuf::join\<close>, \<^verbatim>\<open>Path::with_extension\<close>,
  \<^verbatim>\<open>Path::parent\<close> and the calls of \<^verbatim>\<open>std::fs\<close>/\<^verbatim>\<open>tokio::fs\<close> on a Unix file system. A path is a byte string, as in the code; a file is found under the
  list of components that its path resolves to, so different spellings of a path can mean
  one file. There are no symbolic links and \<open>..\<close> is resolved by dropping a component.
\<close>

section \<open>Paths\<close>

type_synonym path = "string list"

definition is_absolute :: "string \<Rightarrow> bool" where
  "is_absolute p \<longleftrightarrow> starts_with ''/'' p"

definition path_join :: "string \<Rightarrow> string \<Rightarrow> string" where
  "path_join base p =
     (if is_absolute p then p
      else if base \<noteq> [] \<and> last base \<noteq> CHR ''/'' then base @ ''/'' @ p
      else base @ p)"

definition path_components :: "string \<Rightarrow> path" where
  "path_components p = filter (\<lambda>c. c \<noteq> [] \<and> c \<noteq> ''.'') (split_on (CHR ''/'') p)"

definition walk :: "path \<Rightarrow> string \<Rightarrow> path" where
  "walk at c = (if c = ''..'' then butlast at else at @ [c])"

definition resolve :: "path \<Rightarrow> string \<Rightarrow> path" where
  "resolve cwd p = foldl walk (if is_absolute p then [] else cwd) (path_components p)"

text \<open>\<^verbatim>\<open>Path::parent\<close>, resolved: \<open>None\<close> when the path has no component.\<close>

definition resolve_parent :: "path \<Rightarrow> string \<Rightarrow> path option" where
  "resolve_parent cwd p =
     (if path_components p = [] then None
      else Some (foldl walk (if is_absolute p then [] else cwd) (butlast (path_components p))))"

text \<open>\<^verbatim>\<open>Path::with_extension\<close>: the file name (the last component, trailing slashes and
  \<open>.\<close> components ignored) loses what follows its last dot, unless that dot is its first
  character, and gets the new extension. The scan runs over the reversed path.\<close>

fun drop_trailing :: "string \<Rightarrow> string" where
  "drop_trailing (c # d # r) =
     (if c = CHR ''/'' then drop_trailing (d # r)
      else if c = CHR ''.'' \<and> d = CHR ''/'' then drop_trailing r
      else c # d # r)"
| "drop_trailing [c] = (if c = CHR ''/'' then [] else [c])"
| "drop_trailing [] = []"

definition file_stem :: "string \<Rightarrow> string" where
  "file_stem name =
     (if CHR ''.'' \<in> set name then
        (let stem = rev (tl (dropWhile (\<lambda>c. c \<noteq> CHR ''.'') (rev name)))
         in if stem = [] then name else stem)
      else name)"

definition with_extension :: "string \<Rightarrow> string \<Rightarrow> string" where
  "with_extension p ext =
     (let r = drop_trailing (rev p);
          name = rev (takeWhile (\<lambda>c. c \<noteq> CHR ''/'') r);
          dir = rev (dropWhile (\<lambda>c. c \<noteq> CHR ''/'') r)
      in if name = [] \<or> name = ''.'' \<or> name = ''..'' then p
         else dir @ file_stem name @ ''.'' @ ext)"

lemma with_extension_dir:
  assumes "name \<noteq> []" "CHR ''/'' \<notin> set name" "name \<noteq> ''.''" "name \<noteq> ''..''"
  shows "with_extension (dir @ CHR ''/'' # name) ext =
           dir @ CHR ''/'' # file_stem name @ ''.'' @ ext"
proof -
  have rev_ne: "rev name \<noteq> ''.''" using assms(3) by (metis rev_singleton_conv)
  obtain c r where cr: "rev name = c # r" using assms(1) by (metis neq_Nil_conv rev_is_Nil_conv)
  have "c \<noteq> CHR ''/''" and "CHR ''/'' \<notin> set r"
    using assms(2) cr by (metis list.set_intros(1) set_rev, metis list.set_intros(2) set_rev)
  then have "drop_trailing (rev name @ CHR ''/'' # rev dir) = rev name @ CHR ''/'' # rev dir"
    using cr rev_ne by (cases r) auto
  then show ?thesis
    using assms by (simp add: with_extension_def Let_def takeWhile_append dropWhile_append)
qed

section \<open>The tree\<close>

datatype node = Dir | File bytes

record fs =
  fs_cwd :: path
  fs_nodes :: "path \<Rightarrow> node option"

text \<open>Operating system errors are printed with their number; \<open>Other_io\<close> is any other error.\<close>

datatype io_error = Os_error string nat | Other_io string

fun display_io_error :: "io_error \<Rightarrow> string" where
  "display_io_error (Os_error msg n) = msg @ '' (os error '' @ show_nat n @ '')''"
| "display_io_error (Other_io msg) = msg"

abbreviation "enoent \<equiv> Os_error ''No such file or directory'' 2"
abbreviation "enotdir \<equiv> Os_error ''Not a directory'' 20"
abbreviation "eisdir \<equiv> Os_error ''Is a directory'' 21"
abbreviation "eexist \<equiv> Os_error ''File exists'' 17"

definition is_file :: "fs \<Rightarrow> path \<Rightarrow> bool" where
  "is_file s p \<longleftrightarrow> (case fs_nodes s p of Some (File _) \<Rightarrow> True | _ \<Rightarrow> False)"

definition is_dir :: "fs \<Rightarrow> path \<Rightarrow> bool" where
  "is_dir s p \<longleftrightarrow> p = [] \<or> fs_nodes s p = Some Dir"

definition file_ancestor :: "fs \<Rightarrow> path \<Rightarrow> bool" where
  "file_ancestor s p \<longleftrightarrow> list_ex (\<lambda>n. is_file s (take n p)) [1..<length p]"

definition lookup_error :: "fs \<Rightarrow> path \<Rightarrow> io_error" where
  "lookup_error s p = (if file_ancestor s p then enotdir else enoent)"

definition fs_read :: "fs \<Rightarrow> path \<Rightarrow> io_error + bytes" where
  "fs_read s p =
     (if p = [] then Inl eisdir
      else case fs_nodes s p of
        Some (File content) \<Rightarrow> Inr content
      | Some Dir \<Rightarrow> Inl eisdir
      | None \<Rightarrow> Inl (lookup_error s p))"

definition fs_create_dir_all :: "fs \<Rightarrow> path \<Rightarrow> io_error + fs" where
  "fs_create_dir_all s p =
     (if file_ancestor s p then Inl enotdir
      else if is_file s p then Inl eexist
      else Inr (s\<lparr>fs_nodes := (\<lambda>q. if q \<noteq> [] \<and> starts_with q p then Some Dir else fs_nodes s q)\<rparr>))"

definition fs_create_file :: "fs \<Rightarrow> path \<Rightarrow> io_error + fs" where
  "fs_create_file s p =
     (if is_dir s p then Inl eisdir
      else if is_dir s (butlast p) then Inr (s\<lparr>fs_nodes := (fs_nodes s)(p \<mapsto> File [])\<rparr>)
      else Inl (lookup_error s p))"

definition fs_write :: "fs \<Rightarrow> path \<Rightarrow> bytes \<Rightarrow> fs" where
  "fs_write s p content = s\<lparr>fs_nodes := (fs_nodes s)(p \<mapsto> File content)\<rparr>"

definition fs_rename :: "fs \<Rightarrow> path \<Rightarrow> path \<Rightarrow> io_error + fs" where
  "fs_rename s a b =
     (if a = [] then Inl (Os_error ''Device or resource busy'' 16)
      else case fs_nodes s a of
        Some (File content) \<Rightarrow>
          if is_dir s b then Inl eisdir
          else if is_dir s (butlast b) then
            Inr (s\<lparr>fs_nodes := ((fs_nodes s)(a := None))(b \<mapsto> File content)\<rparr>)
          else Inl (lookup_error s b)
      | Some Dir \<Rightarrow> Inl eisdir
      | None \<Rightarrow> Inl (lookup_error s a))"

definition fs_remove_file :: "fs \<Rightarrow> path \<Rightarrow> io_error + fs" where
  "fs_remove_file s p =
     (if is_dir s p then Inl eisdir
      else if is_file s p then Inr (s\<lparr>fs_nodes := (fs_nodes s)(p := None)\<rparr>)
      else Inl (lookup_error s p))"

definition fs_remove_dir_all :: "fs \<Rightarrow> path \<Rightarrow> io_error + fs" where
  "fs_remove_dir_all s p =
     (if is_dir s p then
        Inr (s\<lparr>fs_nodes := (\<lambda>q. if starts_with p q then None else fs_nodes s q)\<rparr>)
      else if is_file s p then Inl enotdir
      else Inl (lookup_error s p))"

section \<open>The tree stays a tree\<close>

definition fs_wf :: "fs \<Rightarrow> bool" where
  "fs_wf s \<longleftrightarrow> (\<forall>p n. fs_nodes s p = Some n \<longrightarrow> is_dir s (butlast p))"

lemma fs_wfD: "fs_wf s \<Longrightarrow> fs_nodes s p = Some n \<Longrightarrow> is_dir s (butlast p)"
  by (auto simp: fs_wf_def)

lemma is_file_not_dir: "is_file s p \<Longrightarrow> p \<noteq> [] \<Longrightarrow> \<not> is_dir s p"
  by (auto simp: is_file_def is_dir_def)

lemma starts_with_butlast: "starts_with q (butlast p) \<Longrightarrow> starts_with q p"
  by (metis append.assoc append_butlast_last_id butlast.simps(1) starts_with_iff)

lemma fs_wf_ancestor:
  assumes "fs_wf s" "fs_nodes s p = Some n" "starts_with q p" "q \<noteq> p"
  shows "is_dir s q"
  using assms(2-4)
proof (induction p arbitrary: n rule: rev_induct)
  case Nil
  then show ?case by (simp add: starts_with_iff)
next
  case (snoc x xs)
  have dir: "is_dir s xs" using fs_wfD [OF assms(1) snoc.prems(1)] by simp
  have "starts_with q xs"
    using snoc.prems(2,3) by (auto simp: starts_with_iff append_eq_append_conv2 Cons_eq_append_conv)
  then show ?case
  proof (cases "q = xs")
    case False
    with \<open>starts_with q xs\<close> have "xs \<noteq> []" by (auto simp: starts_with_iff)
    with dir have "fs_nodes s xs = Some Dir" by (simp add: is_dir_def)
    from snoc.IH [OF this \<open>starts_with q xs\<close> False] show ?thesis .
  qed (use dir in simp)
qed

lemma fs_wf_create_dir_all: "fs_wf s \<Longrightarrow> fs_create_dir_all s p = Inr s' \<Longrightarrow> fs_wf s'"
  by (auto simp: fs_create_dir_all_def fs_wf_def is_dir_def starts_with_butlast
      split: if_splits intro: starts_with_butlast dest: in_set_butlastD)
    (metis append_butlast_last_id append.assoc starts_with_iff)+

lemma fs_wf_write_file:
  assumes "fs_wf s" "\<not> is_dir s p" "is_dir s (butlast p)"
  shows "fs_wf (s\<lparr>fs_nodes := (fs_nodes s)(p \<mapsto> File c)\<rparr>)"
  using assms by (auto simp: fs_wf_def is_dir_def)

lemma fs_wf_create_file: "fs_wf s \<Longrightarrow> fs_create_file s p = Inr s' \<Longrightarrow> fs_wf s'"
  by (auto simp: fs_create_file_def fs_wf_write_file split: if_splits)

lemma fs_wf_write: "fs_wf s \<Longrightarrow> is_file s p \<Longrightarrow> p \<noteq> [] \<Longrightarrow> fs_wf (fs_write s p c)"
  by (auto simp: fs_write_def is_file_def is_dir_def split: option.splits node.splits
      intro!: fs_wf_write_file dest: fs_wfD)

lemma fs_wf_remove_node:
  assumes "fs_wf s" "\<not> is_dir s p"
  shows "fs_wf (s\<lparr>fs_nodes := (fs_nodes s)(p := None)\<rparr>)"
  using assms by (auto simp: fs_wf_def is_dir_def)

lemma fs_wf_remove_file: "fs_wf s \<Longrightarrow> fs_remove_file s p = Inr s' \<Longrightarrow> fs_wf s'"
  by (auto simp: fs_remove_file_def fs_wf_remove_node split: if_splits)

lemma fs_wf_rename:
  assumes "fs_wf s" "fs_rename s a b = Inr s'"
  shows "fs_wf s'"
proof -
  obtain c where a: "fs_nodes s a = Some (File c)" "a \<noteq> []" and b: "\<not> is_dir s b" "is_dir s (butlast b)"
    and s': "s' = s\<lparr>fs_nodes := ((fs_nodes s)(a := None))(b \<mapsto> File c)\<rparr>"
    using assms(2) by (auto simp: fs_rename_def split: option.splits node.splits if_splits)
  let ?s = "s\<lparr>fs_nodes := (fs_nodes s)(a := None)\<rparr>"
  have na: "\<not> is_dir s a" using a by (simp add: is_dir_def)
  then have "fs_wf ?s" using assms(1) by (rule fs_wf_remove_node [rotated])
  moreover have "\<not> is_dir ?s b" "is_dir ?s (butlast b)"
    using b na by (auto simp: is_dir_def)
  ultimately have "fs_wf (?s\<lparr>fs_nodes := (fs_nodes ?s)(b \<mapsto> File c)\<rparr>)"
    by (rule fs_wf_write_file)
  then show ?thesis by (simp add: s')
qed

lemma fs_wf_remove_dir_all:
  assumes "fs_wf s" "fs_remove_dir_all s p = Inr s'"
  shows "fs_wf s'"
proof -
  have s': "s' = s\<lparr>fs_nodes := (\<lambda>q. if starts_with p q then None else fs_nodes s q)\<rparr>"
    using assms(2) by (auto simp: fs_remove_dir_all_def split: if_splits)
  show ?thesis
    unfolding fs_wf_def
  proof (intro allI impI)
    fix q n
    assume "fs_nodes s' q = Some n"
    then have q: "\<not> starts_with p q" "fs_nodes s q = Some n"
      by (auto simp: s' split: if_splits)
    then have "is_dir s (butlast q)" "\<not> starts_with p (butlast q)"
      using assms(1) starts_with_butlast by (auto simp: fs_wf_def)
    then show "is_dir s' (butlast q)" by (simp add: s' is_dir_def)
  qed
qed

lemmas fs_wf_intros =
  fs_wf_create_dir_all fs_wf_create_file fs_wf_write fs_wf_remove_file fs_wf_rename
  fs_wf_remove_dir_all

section \<open>Keys that stay inside their bucket\<close>

text \<open>A clean name is one component; a clean key is one or more of them with slashes between.\<close>

definition clean_name :: "string \<Rightarrow> bool" where
  "clean_name c \<longleftrightarrow> c \<noteq> [] \<and> c \<noteq> ''.'' \<and> c \<noteq> ''..'' \<and> CHR ''/'' \<notin> set c"

definition clean_key :: "string \<Rightarrow> bool" where
  "clean_key k \<longleftrightarrow> list_all clean_name (split_on (CHR ''/'') k)"

lemma split_on_append_sep:
  "split_on d (a @ d # b) = split_on d a @ split_on d b"
proof (induction a)
  case (Cons c cs)
  obtain x xs where "split_on d cs = x # xs"
    using split_on_not_Nil by (metis neq_Nil_conv)
  with Cons show ?case by auto
qed simp

lemma clean_key_not_absolute: "clean_key k \<Longrightarrow> \<not> is_absolute k"
  by (auto simp: clean_key_def clean_name_def is_absolute_def starts_with_iff)

lemma clean_key_components: "clean_key k \<Longrightarrow> path_components k = split_on (CHR ''/'') k"
  by (auto simp: clean_key_def path_components_def clean_name_def list_all_iff
      intro!: filter_True)

lemma foldl_walk_clean: "list_all clean_name cs \<Longrightarrow> foldl walk at cs = at @ cs"
  by (induction cs arbitrary: at) (auto simp: walk_def clean_name_def)

lemma path_components_join:
  "\<not> is_absolute k \<Longrightarrow> path_components (path_join base k) = path_components base @ path_components k"
proof -
  assume k: "\<not> is_absolute k"
  show ?thesis
  proof (cases "base = [] \<or> last base \<noteq> CHR ''/''")
    case True
    then show ?thesis using k by (auto simp: path_join_def path_components_def split_on_append_sep)
  next
    case False
    then obtain b where "base = b @ [CHR ''/'']" by (metis append_butlast_last_id)
    then show ?thesis using k
      by (simp add: path_join_def path_components_def split_on_append_sep)
  qed
qed

lemma is_absolute_join: "\<not> is_absolute k \<Longrightarrow> base \<noteq> [] \<Longrightarrow> is_absolute (path_join base k) = is_absolute base"
  by (cases base) (auto simp: path_join_def is_absolute_def starts_with_def)

lemma path_join_not_Nil: "base \<noteq> [] \<Longrightarrow> path_join base k \<noteq> []"
  by (auto simp: path_join_def is_absolute_def starts_with_iff)

lemma resolve_join_clean:
  assumes "clean_key k" "base \<noteq> []"
  shows "resolve cwd (path_join base k) = resolve cwd base @ split_on (CHR ''/'') k"
  using assms
  by (simp add: resolve_def clean_key_not_absolute path_components_join is_absolute_join
      clean_key_components foldl_walk_clean clean_key_def)

lemma clean_name_key: "clean_name b \<Longrightarrow> clean_key b \<and> split_on (CHR ''/'') b = [b]"
  by (simp add: clean_key_def clean_name_def)

lemma resolve_object_path:
  assumes "clean_name b" "clean_key k" "base \<noteq> []"
  shows "resolve cwd (path_join (path_join base b) k) =
           resolve cwd base @ b # split_on (CHR ''/'') k"
  using assms clean_name_key [OF assms(1)]
  by (simp add: resolve_join_clean path_join_not_Nil)

lemma split_on_inj: "split_on d a = split_on d b \<Longrightarrow> a = b"
  by (metis join_split)

text \<open>Distinct clean objects never share a file.\<close>

lemma resolve_object_path_inj:
  assumes "clean_name b" "clean_key k" "clean_name b'" "clean_key k'" "base \<noteq> []"
    and "resolve cwd (path_join (path_join base b) k) = resolve cwd (path_join (path_join base b') k')"
  shows "b = b' \<and> k = k'"
  using assms by (auto simp: resolve_object_path dest: split_on_inj)

end
