(* ===== verification/Errors.thy ===== *)
theory Errors
  imports Prelude
begin

text \<open>
  \<^verbatim>\<open>src/local-storage/src/errors.rs\<close>: the error type of the storage service, its text
  (\<^verbatim>\<open>Display\<close>) and the HTTP answer it becomes (\<^verbatim>\<open>IntoResponse\<close>). The log lines of
  \<^verbatim>\<open>into_response\<close> are not modelled. \<open>Display\<close> and \<open>into_response\<close> spell their messages
  out separately in the source, so they are two definitions here; the lemmas show that they
  agree and which status each error is answered with.
\<close>

datatype storage_error =
    NotFound string string
  | AlreadyExists string string
  | InvalidBucket string
  | InvalidKey string
  | InvalidFile string
  | Validation string
  | Configuration string
  | Migration string
  | Redis string
  | Json string
  | Multipart string
  | BadRequest string
  | PayloadTooLarge string
  | Database string
  | Io string
  | Compression string
  | Encryption string
  | InvalidEncryptionAlgorithm string
  | Cache string
  | MissingEncryptionKey
  | Forbidden string

fun display_error :: "storage_error \<Rightarrow> string" where
  "display_error (NotFound b k) = ''File not found: '' @ b @ ''/'' @ k"
| "display_error (AlreadyExists b k) = ''File already exists: '' @ b @ ''/'' @ k"
| "display_error (InvalidBucket msg) = ''Invalid bucket: '' @ msg"
| "display_error (InvalidKey msg) = ''Invalid key: '' @ msg"
| "display_error (InvalidFile msg) = ''Invalid file: '' @ msg"
| "display_error (Validation msg) = ''Validation error: '' @ msg"
| "display_error (Configuration msg) = ''Configuration error: '' @ msg"
| "display_error (Migration msg) = ''Migration error: '' @ msg"
| "display_error (Redis msg) = ''Redis error: '' @ msg"
| "display_error (Json msg) = ''JSON error: '' @ msg"
| "display_error (Multipart msg) = ''Multipart error: '' @ msg"
| "display_error (BadRequest msg) = ''Bad request: '' @ msg"
| "display_error (PayloadTooLarge msg) = ''Payload too large: '' @ msg"
| "display_error (Database msg) = ''Database error: '' @ msg"
| "display_error (Io msg) = ''IO error: '' @ msg"
| "display_error (Compression msg) = ''Compression error: '' @ msg"
| "display_error (Encryption msg) = ''Encryption error: '' @ msg"
| "display_error (InvalidEncryptionAlgorithm msg) = ''Invalid encryption algorithm: '' @ msg"
| "display_error (Cache msg) = ''Cache error: '' @ msg"
| "display_error MissingEncryptionKey = ''Missing encryption key''"
| "display_error (Forbidden msg) = ''Forbidden: '' @ msg"

text \<open>The JSON body of an error answer; its \<^verbatim>\<open>timestamp\<close> is the current time, printed by
  chrono as RFC 3339.\<close>

record error_body =
  eb_error :: string
  eb_status :: nat
  eb_timestamp :: time

fun status_and_message :: "storage_error \<Rightarrow> nat \<times> string" where
  "status_and_message (NotFound b k) = (404, ''File not found: '' @ b @ ''/'' @ k)"
| "status_and_message (AlreadyExists b k) = (409, ''File already exists: '' @ b @ ''/'' @ k)"
| "status_and_message (InvalidBucket msg) = (400, ''Invalid bucket: '' @ msg)"
| "status_and_message (InvalidKey msg) = (400, ''Invalid key: '' @ msg)"
| "status_and_message (InvalidFile msg) = (400, ''Invalid file: '' @ msg)"
| "status_and_message (Validation msg) = (400, ''Validation error: '' @ msg)"
| "status_and_message (Configuration msg) = (500, ''Configuration error: '' @ msg)"
| "status_and_message (Migration msg) = (500, ''Migration error: '' @ msg)"
| "status_and_message (Redis msg) = (500, ''Redis error: '' @ msg)"
| "status_and_message (Json msg) = (400, ''JSON error: '' @ msg)"
| "status_and_message (Multipart msg) = (400, ''Multipart error: '' @ msg)"
| "status_and_message (BadRequest msg) = (400, ''Bad request: '' @ msg)"
| "status_and_message (PayloadTooLarge msg) = (413, ''Payload too large: '' @ msg)"
| "status_and_message (Database msg) = (500, ''Database error: '' @ msg)"
| "status_and_message (Io msg) = (500, ''IO error: '' @ msg)"
| "status_and_message (Compression msg) = (500, ''Compression error: '' @ msg)"
| "status_and_message (Encryption msg) = (500, ''Encryption error: '' @ msg)"
| "status_and_message (InvalidEncryptionAlgorithm msg) =
     (500, ''Invalid encryption algorithm: '' @ msg)"
| "status_and_message (Cache msg) = (500, ''Cache error: '' @ msg)"
| "status_and_message MissingEncryptionKey = (500, ''Missing encryption key'')"
| "status_and_message (Forbidden msg) = (403, ''Forbidden: '' @ msg)"

definition into_response :: "time \<Rightarrow> storage_error \<Rightarrow> nat \<times> error_body" where
  "into_response now e =
     (let (status, message) = status_and_message e
      in (status, \<lparr>eb_error = message, eb_status = status, eb_timestamp = now\<rparr>))"

text \<open>An error caused by the request is answered with a 4xx status, any other with 500.\<close>

fun client_error :: "storage_error \<Rightarrow> bool" where
  "client_error (NotFound b k) = True"
| "client_error (AlreadyExists b k) = True"
| "client_error (InvalidBucket msg) = True"
| "client_error (InvalidKey msg) = True"
| "client_error (InvalidFile msg) = True"
| "client_error (Validation msg) = True"
| "client_error (Json msg) = True"
| "client_error (Multipart msg) = True"
| "client_error (BadRequest msg) = True"
| "client_error (PayloadTooLarge msg) = True"
| "client_error (Forbidden msg) = True"
| "client_error _ = False"

lemma status_and_message_display: "snd (status_and_message e) = display_error e"
  by (cases e) simp_all

lemma status_class:
  "fst (status_and_message e) \<in> (if client_error e then {400, 403, 404, 409, 413} else {500})"
  by (cases e) simp_all

end
