(* ===== verification/World.thy ===== *)
theory World
  imports Database File_System Errors
begin

text \<open>
  The state an operation of the service works on and the way operations are composed. The
  state (\<open>world\<close>) is the database, the disk and the cache, with the environment and a
  counter of the calls made to it so far. The environment decides everything the program does
  not: which database, disk or Redis call fails and with what text, what the clock shows,
  which random bytes and identifiers are drawn, which cache entries are dropped before a call
  and which row a \<^verbatim>\<open>LIMIT 1\<close> picks. A fact proved for every environment therefore holds
  whatever fails and whenever it fails. An operation is a function from the state to a result
  and a new state; \<open>bind_op\<close> is the \<^verbatim>\<open>?\<close> operator, \<open>try_op\<close> a \<^verbatim>\<open>match\<close> on the result.
  Operations of one request run without another request in between.
\<close>

named_theorems keeps_intros

section \<open>The state\<close>

record environment =
  env_db_fault :: "nat \<Rightarrow> string option"
  env_io_fault :: "nat \<Rightarrow> io_error option"
  env_redis_fault :: "nat \<Rightarrow> string option"
  env_evicts :: "nat \<Rightarrow> string \<Rightarrow> bool"
  env_choice :: "nat \<Rightarrow> nat"
  env_now :: "nat \<Rightarrow> time"
  env_uuid :: "nat \<Rightarrow> uuid"
  env_random :: "nat \<Rightarrow> nat \<Rightarrow> u8"
  env_pg_text :: "pg_error \<Rightarrow> string"

record world =
  w_env :: environment
  w_tick :: nat
  w_db :: db
  w_fs :: fs
  w_cache :: "string \<Rightarrow> bytes option"

type_synonym ('e, 'a) op = "world \<Rightarrow> ('e + 'a) \<times> world"

section \<open>Operations\<close>

definition ret :: "'a \<Rightarrow> ('e, 'a) op" where
  "ret x w = (Inr x, w)"

definition throw :: "'e \<Rightarrow> ('e, 'a) op" where
  "throw e w = (Inl e, w)"

definition lift_result :: "'e + 'a \<Rightarrow> ('e, 'a) op" where
  "lift_result r w = (r, w)"

definition bind_op :: "('e, 'a) op \<Rightarrow> ('a \<Rightarrow> ('e, 'b) op) \<Rightarrow> ('e, 'b) op" where
  "bind_op m f w = (case m w of (Inl e, w') \<Rightarrow> (Inl e, w') | (Inr x, w') \<Rightarrow> f x w')"

definition try_op :: "('e, 'a) op \<Rightarrow> ('e + 'a \<Rightarrow> ('f, 'b) op) \<Rightarrow> ('f, 'b) op" where
  "try_op m f w = (case m w of (r, w') \<Rightarrow> f r w')"

text \<open>\<^verbatim>\<open>map_err\<close>, and \<^verbatim>\<open>let _ =\<close> or a logged error: the result is not looked at.\<close>

definition map_err_op :: "('e \<Rightarrow> 'f) \<Rightarrow> ('e, 'a) op \<Rightarrow> ('f, 'a) op" where
  "map_err_op g m w = (case m w of (r, w') \<Rightarrow> (map_err g r, w'))"

definition ignore :: "('e, 'a) op \<Rightarrow> ('f, unit) op" where
  "ignore m w = (Inr (), snd (m w))"

text \<open>A call of the environment: the answer for the current count of calls, which goes up.\<close>

definition external :: "(environment \<Rightarrow> nat \<Rightarrow> 'a) \<Rightarrow> ('e, 'a) op" where
  "external f w = (Inr (f (w_env w) (w_tick w)), w\<lparr>w_tick := Suc (w_tick w)\<rparr>)"

abbreviation now_op :: "('e, time) op" where
  "now_op \<equiv> external env_now"

abbreviation new_uuid :: "('e, uuid) op" where
  "new_uuid \<equiv> external env_uuid"

definition random_bytes :: "nat \<Rightarrow> ('e, bytes) op" where
  "random_bytes n = external (\<lambda>e t. map (env_random e t) [0..<n])"

text \<open>A database statement: it may fail at the connection, or with an error of its own. A statement
  or commit that is reported as failed has had no effect: a connection that is lost after the server
  has committed and before it has said so is not modelled.\<close>

definition query_err ::
  "(pg_error \<Rightarrow> string \<Rightarrow> storage_error) \<Rightarrow> (time \<Rightarrow> nat \<Rightarrow> db \<Rightarrow> pg_error + 'a \<times> db) \<Rightarrow>
     (storage_error, 'a) op" where
  "query_err on_error stmt w =
     (let n = w_tick w; e = w_env w; w' = w\<lparr>w_tick := Suc n\<rparr> in
      case env_db_fault e n of
        Some msg \<Rightarrow> (Inl (Database msg), w')
      | None \<Rightarrow>
          (case stmt (env_now e n) (env_choice e n) (w_db w) of
             Inl pe \<Rightarrow> (Inl (on_error pe (env_pg_text e pe)), w')
           | Inr (x, d) \<Rightarrow> (Inr x, w'\<lparr>w_db := d\<rparr>)))"

abbreviation query ::
  "(time \<Rightarrow> nat \<Rightarrow> db \<Rightarrow> pg_error + 'a \<times> db) \<Rightarrow> (storage_error, 'a) op" where
  "query \<equiv> query_err (\<lambda>_ text. Database text)"

text \<open>A call of the file system.\<close>

definition io_call :: "(fs \<Rightarrow> io_error + 'a \<times> fs) \<Rightarrow> (io_error, 'a) op" where
  "io_call f w =
     (let n = w_tick w; w' = w\<lparr>w_tick := Suc n\<rparr> in
      case env_io_fault (w_env w) n of
        Some e \<Rightarrow> (Inl e, w')
      | None \<Rightarrow>
          (case f (w_fs w) of
             Inl e \<Rightarrow> (Inl e, w')
           | Inr (x, s) \<Rightarrow> (Inr x, w'\<lparr>w_fs := s\<rparr>)))"

text \<open>\<^verbatim>\<open>impl From<std::io::Error> for StorageError\<close>.\<close>

definition from_io_error :: "io_error \<Rightarrow> storage_error" where
  "from_io_error e = Io (display_io_error e)"

text \<open>A \<^verbatim>\<open>for\<close> loop whose body may stop the function with an error.\<close>

fun for_each :: "('a \<Rightarrow> ('e, unit) op) \<Rightarrow> 'a list \<Rightarrow> ('e, unit) op" where
  "for_each f [] = ret ()"
| "for_each f (x # xs) = bind_op (f x) (\<lambda>_. for_each f xs)"

section \<open>Evaluation\<close>

lemma ret_apply [simp]: "ret x w = (Inr x, w)"
  by (simp add: ret_def)

lemma throw_apply [simp]: "throw e w = (Inl e, w)"
  by (simp add: throw_def)

lemma lift_result_apply [simp]: "lift_result r w = (r, w)"
  by (simp add: lift_result_def)

lemma bind_op_Inr [simp]: "m w = (Inr x, w') \<Longrightarrow> bind_op m f w = f x w'"
  by (simp add: bind_op_def)

lemma bind_op_Inl [simp]: "m w = (Inl e, w') \<Longrightarrow> bind_op m f w = (Inl e, w')"
  by (simp add: bind_op_def)

lemma try_op_eq [simp]: "m w = (r, w') \<Longrightarrow> try_op m f w = f r w'"
  by (simp add: try_op_def)

lemma ignore_apply [simp]: "ignore m w = (Inr (), snd (m w))"
  by (simp add: ignore_def)

lemma bind_op_result_Inr:
  "bind_op m f w = (Inr y, w'') \<longleftrightarrow> (\<exists>x w'. m w = (Inr x, w') \<and> f x w' = (Inr y, w''))"
  by (auto simp: bind_op_def split: prod.splits sum.splits)

lemma map_err_op_Inr [simp]: "map_err_op g m w = (Inr x, w') \<longleftrightarrow> m w = (Inr x, w')"
  by (auto simp: map_err_op_def map_err_def split: prod.splits sum.splits)

lemma bind_op_assoc: "bind_op (bind_op m f) g = bind_op m (\<lambda>x. bind_op (f x) g)"
  by (auto simp: bind_op_def fun_eq_iff split: prod.splits sum.splits)

section \<open>Facts that an operation keeps, whatever it returns\<close>

definition keeps :: "(world \<Rightarrow> bool) \<Rightarrow> ('e, 'a) op \<Rightarrow> bool" where
  "keeps P m \<longleftrightarrow> (\<forall>w. P w \<longrightarrow> P (snd (m w)))"

lemma keepsD: "keeps P m \<Longrightarrow> P w \<Longrightarrow> P (snd (m w))"
  by (simp add: keeps_def)

lemma keepsD_eq: "keeps P m \<Longrightarrow> P w \<Longrightarrow> m w = (r, w') \<Longrightarrow> P w'"
  by (metis keepsD snd_conv)

lemma keeps_ret [keeps_intros]: "keeps P (ret x)"
  by (simp add: keeps_def)

lemma keeps_throw [keeps_intros]: "keeps P (throw e)"
  by (simp add: keeps_def)

lemma keeps_lift_result [keeps_intros]: "keeps P (lift_result r)"
  by (simp add: keeps_def)

lemma keeps_bind_op [keeps_intros]:
  "keeps P m \<Longrightarrow> (\<And>x. keeps P (f x)) \<Longrightarrow> keeps P (bind_op m f)"
  by (auto simp: keeps_def bind_op_def split: prod.splits sum.splits)

lemma keeps_try_op [keeps_intros]:
  "keeps P m \<Longrightarrow> (\<And>r. keeps P (f r)) \<Longrightarrow> keeps P (try_op m f)"
  by (auto simp: keeps_def try_op_def split: prod.splits)

lemma keeps_map_err_op [keeps_intros]: "keeps P m \<Longrightarrow> keeps P (map_err_op g m)"
  by (auto simp: keeps_def map_err_op_def split: prod.splits)

lemma keeps_ignore [keeps_intros]: "keeps P m \<Longrightarrow> keeps P (ignore m)"
  by (simp add: keeps_def)

lemma keeps_for_each [keeps_intros]: "(\<And>x. keeps P (f x)) \<Longrightarrow> keeps P (for_each f xs)"
  by (induction xs) (auto intro!: keeps_intros)

lemma keeps_if [keeps_intros]: "(b \<Longrightarrow> keeps P m) \<Longrightarrow> (\<not> b \<Longrightarrow> keeps P m') \<Longrightarrow> keeps P (if b then m else m')"
  by simp

lemma keeps_case_option [keeps_intros]:
  "(x = None \<Longrightarrow> keeps P m) \<Longrightarrow> (\<And>y. x = Some y \<Longrightarrow> keeps P (f y)) \<Longrightarrow>
     keeps P (case x of None \<Rightarrow> m | Some y \<Rightarrow> f y)"
  by (cases x) auto

lemma keeps_case_sum [keeps_intros]:
  "(\<And>e. x = Inl e \<Longrightarrow> keeps P (f e)) \<Longrightarrow> (\<And>y. x = Inr y \<Longrightarrow> keeps P (g y)) \<Longrightarrow>
     keeps P (case x of Inl e \<Rightarrow> f e | Inr y \<Rightarrow> g y)"
  by (cases x) auto

lemma keeps_case_prod [keeps_intros]:
  "(\<And>a b. x = (a, b) \<Longrightarrow> keeps P (f a b)) \<Longrightarrow> keeps P (case x of (a, b) \<Rightarrow> f a b)"
  by (cases x) auto

lemma keeps_Let [keeps_intros]: "keeps P (f x) \<Longrightarrow> keeps P (let y = x in f y)"
  by simp

text \<open>Facts about one part of the state.\<close>

definition on_db :: "(db \<Rightarrow> bool) \<Rightarrow> world \<Rightarrow> bool" where
  "on_db I w \<longleftrightarrow> I (w_db w)"

definition on_fs :: "(fs \<Rightarrow> bool) \<Rightarrow> world \<Rightarrow> bool" where
  "on_fs I w \<longleftrightarrow> I (w_fs w)"

lemma keeps_external_db [keeps_intros]: "keeps (on_db I) (external f)"
  by (simp add: keeps_def external_def on_db_def)

lemma keeps_external_fs [keeps_intros]: "keeps (on_fs I) (external f)"
  by (simp add: keeps_def external_def on_fs_def)

lemma keeps_random_bytes_db [keeps_intros]: "keeps (on_db I) (random_bytes n)"
  by (simp add: random_bytes_def keeps_external_db)

lemma keeps_random_bytes_fs [keeps_intros]: "keeps (on_fs I) (random_bytes n)"
  by (simp add: random_bytes_def keeps_external_fs)

lemma keeps_query_db:
  "(\<And>now c d x d'. I d \<Longrightarrow> stmt now c d = Inr (x, d') \<Longrightarrow> I d') \<Longrightarrow>
     keeps (on_db I) (query_err g stmt)"
  by (auto simp: keeps_def query_err_def on_db_def Let_def split: option.splits sum.splits)

lemma keeps_query_fs [keeps_intros]: "keeps (on_fs I) (query_err g stmt)"
  by (auto simp: keeps_def query_err_def on_fs_def Let_def split: option.splits sum.splits)

lemma keeps_io_call_fs:
  "(\<And>s x s'. I s \<Longrightarrow> f s = Inr (x, s') \<Longrightarrow> I s') \<Longrightarrow> keeps (on_fs I) (io_call f)"
  by (auto simp: keeps_def io_call_def on_fs_def Let_def split: option.splits sum.splits)

lemma keeps_io_call_db [keeps_intros]: "keeps (on_db I) (io_call f)"
  by (auto simp: keeps_def io_call_def on_db_def Let_def split: option.splits sum.splits)

text \<open>No call changes the environment, and only cache calls change the cache.\<close>

definition on_env :: "environment \<Rightarrow> world \<Rightarrow> bool" where
  "on_env e w \<longleftrightarrow> w_env w = e"

definition on_cache :: "(string \<Rightarrow> bytes option) \<Rightarrow> world \<Rightarrow> bool" where
  "on_cache c w \<longleftrightarrow> w_cache w = c"

lemma keeps_leaves [keeps_intros]:
  "keeps (on_env e) (external f)" "keeps (on_cache c) (external f)"
  "keeps (on_env e) (random_bytes n)" "keeps (on_cache c) (random_bytes n)"
  "keeps (on_env e) (query_err g stmt)" "keeps (on_cache c) (query_err g stmt)"
  "keeps (on_env e) (io_call f')" "keeps (on_cache c) (io_call f')"
  by (auto simp: keeps_def on_env_def on_cache_def external_def random_bytes_def query_err_def
      io_call_def Let_def split: option.splits sum.splits)

section \<open>A quiet environment\<close>

text \<open>No call fails and no cache entry is dropped.\<close>

definition quiet :: "environment \<Rightarrow> bool" where
  "quiet e \<longleftrightarrow>
     (\<forall>n. env_db_fault e n = None \<and> env_io_fault e n = None \<and> env_redis_fault e n = None \<and>
          (\<forall>k. \<not> env_evicts e n k))"

lemma quietD [simp]:
  assumes "quiet e"
  shows "env_db_fault e n = None" "env_io_fault e n = None" "env_redis_fault e n = None"
    "env_evicts e n k = False"
  using assms by (simp_all add: quiet_def)

definition tick :: "world \<Rightarrow> world" where
  "tick w = w\<lparr>w_tick := Suc (w_tick w)\<rparr>"

lemma tick_simps [simp]:
  "w_env (tick w) = w_env w" "w_db (tick w) = w_db w" "w_fs (tick w) = w_fs w"
  "w_cache (tick w) = w_cache w" "w_tick (tick w) = Suc (w_tick w)"
  by (simp_all add: tick_def)

lemma external_apply: "external f w = (Inr (f (w_env w) (w_tick w)), tick w)"
  by (simp add: external_def tick_def)

lemma query_quiet:
  "quiet (w_env w) \<Longrightarrow>
     query_err g stmt w =
       (case stmt (env_now (w_env w) (w_tick w)) (env_choice (w_env w) (w_tick w)) (w_db w) of
          Inl pe \<Rightarrow> (Inl (g pe (env_pg_text (w_env w) pe)), tick w)
        | Inr (x, d) \<Rightarrow> (Inr x, (tick w)\<lparr>w_db := d\<rparr>))"
  by (auto simp: query_err_def Let_def tick_def split: sum.splits)

lemma io_call_quiet:
  "quiet (w_env w) \<Longrightarrow>
     io_call f w =
       (case f (w_fs w) of
          Inl e \<Rightarrow> (Inl e, tick w)
        | Inr (x, s) \<Rightarrow> (Inr x, (tick w)\<lparr>w_fs := s\<rparr>))"
  by (auto simp: io_call_def Let_def tick_def split: sum.splits)

end
