(* ===== verification/Performance_Optimizations.thy ===== *)
theory Performance_Optimizations
  imports World
begin

text \<open>
  \<^verbatim>\<open>src/local-storage/src/performance_optimizations.rs\<close>: the two content hashes and the
  write to a temporary file that is then renamed, over the calls of \<^verbatim>\<open>tokio::fs\<close> by path. A
  write that fails leaves a part of the content in the file. BLAKE3 and MD5 are parameters;
  a hash task does not panic, so it is always joined.
\<close>

section \<open>Calls by path\<close>

text \<open>An empty path and one with a NUL byte are refused before the file system is asked. A
  path with a slash at its end can only mean a directory.\<close>

definition at_path :: "string \<Rightarrow> (fs \<Rightarrow> path \<Rightarrow> io_error + 'a) \<Rightarrow> fs \<Rightarrow> io_error + 'a" where
  "at_path p f s =
     (if p = [] then Inl enoent
      else if CHR 0x00 \<in> set p then Inl (Other_io ''file name contained an unexpected NUL byte'')
      else f s (resolve (fs_cwd s) p))"

definition names_directory :: "string \<Rightarrow> bool" where
  "names_directory p \<longleftrightarrow> ends_with ''/'' p \<or> ends_with ''/.'' p"

definition at_file :: "string \<Rightarrow> (fs \<Rightarrow> path \<Rightarrow> io_error + 'a) \<Rightarrow> fs \<Rightarrow> io_error + 'a" where
  "at_file p f =
     at_path p (\<lambda>s q. if names_directory p \<and> \<not> is_dir s q
                      then Inl (if is_file s q then enotdir else lookup_error s q) else f s q)"

definition read_file :: "string \<Rightarrow> (io_error, bytes) op" where
  "read_file p = io_call (\<lambda>s. map_sum id (\<lambda>c. (c, s)) (at_file p fs_read s))"

definition remove_file :: "string \<Rightarrow> (io_error, unit) op" where
  "remove_file p = io_call (\<lambda>s. map_sum id (Pair ()) (at_file p fs_remove_file s))"

definition create_dir_all :: "string \<Rightarrow> (io_error, unit) op" where
  "create_dir_all p = io_call (\<lambda>s. map_sum id (Pair ()) (at_path p fs_create_dir_all s))"

text \<open>\<^verbatim>\<open>create_dir_all\<close> of the parent of a path that has one.\<close>

definition create_parent_dir :: "string \<Rightarrow> (io_error, unit) op" where
  "create_parent_dir p =
     io_call (\<lambda>s.
       case resolve_parent (fs_cwd s) p of
         None \<Rightarrow> Inr ((), s)
       | Some q \<Rightarrow>
           if list_ex (\<lambda>c. CHR 0x00 \<in> set c) (butlast (path_components p))
           then Inl (Other_io ''file name contained an unexpected NUL byte'')
           else map_sum id (Pair ()) (fs_create_dir_all s q))"

definition remove_dir_all :: "string \<Rightarrow> (io_error, unit) op" where
  "remove_dir_all p = io_call (\<lambda>s. map_sum id (Pair ()) (at_path p fs_remove_dir_all s))"

definition rename_file :: "string \<Rightarrow> string \<Rightarrow> (io_error, unit) op" where
  "rename_file a b =
     io_call (\<lambda>s. map_sum id (Pair ()) (at_file b (\<lambda>s q. at_file a (\<lambda>s p. fs_rename s p q) s) s))"

text \<open>\<^verbatim>\<open>Path::exists\<close> takes an error for a no.\<close>

definition path_exists :: "string \<Rightarrow> ('e, bool) op" where
  "path_exists p =
     try_op (io_call (\<lambda>s. map_sum id (\<lambda>x. (x, s))
               (at_file p (\<lambda>s q. Inr (is_dir s q \<or> is_file s q)) s)))
       (\<lambda>r. ret (case r of Inl _ \<Rightarrow> False | Inr x \<Rightarrow> x))"

definition file_create :: "string \<Rightarrow> (io_error, path) op" where
  "file_create p =
     io_call (\<lambda>s. map_sum id (\<lambda>s'. (resolve (fs_cwd s) p, s')) (at_file p fs_create_file s))"

text \<open>Writing through a handle (the path it was opened under); a failure leaves a prefix.\<close>

definition write_handle :: "path \<Rightarrow> bytes \<Rightarrow> (io_error, unit) op" where
  "write_handle h content w =
     (let n = w_tick w; w' = tick w in
      case env_io_fault (w_env w) n of
        Some e \<Rightarrow> (Inl e, w'\<lparr>w_fs := fs_write (w_fs w) h (take (env_choice (w_env w) n) content)\<rparr>)
      | None \<Rightarrow> (Inr (), w'\<lparr>w_fs := fs_write (w_fs w) h content\<rparr>))"

definition sync_all :: "(io_error, unit) op" where
  "sync_all = io_call (\<lambda>s. Inr ((), s))"

section \<open>The writer\<close>

definition write_file_optimized :: "string \<Rightarrow> bytes \<Rightarrow> (io_error, unit) op" where
  "write_file_optimized p content =
     bind_op (file_create p) (\<lambda>file.
     bind_op (write_handle file content) (\<lambda>_.
     sync_all))"

definition write_file_atomic :: "string \<Rightarrow> bytes \<Rightarrow> (io_error, unit) op" where
  "write_file_atomic p content =
     (let temp_path = with_extension p ''tmp'' in
      bind_op (write_file_optimized temp_path content) (\<lambda>_.
      rename_file temp_path p))"

definition compute_hashes_parallel ::
  "(bytes \<Rightarrow> string) \<Rightarrow> (bytes \<Rightarrow> string) \<Rightarrow> bytes \<Rightarrow> string \<times> string" where
  "compute_hashes_parallel blake3 md5 content = (blake3 content, md5 content)"

section \<open>The tree stays a tree\<close>

lemma keeps_io_map_unit:
  "(\<And>s s'. I s \<Longrightarrow> f s = Inr s' \<Longrightarrow> I s') \<Longrightarrow>
     keeps (on_fs I) (io_call (\<lambda>s. map_sum id (Pair x) (f s)))"
  by (rule keeps_io_call_fs) (auto simp: map_sum_def split: sum.splits)

lemma at_path_Inr: "at_path p f s = Inr x \<Longrightarrow> f s (resolve (fs_cwd s) p) = Inr x"
  by (auto simp: at_path_def split: if_splits)

lemma at_file_Inr: "at_file p f s = Inr x \<Longrightarrow> f s (resolve (fs_cwd s) p) = Inr x"
  by (auto simp: at_file_def dest!: at_path_Inr split: if_splits)

lemma keeps_remove_file [keeps_intros]: "keeps (on_fs fs_wf) (remove_file p)"
  unfolding remove_file_def
  by (rule keeps_io_map_unit) (auto dest: at_file_Inr intro: fs_wf_intros)

lemma keeps_create_dir_all [keeps_intros]: "keeps (on_fs fs_wf) (create_dir_all p)"
  unfolding create_dir_all_def
  by (rule keeps_io_map_unit) (auto dest: at_path_Inr intro: fs_wf_intros)

lemma keeps_create_parent_dir [keeps_intros]: "keeps (on_fs fs_wf) (create_parent_dir p)"
  unfolding create_parent_dir_def
  by (rule keeps_io_call_fs)
    (auto simp: map_sum_def intro: fs_wf_intros split: option.splits if_splits sum.splits)

lemma keeps_create_parent_dir_db [keeps_intros]: "keeps (on_db I) (create_parent_dir p)"
  unfolding create_parent_dir_def by (rule keeps_io_call_db)

lemma keeps_remove_dir_all [keeps_intros]: "keeps (on_fs fs_wf) (remove_dir_all p)"
  unfolding remove_dir_all_def
  by (rule keeps_io_map_unit) (auto dest: at_path_Inr intro: fs_wf_intros)

lemma keeps_rename_file [keeps_intros]: "keeps (on_fs fs_wf) (rename_file a b)"
  unfolding rename_file_def
  by (rule keeps_io_map_unit) (auto dest!: at_file_Inr intro: fs_wf_intros)

lemma keeps_read_file [keeps_intros]: "keeps (on_fs I) (read_file p)"
  unfolding read_file_def by (rule keeps_io_call_fs) (auto simp: map_sum_def split: sum.splits)

lemma keeps_path_exists [keeps_intros]: "keeps (on_fs I) (path_exists p)"
  unfolding path_exists_def
  by (intro keeps_intros keeps_io_call_fs) (auto simp: map_sum_def split: sum.splits)

lemma keeps_sync_all [keeps_intros]: "keeps (on_fs I) sync_all"
  unfolding sync_all_def by (rule keeps_io_call_fs) auto

lemma file_create_Inr:
  assumes "file_create p w = (Inr h, w')"
  shows "h = resolve (fs_cwd (w_fs w)) p" "fs_create_file (w_fs w) h = Inr (w_fs w')"
  using assms
  by (auto simp: file_create_def io_call_def Let_def map_sum_def dest!: at_file_Inr
      split: option.splits sum.splits)

lemma fs_create_file_Inr:
  "fs_create_file s p = Inr s' \<Longrightarrow>
     s' = s\<lparr>fs_nodes := (fs_nodes s)(p \<mapsto> File [])\<rparr> \<and> p \<noteq> [] \<and> \<not> is_dir s p \<and>
     is_dir s (butlast p)"
  by (auto simp: fs_create_file_def is_dir_def split: if_splits)

lemma keeps_file_create [keeps_intros]: "keeps (on_fs fs_wf) (file_create p)"
  unfolding file_create_def
  by (rule keeps_io_call_fs)
    (auto simp: map_sum_def dest!: at_file_Inr intro: fs_wf_intros split: sum.splits)

lemma write_handle_wf:
  assumes "fs_wf (w_fs w)" "is_file (w_fs w) h" "h \<noteq> []"
  shows "fs_wf (w_fs (snd (write_handle h content w)))"
  using fs_wf_write [OF assms] by (auto simp: write_handle_def Let_def split: option.splits)

lemma keeps_write_file_optimized [keeps_intros]:
  "keeps (on_fs fs_wf) (write_file_optimized p content)"
  unfolding keeps_def
proof (intro allI impI)
  fix w assume wf: "on_fs fs_wf w"
  obtain r w1 where c: "file_create p w = (r, w1)" by (cases "file_create p w")
  have wf1: "on_fs fs_wf w1" by (rule keepsD_eq [OF keeps_file_create wf c])
  show "on_fs fs_wf (snd (write_file_optimized p content w))"
  proof (cases r)
    case (Inl e)
    with c wf1 show ?thesis by (simp add: write_file_optimized_def)
  next
    case (Inr h)
    obtain r2 w2 where h: "write_handle h content w1 = (r2, w2)"
      by (cases "write_handle h content w1")
    from fs_create_file_Inr [OF file_create_Inr(2) [OF c [unfolded Inr]]]
    have "is_file (w_fs w1) h" "h \<noteq> []" by (auto simp: is_file_def)
    with wf1 have "on_fs fs_wf w2"
      using write_handle_wf [of w1 h content] h by (simp add: on_fs_def)
    then show ?thesis
      using c h keepsD [OF keeps_sync_all] by (cases r2) (simp_all add: write_file_optimized_def Inr)
  qed
qed

lemma keeps_write_file_atomic [keeps_intros]: "keeps (on_fs fs_wf) (write_file_atomic p content)"
  unfolding write_file_atomic_def Let_def by (intro keeps_intros)

lemma keeps_files_db [keeps_intros]:
  "keeps (on_db I) (read_file p)" "keeps (on_db I) (remove_file p)"
  "keeps (on_db I) (create_dir_all p)" "keeps (on_db I) (remove_dir_all p)"
  "keeps (on_db I) (path_exists p)" "keeps (on_db I) (rename_file p q)"
  "keeps (on_db I) (file_create p)" "keeps (on_db I) sync_all"
  by (auto simp: read_file_def remove_file_def create_dir_all_def remove_dir_all_def
      path_exists_def rename_file_def file_create_def sync_all_def intro!: keeps_intros)

lemma keeps_write_handle_db [keeps_intros]: "keeps (on_db I) (write_handle h content)"
  by (auto simp: keeps_def on_db_def write_handle_def Let_def split: option.splits)

lemma keeps_write_file_atomic_db [keeps_intros]: "keeps (on_db I) (write_file_atomic p content)"
  unfolding write_file_atomic_def write_file_optimized_def Let_def by (intro keeps_intros)

section \<open>Effects\<close>

text \<open>What a file holds, by path.\<close>

definition content_at :: "fs \<Rightarrow> string \<Rightarrow> bytes option" where
  "content_at s p = (case at_file p fs_read s of Inr c \<Rightarrow> Some c | Inl _ \<Rightarrow> None)"

lemma read_file_quiet:
  "quiet (w_env w) \<Longrightarrow> read_file p w = (at_file p fs_read (w_fs w), tick w)"
  by (auto simp: read_file_def io_call_quiet map_sum_def tick_def split: sum.splits)

lemma read_file_state: "snd (read_file p w) = tick w"
  by (auto simp: read_file_def io_call_def map_sum_def tick_def Let_def split: sum.splits option.splits)

lemma read_file_Inr: "read_file p w = (Inr c, w') \<Longrightarrow> content_at (w_fs w) p = Some c \<and> w' = tick w"
  by (auto simp: read_file_def io_call_def map_sum_def tick_def Let_def content_at_def
      split: sum.splits option.splits)

text \<open>A reader of the final path sees the old content until the rename, and then the new one:
  the temporary file and the final one are the only places that change.\<close>

lemma write_file_optimized_nodes:
  assumes "write_file_optimized p content w = (r, w')" "q \<noteq> resolve (fs_cwd (w_fs w)) p"
  shows "fs_nodes (w_fs w') q = fs_nodes (w_fs w) q \<and> fs_cwd (w_fs w') = fs_cwd (w_fs w)"
  using assms
  by (auto simp: write_file_optimized_def bind_op_def file_create_def write_handle_def sync_all_def
      io_call_def Let_def map_sum_def fs_write_def dest!: at_file_Inr fs_create_file_Inr
      split: prod.splits sum.splits option.splits)

lemma write_file_optimized_Inr:
  assumes "write_file_optimized p content w = (Inr u, w')"
  shows "w_fs w' = (w_fs w)\<lparr>fs_nodes := (fs_nodes (w_fs w))(resolve (fs_cwd (w_fs w)) p \<mapsto> File content)\<rparr>"
  using assms
  by (auto simp: write_file_optimized_def bind_op_def file_create_def write_handle_def sync_all_def
      io_call_def Let_def map_sum_def fs_write_def dest!: at_file_Inr fs_create_file_Inr
      split: prod.splits sum.splits option.splits)

lemma rename_file_Inr:
  assumes "rename_file a b w = (Inr u, w')"
  shows "fs_rename (w_fs w) (resolve (fs_cwd (w_fs w)) a) (resolve (fs_cwd (w_fs w)) b) = Inr (w_fs w')"
  using assms
  by (auto simp: rename_file_def io_call_def Let_def map_sum_def dest!: at_file_Inr
      split: prod.splits sum.splits option.splits)

lemma fs_rename_other:
  "fs_rename s a b = Inr s' \<Longrightarrow> q \<noteq> a \<Longrightarrow> q \<noteq> b \<Longrightarrow> fs_nodes s' q = fs_nodes s q"
  by (auto simp: fs_rename_def split: option.splits node.splits if_splits)

lemma rename_file_Inl: "rename_file a b w = (Inl e, w') \<Longrightarrow> w_fs w' = w_fs w"
  by (auto simp: rename_file_def io_call_def Let_def map_sum_def
      split: prod.splits sum.splits option.splits)

text \<open>The two places that a write touches.\<close>

definition temp_place :: "fs \<Rightarrow> string \<Rightarrow> path" where
  "temp_place s p = resolve (fs_cwd s) (with_extension p ''tmp'')"

definition final_place :: "fs \<Rightarrow> string \<Rightarrow> path" where
  "final_place s p = resolve (fs_cwd s) p"

lemmas places_def = temp_place_def final_place_def

lemma write_file_atomic_frame:
  assumes "write_file_atomic p content w = (r, w')" "q \<noteq> temp_place (w_fs w) p" "q \<noteq> final_place (w_fs w) p"
  shows "fs_nodes (w_fs w') q = fs_nodes (w_fs w) q"
proof -
  let ?tmp = "with_extension p ''tmp''"
  obtain r1 w1 where w1: "write_file_optimized ?tmp content w = (r1, w1)"
    by (cases "write_file_optimized ?tmp content w")
  have step: "fs_nodes (w_fs w1) q = fs_nodes (w_fs w) q \<and> fs_cwd (w_fs w1) = fs_cwd (w_fs w)"
    using write_file_optimized_nodes [OF w1] assms(2) by (simp add: places_def)
  show ?thesis
  proof (cases r1)
    case (Inl e)
    then show ?thesis using assms(1) w1 step by (simp add: write_file_atomic_def Let_def)
  next
    case (Inr u)
    then have "rename_file ?tmp p w1 = (r, w')" using assms(1) w1 by (simp add: write_file_atomic_def Let_def)
    then show ?thesis
      using step assms(2,3) rename_file_Inl [of ?tmp p w1 _ w'] rename_file_Inr [of ?tmp p w1 _ w']
      by (cases r) (auto simp: places_def dest!: fs_rename_other [of _ _ _ _ q])
  qed
qed

lemma write_file_atomic_final:
  assumes "write_file_atomic p content w = (r, w')" "temp_place (w_fs w) p \<noteq> final_place (w_fs w) p"
  shows "if r = Inr () then w_fs w' = (w_fs w)\<lparr>fs_nodes := (fs_nodes (w_fs w))
             (temp_place (w_fs w) p := None, final_place (w_fs w) p \<mapsto> File content)\<rparr>
         else fs_nodes (w_fs w') (final_place (w_fs w) p) = fs_nodes (w_fs w) (final_place (w_fs w) p)"
proof -
  let ?tmp = "with_extension p ''tmp''"
  obtain r1 w1 where w1: "write_file_optimized ?tmp content w = (r1, w1)"
    by (cases "write_file_optimized ?tmp content w")
  note step = write_file_optimized_nodes [OF w1, of "final_place (w_fs w) p"]
  show ?thesis
  proof (cases r1)
    case (Inl e)
    then show ?thesis using assms w1 step by (auto simp: write_file_atomic_def Let_def places_def)
  next
    case (Inr u)
    then have ren: "rename_file ?tmp p w1 = (r, w')" using assms(1) w1 by (simp add: write_file_atomic_def Let_def)
    have fs1: "w_fs w1 = (w_fs w)\<lparr>fs_nodes := (fs_nodes (w_fs w))(temp_place (w_fs w) p \<mapsto> File content)\<rparr>"
      using write_file_optimized_Inr [OF w1 [unfolded Inr]] by (simp add: places_def)
    show ?thesis
    proof (cases r)
      case (Inl e)
      then show ?thesis using assms(2) rename_file_Inl [OF ren [unfolded Inl]] fs1 by auto
    next
      case (Inr v)
      from rename_file_Inr [OF ren [unfolded Inr]] show ?thesis
        using assms(2) Inr fs1
        by (auto simp: fs_rename_def places_def split: if_splits)
    qed
  qed
qed

text \<open>When nothing fails and the directory is there, the write succeeds.\<close>

lemma write_file_atomic_quiet:
  assumes "quiet (w_env w)" "temp_place (w_fs w) p \<noteq> final_place (w_fs w) p"
    and "p \<noteq> []" "CHR 0x00 \<notin> set p" "with_extension p ''tmp'' \<noteq> []"
    and "CHR 0x00 \<notin> set (with_extension p ''tmp'')"
    and "\<not> names_directory p" "\<not> names_directory (with_extension p ''tmp'')"
    and "\<not> is_dir (w_fs w) (temp_place (w_fs w) p)" "\<not> is_dir (w_fs w) (final_place (w_fs w) p)"
    and "is_dir (w_fs w) (butlast (temp_place (w_fs w) p))"
    and "is_dir (w_fs w) (butlast (final_place (w_fs w) p))"
  shows "\<exists>w'. write_file_atomic p content w = (Inr (), w') \<and> w_tick w' = w_tick w + 4 \<and>
    w_env w' = w_env w \<and> w_db w' = w_db w \<and> w_cache w' = w_cache w"
  using assms
  by (auto simp: write_file_atomic_def write_file_optimized_def bind_op_def file_create_def
      write_handle_def sync_all_def rename_file_def io_call_quiet Let_def map_sum_def fs_write_def
      at_file_def at_path_def fs_create_file_def fs_rename_def places_def is_dir_def)

end
