(* ===== verification/Database_Manager.thy ===== *)
theory Database_Manager
  imports World
begin

text \<open>
  \<^verbatim>\<open>src/local-storage/src/database.rs\<close> (\<^verbatim>\<open>DatabaseManager\<close>): each method is one statement of
  the theory \<open>Database\<close>, run by \<open>query\<close>, with the method's own treatment of its result. The
  lemmas give each method's effect when nothing fails and show that no method, failing or not,
  breaks the integrity of the tables.
\<close>

definition db_save_file :: "stored_file \<Rightarrow> (storage_error, unit) op" where
  "db_save_file file =
     query_err (\<lambda>e text. if e = Unique_violation then AlreadyExists (sf_bucket file) (sf_key file)
                         else Database text)
       (\<lambda>now c d. and_then (sql_save_file file d) (\<lambda>d'. Inr ((), d')))"

definition read_query :: "(time \<Rightarrow> nat \<Rightarrow> db \<Rightarrow> 'a) \<Rightarrow> (storage_error, 'a) op" where
  "read_query f = query (\<lambda>now c d. Inr (f now c d, d))"

definition read_query_err :: "(db \<Rightarrow> pg_error + 'a) \<Rightarrow> (storage_error, 'a) op" where
  "read_query_err f = query (\<lambda>now c d. and_then (f d) (\<lambda>x. Inr (x, d)))"

definition write_query :: "(time \<Rightarrow> db \<Rightarrow> db) \<Rightarrow> (storage_error, unit) op" where
  "write_query f = query (\<lambda>now c d. Inr ((), f now d))"

definition db_get_file :: "string \<Rightarrow> string \<Rightarrow> (storage_error, stored_file) op" where
  "db_get_file bucket key =
     bind_op (read_query (\<lambda>now c. sql_get_file bucket key)) (\<lambda>row.
     lift_result (ok_or row (NotFound bucket key)))"

definition db_list_expired_files :: "(storage_error, (string \<times> string) list) op" where
  "db_list_expired_files = read_query (\<lambda>now c. sql_expired now)"

definition db_get_file_by_hash :: "string \<Rightarrow> (storage_error, stored_file option) op" where
  "db_get_file_by_hash h = read_query (\<lambda>now c. sql_file_by_hash c h)"

definition db_update_access :: "uuid \<Rightarrow> (storage_error, unit) op" where
  "db_update_access i = write_query (\<lambda>now. sql_update_access now i)"

definition db_delete_file :: "string \<Rightarrow> string \<Rightarrow> (storage_error, unit) op" where
  "db_delete_file bucket key =
     bind_op (query (\<lambda>now c d. Inr (sql_delete_file bucket key d))) (\<lambda>rows_affected.
     if rows_affected = 0 then throw (NotFound bucket key) else ret ())"

definition db_list_files ::
  "string \<Rightarrow> string option \<Rightarrow> int \<Rightarrow> int \<Rightarrow> (storage_error, stored_file list) op" where
  "db_list_files bucket prefix lmt off = read_query_err (sql_list_files bucket prefix lmt off)"

definition db_search_files ::
  "(string \<Rightarrow> string) \<Rightarrow> string \<Rightarrow> string \<Rightarrow> int \<Rightarrow> (storage_error, stored_file list) op" where
  "db_search_files fold_case bucket q lmt = read_query_err (sql_search_files fold_case bucket q lmt)"

definition db_get_bucket_stats :: "string \<Rightarrow> (storage_error, int \<times> int) op" where
  "db_get_bucket_stats bucket = read_query (\<lambda>now c. sql_bucket_stats bucket)"

definition db_get_total_stats :: "(storage_error, storage_stats) op" where
  "db_get_total_stats = read_query (\<lambda>now c. sql_total_stats now)"

definition db_list_buckets :: "(storage_error, string list) op" where
  "db_list_buckets = read_query (\<lambda>now c d. map fst (sql_list_buckets d))"

definition db_list_buckets_with_created_at :: "(storage_error, (string \<times> time) list) op" where
  "db_list_buckets_with_created_at = read_query (\<lambda>now c. sql_list_buckets)"

text \<open>\<^verbatim>\<open>bucket_exists\<close> and \<^verbatim>\<open>delete_bucket\<close> of the manager look at file rows only.\<close>

definition db_bucket_exists :: "string \<Rightarrow> (storage_error, bool) op" where
  "db_bucket_exists bucket =
     read_query (\<lambda>now c d. 0 < length (filter (\<lambda>f. sf_bucket f = bucket) (db_files d)))"

definition sql_delete_bucket_files :: "string \<Rightarrow> db \<Rightarrow> nat \<times> db" where
  "sql_delete_bucket_files b d =
     (length (filter (\<lambda>f. sf_bucket f = b) (db_files d)),
      d\<lparr>db_files := filter (\<lambda>f. sf_bucket f \<noteq> b) (db_files d)\<rparr>)"

definition db_delete_bucket :: "string \<Rightarrow> (storage_error, unit) op" where
  "db_delete_bucket bucket =
     bind_op (query (\<lambda>now c d. Inr (sql_delete_bucket_files bucket d))) (\<lambda>rows_affected.
     if rows_affected = 0 then throw (InvalidBucket bucket) else ret ())"

text \<open>\<^verbatim>\<open>get_popular_files\<close> orders by access count, then by the last access, both descending.\<close>

datatype popularity = Popularity int int

instantiation popularity :: linorder
begin

fun less_eq_popularity :: "popularity \<Rightarrow> popularity \<Rightarrow> bool" where
  "less_eq_popularity (Popularity a b) (Popularity c d) \<longleftrightarrow> c < a \<or> (a = c \<and> d \<le> b)"

definition less_popularity :: "popularity \<Rightarrow> popularity \<Rightarrow> bool" where
  "less_popularity x y \<longleftrightarrow> x \<le> y \<and> \<not> y \<le> (x :: popularity)"

instance
proof
  fix x y z :: popularity
  show "(x < y) = (x \<le> y \<and> \<not> y \<le> x)" by (simp add: less_popularity_def)
  show "x \<le> x" by (cases x) simp
  show "x \<le> y \<Longrightarrow> y \<le> z \<Longrightarrow> x \<le> z" by (cases x; cases y; cases z) auto
  show "x \<le> y \<Longrightarrow> y \<le> x \<Longrightarrow> x = y" by (cases x; cases y) auto
  show "x \<le> y \<or> y \<le> x" by (cases x; cases y) auto
qed

end

definition popularity_of :: "stored_file \<Rightarrow> popularity" where
  "popularity_of f = Popularity (sf_access_count f) (unwrap_or (sf_last_accessed f) 0)"

definition db_get_popular_files :: "int \<Rightarrow> (storage_error, stored_file list) op" where
  "db_get_popular_files lmt =
     read_query_err (\<lambda>d. limit_offset lmt 0 (sort_key popularity_of (db_files d)))"

section \<open>Effects\<close>

lemma read_query_state: "snd (read_query f w) = tick w"
  by (auto simp: read_query_def query_err_def tick_def Let_def split: option.splits)

lemma read_query_quiet:
  "quiet (w_env w) \<Longrightarrow>
     read_query f w = (Inr (f (env_now (w_env w) (w_tick w)) (env_choice (w_env w) (w_tick w)) (w_db w)), tick w)"
  by (simp add: read_query_def query_quiet tick_def)

lemma read_query_err_state: "snd (read_query_err f w) = tick w"
  by (auto simp: read_query_err_def query_err_def tick_def Let_def
      split: option.splits sum.splits)

lemma read_query_err_quiet:
  "quiet (w_env w) \<Longrightarrow>
     read_query_err f w =
       (map_err (\<lambda>e. Database (env_pg_text (w_env w) e)) (f (w_db w)), tick w)"
  by (cases "f (w_db w)") (simp_all add: read_query_err_def query_quiet tick_def)

lemma write_query_quiet:
  "quiet (w_env w) \<Longrightarrow>
     write_query f w = (Inr (), (tick w)\<lparr>w_db := f (env_now (w_env w) (w_tick w)) (w_db w)\<rparr>)"
  by (simp add: write_query_def query_quiet)

lemma db_get_file_quiet:
  "quiet (w_env w) \<Longrightarrow>
     db_get_file b k w = (ok_or (sql_get_file b k (w_db w)) (NotFound b k), tick w)"
  by (simp add: db_get_file_def read_query_quiet)

lemma db_get_file_by_hash_quiet:
  "quiet (w_env w) \<Longrightarrow>
     db_get_file_by_hash h w =
       (Inr (sql_file_by_hash (env_choice (w_env w) (w_tick w)) h (w_db w)), tick w)"
  by (simp add: db_get_file_by_hash_def read_query_quiet)

lemma db_save_file_quiet:
  "quiet (w_env w) \<Longrightarrow> sql_save_file f (w_db w) = Inr d \<Longrightarrow>
     db_save_file f w = (Inr (), (tick w)\<lparr>w_db := d\<rparr>)"
  by (simp add: db_save_file_def query_quiet)

lemma db_save_file_Inr:
  "db_save_file f w = (Inr (), w') \<Longrightarrow>
     \<exists>d. sql_save_file f (w_db w) = Inr d \<and> w' = (tick w)\<lparr>w_db := d\<rparr>"
  by (auto simp: db_save_file_def query_err_def Let_def tick_def
      split: option.splits sum.splits)

lemma db_save_file_Inl:
  "db_save_file f w = (Inl e, w') \<Longrightarrow> w' = tick w"
  by (auto simp: db_save_file_def query_err_def Let_def tick_def
      split: option.splits sum.splits)

lemma db_update_access_quiet:
  "quiet (w_env w) \<Longrightarrow>
     db_update_access i w =
       (Inr (), (tick w)\<lparr>w_db := sql_update_access (env_now (w_env w) (w_tick w)) i (w_db w)\<rparr>)"
  by (simp add: db_update_access_def write_query_quiet)

lemmas db_quiet_simps =
  read_query_quiet read_query_err_quiet write_query_quiet db_get_file_quiet
  db_get_file_by_hash_quiet db_update_access_quiet

section \<open>Integrity\<close>

lemma keeps_read_query [keeps_intros]: "keeps (on_db I) (read_query f)"
  unfolding read_query_def by (rule keeps_query_db) auto

lemma keeps_read_query_fs [keeps_intros]: "keeps (on_fs I) (read_query f)"
  unfolding read_query_def by (rule keeps_query_fs)

lemma keeps_read_query_err [keeps_intros]: "keeps (on_db I) (read_query_err f)"
  unfolding read_query_err_def by (rule keeps_query_db) auto

lemma keeps_read_query_err_fs [keeps_intros]: "keeps (on_fs I) (read_query_err f)"
  unfolding read_query_err_def by (rule keeps_query_fs)

lemma keeps_write_query: "(\<And>now d. I d \<Longrightarrow> I (f now d)) \<Longrightarrow> keeps (on_db I) (write_query f)"
  unfolding write_query_def by (rule keeps_query_db) auto

lemma keeps_write_query_fs [keeps_intros]: "keeps (on_fs I) (write_query f)"
  unfolding write_query_def by (rule keeps_query_fs)

lemma keeps_db_wf_delete_bucket_files: "db_wf d \<Longrightarrow> db_wf (snd (sql_delete_bucket_files b d))"
  by (simp add: sql_delete_bucket_files_def db_wf_filter_rows)

lemma keeps_db_save_file [keeps_intros]: "keeps (on_db db_wf) (db_save_file f)"
  unfolding db_save_file_def by (rule keeps_query_db) (auto intro: db_wf_intros)

lemma keeps_db_update_access [keeps_intros]: "keeps (on_db db_wf) (db_update_access i)"
  unfolding db_update_access_def by (rule keeps_write_query) (rule db_wf_intros)

lemma keeps_db_delete_file [keeps_intros]: "keeps (on_db db_wf) (db_delete_file b k)"
  unfolding db_delete_file_def
  by (intro keeps_intros keeps_query_db) (auto dest: db_wf_delete_file [of _ b k])

lemma keeps_db_delete_bucket [keeps_intros]: "keeps (on_db db_wf) (db_delete_bucket b)"
  unfolding db_delete_bucket_def
  by (intro keeps_intros keeps_query_db) (auto dest: keeps_db_wf_delete_bucket_files [of _ b])

lemma keeps_db_reads [keeps_intros]:
  "keeps (on_db I) (db_get_file b k)"
  "keeps (on_db I) db_list_expired_files"
  "keeps (on_db I) (db_get_file_by_hash h)"
  "keeps (on_db I) (db_list_files b p l off)"
  "keeps (on_db I) (db_search_files fc b q l)"
  "keeps (on_db I) (db_get_bucket_stats b)"
  "keeps (on_db I) db_get_total_stats"
  "keeps (on_db I) db_list_buckets"
  "keeps (on_db I) db_list_buckets_with_created_at"
  "keeps (on_db I) (db_bucket_exists b)"
  "keeps (on_db I) (db_get_popular_files l)"
  by (auto simp: db_get_file_def db_list_expired_files_def db_get_file_by_hash_def
      db_list_files_def db_search_files_def db_get_bucket_stats_def db_get_total_stats_def
      db_list_buckets_def db_list_buckets_with_created_at_def db_bucket_exists_def
      db_get_popular_files_def intro!: keeps_intros)

lemma keeps_db_fs [keeps_intros]:
  "keeps (on_fs I) (db_save_file f)"
  "keeps (on_fs I) (db_get_file b k)"
  "keeps (on_fs I) db_list_expired_files"
  "keeps (on_fs I) (db_get_file_by_hash h)"
  "keeps (on_fs I) (db_update_access i)"
  "keeps (on_fs I) (db_list_files b p l off)"
  by (auto simp: db_save_file_def db_get_file_def db_list_expired_files_def
      db_get_file_by_hash_def db_update_access_def db_list_files_def intro!: keeps_intros)

end
