(* ===== verification/Config.thy ===== *)
theory Config
  imports Prelude
begin

text \<open>
  \<^verbatim>\<open>src/local-storage/src/config.rs\<close>: the configuration records and \<^verbatim>\<open>Config::load\<close>. The
  process environment (after \<^verbatim>\<open>dotenvy\<close> has added the variables of a \<^verbatim>\<open>.env\<close> file) is a
  function \<open>string \<Rightarrow> string option\<close>; a value that does not parse stops the loading with an
  error that names its variable. The unsigned fields are naturals below their type's bound.
\<close>

section \<open>The records\<close>

record s3_config =
  s3c_access_key :: string
  s3c_secret_key :: string
  s3c_region :: string

datatype cache_backend_kind = MemoryKind | RedisKind

record cache_settings =
  cs_backend :: cache_backend_kind
  cs_max_size_mb :: nat
  cs_ttl_seconds :: nat

record server_config =
  svc_port :: nat
  svc_log_level :: string

record database_config =
  dbc_host :: string
  dbc_port :: nat
  dbc_database :: string
  dbc_username :: string
  dbc_password :: string
  dbc_max_connections :: nat
  dbc_url :: string

record redis_config =
  rdc_host :: string
  rdc_port :: nat
  rdc_password :: "string option"
  rdc_database :: nat
  rdc_max_connections :: nat

record storage_config =
  stc_path :: string
  stc_max_file_size :: nat
  stc_default_bucket :: string
  stc_enable_deduplication :: bool

record crypto_config =
  cry_enabled :: bool
  cry_algorithm :: string
  cry_key :: "string option"

record compression_config =
  cmp_enabled :: bool
  cmp_algorithm :: string
  cmp_level :: int
  cmp_min_size :: nat

record config =
  cf_server :: server_config
  cf_database :: database_config
  cf_redis :: redis_config
  cf_cache :: cache_settings
  cf_storage :: storage_config
  cf_crypto :: crypto_config
  cf_compression :: compression_config
  cf_s3 :: "s3_config option"
  cf_download_protection_token :: "string option"
  cf_protected_read_buckets :: "string list option"

section \<open>Loading\<close>

type_synonym env_vars = "string \<Rightarrow> string option"

datatype config_error = Invalid_variable string

definition var_or :: "env_vars \<Rightarrow> string \<Rightarrow> string \<Rightarrow> string" where
  "var_or env name dflt = unwrap_or (env name) dflt"

definition parse_var ::
  "(string \<Rightarrow> 'a option) \<Rightarrow> env_vars \<Rightarrow> string \<Rightarrow> string \<Rightarrow> config_error + 'a" where
  "parse_var parse env name dflt = ok_or (parse (var_or env name dflt)) (Invalid_variable name)"

abbreviation parse_u8n :: "string \<Rightarrow> nat option" where "parse_u8n \<equiv> parse_unsigned (2 ^ 8)"
abbreviation parse_u16n :: "string \<Rightarrow> nat option" where "parse_u16n \<equiv> parse_unsigned (2 ^ 16)"
abbreviation parse_u32n :: "string \<Rightarrow> nat option" where "parse_u32n \<equiv> parse_unsigned (2 ^ 32)"
abbreviation parse_u64n :: "string \<Rightarrow> nat option" where "parse_u64n \<equiv> parse_unsigned (2 ^ 64)"

definition database_config_new :: "env_vars \<Rightarrow> config_error + database_config" where
  "database_config_new env =
     (let host = var_or env ''POSTGRES_HOST'' ''localhost'' in
      and_then (parse_var parse_u16n env ''POSTGRES_PORT'' ''5432'') (\<lambda>port.
      let database = var_or env ''POSTGRES_DB'' ''local_storage'';
          username = var_or env ''POSTGRES_USER'' ''postgres'';
          password = var_or env ''POSTGRES_PASSWORD'' ''postgres123'' in
      and_then (parse_var parse_u32n env ''DB_MAX_CONNECTIONS'' ''10'') (\<lambda>max_connections.
      Inr \<lparr>dbc_host = host, dbc_port = port, dbc_database = database, dbc_username = username,
           dbc_password = password, dbc_max_connections = max_connections,
           dbc_url = ''postgres://'' @ username @ '':'' @ password @ ''@'' @ host @ '':''
             @ show_nat port @ ''/'' @ database\<rparr>)))"

definition cache_backend_of :: "env_vars \<Rightarrow> cache_backend_kind" where
  "cache_backend_of env =
     (if env ''CACHE_BACKEND'' = Some ''redis'' then RedisKind
      else if env ''CACHE_BACKEND'' = Some ''memory'' then MemoryKind
      else if env ''ENABLE_REDIS'' = Some ''true'' then RedisKind
      else MemoryKind)"

definition s3_config_of :: "env_vars \<Rightarrow> s3_config option" where
  "s3_config_of env =
     (case (env ''S3_ACCESS_KEY'', env ''S3_SECRET_KEY'') of
        (Some access_key, Some secret_key) \<Rightarrow>
          if access_key \<noteq> [] \<and> secret_key \<noteq> [] then
            Some \<lparr>s3c_access_key = access_key, s3c_secret_key = secret_key,
                  s3c_region = var_or env ''S3_REGION'' ''us-east-1''\<rparr>
          else None
      | _ \<Rightarrow> None)"

definition download_protection_token_of :: "env_vars \<Rightarrow> string option" where
  "download_protection_token_of env =
     (case env ''WRITE_PROTECTION_TOKEN'' of
        Some v \<Rightarrow> if v \<noteq> [] then Some v else None
      | None \<Rightarrow> None)"

definition protected_read_buckets_of :: "env_vars \<Rightarrow> string list option" where
  "protected_read_buckets_of env =
     (case env ''PROTECTED_READ_BUCKETS'' of
        None \<Rightarrow> None
      | Some raw \<Rightarrow>
          (let names = filter (\<lambda>s. s \<noteq> []) (map trim_str (split_on (CHR '','') raw))
           in if names \<noteq> [] then Some names else None))"

definition config_load :: "env_vars \<Rightarrow> config_error + config" where
  "config_load env =
     and_then (parse_var parse_u16n env ''PORT'' ''8080'') (\<lambda>port.
     let log_level = var_or env ''LOG_LEVEL'' ''INFO'' in
     and_then (database_config_new env) (\<lambda>database.
     let redis_host = var_or env ''REDIS_HOST'' ''redis'' in
     and_then (parse_var parse_u16n env ''REDIS_PORT'' ''6379'') (\<lambda>redis_port.
     and_then (parse_var parse_u8n env ''REDIS_DB'' ''0'') (\<lambda>redis_db.
     and_then (parse_var parse_u32n env ''REDIS_MAX_CONNECTIONS'' ''10'') (\<lambda>redis_max.
     and_then (parse_var parse_u64n env ''CACHE_MAX_SIZE_MB'' ''256'') (\<lambda>max_size_mb.
     and_then (ok_or (parse_u64n
         (case env ''CACHE_TTL_SECONDS'' of
            Some v \<Rightarrow> v | None \<Rightarrow> var_or env ''REDIS_TTL_SECONDS'' ''3600''))
         (Invalid_variable ''CACHE_TTL_SECONDS'')) (\<lambda>ttl_seconds.
     let path = var_or env ''STORAGE_PATH'' ''/storage'' in
     and_then (parse_var parse_u64n env ''MAX_FILE_SIZE'' ''1073741824'') (\<lambda>max_file_size.
     let default_bucket = var_or env ''DEFAULT_BUCKET'' ''default'' in
     and_then (parse_var parse_bool env ''ENABLE_DEDUPLICATION'' ''true'') (\<lambda>dedup.
     and_then (parse_var parse_bool env ''ENABLE_ENCRYPTION'' ''false'') (\<lambda>crypto_enabled.
     let crypto_algorithm = var_or env ''CRYPTO_ALGORITHM'' ''aes-gcm'' in
     and_then (parse_var parse_bool env ''ENABLE_COMPRESSION'' ''false'') (\<lambda>compression_enabled.
     let compression_algorithm = var_or env ''COMPRESSION_ALGORITHM'' ''zstd'' in
     and_then (parse_var parse_i32 env ''COMPRESSION_LEVEL'' ''3'') (\<lambda>level.
     and_then (parse_var parse_u64n env ''COMPRESSION_MIN_SIZE'' ''1024'') (\<lambda>min_size.
     Inr \<lparr>cf_server = \<lparr>svc_port = port, svc_log_level = log_level\<rparr>,
          cf_database = database,
          cf_redis = \<lparr>rdc_host = redis_host, rdc_port = redis_port,
             rdc_password = env ''REDIS_PASSWORD'', rdc_database = redis_db,
             rdc_max_connections = redis_max\<rparr>,
          cf_cache = \<lparr>cs_backend = cache_backend_of env, cs_max_size_mb = max_size_mb,
             cs_ttl_seconds = ttl_seconds\<rparr>,
          cf_storage = \<lparr>stc_path = path, stc_max_file_size = max_file_size,
             stc_default_bucket = default_bucket, stc_enable_deduplication = dedup\<rparr>,
          cf_crypto = \<lparr>cry_enabled = crypto_enabled, cry_algorithm = crypto_algorithm,
             cry_key = env ''CRYPTO_KEY''\<rparr>,
          cf_compression = \<lparr>cmp_enabled = compression_enabled,
             cmp_algorithm = compression_algorithm, cmp_level = level, cmp_min_size = min_size\<rparr>,
          cf_s3 = s3_config_of env,
          cf_download_protection_token = download_protection_token_of env,
          cf_protected_read_buckets = protected_read_buckets_of env\<rparr>)))))))))))))"

definition redis_url :: "config \<Rightarrow> string" where
  "redis_url c =
     (case rdc_password (cf_redis c) of
        Some password \<Rightarrow> ''redis://:'' @ password @ ''@'' @ rdc_host (cf_redis c) @ '':''
          @ show_nat (rdc_port (cf_redis c)) @ ''/'' @ show_nat (rdc_database (cf_redis c))
      | None \<Rightarrow> ''redis://'' @ rdc_host (cf_redis c) @ '':''
          @ show_nat (rdc_port (cf_redis c)) @ ''/'' @ show_nat (rdc_database (cf_redis c)))"

definition database_url :: "config \<Rightarrow> string" where
  "database_url c = dbc_url (cf_database c)"

section \<open>What a loaded configuration satisfies\<close>

lemma parse_unsigned_bound: "parse_unsigned b s = Some n \<Longrightarrow> n < b"
  by (auto simp: parse_unsigned_def split: option.splits if_splits)

lemma parse_signed_range:
  "parse_signed h s = Some i \<Longrightarrow> 0 < h \<Longrightarrow> - int h \<le> i \<and> i < int h"
  by (auto simp: parse_signed_def split: option.splits if_splits list.splits)

lemma parse_var_unsigned: "parse_var (parse_unsigned b) env v d = Inr n \<Longrightarrow> n < b"
  by (auto simp: parse_var_def dest: parse_unsigned_bound)

lemma database_config_new_url:
  "database_config_new env = Inr d \<Longrightarrow>
     dbc_port d < 2 ^ 16 \<and> dbc_max_connections d < 2 ^ 32 \<and>
     dbc_url d = ''postgres://'' @ dbc_username d @ '':'' @ dbc_password d @ ''@'' @ dbc_host d
       @ '':'' @ show_nat (dbc_port d) @ ''/'' @ dbc_database d"
  by (auto simp: database_config_new_def Let_def dest!: parse_var_unsigned)

lemma s3_config_of_nonempty:
  "s3_config_of env = Some c \<Longrightarrow> s3c_access_key c \<noteq> [] \<and> s3c_secret_key c \<noteq> []"
  by (auto simp: s3_config_of_def split: option.splits if_splits)

lemma download_protection_token_nonempty:
  "download_protection_token_of env = Some t \<Longrightarrow> t \<noteq> []"
  by (auto simp: download_protection_token_of_def split: option.splits if_splits)

lemma set_trim_start: "set (trim_start s) \<subseteq> set s"
  by (induction s rule: trim_start.induct) auto

lemma set_trim_end_rev: "set (trim_end_rev s) \<subseteq> set s"
  by (induction s rule: trim_end_rev.induct) auto

lemma set_trim_str: "set (trim_str s) \<subseteq> set s"
  using set_trim_start [of s] set_trim_end_rev [of "rev (trim_start s)"]
  by (auto simp: trim_str_def)

lemma protected_read_buckets_wf:
  "protected_read_buckets_of env = Some names \<Longrightarrow>
     names \<noteq> [] \<and> (\<forall>n \<in> set names. n \<noteq> [] \<and> CHR '','' \<notin> set n)"
  using set_trim_str split_on_no_sep
  by (fastforce simp: protected_read_buckets_of_def Let_def split: option.splits if_splits)

definition config_wf :: "config \<Rightarrow> bool" where
  "config_wf c \<longleftrightarrow>
     svc_port (cf_server c) < 2 ^ 16 \<and>
     dbc_port (cf_database c) < 2 ^ 16 \<and> dbc_max_connections (cf_database c) < 2 ^ 32 \<and>
     rdc_port (cf_redis c) < 2 ^ 16 \<and> rdc_database (cf_redis c) < 2 ^ 8 \<and>
     rdc_max_connections (cf_redis c) < 2 ^ 32 \<and>
     cs_max_size_mb (cf_cache c) < 2 ^ 64 \<and> cs_ttl_seconds (cf_cache c) < 2 ^ 64 \<and>
     stc_max_file_size (cf_storage c) < 2 ^ 64 \<and> cmp_min_size (cf_compression c) < 2 ^ 64 \<and>
     - (2 ^ 31) \<le> cmp_level (cf_compression c) \<and> cmp_level (cf_compression c) < 2 ^ 31 \<and>
     (\<forall>s3. cf_s3 c = Some s3 \<longrightarrow> s3c_access_key s3 \<noteq> [] \<and> s3c_secret_key s3 \<noteq> []) \<and>
     (\<forall>t. cf_download_protection_token c = Some t \<longrightarrow> t \<noteq> []) \<and>
     (\<forall>names. cf_protected_read_buckets c = Some names \<longrightarrow>
        names \<noteq> [] \<and> (\<forall>n \<in> set names. n \<noteq> [] \<and> CHR '','' \<notin> set n))"

lemma config_load_components:
  assumes "config_load env = Inr c"
  shows "svc_port (cf_server c) < 2 ^ 16" "rdc_port (cf_redis c) < 2 ^ 16"
    "dbc_port (cf_database c) < 2 ^ 16" "dbc_max_connections (cf_database c) < 2 ^ 32"
    "rdc_database (cf_redis c) < 2 ^ 8" "rdc_max_connections (cf_redis c) < 2 ^ 32" "cs_max_size_mb (cf_cache c) < 2 ^ 64"
    "cs_ttl_seconds (cf_cache c) < 2 ^ 64" "stc_max_file_size (cf_storage c) < 2 ^ 64"
    "cmp_min_size (cf_compression c) < 2 ^ 64"
    "- (2 ^ 31) \<le> cmp_level (cf_compression c)" "cmp_level (cf_compression c) < 2 ^ 31"
    "cf_s3 c = s3_config_of env"
    "cf_download_protection_token c = download_protection_token_of env"
    "cf_protected_read_buckets c = protected_read_buckets_of env"
  using assms
  by (auto simp: config_load_def Let_def parse_var_def
      dest: parse_unsigned_bound parse_signed_range database_config_new_url)

lemma config_load_wf: "config_load env = Inr c \<Longrightarrow> config_wf c"
  using config_load_components [of env c] s3_config_of_nonempty [of env]
    download_protection_token_nonempty [of env] protected_read_buckets_wf [of env]
  by (simp add: config_wf_def)

end
