(* ===== verification/Lossy_Cache.thy ===== *)
theory Lossy_Cache
  imports Prelude
begin

text \<open>
  The interface of a cache that may forget: what a lookup finds was put there last, and
  losing entries changes no other. A relation \<open>R\<close> says which values are right for a name; a
  cache is coherent with it when everything it still holds is right. The clients' facts say
  which steps keep a cache coherent: losing entries, refilling with a right value, and
  changing one name in cache and source together. A change of the source that the cache does
  not follow is not among them: it leaves a stale entry. Only \<open>proper\<close> names are looked at:
  two others may share an entry.
\<close>

locale lossy_cache =
  fixes peek :: "'k \<Rightarrow> 's \<Rightarrow> 'v option"
    and put :: "'k \<Rightarrow> 'v \<Rightarrow> 's \<Rightarrow> 's"
    and forget :: "'k \<Rightarrow> 's \<Rightarrow> 's"
    and lose :: "'l \<Rightarrow> 's \<Rightarrow> 's"
    and proper :: "'k \<Rightarrow> bool"
  assumes peek_put: "proper k \<Longrightarrow> peek k (put k v s) = Some v"
    and peek_put_other: "proper k \<Longrightarrow> proper k' \<Longrightarrow> k' \<noteq> k \<Longrightarrow> peek k' (put k v s) = peek k' s"
    and peek_forget: "proper k \<Longrightarrow> peek k (forget k s) = None"
    and peek_forget_other:
      "proper k \<Longrightarrow> proper k' \<Longrightarrow> k' \<noteq> k \<Longrightarrow> peek k' (forget k s) = peek k' s"
    and peek_lose: "proper k \<Longrightarrow> peek k (lose l s) = Some v \<Longrightarrow> peek k s = Some v"
begin

definition coherent :: "('k \<Rightarrow> 'v \<Rightarrow> bool) \<Rightarrow> 's \<Rightarrow> bool" where
  "coherent R s \<longleftrightarrow> (\<forall>k v. proper k \<longrightarrow> peek k s = Some v \<longrightarrow> R k v)"

lemma coherentD: "coherent R s \<Longrightarrow> proper k \<Longrightarrow> peek k s = Some v \<Longrightarrow> R k v"
  by (simp add: coherent_def)

lemma coherent_mono: "coherent R s \<Longrightarrow> (\<And>k v. R k v \<Longrightarrow> R' k v) \<Longrightarrow> coherent R' s"
  by (auto simp: coherent_def)

lemma coherent_lose: "coherent R s \<Longrightarrow> coherent R (lose l s)"
  by (auto simp: coherent_def dest: peek_lose)

lemma coherent_put:
  assumes "coherent R s" "proper k" "R' k v" "\<And>k' v'. k' \<noteq> k \<Longrightarrow> R k' v' \<Longrightarrow> R' k' v'"
  shows "coherent R' (put k v s)"
  unfolding coherent_def
proof (intro allI impI)
  fix k' v'
  assume "proper k'" "peek k' (put k v s) = Some v'"
  then show "R' k' v'"
    using assms peek_put [OF assms(2), of v s] peek_put_other [OF assms(2) \<open>proper k'\<close>, of v s]
    by (cases "k' = k") (auto dest: coherentD)
qed

lemma coherent_refill: "coherent R s \<Longrightarrow> proper k \<Longrightarrow> R k v \<Longrightarrow> coherent R (put k v s)"
  by (rule coherent_put)

lemma coherent_forget:
  assumes "coherent R s" "proper k" "\<And>k' v'. k' \<noteq> k \<Longrightarrow> R k' v' \<Longrightarrow> R' k' v'"
  shows "coherent R' (forget k s)"
  unfolding coherent_def
proof (intro allI impI)
  fix k' v'
  assume "proper k'" "peek k' (forget k s) = Some v'"
  then show "R' k' v'"
    using assms peek_forget [OF assms(2), of s] peek_forget_other [OF assms(2) \<open>proper k'\<close>, of s]
    by (cases "k' = k") (auto dest: coherentD)
qed

lemma stale_entry: "proper k \<Longrightarrow> peek k s = Some v \<Longrightarrow> \<not> R k v \<Longrightarrow> \<not> coherent R s"
  by (auto simp: coherent_def)

end

end
