(* ===== verification/Cache.thy ===== *)
theory Cache
  imports Performance_Optimizations Database_Manager Config Lossy_Cache
begin

text \<open>
  \<^verbatim>\<open>src/local-storage/src/cache.rs\<close> (\<^verbatim>\<open>CacheManager\<close>): the cache of metadata and small
  contents, in the process (the \<^verbatim>\<open>moka\<close> crate) or in Redis, and the pre-caching of popular
  files. Both backends are a map from strings to bytes that may drop an entry at any time:
  the environment says which entries are gone before each call, whether by their time to
  live, by the size bound or by the server. Only Redis calls can fail, and a call that fails
  changes nothing. The JSON text of a file row is a parameter (\<^verbatim>\<open>serde_json\<close>).
\<close>

section \<open>Backends\<close>

record memory_cache =
  mc_max_capacity :: u64
  mc_time_to_live :: nat

datatype backend = Memory memory_cache | Redis_Client string

record json_lib =
  json_to_vec :: "stored_file \<Rightarrow> string + bytes"
  json_from_slice :: "bytes \<Rightarrow> string + stored_file"

text \<open>A row is written as JSON without an error and reads back as it was.\<close>

definition json_reads_back :: "json_lib \<Rightarrow> stored_file \<Rightarrow> bool" where
  "json_reads_back lib f \<longleftrightarrow>
     (case json_to_vec lib f of Inl _ \<Rightarrow> False | Inr v \<Rightarrow> json_from_slice lib v = Inr f)"

record cache_manager =
  ca_config :: config
  ca_backend :: backend

definition build_memory_cache :: "config \<Rightarrow> memory_cache" where
  "build_memory_cache cfg =
     \<lparr>mc_max_capacity = of_nat (cs_max_size_mb (cf_cache cfg)) * 1024 * 1024,
      mc_time_to_live = cs_ttl_seconds (cf_cache cfg)\<rparr>"

text \<open>The weigher: the length of a value as a \<^verbatim>\<open>u32\<close>, its largest value when it does not fit.\<close>

definition memory_cache_weight :: "string \<Rightarrow> bytes \<Rightarrow> nat" where
  "memory_cache_weight key content = min (length content) (2 ^ 32 - 1)"

definition cache_new :: "(string \<Rightarrow> bool) \<Rightarrow> config \<Rightarrow> cache_manager" where
  "cache_new redis_open cfg =
     \<lparr>ca_config = cfg,
      ca_backend =
        (case cs_backend (cf_cache cfg) of
           RedisKind \<Rightarrow>
             if redis_open (redis_url cfg) then Redis_Client (redis_url cfg)
             else Memory (build_memory_cache cfg)
         | MemoryKind \<Rightarrow> Memory (build_memory_cache cfg))\<rparr>"

definition cache_is_enabled :: "cache_manager \<Rightarrow> bool" where
  "cache_is_enabled m = True"

section \<open>The primitives\<close>

type_synonym entries = "string \<Rightarrow> bytes option"

definition evict :: "(string \<Rightarrow> bool) \<Rightarrow> entries \<Rightarrow> entries" where
  "evict dropped c = (\<lambda>k. if dropped k then None else c k)"

definition backend_call ::
  "cache_manager \<Rightarrow> (string \<Rightarrow> storage_error) \<Rightarrow> (entries \<Rightarrow> 'a \<times> entries) \<Rightarrow>
     (storage_error, 'a) op" where
  "backend_call m on_error f w =
     (let n = w_tick w;
          c = evict (env_evicts (w_env w) n) (w_cache w);
          w' = (tick w)\<lparr>w_cache := c\<rparr>;
          answer = (Inr (fst (f c)), w'\<lparr>w_cache := snd (f c)\<rparr>)
      in case ca_backend m of
           Memory _ \<Rightarrow> answer
         | Redis_Client _ \<Rightarrow>
             (case env_redis_fault (w_env w) n of
                Some msg \<Rightarrow> (Inl (on_error msg), w')
              | None \<Rightarrow> answer))"

definition backend_get :: "cache_manager \<Rightarrow> string \<Rightarrow> (storage_error, bytes option) op" where
  "backend_get m key = backend_call m Redis (\<lambda>c. (c key, c))"

definition backend_set :: "cache_manager \<Rightarrow> string \<Rightarrow> bytes \<Rightarrow> (storage_error, unit) op" where
  "backend_set m key content = backend_call m Redis (\<lambda>c. ((), c(key \<mapsto> content)))"

definition backend_del :: "cache_manager \<Rightarrow> string list \<Rightarrow> (storage_error, unit) op" where
  "backend_del m keys = backend_call m Redis (\<lambda>c. ((), \<lambda>k. if k \<in> set keys then None else c k))"

section \<open>The read-through cache\<close>

definition metadata_key :: "string \<Rightarrow> string \<Rightarrow> string" where
  "metadata_key bucket key = ''file:'' @ bucket @ '':'' @ key"

definition content_key :: "string \<Rightarrow> string \<Rightarrow> string" where
  "content_key bucket key = ''content:'' @ bucket @ '':'' @ key"

definition get_file_metadata ::
  "json_lib \<Rightarrow> cache_manager \<Rightarrow> string \<Rightarrow> string \<Rightarrow> (storage_error, stored_file option) op" where
  "get_file_metadata lib m bucket key =
     bind_op (backend_get m (metadata_key bucket key)) (\<lambda>value.
     case value of
       Some b \<Rightarrow>
         (case json_from_slice lib b of
            Inr file \<Rightarrow> ret (Some file)
          | Inl _ \<Rightarrow>
              bind_op (ignore (backend_del m [metadata_key bucket key])) (\<lambda>_. ret None))
     | None \<Rightarrow> ret None)"

definition set_file_metadata ::
  "json_lib \<Rightarrow> cache_manager \<Rightarrow> string \<Rightarrow> string \<Rightarrow> stored_file \<Rightarrow> (storage_error, unit) op" where
  "set_file_metadata lib m bucket key file =
     bind_op (lift_result (map_err Json (json_to_vec lib file))) (\<lambda>serialized.
     backend_set m (metadata_key bucket key) serialized)"

definition get_file_content ::
  "cache_manager \<Rightarrow> string \<Rightarrow> string \<Rightarrow> (storage_error, bytes option) op" where
  "get_file_content m bucket key = backend_get m (content_key bucket key)"

definition max_cached_content :: nat where
  "max_cached_content = 1024 * 1024"

definition set_file_content ::
  "cache_manager \<Rightarrow> string \<Rightarrow> string \<Rightarrow> bytes \<Rightarrow> (storage_error, unit) op" where
  "set_file_content m bucket key content =
     (if max_cached_content < length content then ret ()
      else backend_set m (content_key bucket key) content)"

definition invalidate_file :: "cache_manager \<Rightarrow> string \<Rightarrow> string \<Rightarrow> (storage_error, unit) op" where
  "invalidate_file m bucket key = backend_del m [metadata_key bucket key, content_key bucket key]"

definition cache_health_check :: "cache_manager \<Rightarrow> ('e, bool) op" where
  "cache_health_check m =
     (case ca_backend m of
        Memory _ \<Rightarrow> ret True
      | Redis_Client _ \<Rightarrow> external (\<lambda>e n. env_redis_fault e n = None))"

definition cache_get ::
  "(bytes \<Rightarrow> string + 'a) \<Rightarrow> cache_manager \<Rightarrow> string \<Rightarrow> (storage_error, 'a option) op" where
  "cache_get from_slice m key =
     bind_op (backend_get m key) (\<lambda>value.
     case value of
       Some b \<Rightarrow> bind_op (lift_result (map_err Json (from_slice b))) (\<lambda>x. ret (Some x))
     | None \<Rightarrow> ret None)"

definition cache_set ::
  "('a \<Rightarrow> string + bytes) \<Rightarrow> cache_manager \<Rightarrow> string \<Rightarrow> 'a \<Rightarrow> (storage_error, unit) op" where
  "cache_set to_vec m key x =
     bind_op (lift_result (map_err Json (to_vec x))) (backend_set m key)"

section \<open>Pre-caching popular files\<close>

definition get_cache_config :: "(storage_error, cache_config) op" where
  "get_cache_config =
     bind_op (read_query (\<lambda>now c. db_cache_config)) (\<lambda>row.
     lift_result (ok_or row
       (Database ''no rows returned by a query that expected to return at least one row'')))"

definition update_cache_status ::
  "uuid \<Rightarrow> string \<Rightarrow> int option \<Rightarrow> (storage_error, unit) op" where
  "update_cache_status file_id status cache_hits =
     write_query (\<lambda>now. sql_update_cache_status now file_id status cache_hits)"

text \<open>Most important first: an unset priority sorts first in a descending order, an unset last
  access last.\<close>

definition preload_order :: "stored_file \<Rightarrow> (int \<times> int) \<times> int \<times> int \<times> int" where
  "preload_order f =
     ((case sf_cache_priority f of None \<Rightarrow> (0, 0) | Some p \<Rightarrow> (1, - p)),
      - sf_access_count f,
      (case sf_last_accessed f of Some t \<Rightarrow> (0, - t) | None \<Rightarrow> (1, 0)))"

definition sql_popular_uncached :: "int \<Rightarrow> int \<Rightarrow> db \<Rightarrow> pg_error + stored_file list" where
  "sql_popular_uncached min_access_count lmt d =
     limit_offset lmt 0 (sort_key preload_order
       (filter (\<lambda>f. min_access_count \<le> sf_access_count f \<and>
                  (case sf_cache_status f of None \<Rightarrow> False | Some s \<Rightarrow> s \<noteq> ''cached'') \<and>
                  sf_file_size f \<le> 10485760)
         (db_files d)))"

definition get_popular_uncached_files :: "int \<Rightarrow> int \<Rightarrow> (storage_error, stored_file list) op" where
  "get_popular_uncached_files min_access_count lmt =
     read_query_err (sql_popular_uncached min_access_count lmt)"

definition cache_file_from_disk :: "cache_manager \<Rightarrow> stored_file \<Rightarrow> (storage_error, nat) op" where
  "cache_file_from_disk m file =
     bind_op (path_exists (sf_file_path file)) (\<lambda>there.
     if \<not> there then throw (NotFound (sf_bucket file) (sf_key file))
     else
       bind_op (map_err_op from_io_error (read_file (sf_file_path file))) (\<lambda>content.
       bind_op (set_file_content m (sf_bucket file) (sf_key file) content) (\<lambda>_.
       ret (length content))))"

fun preload_loop ::
  "cache_manager \<Rightarrow> nat \<Rightarrow> nat \<Rightarrow> stored_file list \<Rightarrow> (storage_error, unit) op" where
  "preload_loop m max_size current [] = ret ()"
| "preload_loop m max_size current (file # files) =
     (if max_size \<le> current then ret ()
      else
        try_op (cache_file_from_disk m file) (\<lambda>r.
        case r of
          Inr cached_size \<Rightarrow>
            bind_op (update_cache_status (sf_id file) ''cached'' None) (\<lambda>_.
            preload_loop m max_size (current + cached_size) files)
        | Inl _ \<Rightarrow>
            bind_op (update_cache_status (sf_id file) ''not_cached'' None) (\<lambda>_.
            preload_loop m max_size current files)))"

text \<open>\<^verbatim>\<open>as u64\<close> on a float: the integral part, kept within the type.\<close>

definition rat_as_u64 :: "rat \<Rightarrow> nat" where
  "rat_as_u64 q = min (nat \<lfloor>q\<rfloor>) (2 ^ 64 - 1)"

definition preload_popular_files :: "cache_manager \<Rightarrow> (storage_error, unit) op" where
  "preload_popular_files m =
     bind_op get_cache_config (\<lambda>cfg.
     if \<not> unwrap_or (cc_preload_enabled cfg) False then ret ()
     else
       (let max_size = rat_as_u64 (unwrap_or (cc_max_cache_size_gb cfg) 1 * 1024 * 1024 * 1024);
            min_access_count = unwrap_or (cc_min_access_count cfg) 5
        in bind_op (get_popular_uncached_files min_access_count 1000)
             (preload_loop m max_size 0)))"

definition clear_cache :: "cache_manager \<Rightarrow> (storage_error, unit) op" where
  "clear_cache m =
     bind_op
       (case ca_backend m of
          Memory _ \<Rightarrow> backend_call m Redis (\<lambda>c. ((), Map.empty))
        | Redis_Client _ \<Rightarrow>
            backend_call m (\<lambda>e. Cache (''Failed to clear cache: '' @ e)) (\<lambda>c. ((), Map.empty))) (\<lambda>_.
     write_query sql_clear_cache_status)"

record cache_stats =
  cst_total_keys :: nat
  cst_max_size_gb :: rat
  cst_ttl_seconds :: u64
  cst_preload_enabled :: bool
  cst_backend :: string

text \<open>The backends count their entries themselves, and only roughly: the count is an answer of
  the environment.\<close>

definition get_cache_stats :: "cache_manager \<Rightarrow> (storage_error, cache_stats) op" where
  "get_cache_stats m =
     bind_op get_cache_config (\<lambda>cfg.
     bind_op
       (external (\<lambda>e n. case ca_backend m of
          Memory _ \<Rightarrow> (env_choice e n, ''memory'')
        | Redis_Client _ \<Rightarrow>
            (if env_redis_fault e n = None then env_choice e n else 0, ''redis''))) (\<lambda>(count, name).
     ret \<lparr>cst_total_keys = count,
          cst_max_size_gb = unwrap_or (cc_max_cache_size_gb cfg) 1,
          cst_ttl_seconds = of_int (unwrap_or (cc_cache_ttl_seconds cfg) 3600),
          cst_preload_enabled = unwrap_or (cc_preload_enabled cfg) False,
          cst_backend = name\<rparr>))"

section \<open>Names of entries\<close>

text \<open>A bucket name without a colon makes the names of entries unambiguous; with one, two
  objects can share an entry.\<close>

definition no_colon :: "string \<Rightarrow> bool" where
  "no_colon b \<longleftrightarrow> CHR '':'' \<notin> set b"

lemma append_sep_inj:
  "d \<notin> set a \<Longrightarrow> d \<notin> set b \<Longrightarrow> a @ d # x = b @ d # y \<longleftrightarrow> a = b \<and> x = y"
proof (induction a arbitrary: b)
  case Nil
  then show ?case by (cases b) auto
next
  case (Cons c a)
  then show ?case by (cases b) auto
qed

lemma metadata_key_inj:
  "no_colon b \<Longrightarrow> no_colon b' \<Longrightarrow> metadata_key b k = metadata_key b' k' \<longleftrightarrow> b = b' \<and> k = k'"
  by (simp add: metadata_key_def no_colon_def append_sep_inj)

lemma content_key_inj:
  "no_colon b \<Longrightarrow> no_colon b' \<Longrightarrow> content_key b k = content_key b' k' \<longleftrightarrow> b = b' \<and> k = k'"
  by (simp add: content_key_def no_colon_def append_sep_inj)

lemma metadata_key_not_content_key [simp]:
  "metadata_key b k \<noteq> content_key b' k'" "content_key b k \<noteq> metadata_key b' k'"
  by (simp_all add: metadata_key_def content_key_def)

interpretation contents: lossy_cache
  "\<lambda>(b, k) (c :: entries). c (content_key b k)"
  "\<lambda>(b, k) v (c :: entries). c(content_key b k \<mapsto> v)"
  "\<lambda>(b, k) (c :: entries). (\<lambda>n. if n \<in> {metadata_key b k, content_key b k} then None else c n)"
  evict "\<lambda>(b, k). no_colon b"
  by unfold_locales (auto simp: content_key_inj evict_def split: if_splits)

interpretation metadata: lossy_cache
  "\<lambda>(b, k) (c :: entries). c (metadata_key b k)"
  "\<lambda>(b, k) v (c :: entries). c(metadata_key b k \<mapsto> v)"
  "\<lambda>(b, k) (c :: entries). (\<lambda>n. if n \<in> {metadata_key b k, content_key b k} then None else c n)"
  evict "\<lambda>(b, k). no_colon b"
  by unfold_locales (auto simp: metadata_key_inj evict_def split: if_splits)

section \<open>Effects\<close>

lemma backend_call_state:
  "backend_call m g f w = (r, w') \<Longrightarrow>
     w_env w' = w_env w \<and> w_tick w' = Suc (w_tick w) \<and> w_db w' = w_db w \<and> w_fs w' = w_fs w"
  by (auto simp: backend_call_def Let_def split: backend.splits option.splits)

lemma keeps_backend_call_db [keeps_intros]: "keeps (on_db I) (backend_call m g f)"
  unfolding keeps_def on_db_def by (metis backend_call_state prod.collapse)

lemma keeps_backend_call_fs [keeps_intros]: "keeps (on_fs I) (backend_call m g f)"
  unfolding keeps_def on_fs_def by (metis backend_call_state prod.collapse)

lemma keeps_cache_db [keeps_intros]:
  "keeps (on_db I) (get_file_metadata lib m b k)"
  "keeps (on_db I) (set_file_metadata lib m b k f)"
  "keeps (on_db I) (get_file_content m b k)"
  "keeps (on_db I) (set_file_content m b k c)"
  "keeps (on_db I) (invalidate_file m b k)"
  "keeps (on_db I) (cache_health_check m)"
  "keeps (on_db I) get_cache_config"
  by (auto simp: get_file_metadata_def set_file_metadata_def get_file_content_def
      set_file_content_def invalidate_file_def backend_get_def backend_set_def backend_del_def
      cache_health_check_def get_cache_config_def
      intro!: keeps_intros split: backend.split)

lemma keeps_cache_fs [keeps_intros]:
  "keeps (on_fs I) (get_file_metadata lib m b k)"
  "keeps (on_fs I) (set_file_metadata lib m b k f)"
  "keeps (on_fs I) (get_file_content m b k)"
  "keeps (on_fs I) (set_file_content m b k c)"
  "keeps (on_fs I) (invalidate_file m b k)"
  "keeps (on_fs I) (cache_health_check m)"
  "keeps (on_fs I) get_cache_config"
  "keeps (on_fs I) (update_cache_status i s h)"
  "keeps (on_fs I) (get_popular_uncached_files mn l)"
  by (auto simp: get_file_metadata_def set_file_metadata_def get_file_content_def
      set_file_content_def invalidate_file_def backend_get_def backend_set_def backend_del_def
      cache_health_check_def get_cache_config_def update_cache_status_def
      get_popular_uncached_files_def
      intro!: keeps_intros split: backend.split)

lemma keeps_update_cache_status [keeps_intros]:
  "keeps (on_db db_wf) (update_cache_status i s h)"
  unfolding update_cache_status_def by (rule keeps_write_query) (rule db_wf_intros)

lemma keeps_cache_file_from_disk [keeps_intros]:
  "keeps (on_db I) (cache_file_from_disk m f)" "keeps (on_fs J) (cache_file_from_disk m f)"
  unfolding cache_file_from_disk_def by (intro keeps_intros)+

lemma keeps_preload_loop [keeps_intros]:
  "keeps (on_db db_wf) (preload_loop m mx cur fs)" "keeps (on_fs I) (preload_loop m mx cur fs)"
  by (induction fs arbitrary: cur) (auto intro!: keeps_intros)

lemma keeps_preload [keeps_intros]:
  "keeps (on_db db_wf) (preload_popular_files m)" "keeps (on_fs I) (preload_popular_files m)"
  by (auto simp: preload_popular_files_def Let_def get_popular_uncached_files_def
      intro!: keeps_intros)

lemma keeps_clear_cache [keeps_intros]: "keeps (on_db db_wf) (clear_cache m)"
  by (auto simp: clear_cache_def intro!: keeps_intros keeps_write_query db_wf_intros
      split: backend.split)

section \<open>Effects in a quiet environment\<close>

lemma evict_quiet [simp]: "quiet e \<Longrightarrow> evict (env_evicts e n) c = c"
  by (simp add: evict_def)

lemma backend_call_quiet:
  "quiet (w_env w) \<Longrightarrow>
     backend_call m g f w = (Inr (fst (f (w_cache w))), (tick w)\<lparr>w_cache := snd (f (w_cache w))\<rparr>)"
  by (auto simp: backend_call_def Let_def split: backend.split)

lemma get_file_content_quiet:
  "quiet (w_env w) \<Longrightarrow>
     get_file_content m b k w = (Inr (w_cache w (content_key b k)), tick w)"
  by (simp add: get_file_content_def backend_get_def backend_call_quiet tick_def)

lemma set_file_content_quiet:
  "quiet (w_env w) \<Longrightarrow>
     set_file_content m b k c w =
       (if max_cached_content < length c then (Inr (), w)
        else (Inr (), (tick w)\<lparr>w_cache := (w_cache w)(content_key b k \<mapsto> c)\<rparr>))"
  by (simp add: set_file_content_def backend_set_def backend_call_quiet)

lemma set_file_metadata_quiet:
  "quiet (w_env w) \<Longrightarrow> json_to_vec lib f = Inr v \<Longrightarrow>
     set_file_metadata lib m b k f w =
       (Inr (), (tick w)\<lparr>w_cache := (w_cache w)(metadata_key b k \<mapsto> v)\<rparr>)"
  by (simp add: set_file_metadata_def backend_set_def backend_call_quiet)

lemma get_file_metadata_hit:
  "quiet (w_env w) \<Longrightarrow> w_cache w (metadata_key b k) = Some v \<Longrightarrow> json_from_slice lib v = Inr f \<Longrightarrow>
     get_file_metadata lib m b k w = (Inr (Some f), tick w)"
  by (simp add: get_file_metadata_def backend_get_def bind_op_def backend_call_quiet tick_def)

lemma get_file_metadata_miss:
  "quiet (w_env w) \<Longrightarrow> w_cache w (metadata_key b k) = None \<Longrightarrow>
     get_file_metadata lib m b k w = (Inr None, tick w)"
  by (simp add: get_file_metadata_def backend_get_def bind_op_def backend_call_quiet tick_def)

lemma invalidate_file_quiet:
  "quiet (w_env w) \<Longrightarrow>
     invalidate_file m b k w =
       (Inr (), (tick w)\<lparr>w_cache := (\<lambda>n. if n \<in> {metadata_key b k, content_key b k} then None
                                         else w_cache w n)\<rparr>)"
  by (simp add: invalidate_file_def backend_del_def backend_call_quiet)

text \<open>A file above the bound is counted and marked as cached by the pre-cache service although
  its content is never put into the cache.\<close>

lemma path_exists_quiet:
  assumes "quiet (w_env w)" "content_at (w_fs w) p = Some c"
  shows "path_exists p w = (Inr True, tick w)"
proof -
  have "at_file p fs_read (w_fs w) = Inr c"
    using assms(2) by (auto simp: content_at_def split: sum.splits)
  then have "at_file p (\<lambda>s q. Inr (is_dir s q \<or> is_file s q)) (w_fs w) = Inr True"
    by (auto simp: at_file_def at_path_def fs_read_def is_file_def split: if_splits option.splits node.splits)
  then show ?thesis
    using assms(1) by (simp add: path_exists_def try_op_def io_call_quiet tick_def)
qed

lemma read_file_content:
  "quiet (w_env w) \<Longrightarrow> content_at (w_fs w) p = Some c \<Longrightarrow> read_file p w = (Inr c, tick w)"
  by (auto simp: read_file_quiet content_at_def split: sum.splits)

lemma cache_file_from_disk_large:
  assumes "quiet (w_env w)" "content_at (w_fs w) (sf_file_path f) = Some c"
    and "max_cached_content < length c"
  shows "\<exists>w'. cache_file_from_disk m f w = (Inr (length c), w') \<and> w_cache w' = w_cache w"
  using assms
  by (simp add: cache_file_from_disk_def path_exists_quiet map_err_op_def read_file_content
      set_file_content_def)

end
