(* ===== verification/Encryption_Keys.thy ===== *)
theory Encryption_Keys
  imports Database_Manager
begin

text \<open>
  \<^verbatim>\<open>src/local-storage/src/encryption_keys.rs\<close> (\<^verbatim>\<open>EncryptionKeyManager\<close>): the managed keys
  that an upload may name. The struct holds the pool and the configuration only, so its
  methods are operations on the state. A sample of \<^verbatim>\<open>Alphanumeric\<close> is a random byte taken
  modulo the size of its alphabet; how likely each character is plays no part.
\<close>

definition create_key ::
  "string \<Rightarrow> bytes \<Rightarrow> string \<Rightarrow> string option \<Rightarrow> (storage_error, encryption_key) op" where
  "create_key key_id key_data algorithm description =
     query (\<lambda>now c. sql_create_key now key_id key_data algorithm description)"

definition get_key :: "string \<Rightarrow> (storage_error, encryption_key) op" where
  "get_key key_id =
     bind_op (read_query (\<lambda>now c. sql_get_key key_id)) (\<lambda>row.
     lift_result (ok_or row (Validation (''Unknown or inactive encryption_key_id: '' @ key_id))))"

definition list_keys :: "(storage_error, encryption_key list) op" where
  "list_keys = read_query (\<lambda>now c. sql_list_keys)"

definition deactivate_key :: "string \<Rightarrow> (storage_error, unit) op" where
  "deactivate_key key_id = write_query (\<lambda>now. sql_deactivate_key now key_id)"

definition get_file_key :: "uuid \<Rightarrow> (storage_error, encryption_key option) op" where
  "get_file_key file_id =
     bind_op (read_query (\<lambda>now c d. find (\<lambda>f. sf_id f = file_id) (db_files d))) (\<lambda>file.
     case file of
       Some f \<Rightarrow>
         (case sf_encryption_key_id f of
            Some key_id \<Rightarrow> bind_op (get_key key_id) (\<lambda>key. ret (Some key))
          | None \<Rightarrow> ret None)
     | None \<Rightarrow> throw (NotFound ''unknown'' ''unknown''))"

definition update_file_key :: "uuid \<Rightarrow> string option \<Rightarrow> (storage_error, unit) op" where
  "update_file_key file_id key_id =
     query (\<lambda>now c d. and_then (sql_update_file_key file_id key_id d) (\<lambda>d'. Inr ((), d')))"

definition get_files_with_key :: "string \<Rightarrow> (storage_error, stored_file list) op" where
  "get_files_with_key key_id = read_query (\<lambda>now c. sql_files_with_key key_id)"

definition alphanumeric :: string where
  "alphanumeric = ''ABCDEFGHIJKLMNOPQRSTUVWXYZabcdefghijklmnopqrstuvwxyz0123456789''"

definition generate_key_id :: "('e, string) op" where
  "generate_key_id =
     bind_op (random_bytes 32) (\<lambda>sample.
     ret (map (\<lambda>b. alphanumeric ! (unat b mod 62)) sample))"

definition validate_key_format :: "bytes \<Rightarrow> string \<Rightarrow> storage_error + unit" where
  "validate_key_format key_data algorithm =
     (if algorithm = ''aes-gcm'' then
        if length key_data \<noteq> 32 then Inl (Validation ''AES-GCM requires 32-byte key'') else Inr ()
      else if algorithm = ''chacha20poly1305'' then
        if length key_data \<noteq> 32 then Inl (Validation ''ChaCha20-Poly1305 requires 32-byte key'')
        else Inr ()
      else Inl (Validation (''Unsupported encryption algorithm: '' @ algorithm)))"

section \<open>Effects\<close>

lemma get_key_quiet:
  "quiet (w_env w) \<Longrightarrow>
     get_key k w =
       (ok_or (sql_get_key k (w_db w)) (Validation (''Unknown or inactive encryption_key_id: '' @ k)),
        tick w)"
  by (simp add: get_key_def read_query_quiet)

lemma get_key_state: "snd (get_key k w) = tick w"
  using read_query_state [of "\<lambda>now c. sql_get_key k" w]
  by (auto simp: get_key_def bind_op_def split: prod.splits sum.splits)

lemma get_key_Inr:
  assumes "get_key k w = (Inr key, w')"
  shows "sql_get_key k (w_db w) = Some key \<and> w' = tick w"
proof -
  have "w' = tick w" using get_key_state [of k w] assms by simp
  moreover have "sql_get_key k (w_db w) = Some key"
    using assms
    by (auto simp: get_key_def read_query_def query_err_def bind_op_def Let_def ok_or_def
        split: option.splits)
  ultimately show ?thesis by simp
qed

lemma sql_get_key_Some:
  "sql_get_key k d = Some key \<Longrightarrow> key \<in> set (db_keys d) \<and> ek_key_id key = k \<and> ek_is_active key = Some True"
  by (auto simp: sql_get_key_def dest: find_SomeD)

lemma find_map_none: "(\<And>x. \<not> P (g x)) \<Longrightarrow> find P (map g xs) = None"
  by (induction xs) auto

lemma find_map_other: "(\<And>x. P (g x) = P x \<and> (P x \<longrightarrow> g x = x)) \<Longrightarrow> find P (map g xs) = find P xs"
  by (induction xs) auto

lemma sql_get_key_deactivated: "sql_get_key k (sql_deactivate_key now k d) = None"
  unfolding sql_get_key_def sql_deactivate_key_def by (simp, rule find_map_none) simp

lemma sql_get_key_deactivate_other:
  "k \<noteq> k' \<Longrightarrow> sql_get_key k (sql_deactivate_key now k' d) = sql_get_key k d"
  unfolding sql_get_key_def sql_deactivate_key_def
  by (simp, rule find_map_other) simp

lemma sql_get_key_create:
  assumes "db_wf d" "sql_create_key now k kd a desc d = Inr (row, d')"
  shows "sql_get_key k d' = Some row \<and> ek_key_data row = kd \<and> ek_algorithm row = a \<and>
         (\<forall>k'. k' \<noteq> k \<longrightarrow> sql_get_key k' d' = sql_get_key k' d)"
proof -
  let ?hit = "\<lambda>k r. ek_key_id r = k \<and> ek_is_active r = Some True"
  have row: "ek_key_data row = kd" "ek_algorithm row = a" "?hit k row"
    and d': "db_keys d' = db_keys d @ [row]" and fresh: "k \<notin> set (key_ids d)"
    using assms(2) by (auto simp: sql_create_key_def Let_def split: if_splits)
  from fresh have "find (?hit k) (db_keys d) = None"
    by (auto simp: find_None_iff key_ids_def)
  moreover have "find (?hit k') [row] = None" if "k' \<noteq> k" for k'
    using row that by simp
  ultimately show ?thesis
    using row by (auto simp: sql_get_key_def d' find_append split: option.split)
qed

text \<open>A key that is fetched was created with the 32 bytes of its algorithm.\<close>

lemma validate_key_format_iff:
  "validate_key_format kd a = Inr () \<longleftrightarrow>
     length kd = 32 \<and> (a = ''aes-gcm'' \<or> a = ''chacha20poly1305'')"
  by (auto simp: validate_key_format_def)

lemma generate_key_id_alphabet:
  "\<exists>k. generate_key_id w = (Inr k, tick w) \<and> length k = 32 \<and>
    set k \<subseteq> set alphanumeric"
proof -
  have "alphanumeric ! (unat b mod 62) \<in> set alphanumeric" for b :: u8
    by (rule nth_mem) (simp add: alphanumeric_def)
  then show ?thesis
    by (auto simp: generate_key_id_def random_bytes_def external_apply)
qed

section \<open>Integrity\<close>

lemma keeps_get_key [keeps_intros]: "keeps (on_db I) (get_key k)"
  unfolding get_key_def by (intro keeps_intros)

lemma keeps_get_key_fs [keeps_intros]: "keeps (on_fs I) (get_key k)"
  unfolding get_key_def by (intro keeps_intros)

lemma keeps_create_key [keeps_intros]: "keeps (on_db db_wf) (create_key k kd a desc)"
  unfolding create_key_def by (rule keeps_query_db) (rule db_wf_create_key)

lemma keeps_deactivate_key [keeps_intros]: "keeps (on_db db_wf) (deactivate_key k)"
  unfolding deactivate_key_def by (rule keeps_write_query) (rule db_wf_deactivate_key)

lemma keeps_update_file_key [keeps_intros]: "keeps (on_db db_wf) (update_file_key i k)"
  unfolding update_file_key_def by (rule keeps_query_db) (auto intro: db_wf_update_file_key)

lemma keeps_key_reads [keeps_intros]:
  "keeps (on_db I) list_keys" "keeps (on_db I) (get_file_key i)"
  "keeps (on_db I) (get_files_with_key k)" "keeps (on_db I) generate_key_id"
  by (auto simp: list_keys_def get_file_key_def get_files_with_key_def generate_key_id_def
      intro!: keeps_intros)

lemma keeps_keys_fs [keeps_intros]:
  "keeps (on_fs I) list_keys" "keeps (on_fs I) generate_key_id"
  "keeps (on_fs I) (create_key k kd a desc)" "keeps (on_fs I) (deactivate_key k)"
  by (auto simp: list_keys_def generate_key_id_def create_key_def deactivate_key_def
      intro!: keeps_intros)

end
