(* ===== verification/Compression.thy ===== *)
theory Compression
  imports Complex_Main Errors Config
begin

text \<open>
  \<^verbatim>\<open>src/local-storage/src/compression.rs\<close>: the compression manager. The gzip and zstd codecs
  are the \<^verbatim>\<open>flate2\<close> and \<^verbatim>\<open>zstd\<close> crates, so they are parameters (\<open>codec_lib\<close>): an encoder is
  a function that may fail, a decoder is a stream (\<open>reader\<close>) that the code drains through
  \<^verbatim>\<open>Read::read\<close>, in portions whose sizes the decoder chooses. The loops of
  \<^verbatim>\<open>decompress_range\<close> and \<^verbatim>\<open>decompress_zstd\<close> are modelled read by read.
\<close>

section \<open>Streams\<close>

text \<open>A stream still has \<open>rd_pending\<close> to deliver, fails with \<open>rd_error\<close> afterwards if that is
  set, and delivers at most the next of \<open>rd_sizes\<close> bytes (at least one) per call.\<close>

record reader =
  rd_pending :: bytes
  rd_error :: "string option"
  rd_sizes :: "nat list"

definition portion :: "reader \<Rightarrow> nat \<Rightarrow> nat" where
  "portion r n = (case rd_sizes r of [] \<Rightarrow> n | k # _ \<Rightarrow> min n (max 1 k))"

text \<open>\<^verbatim>\<open>Read::read\<close> into a buffer of length \<open>n\<close>: no bytes mean the end of the stream (or an
  empty buffer).\<close>

definition reader_read :: "reader \<Rightarrow> nat \<Rightarrow> string + (bytes \<times> reader)" where
  "reader_read r n =
     (if n = 0 then Inr ([], r)
      else if rd_pending r = [] then
        (case rd_error r of Some e \<Rightarrow> Inl e | None \<Rightarrow> Inr ([], r))
      else Inr (take (portion r n) (rd_pending r),
                r\<lparr>rd_pending := drop (portion r n) (rd_pending r), rd_sizes := tl (rd_sizes r)\<rparr>))"

lemma portion_bounds: "0 < n \<Longrightarrow> 0 < portion r n \<and> portion r n \<le> n"
  by (auto simp: portion_def split: list.splits)

lemma reader_read_length:
  "reader_read r n = Inr (got, r') \<Longrightarrow> length got \<le> n"
  using portion_bounds [of n r]
  by (auto simp: reader_read_def split: if_splits option.splits)

lemma reader_read_pending:
  "reader_read r n = Inr (got, r') \<Longrightarrow> rd_pending r = got @ rd_pending r' \<and> rd_error r' = rd_error r"
  by (auto simp: reader_read_def split: if_splits option.splits)

lemma reader_read_progress:
  "0 < n \<Longrightarrow> rd_pending r \<noteq> [] \<Longrightarrow> \<exists>got r'. reader_read r n = Inr (got, r') \<and> got \<noteq> []"
  using portion_bounds [of n r] by (auto simp: reader_read_def)

lemma reader_read_end:
  "0 < n \<Longrightarrow> rd_pending r = [] \<Longrightarrow>
     reader_read r n = (case rd_error r of Some e \<Rightarrow> Inl e | None \<Rightarrow> Inr ([], r))"
  by (simp add: reader_read_def)

text \<open>\<^verbatim>\<open>Read::read_to_end\<close>.\<close>

definition read_to_end :: "reader \<Rightarrow> string + bytes" where
  "read_to_end r = (case rd_error r of Some e \<Rightarrow> Inl e | None \<Rightarrow> Inr (rd_pending r))"

section \<open>The codecs\<close>

record codec_lib =
  gzip_encode :: "nat \<Rightarrow> bytes \<Rightarrow> string + bytes"
  gzip_decoder :: "bytes \<Rightarrow> reader"
  zstd_encode :: "int \<Rightarrow> bytes \<Rightarrow> string + bytes"
  zstd_decoder :: "bytes \<Rightarrow> string + reader"

text \<open>What the code relies on: decoding what an encoder returned gives the input back.\<close>

definition gzip_law :: "codec_lib \<Rightarrow> bool" where
  "gzip_law lib \<longleftrightarrow>
     (\<forall>level data z. gzip_encode lib level data = Inr z \<longrightarrow>
        rd_pending (gzip_decoder lib z) = data \<and> rd_error (gzip_decoder lib z) = None)"

definition zstd_law :: "codec_lib \<Rightarrow> bool" where
  "zstd_law lib \<longleftrightarrow>
     (\<forall>level data z. zstd_encode lib level data = Inr z \<longrightarrow>
        (\<exists>r. zstd_decoder lib z = Inr r \<and> rd_pending r = data \<and> rd_error r = None))"

definition i32_as_u32 :: "int \<Rightarrow> nat" where
  "i32_as_u32 level = nat (level mod 2 ^ 32)"

definition compress_gzip :: "codec_lib \<Rightarrow> compression_config \<Rightarrow> bytes \<Rightarrow> storage_error + bytes" where
  "compress_gzip lib cfg data =
     map_err (\<lambda>e. Compression (''Gzip compression failed: '' @ e))
       (gzip_encode lib (i32_as_u32 (cmp_level cfg)) data)"

definition decompress_gzip :: "codec_lib \<Rightarrow> bytes \<Rightarrow> storage_error + bytes" where
  "decompress_gzip lib data =
     map_err (\<lambda>e. Compression (''Gzip decompression failed: '' @ e))
       (read_to_end (gzip_decoder lib data))"

definition compress_zstd :: "codec_lib \<Rightarrow> compression_config \<Rightarrow> bytes \<Rightarrow> storage_error + bytes" where
  "compress_zstd lib cfg data =
     map_err (\<lambda>e. Compression (''Zstd compression failed: '' @ e))
       (zstd_encode lib (cmp_level cfg) data)"

text \<open>The loop over 4 KB chunks: it ends because every non-empty read shortens the stream.\<close>

function read_chunks :: "reader \<Rightarrow> bytes \<Rightarrow> storage_error + bytes" where
  "read_chunks r acc =
     (case reader_read r 4096 of
        Inl e \<Rightarrow> Inl (Compression (''Zstd decompression failed: '' @ e))
      | Inr (got, r') \<Rightarrow> if got = [] then Inr acc else read_chunks r' (acc @ got))"
  by pat_completeness auto
termination
  by (relation "measure (\<lambda>(r, acc). length (rd_pending r))")
    (auto dest!: reader_read_pending simp flip: length_greater_0_conv)

declare read_chunks.simps [simp del]

definition decompress_zstd :: "codec_lib \<Rightarrow> bytes \<Rightarrow> storage_error + bytes" where
  "decompress_zstd lib data =
     (case zstd_decoder lib data of
        Inl e \<Rightarrow> Inl (Compression (''Failed to create zstd decoder: '' @ e))
      | Inr r \<Rightarrow> read_chunks r [])"

section \<open>The manager\<close>

definition compress :: "codec_lib \<Rightarrow> compression_config \<Rightarrow> bytes \<Rightarrow> storage_error + bytes" where
  "compress lib cfg data =
     (if \<not> cmp_enabled cfg \<or> length data < cmp_min_size cfg \<or> data = [] then Inr data
      else if cmp_algorithm cfg = ''gzip'' then
        and_then (compress_gzip lib cfg data) (\<lambda>z. Inr (1 # z))
      else if cmp_algorithm cfg = ''zstd'' then
        and_then (compress_zstd lib cfg data) (\<lambda>z. Inr (2 # z))
      else Inl (Compression (''Unsupported compression algorithm: '' @ cmp_algorithm cfg)))"

text \<open>The fallback for data without a format byte, chosen by the configured algorithm.\<close>

definition decompress_legacy ::
  "codec_lib \<Rightarrow> compression_config \<Rightarrow> bytes \<Rightarrow> storage_error + bytes" where
  "decompress_legacy lib cfg data =
     (if cmp_algorithm cfg = ''gzip'' then
        (if 2 \<le> length data \<and> data ! 0 = 0x1f \<and> data ! 1 = 0x8b
         then decompress_gzip lib data else Inr data)
      else if cmp_algorithm cfg = ''zstd'' then
        (case decompress_zstd lib data of Inr x \<Rightarrow> Inr x | Inl _ \<Rightarrow> Inr data)
      else Inl (Compression (''Unsupported compression algorithm: '' @ cmp_algorithm cfg)))"

definition decompress :: "codec_lib \<Rightarrow> compression_config \<Rightarrow> bytes \<Rightarrow> storage_error + bytes" where
  "decompress lib cfg data =
     (if \<not> cmp_enabled cfg then Inr data
      else case data of
        [] \<Rightarrow> Inr data
      | format # rest \<Rightarrow>
          if format = 1 then decompress_gzip lib rest
          else if format = 2 then decompress_zstd lib rest
          else decompress_legacy lib cfg data)"

text \<open>The two loops of \<^verbatim>\<open>decompress_range\<close>: discard up to the start, then fill the buffer.\<close>

function skip_to :: "reader \<Rightarrow> nat \<Rightarrow> storage_error + reader" where
  "skip_to r remaining =
     (if remaining = 0 then Inr r
      else case reader_read r (min remaining 65536) of
        Inl e \<Rightarrow> Inl (Compression (''Decompression failed while skipping to range start: '' @ e))
      | Inr (got, r') \<Rightarrow>
          if got = [] then Inr r' else skip_to r' (remaining - length got))"
  by pat_completeness auto
termination
  by (relation "measure (\<lambda>(r, remaining). remaining)") auto

declare skip_to.simps [simp del]

function fill :: "reader \<Rightarrow> nat \<Rightarrow> bytes \<Rightarrow> storage_error + bytes" where
  "fill r len acc =
     (if length acc < len then
        (case reader_read r (len - length acc) of
           Inl e \<Rightarrow> Inl (Compression (''Decompression failed while reading range: '' @ e))
         | Inr (got, r') \<Rightarrow> if got = [] then Inr acc else fill r' len (acc @ got))
      else Inr acc)"
  by pat_completeness auto
termination
  by (relation "measure (\<lambda>(r, len, acc). len - length acc)")
    (auto intro!: diff_less_mono2 simp flip: length_greater_0_conv)

declare fill.simps [simp del]

definition range_reader :: "codec_lib \<Rightarrow> u8 \<Rightarrow> bytes \<Rightarrow> reader option" where
  "range_reader lib format data =
     (if format = 1 then Some (gzip_decoder lib data)
      else if format = 2 then
        (case zstd_decoder lib data of Inr r \<Rightarrow> Some r | Inl _ \<Rightarrow> None)
      else None)"

definition decompress_range ::
  "codec_lib \<Rightarrow> bytes \<Rightarrow> nat \<Rightarrow> nat \<Rightarrow> storage_error + bytes option" where
  "decompress_range lib compressed start len =
     (case compressed of
        [] \<Rightarrow> Inr (Some [])
      | format # data \<Rightarrow>
          (case range_reader lib format data of
             None \<Rightarrow> Inr None
           | Some r \<Rightarrow>
               and_then (skip_to r start) (\<lambda>r'.
               and_then (fill r' len []) (\<lambda>result. Inr (Some result)))))"

definition should_compress :: "compression_config \<Rightarrow> nat \<Rightarrow> bool" where
  "should_compress cfg data_size \<longleftrightarrow> cmp_enabled cfg \<and> cmp_min_size cfg \<le> data_size"

definition compression_ratio :: "nat \<Rightarrow> nat \<Rightarrow> rat" where
  "compression_ratio original_size compressed_size =
     (if original_size = 0 then 0
      else (of_nat original_size - of_nat compressed_size) / of_nat original_size)"

section \<open>The loops return what the stream holds\<close>

lemma read_chunks_eq:
  "read_chunks r acc =
     (case rd_error r of
        Some e \<Rightarrow> Inl (Compression (''Zstd decompression failed: '' @ e))
      | None \<Rightarrow> Inr (acc @ rd_pending r))"
proof (induction r acc rule: read_chunks.induct)
  case (1 r acc)
  show ?case
  proof (cases "rd_pending r = []")
    case True
    then show ?thesis
      by (subst read_chunks.simps) (simp add: reader_read_end split: option.splits)
  next
    case False
    then obtain got r' where read: "reader_read r 4096 = Inr (got, r')" and "got \<noteq> []"
      using reader_read_progress [of 4096 r] by auto
    with 1 show ?thesis
      using reader_read_pending [OF read]
      by (subst read_chunks.simps) (auto split: option.splits)
  qed
qed

lemma skip_to_within:
  "n \<le> length (rd_pending r) \<Longrightarrow>
     \<exists>r'. skip_to r n = Inr r' \<and> rd_pending r' = drop n (rd_pending r) \<and> rd_error r' = rd_error r"
proof (induction r n rule: skip_to.induct)
  case (1 r n)
  show ?case
  proof (cases "n = 0")
    case True
    then show ?thesis by (subst skip_to.simps) simp
  next
    case False
    with "1.prems" have "rd_pending r \<noteq> []" by auto
    with False obtain got r' where read: "reader_read r (min n 65536) = Inr (got, r')" "got \<noteq> []"
      using reader_read_progress [of "min n 65536" r] by auto
    have len: "length got \<le> n" using reader_read_length [OF read(1)] by simp
    have pend: "rd_pending r = got @ rd_pending r'" "rd_error r' = rd_error r"
      using reader_read_pending [OF read(1)] by auto
    with "1.prems" have "n - length got \<le> length (rd_pending r')" by simp
    from "1.IH" [OF False read(1) refl read(2) this] False read len pend show ?thesis
      by (subst skip_to.simps) auto
  qed
qed

lemma fill_eq:
  "length acc \<le> len \<Longrightarrow>
     fill r len acc =
       (if len \<le> length acc + length (rd_pending r) \<or> rd_error r = None
        then Inr (take len (acc @ rd_pending r))
        else Inl (Compression (''Decompression failed while reading range: '' @ the (rd_error r))))"
proof (induction r len acc rule: fill.induct)
  case (1 r len acc)
  show ?case
  proof (cases "length acc < len")
    case False
    with "1.prems" show ?thesis by (subst fill.simps) auto
  next
    case True
    show ?thesis
    proof (cases "rd_pending r = []")
      case True
      with \<open>length acc < len\<close> show ?thesis
        by (subst fill.simps) (auto simp: reader_read_end split: option.splits)
    next
      case False
      then obtain got r' where read: "reader_read r (len - length acc) = Inr (got, r')" "got \<noteq> []"
        using reader_read_progress [of "len - length acc" r] \<open>length acc < len\<close> by auto
      have len: "length (acc @ got) \<le> len"
        using reader_read_length [OF read(1)] \<open>length acc < len\<close> by simp
      have pend: "rd_pending r = got @ rd_pending r'" "rd_error r' = rd_error r"
        using reader_read_pending [OF read(1)] by auto
      have "fill r len acc = fill r' len (acc @ got)"
        using read \<open>length acc < len\<close> by (subst fill.simps) simp
      also note "1.IH" [OF \<open>length acc < len\<close> read(1) refl read(2) len]
      finally show ?thesis using pend by (simp add: add.assoc)
    qed
  qed
qed

section \<open>Correctness of the manager\<close>

lemma decompress_zstd_eq:
  "zstd_decoder lib data = Inr r \<Longrightarrow> rd_error r = None \<Longrightarrow>
     decompress_zstd lib data = Inr (rd_pending r)"
  by (simp add: decompress_zstd_def read_chunks_eq)

lemma decompress_zstd_Inr:
  "decompress_zstd lib data = Inr x \<longleftrightarrow>
     (\<exists>r. zstd_decoder lib data = Inr r \<and> rd_error r = None \<and> x = rd_pending r)"
  by (auto simp: decompress_zstd_def read_chunks_eq split: sum.splits option.splits)

lemma decompress_gzip_Inr:
  "decompress_gzip lib data = Inr x \<longleftrightarrow>
     rd_error (gzip_decoder lib data) = None \<and> x = rd_pending (gzip_decoder lib data)"
  by (auto simp: decompress_gzip_def read_to_end_def split: option.splits)

text \<open>Output that is shorter than the input carries one of the two format bytes.\<close>

lemma compress_shorter:
  assumes "compress lib cfg data = Inr z" "length z < length data"
  shows "(\<exists>y. z = 1 # y \<and> compress_gzip lib cfg data = Inr y) \<or>
         (\<exists>y. z = 2 # y \<and> compress_zstd lib cfg data = Inr y)"
  using assms by (auto simp: compress_def split: if_splits)

lemma decompress_compress:
  assumes "gzip_law lib" "zstd_law lib" "compress lib cfg data = Inr z" "length z < length data"
    and "cmp_enabled cfg'"
  shows "decompress lib cfg' z = Inr data"
  using compress_shorter [OF assms(3,4)] assms(1,2,5)
  by (force simp: decompress_def compress_gzip_def compress_zstd_def decompress_gzip_Inr
      decompress_zstd_Inr gzip_law_def zstd_law_def)

text \<open>A range of a stream that decodes completely is that slice of the whole.\<close>

lemma decompress_range_slice:
  assumes "range_reader lib format data = Some r" "rd_error r = None"
    and "start \<le> length (rd_pending r)"
  shows "decompress_range lib (format # data) start len =
           Inr (Some (take len (drop start (rd_pending r))))"
proof -
  obtain r' where "skip_to r start = Inr r'" "rd_pending r' = drop start (rd_pending r)"
    "rd_error r' = None"
    using skip_to_within [OF assms(3)] assms(2) by auto
  then show ?thesis
    using assms(1) by (simp add: decompress_range_def fill_eq)
qed

text \<open>A range inside the bytes that come before a defect of the stream is served too.\<close>

lemma decompress_range_before_error:
  assumes "range_reader lib format data = Some r" "start + len \<le> length (rd_pending r)"
  shows "decompress_range lib (format # data) start len =
           Inr (Some (take len (drop start (rd_pending r))))"
proof -
  obtain r' where "skip_to r start = Inr r'" "rd_pending r' = drop start (rd_pending r)"
    using skip_to_within [of start r] assms(2) by auto
  moreover have "len \<le> length (rd_pending r) - start" using assms(2) by simp
  ultimately show ?thesis
    using assms by (simp add: decompress_range_def fill_eq)
qed

lemma decompress_range_agrees:
  assumes "cmp_enabled cfg" "decompress lib cfg (format # data) = Inr whole"
    and "format = 1 \<or> format = 2" "start \<le> length whole"
  shows "decompress_range lib (format # data) start len = Inr (Some (take len (drop start whole)))"
proof -
  have "\<exists>r. range_reader lib format data = Some r \<and> rd_error r = None \<and> rd_pending r = whole"
    using assms(1-3)
    by (auto simp: decompress_def range_reader_def decompress_gzip_Inr decompress_zstd_Inr)
  then show ?thesis using assms(4) by (auto simp: decompress_range_slice)
qed

end
