(* ===== verification/Crypto.thy ===== *)
theory Crypto
  imports Errors Config Models
begin

text \<open>
  \<^verbatim>\<open>src/local-storage/src/crypto.rs\<close>: the encryption algorithms, the crypto manager with its
  global key, and encryption under an explicit key. The ciphers (\<^verbatim>\<open>aes_gcm\<close>,
  \<^verbatim>\<open>chacha20poly1305\<close>) and \<^verbatim>\<open>hex::decode\<close> are parameters (\<open>aead_lib\<close>); the random bytes
  that \<^verbatim>\<open>OsRng\<close> produces are arguments of the functions that draw them.
\<close>

datatype encryption_algorithm = AesGcm | ChaCha20Poly1305

fun algorithm_as_str :: "encryption_algorithm \<Rightarrow> string" where
  "algorithm_as_str AesGcm = ''aes-gcm''"
| "algorithm_as_str ChaCha20Poly1305 = ''chacha20poly1305''"

definition algorithm_from_str :: "string \<Rightarrow> storage_error + encryption_algorithm" where
  "algorithm_from_str s =
     (if s = ''aes-gcm'' then Inr AesGcm
      else if s = ''chacha20poly1305'' then Inr ChaCha20Poly1305
      else Inl (InvalidEncryptionAlgorithm (''Unsupported algorithm: '' @ s)))"

lemma algorithm_roundtrip [simp]: "algorithm_from_str (algorithm_as_str a) = Inr a"
  by (cases a) (simp_all add: algorithm_from_str_def)

lemma algorithm_from_str_Inr: "algorithm_from_str s = Inr a \<longleftrightarrow> s = algorithm_as_str a"
  by (cases a) (auto simp: algorithm_from_str_def)

text \<open>An algorithm has its place in the order of the source's variants.\<close>

instantiation encryption_algorithm :: linorder
begin

definition less_eq_encryption_algorithm :: "encryption_algorithm \<Rightarrow> encryption_algorithm \<Rightarrow> bool"
  where "less_eq_encryption_algorithm a b \<longleftrightarrow> a = AesGcm \<or> b = ChaCha20Poly1305"

definition less_encryption_algorithm :: "encryption_algorithm \<Rightarrow> encryption_algorithm \<Rightarrow> bool"
  where "less_encryption_algorithm a b \<longleftrightarrow> a = AesGcm \<and> b = ChaCha20Poly1305"

instance
proof
  fix a b c :: encryption_algorithm
  show "(a < b) = (a \<le> b \<and> \<not> b \<le> a)"
    by (cases a; cases b) (simp_all add: less_eq_encryption_algorithm_def less_encryption_algorithm_def)
  show "a \<le> a"
    by (cases a) (simp_all add: less_eq_encryption_algorithm_def)
  show "a \<le> b \<Longrightarrow> b \<le> c \<Longrightarrow> a \<le> c"
    by (cases a; cases b; cases c) (simp_all add: less_eq_encryption_algorithm_def)
  show "a \<le> b \<Longrightarrow> b \<le> a \<Longrightarrow> a = b"
    by (cases a; cases b) (simp_all add: less_eq_encryption_algorithm_def)
  show "a \<le> b \<or> b \<le> a"
    by (cases a; cases b) (simp_all add: less_eq_encryption_algorithm_def)
qed

end

section \<open>The ciphers\<close>

record aead_lib =
  aead_encrypt :: "encryption_algorithm \<Rightarrow> bytes \<Rightarrow> bytes \<Rightarrow> bytes \<Rightarrow> string + bytes"
  aead_decrypt :: "encryption_algorithm \<Rightarrow> bytes \<Rightarrow> bytes \<Rightarrow> bytes \<Rightarrow> string + bytes"
  hex_decode :: "string \<Rightarrow> string + bytes"

text \<open>Decryption under the key and nonce of an encryption gives the plaintext back.\<close>

definition aead_law :: "aead_lib \<Rightarrow> bool" where
  "aead_law lib \<longleftrightarrow>
     (\<forall>a key nonce data c. aead_encrypt lib a key nonce data = Inr c \<longrightarrow>
        aead_decrypt lib a key nonce c = Inr data)"

section \<open>The manager\<close>

record crypto_manager =
  cm_config :: crypto_config
  cm_aes_key :: "bytes option"
  cm_chacha_key :: "bytes option"

text \<open>\<^verbatim>\<open>init_cipher\<close>: the configured key, or the random one.\<close>

definition cipher_key_bytes :: "aead_lib \<Rightarrow> bytes \<Rightarrow> crypto_config \<Rightarrow> storage_error + bytes" where
  "cipher_key_bytes lib random cfg =
     (case cry_key cfg of
        Some key_str \<Rightarrow>
          if length key_str = 64 then
            map_err (\<lambda>e. Encryption (''Invalid hex key: '' @ e)) (hex_decode lib key_str)
          else if length key_str = 32 then Inr (as_bytes key_str)
          else Inl (Encryption ''Key must be 32 bytes or 64 hex characters'')
      | None \<Rightarrow> Inr random)"

definition init_cipher ::
  "aead_lib \<Rightarrow> bytes \<Rightarrow> crypto_manager \<Rightarrow> storage_error + crypto_manager" where
  "init_cipher lib random m =
     and_then (cipher_key_bytes lib random (cm_config m)) (\<lambda>key_bytes.
       if length key_bytes \<noteq> 32 then Inl (Encryption ''Key must be exactly 32 bytes'')
       else if cry_algorithm (cm_config m) = ''aes-gcm'' then
         Inr (m\<lparr>cm_aes_key := Some key_bytes\<rparr>)
       else if cry_algorithm (cm_config m) = ''chacha20poly1305'' then
         Inr (m\<lparr>cm_chacha_key := Some key_bytes\<rparr>)
       else Inl (Encryption (''Unsupported encryption algorithm: '' @ cry_algorithm (cm_config m))))"

definition crypto_new :: "aead_lib \<Rightarrow> bytes \<Rightarrow> crypto_config \<Rightarrow> storage_error + crypto_manager" where
  "crypto_new lib random cfg =
     (let manager = \<lparr>cm_config = cfg, cm_aes_key = None, cm_chacha_key = None\<rparr>
      in if cry_enabled cfg then init_cipher lib random manager else Inr manager)"

text \<open>The stored form is the 12-byte nonce followed by the ciphertext.\<close>

definition encrypt_aes ::
  "aead_lib \<Rightarrow> crypto_manager \<Rightarrow> bytes \<Rightarrow> bytes \<Rightarrow> storage_error + bytes" where
  "encrypt_aes lib m nonce data =
     and_then (ok_or (cm_aes_key m) (Encryption ''AES cipher not initialized'')) (\<lambda>key.
     and_then (map_err (\<lambda>e. Encryption (''AES encryption failed: '' @ e))
                (aead_encrypt lib AesGcm key nonce data)) (\<lambda>ciphertext.
     Inr (nonce @ ciphertext)))"

definition decrypt_aes :: "aead_lib \<Rightarrow> crypto_manager \<Rightarrow> bytes \<Rightarrow> storage_error + bytes" where
  "decrypt_aes lib m encrypted =
     (if length encrypted < 12 then Inl (Encryption ''Invalid encrypted data: too short'')
      else
        and_then (ok_or (cm_aes_key m) (Encryption ''AES cipher not initialized'')) (\<lambda>key.
        map_err (\<lambda>e. Encryption (''AES decryption failed: '' @ e))
          (aead_decrypt lib AesGcm key (take 12 encrypted) (drop 12 encrypted))))"

definition encrypt_chacha ::
  "aead_lib \<Rightarrow> crypto_manager \<Rightarrow> bytes \<Rightarrow> bytes \<Rightarrow> storage_error + bytes" where
  "encrypt_chacha lib m nonce data =
     and_then (ok_or (cm_chacha_key m) (Encryption ''ChaCha20 cipher not initialized'')) (\<lambda>key.
     and_then (map_err (\<lambda>e. Encryption (''ChaCha20 encryption failed: '' @ e))
                (aead_encrypt lib ChaCha20Poly1305 key nonce data)) (\<lambda>ciphertext.
     Inr (nonce @ ciphertext)))"

definition decrypt_chacha :: "aead_lib \<Rightarrow> crypto_manager \<Rightarrow> bytes \<Rightarrow> storage_error + bytes" where
  "decrypt_chacha lib m encrypted =
     (if length encrypted < 12 then Inl (Encryption ''Invalid encrypted data: too short'')
      else
        and_then (ok_or (cm_chacha_key m) (Encryption ''ChaCha20 cipher not initialized'')) (\<lambda>key.
        map_err (\<lambda>e. Encryption (''ChaCha20 decryption failed: '' @ e))
          (aead_decrypt lib ChaCha20Poly1305 key (take 12 encrypted) (drop 12 encrypted))))"

definition encrypt ::
  "aead_lib \<Rightarrow> crypto_manager \<Rightarrow> bytes \<Rightarrow> bytes \<Rightarrow> encryption_algorithm \<Rightarrow> storage_error + bytes" where
  "encrypt lib m nonce data algorithm =
     (if \<not> cry_enabled (cm_config m) then Inr data
      else case algorithm of
        AesGcm \<Rightarrow> encrypt_aes lib m nonce data
      | ChaCha20Poly1305 \<Rightarrow> encrypt_chacha lib m nonce data)"

definition decrypt ::
  "aead_lib \<Rightarrow> crypto_manager \<Rightarrow> bytes \<Rightarrow> encryption_algorithm \<Rightarrow> storage_error + bytes" where
  "decrypt lib m data algorithm =
     (if \<not> cry_enabled (cm_config m) then Inr data
      else case algorithm of
        AesGcm \<Rightarrow> decrypt_aes lib m data
      | ChaCha20Poly1305 \<Rightarrow> decrypt_chacha lib m data)"

definition encrypt_file ::
  "aead_lib \<Rightarrow> crypto_manager \<Rightarrow> bytes \<Rightarrow> stored_file \<Rightarrow> bytes \<Rightarrow> storage_error + bytes" where
  "encrypt_file lib m nonce file data =
     and_then (algorithm_from_str (unwrap_or (sf_encryption_algorithm file) ''aes-gcm''))
       (\<lambda>algorithm. encrypt lib m nonce data algorithm)"

definition decrypt_file ::
  "aead_lib \<Rightarrow> crypto_manager \<Rightarrow> stored_file \<Rightarrow> bytes \<Rightarrow> storage_error + bytes" where
  "decrypt_file lib m file data =
     and_then (algorithm_from_str (unwrap_or (sf_encryption_algorithm file) ''aes-gcm''))
       (\<lambda>algorithm. decrypt lib m data algorithm)"

fun encryption_failed :: "encryption_algorithm \<Rightarrow> string \<Rightarrow> storage_error" where
  "encryption_failed AesGcm e = Encryption (''AES encryption failed: '' @ e)"
| "encryption_failed ChaCha20Poly1305 e = Encryption (''ChaCha20 encryption failed: '' @ e)"

fun decryption_failed :: "encryption_algorithm \<Rightarrow> string \<Rightarrow> storage_error" where
  "decryption_failed AesGcm e = Encryption (''AES decryption failed: '' @ e)"
| "decryption_failed ChaCha20Poly1305 e = Encryption (''ChaCha20 decryption failed: '' @ e)"

definition encrypt_with_key ::
  "aead_lib \<Rightarrow> bytes \<Rightarrow> bytes \<Rightarrow> encryption_algorithm \<Rightarrow> bytes \<Rightarrow> storage_error + bytes" where
  "encrypt_with_key lib nonce data algorithm key_bytes =
     (if length key_bytes \<noteq> 32 then Inl (Encryption ''Key must be exactly 32 bytes'')
      else
        and_then (map_err (encryption_failed algorithm)
                   (aead_encrypt lib algorithm key_bytes nonce data)) (\<lambda>ciphertext.
        Inr (nonce @ ciphertext)))"

definition decrypt_with_key ::
  "aead_lib \<Rightarrow> bytes \<Rightarrow> encryption_algorithm \<Rightarrow> bytes \<Rightarrow> storage_error + bytes" where
  "decrypt_with_key lib encrypted algorithm key_bytes =
     (if length key_bytes \<noteq> 32 then Inl (Encryption ''Key must be exactly 32 bytes'')
      else if length encrypted < 12 then Inl (Encryption ''Invalid encrypted data: too short'')
      else map_err (decryption_failed algorithm)
             (aead_decrypt lib algorithm key_bytes (take 12 encrypted) (drop 12 encrypted)))"

section \<open>Correctness\<close>

text \<open>What a manager can encrypt it can decrypt, with the nonce that it stored in front.\<close>

lemma decrypt_aes_encrypt_aes:
  "aead_law lib \<Longrightarrow> length nonce = 12 \<Longrightarrow> encrypt_aes lib m nonce data = Inr c \<Longrightarrow>
     decrypt_aes lib m c = Inr data"
  by (auto simp: encrypt_aes_def decrypt_aes_def aead_law_def)

lemma decrypt_chacha_encrypt_chacha:
  "aead_law lib \<Longrightarrow> length nonce = 12 \<Longrightarrow> encrypt_chacha lib m nonce data = Inr c \<Longrightarrow>
     decrypt_chacha lib m c = Inr data"
  by (auto simp: encrypt_chacha_def decrypt_chacha_def aead_law_def)

lemma decrypt_encrypt:
  "aead_law lib \<Longrightarrow> length nonce = 12 \<Longrightarrow> encrypt lib m nonce data a = Inr c \<Longrightarrow>
     decrypt lib m c a = Inr data"
  by (cases a)
    (auto simp: encrypt_def decrypt_def
      decrypt_aes_encrypt_aes decrypt_chacha_encrypt_chacha split: if_splits)

lemma decrypt_with_key_encrypt_with_key:
  "aead_law lib \<Longrightarrow> length nonce = 12 \<Longrightarrow> encrypt_with_key lib nonce data a key = Inr c \<Longrightarrow>
     decrypt_with_key lib c a key = Inr data"
  by (auto simp: encrypt_with_key_def decrypt_with_key_def aead_law_def split: if_splits)

text \<open>A manager built with encryption enabled holds one 32-byte key, the one of its algorithm.\<close>

lemma crypto_new_key:
  assumes "crypto_new lib random cfg = Inr m" "cry_enabled cfg"
  shows "cm_config m = cfg \<and>
    (\<exists>key. length key = 32 \<and>
       ((cry_algorithm cfg = ''aes-gcm'' \<and> cm_aes_key m = Some key \<and> cm_chacha_key m = None) \<or>
        (cry_algorithm cfg = ''chacha20poly1305'' \<and> cm_aes_key m = None \<and>
         cm_chacha_key m = Some key)))"
  using assms
  by (auto simp: crypto_new_def init_cipher_def Let_def split: if_splits)

lemma crypto_new_keys:
  assumes "crypto_new lib random cfg = Inr m"
  shows "if cry_enabled cfg then
      (\<exists>key. length key = 32 \<and>
         (cry_algorithm cfg = ''aes-gcm'' \<and> cm_aes_key m = Some key \<and> cm_chacha_key m = None \<or>
          cry_algorithm cfg = ''chacha20poly1305'' \<and> cm_aes_key m = None \<and> cm_chacha_key m = Some key) \<and>
         (\<forall>s. cry_key cfg = Some s \<longrightarrow>
            (if length s = 64 then hex_decode lib s = Inr key else key = as_bytes s)))
    else cm_aes_key m = None \<and> cm_chacha_key m = None"
  using assms
  by (auto simp: crypto_new_def init_cipher_def cipher_key_bytes_def Let_def map_err_def
      split: if_splits option.splits sum.splits)

text \<open>The prefix of the stored form is the nonce, so a stored form is never shorter than it.\<close>

lemma encrypt_with_key_stored_form:
  "encrypt_with_key lib nonce data a key = Inr c \<Longrightarrow>
     length key = 32 \<and> take (length nonce) c = nonce"
  by (auto simp: encrypt_with_key_def split: if_splits)

end
