(* ===== verification/Storage.thy ===== *)
theory Storage
  imports Cache Encryption_Keys Compression Crypto
begin

text \<open>
  \<^verbatim>\<open>src/local-storage/src/storage.rs\<close> (\<^verbatim>\<open>StorageManager\<close>): storing, reading and deleting
  objects, over the database, the disk, the cache and the keys. Each method is an operation
  on the state, call by call in the order of the source; a result that the source logs or
  drops is an \<open>ignore\<close>. The log lines and the spawn of the pre-cache service are left out.
\<close>

section \<open>The manager\<close>

record storage_lib =
  sl_codec :: codec_lib
  sl_aead :: aead_lib
  sl_json :: json_lib
  sl_blake3 :: "bytes \<Rightarrow> string"
  sl_md5 :: "bytes \<Rightarrow> string"
  sl_fold_case :: "string \<Rightarrow> string"
  sl_redis_open :: "string \<Rightarrow> bool"

record store_options =
  so_compress :: "bool option"
  so_encrypt :: "bool option"
  so_expires_at :: "time option"
  so_compression_algorithm :: "string option"
  so_compression_level :: "int option"
  so_encryption_key_id :: "string option"
  so_metadata :: "string option"

definition default_options :: store_options where
  "default_options =
     \<lparr>so_compress = None, so_encrypt = None, so_expires_at = None,
      so_compression_algorithm = None, so_compression_level = None,
      so_encryption_key_id = None, so_metadata = None\<rparr>"

record storage_manager =
  sm_config :: config
  sm_base_path :: string
  sm_cache :: cache_manager
  sm_crypto :: crypto_manager
  sm_compression :: compression_config

definition storage_new :: "storage_lib \<Rightarrow> config \<Rightarrow> (storage_error, storage_manager) op" where
  "storage_new lib cfg =
     bind_op (map_err_op from_io_error (create_dir_all (stc_path (cf_storage cfg)))) (\<lambda>_.
     bind_op (random_bytes 32) (\<lambda>random.
     bind_op (lift_result (crypto_new (sl_aead lib) random (cf_crypto cfg))) (\<lambda>crypto.
     ret \<lparr>sm_config = cfg,
          sm_base_path = stc_path (cf_storage cfg),
          sm_cache = cache_new (sl_redis_open lib) cfg,
          sm_crypto = crypto,
          sm_compression = cf_compression cfg\<rparr>)))"

definition get_file_path :: "storage_manager \<Rightarrow> string \<Rightarrow> string \<Rightarrow> string" where
  "get_file_path sm bucket key = path_join (path_join (sm_base_path sm) bucket) key"

definition max_file_size :: "storage_manager \<Rightarrow> nat" where
  "max_file_size sm = stc_max_file_size (cf_storage (sm_config sm))"

section \<open>Buckets\<close>

definition create_bucket :: "storage_manager \<Rightarrow> string \<Rightarrow> (storage_error, unit) op" where
  "create_bucket sm bucket =
     bind_op (map_err_op from_io_error (create_dir_all (path_join (sm_base_path sm) bucket))) (\<lambda>_.
     query (\<lambda>now c d. and_then (sql_create_bucket now bucket d) (\<lambda>d'. Inr ((), d'))))"

definition ensure_bucket_exists :: "storage_manager \<Rightarrow> string \<Rightarrow> (storage_error, unit) op" where
  "ensure_bucket_exists sm bucket =
     bind_op (read_query (\<lambda>now c. sql_bucket_exists bucket)) (\<lambda>exists.
     if \<not> exists then create_bucket sm bucket else ret ())"

section \<open>Storing\<close>

definition key_filename :: "string \<Rightarrow> string" where
  "key_filename key = last (split_on (CHR ''/'') key)"

text \<open>What an upload asks for, with the configured defaults.\<close>

definition wants_compression :: "storage_manager \<Rightarrow> store_options \<Rightarrow> bool" where
  "wants_compression sm opts = unwrap_or (so_compress opts) (cmp_enabled (cf_compression (sm_config sm)))"

definition wants_encryption :: "storage_manager \<Rightarrow> store_options \<Rightarrow> bool" where
  "wants_encryption sm opts = unwrap_or (so_encrypt opts) (cry_enabled (cf_crypto (sm_config sm)))"

definition upload_compression :: "storage_manager \<Rightarrow> store_options \<Rightarrow> compression_config" where
  "upload_compression sm opts =
     (let cfg = cf_compression (sm_config sm) in
      \<lparr>cmp_enabled = True,
       cmp_algorithm = unwrap_or (so_compression_algorithm opts) (cmp_algorithm cfg),
       cmp_level = unwrap_or (so_compression_level opts) (cmp_level cfg),
       cmp_min_size = cmp_min_size cfg\<rparr>)"

text \<open>The row of an alias: the bytes and settings of the existing row, the rest of the upload.\<close>

definition alias_row ::
  "stored_file \<Rightarrow> string \<Rightarrow> string \<Rightarrow> string option \<Rightarrow> store_options \<Rightarrow> string \<times> string \<Rightarrow>
     uuid \<Rightarrow> time \<Rightarrow> stored_file" where
  "alias_row existing bucket key content_type opts hashes i now =
     \<lparr>sf_id = i,
      sf_bucket = bucket,
      sf_key = key,
      sf_filename = key_filename key,
      sf_file_path = sf_file_path existing,
      sf_file_size = sf_file_size existing,
      sf_original_size = sf_original_size existing,
      sf_content_type = unwrap_or content_type (sf_content_type existing),
      sf_hash_blake3 = fst hashes,
      sf_hash_md5 = snd hashes,
      sf_metadata = so_metadata opts,
      sf_is_compressed = sf_is_compressed existing,
      sf_is_encrypted = sf_is_encrypted existing,
      sf_compression_algorithm = sf_compression_algorithm existing,
      sf_encryption_algorithm = sf_encryption_algorithm existing,
      sf_compression_ratio = sf_compression_ratio existing,
      sf_upload_time = Some now,
      sf_last_accessed = None,
      sf_access_count = 0,
      sf_encryption_key_id = sf_encryption_key_id existing,
      sf_compression_enabled = sf_compression_enabled existing,
      sf_encryption_enabled = sf_encryption_enabled existing,
      sf_compression_level = sf_compression_level existing,
      sf_cache_status = Some ''not_cached'',
      sf_last_cache_update = None,
      sf_cache_hits = Some 0,
      sf_cache_priority = Some 0,
      sf_expires_at = so_expires_at opts\<rparr>"

definition store_alias ::
  "stored_file \<Rightarrow> string \<Rightarrow> string \<Rightarrow> string option \<Rightarrow> store_options \<Rightarrow> string \<times> string \<Rightarrow>
     (storage_error, stored_file) op" where
  "store_alias existing bucket key content_type opts hashes =
     bind_op new_uuid (\<lambda>i.
     bind_op now_op (\<lambda>now.
     (let aliased = alias_row existing bucket key content_type opts hashes i now in
      bind_op (db_save_file aliased) (\<lambda>_. ret aliased))))"

text \<open>Compression is best effort: a failure or a larger result keeps the content as it was.\<close>

definition compress_content ::
  "storage_lib \<Rightarrow> storage_manager \<Rightarrow> store_options \<Rightarrow> bytes \<Rightarrow> bytes \<times> bool" where
  "compress_content lib sm opts content =
     (if wants_compression sm opts \<and>
         cmp_min_size (cf_compression (sm_config sm)) \<le> length content then
        (case compress (sl_codec lib) (upload_compression sm opts) content of
           Inr compressed \<Rightarrow>
             if length compressed < length content then (compressed, True) else (content, False)
         | Inl _ \<Rightarrow> (content, False))
      else (content, False))"

definition ratio_of :: "bool \<Rightarrow> nat \<Rightarrow> nat \<Rightarrow> rat option" where
  "ratio_of compressed processed_size original_size =
     (if compressed then Some (of_nat processed_size / of_nat (max 1 original_size)) else None)"

definition encrypt_content ::
  "storage_lib \<Rightarrow> storage_manager \<Rightarrow> store_options \<Rightarrow> bytes \<Rightarrow> (storage_error, bytes \<times> bool) op" where
  "encrypt_content lib sm opts content =
     (if wants_encryption sm opts then
        bind_op (lift_result (algorithm_from_str (cry_algorithm (cf_crypto (sm_config sm))))) (\<lambda>algorithm.
        case so_encryption_key_id opts of
          Some key_id \<Rightarrow>
            bind_op (get_key key_id) (\<lambda>key.
            bind_op (random_bytes 12) (\<lambda>nonce.
            bind_op (lift_result
              (encrypt_with_key (sl_aead lib) nonce content algorithm (ek_key_data key))) (\<lambda>c.
            ret (c, True))))
        | None \<Rightarrow>
            bind_op (random_bytes 12) (\<lambda>nonce.
            bind_op (lift_result (encrypt (sl_aead lib) (sm_crypto sm) nonce content algorithm)) (\<lambda>c.
            ret (c, True))))
      else ret (content, False))"

definition upload_row ::
  "storage_manager \<Rightarrow> string \<Rightarrow> string \<Rightarrow> string option \<Rightarrow> store_options \<Rightarrow> string \<times> string \<Rightarrow>
     nat \<Rightarrow> nat \<Rightarrow> bool \<Rightarrow> bool \<Rightarrow> rat option \<Rightarrow> uuid \<Rightarrow> time \<Rightarrow> stored_file" where
  "upload_row sm bucket key content_type opts hashes original_size processed_size
     compressed encrypted ratio i now =
     \<lparr>sf_id = i,
      sf_bucket = bucket,
      sf_key = key,
      sf_filename = key_filename key,
      sf_file_path = get_file_path sm bucket key,
      sf_file_size = int processed_size,
      sf_original_size = int original_size,
      sf_content_type = unwrap_or content_type ''application/octet-stream'',
      sf_hash_blake3 = fst hashes,
      sf_hash_md5 = snd hashes,
      sf_metadata = so_metadata opts,
      sf_is_compressed = Some compressed,
      sf_is_encrypted = Some encrypted,
      sf_compression_algorithm =
        (if compressed then Some (cmp_algorithm (upload_compression sm opts)) else None),
      sf_encryption_algorithm =
        (if encrypted then Some (cry_algorithm (cf_crypto (sm_config sm))) else None),
      sf_compression_ratio = ratio,
      sf_upload_time = Some now,
      sf_last_accessed = None,
      sf_access_count = 0,
      sf_encryption_key_id = so_encryption_key_id opts,
      sf_compression_enabled = Some (wants_compression sm opts),
      sf_encryption_enabled = Some (wants_encryption sm opts),
      sf_compression_level = Some (cmp_level (upload_compression sm opts)),
      sf_cache_status = Some ''not_cached'',
      sf_last_cache_update = None,
      sf_cache_hits = Some 0,
      sf_cache_priority = Some 0,
      sf_expires_at = so_expires_at opts\<rparr>"

text \<open>The insert; when it fails the file just written is removed again.\<close>

definition save_or_cleanup :: "stored_file \<Rightarrow> string \<Rightarrow> (storage_error, unit) op" where
  "save_or_cleanup file file_path =
     try_op (db_save_file file) (\<lambda>r.
     case r of
       Inl e \<Rightarrow> bind_op (ignore (remove_file file_path)) (\<lambda>_. throw e)
     | Inr _ \<Rightarrow> ret ())"

text \<open>The insert, and then the cache, so that the first read need not go to the disk.\<close>

definition finish_upload ::
  "storage_lib \<Rightarrow> storage_manager \<Rightarrow> string \<Rightarrow> string \<Rightarrow> bytes \<Rightarrow> string \<Rightarrow> stored_file \<Rightarrow>
     (storage_error, stored_file) op" where
  "finish_upload lib sm bucket key processed file_path file =
     bind_op (save_or_cleanup file file_path) (\<lambda>_.
     bind_op (ignore (set_file_metadata (sl_json lib) (sm_cache sm) bucket key file)) (\<lambda>_.
     bind_op (ignore (set_file_content (sm_cache sm) bucket key processed)) (\<lambda>_.
     ret file)))"

definition store_new ::
  "storage_lib \<Rightarrow> storage_manager \<Rightarrow> string \<Rightarrow> string \<Rightarrow> bytes \<Rightarrow> string option \<Rightarrow> store_options \<Rightarrow>
     string \<times> string \<Rightarrow> (storage_error, stored_file) op" where
  "store_new lib sm bucket key content content_type opts hashes =
     (let original_size = length content;
          (packed, compressed) = compress_content lib sm opts content;
          ratio = ratio_of compressed (length packed) original_size;
          file_path = get_file_path sm bucket key
      in
      bind_op (encrypt_content lib sm opts packed) (\<lambda>(processed, encrypted).
      bind_op (map_err_op from_io_error (create_parent_dir file_path)) (\<lambda>_.
      bind_op (map_err_op from_io_error (write_file_atomic file_path processed)) (\<lambda>_.
      bind_op new_uuid (\<lambda>i.
      bind_op now_op (\<lambda>now.
      finish_upload lib sm bucket key processed file_path
        (upload_row sm bucket key content_type opts hashes original_size (length processed)
          compressed encrypted ratio i now)))))))"

definition store_file ::
  "storage_lib \<Rightarrow> storage_manager \<Rightarrow> string \<Rightarrow> string \<Rightarrow> bytes \<Rightarrow> string option \<Rightarrow> store_options \<Rightarrow>
     (storage_error, stored_file) op" where
  "store_file lib sm bucket key content content_type opts =
     bind_op (ensure_bucket_exists sm bucket) (\<lambda>_.
     (let hashes = compute_hashes_parallel (sl_blake3 lib) (sl_md5 lib) content in
      if stc_enable_deduplication (cf_storage (sm_config sm)) then
        bind_op (db_get_file_by_hash (fst hashes)) (\<lambda>existing.
        case existing of
          Some f \<Rightarrow>
            if sf_bucket f = bucket \<and> sf_key f = key then ret f
            else store_alias f bucket key content_type opts hashes
        | None \<Rightarrow> store_new lib sm bucket key content content_type opts hashes)
      else store_new lib sm bucket key content content_type opts hashes))"

section \<open>Deleting\<close>

text \<open>One transaction: nothing changes before the commit.\<close>

definition delete_transaction :: "string \<Rightarrow> string \<Rightarrow> (storage_error, string \<times> nat) op" where
  "delete_transaction bucket key =
     bind_op (read_query (\<lambda>now c d. ())) (\<lambda>_.
     bind_op (read_query (\<lambda>now c. sql_get_file bucket key)) (\<lambda>row.
     bind_op (lift_result (ok_or row (NotFound bucket key))) (\<lambda>file.
     bind_op (read_query (\<lambda>now c. sql_count_other_references (sf_file_path file) bucket key)) (\<lambda>others.
     bind_op (read_query (\<lambda>now c d. fst (sql_delete_file bucket key d))) (\<lambda>_.
     bind_op (write_query (\<lambda>now d. snd (sql_delete_file bucket key d))) (\<lambda>_.
     ret (sf_file_path file, others)))))))"

definition delete_file ::
  "storage_manager \<Rightarrow> string \<Rightarrow> string \<Rightarrow> (storage_error, unit) op" where
  "delete_file sm bucket key =
     bind_op (delete_transaction bucket key) (\<lambda>(file_path, other_references).
     bind_op (if other_references = 0 then ignore (remove_file file_path) else ret ()) (\<lambda>_.
     ignore (invalidate_file (sm_cache sm) bucket key)))"

section \<open>Reading\<close>

text \<open>The row of an object, from the cache or else from the database, which fills the cache.\<close>

definition read_metadata ::
  "storage_lib \<Rightarrow> storage_manager \<Rightarrow> string \<Rightarrow> string \<Rightarrow> (storage_error, stored_file) op" where
  "read_metadata lib sm bucket key =
     try_op (get_file_metadata (sl_json lib) (sm_cache sm) bucket key) (\<lambda>r.
     case r of
       Inr (Some cached) \<Rightarrow> ret cached
     | _ \<Rightarrow>
         bind_op (db_get_file bucket key) (\<lambda>file.
         bind_op (ignore (set_file_metadata (sl_json lib) (sm_cache sm) bucket key file)) (\<lambda>_.
         ret file)))"

definition has_expired :: "stored_file \<Rightarrow> ('e, bool) op" where
  "has_expired file =
     (case sf_expires_at file of
        None \<Rightarrow> ret False
      | Some expires_at \<Rightarrow> bind_op now_op (\<lambda>now. ret (expires_at \<le> now)))"

definition decode_content ::
  "storage_lib \<Rightarrow> storage_manager \<Rightarrow> stored_file \<Rightarrow> bytes \<Rightarrow> (storage_error, bytes) op" where
  "decode_content lib sm file content =
     bind_op
       (if is_encrypted file then
          bind_op (lift_result (algorithm_from_str
            (unwrap_or (sf_encryption_algorithm file) ''aes-gcm''))) (\<lambda>algorithm.
          case sf_encryption_key_id file of
            Some key_id \<Rightarrow>
              bind_op (get_key key_id) (\<lambda>key.
              lift_result (decrypt_with_key (sl_aead lib) content algorithm (ek_key_data key)))
          | None \<Rightarrow> lift_result (decrypt (sl_aead lib) (sm_crypto sm) content algorithm))
        else ret content) (\<lambda>plain.
     if is_compressed file then lift_result (decompress (sl_codec lib) (sm_compression sm) plain)
     else ret plain)"

text \<open>The text that makes \<^verbatim>\<open>get_file\<close> take a failed read for a missing file.\<close>

definition looks_missing :: "string \<Rightarrow> bool" where
  "looks_missing msg \<longleftrightarrow> contains_str ''No such file or directory'' msg \<or> contains_str ''os error 2'' msg"

definition read_content ::
  "storage_manager \<Rightarrow> string \<Rightarrow> string \<Rightarrow> stored_file \<Rightarrow> (storage_error, bytes) op" where
  "read_content sm bucket key file =
     try_op (get_file_content (sm_cache sm) bucket key) (\<lambda>r.
     case r of
       Inr (Some cached) \<Rightarrow> ret cached
     | _ \<Rightarrow>
         try_op (read_file (sf_file_path file)) (\<lambda>r'.
         case r' of
           Inr content \<Rightarrow>
             bind_op (ignore (set_file_content (sm_cache sm) bucket key content)) (\<lambda>_. ret content)
         | Inl e \<Rightarrow>
             if looks_missing (display_io_error e) then
               bind_op (ignore (delete_file sm bucket key)) (\<lambda>_. throw (NotFound bucket key))
             else throw (Io (display_io_error e))))"

definition get_file ::
  "storage_lib \<Rightarrow> storage_manager \<Rightarrow> string \<Rightarrow> string \<Rightarrow> (storage_error, bytes \<times> string option) op" where
  "get_file lib sm bucket key =
     bind_op (read_metadata lib sm bucket key) (\<lambda>file.
     bind_op (has_expired file) (\<lambda>gone.
     if gone then
       bind_op (ignore (delete_file sm bucket key)) (\<lambda>_. throw (NotFound bucket key))
     else
       bind_op (read_content sm bucket key file) (\<lambda>raw_content.
       bind_op (decode_content lib sm file raw_content) (\<lambda>content.
       bind_op (ignore (db_update_access (sf_id file))) (\<lambda>_.
       ret (content, Some (sf_content_type file)))))))"

text \<open>The span of a range request within a total length, in \<^verbatim>\<open>u64\<close> arithmetic.\<close>

definition clamp_range :: "u64 \<Rightarrow> u64 \<Rightarrow> u64 \<Rightarrow> (u64 \<times> nat) option" where
  "clamp_range total_len start stop =
     (let clamped_end = min stop (saturating_sub total_len 1) in
      if total_len = 0 \<or> clamped_end < start then None
      else Some (clamped_end, unat (clamped_end - start + 1)))"

definition fs_open :: "fs \<Rightarrow> path \<Rightarrow> io_error + path" where
  "fs_open s p = (if is_dir s p \<or> is_file s p then Inr p else Inl (lookup_error s p))"

definition open_file :: "string \<Rightarrow> (io_error, path) op" where
  "open_file p = io_call (\<lambda>s. map_sum id (\<lambda>h. (h, s)) (at_file p fs_open s))"

definition seek_start :: "u64 \<Rightarrow> (io_error, unit) op" where
  "seek_start pos =
     io_call (\<lambda>s. if unat pos < 2 ^ 63 then Inr ((), s) else Inl (Os_error ''Invalid argument'' 22))"

definition read_exact :: "path \<Rightarrow> nat \<Rightarrow> nat \<Rightarrow> (io_error, bytes) op" where
  "read_exact h pos len =
     io_call (\<lambda>s.
       case fs_read s h of
         Inl e \<Rightarrow> Inl e
       | Inr content \<Rightarrow>
           if length (drop pos content) < len then Inl (Other_io ''early eof'')
           else Inr (take len (drop pos content), s))"

definition get_file_range_if_plain ::
  "storage_lib \<Rightarrow> storage_manager \<Rightarrow> string \<Rightarrow> string \<Rightarrow> u64 \<Rightarrow> u64 \<Rightarrow>
     (storage_error, (bytes \<times> string \<times> u64) option) op" where
  "get_file_range_if_plain lib sm bucket key start stop =
     bind_op (read_metadata lib sm bucket key) (\<lambda>file.
     if is_compressed file \<or> is_encrypted file then ret None
     else
       (let total_len = i64_as_u64 (sf_file_size file) in
        case clamp_range total_len start stop of
          None \<Rightarrow> ret None
        | Some (_, len) \<Rightarrow>
            bind_op (map_err_op from_io_error (open_file (sf_file_path file))) (\<lambda>f.
            bind_op (map_err_op from_io_error (seek_start start)) (\<lambda>_.
            bind_op (map_err_op from_io_error (read_exact f (unat start) len)) (\<lambda>buf.
            bind_op (ignore (db_update_access (sf_id file))) (\<lambda>_.
            ret (Some (buf, sf_content_type file, total_len))))))))"

definition get_compressed_file_range ::
  "storage_lib \<Rightarrow> storage_manager \<Rightarrow> string \<Rightarrow> string \<Rightarrow> u64 \<Rightarrow> u64 \<Rightarrow>
     (storage_error, (bytes \<times> string \<times> u64) option) op" where
  "get_compressed_file_range lib sm bucket key start stop =
     bind_op (read_metadata lib sm bucket key) (\<lambda>file.
     if is_encrypted file \<or> \<not> is_compressed file then ret None
     else
       (let total_len = i64_as_u64 (sf_original_size file) in
        case clamp_range total_len start stop of
          None \<Rightarrow> ret None
        | Some (_, want_len) \<Rightarrow>
            bind_op (map_err_op from_io_error (read_file (sf_file_path file))) (\<lambda>compressed.
            bind_op (lift_result
              (decompress_range (sl_codec lib) compressed (unat start) want_len)) (\<lambda>decoded.
            case decoded of
              None \<Rightarrow> ret None
            | Some buf \<Rightarrow>
                bind_op (ignore (db_update_access (sf_id file))) (\<lambda>_.
                ret (Some (buf, sf_content_type file, total_len)))))))"

definition get_file_info ::
  "storage_manager \<Rightarrow> string \<Rightarrow> string \<Rightarrow> (storage_error, file_info) op" where
  "get_file_info sm bucket key =
     bind_op (db_get_file bucket key) (\<lambda>file.
     bind_op (has_expired file) (\<lambda>gone.
     if gone then
       bind_op (ignore (delete_file sm bucket key)) (\<lambda>_. throw (NotFound bucket key))
     else ret (file_info_from file)))"

section \<open>Listings and statistics\<close>

definition list_files ::
  "string \<Rightarrow> string option \<Rightarrow> int option \<Rightarrow> int option \<Rightarrow> (storage_error, file_info list) op" where
  "list_files bucket prefix lmt off =
     bind_op (db_list_files bucket prefix (unwrap_or lmt 100) (unwrap_or off 0)) (\<lambda>files.
     ret (map file_info_from files))"

definition search_files ::
  "storage_lib \<Rightarrow> string option \<Rightarrow> string \<Rightarrow> int option \<Rightarrow> (storage_error, file_info list) op" where
  "search_files lib bucket q lmt =
     bind_op (db_search_files (sl_fold_case lib) (unwrap_or bucket []) q (unwrap_or lmt 100)) (\<lambda>files.
     ret (map file_info_from files))"

definition get_storage_stats :: "(storage_error, storage_stats) op" where
  "get_storage_stats = db_get_total_stats"

definition list_buckets :: "(storage_error, string list) op" where
  "list_buckets = db_list_buckets"

definition list_buckets_with_created_at :: "(storage_error, (string \<times> time) list) op" where
  "list_buckets_with_created_at = db_list_buckets_with_created_at"

definition get_bucket_stats :: "string \<Rightarrow> (storage_error, storage_stats) op" where
  "get_bucket_stats bucket =
     bind_op (db_get_bucket_stats bucket) (\<lambda>(file_count, total_size).
     bind_op (db_list_files bucket None 1000 0) (\<lambda>files.
     bind_op now_op (\<lambda>now.
     (let compressed_files = length (filter is_compressed files);
          encrypted_files = length (filter is_encrypted files);
          avg_compression =
            (if 0 < compressed_files
             then Some (sum_list (List.map_filter sf_compression_ratio files) / of_nat compressed_files)
             else None)
      in ret \<lparr>st_total_files = file_count, st_total_size = total_size,
              st_compressed_files = int compressed_files, st_encrypted_files = int encrypted_files,
              st_compression_ratio = avg_compression, st_last_updated = now\<rparr>))))"

section \<open>Removing many\<close>

fun sweep_loop ::
  "storage_manager \<Rightarrow> nat \<Rightarrow> (string \<times> string) list \<Rightarrow> (storage_error, nat) op" where
  "sweep_loop sm removed [] = ret removed"
| "sweep_loop sm removed ((bucket, key) # rest) =
     try_op (delete_file sm bucket key) (\<lambda>r.
     case r of
       Inr _ \<Rightarrow> sweep_loop sm (removed + 1) rest
     | Inl _ \<Rightarrow> sweep_loop sm removed rest)"

definition sweep_expired_files :: "storage_manager \<Rightarrow> (storage_error, nat) op" where
  "sweep_expired_files sm = bind_op db_list_expired_files (sweep_loop sm 0)"

definition remove_bucket_file ::
  "storage_manager \<Rightarrow> string \<Rightarrow> string \<times> string \<Rightarrow> (storage_error, unit) op" where
  "remove_bucket_file sm bucket file =
     (case file of (key, file_path) \<Rightarrow>
        try_op (read_query (\<lambda>now c. sql_count_references file_path)) (\<lambda>r.
        (let other_references = (case r of Inr n \<Rightarrow> n | Inl _ \<Rightarrow> 0) in
         bind_op (if other_references = 0 then ignore (remove_file file_path) else ret ()) (\<lambda>_.
         ignore (invalidate_file (sm_cache sm) bucket key)))))"

definition delete_bucket :: "storage_manager \<Rightarrow> string \<Rightarrow> (storage_error, unit) op" where
  "delete_bucket sm bucket =
     bind_op (read_query (\<lambda>now c d.
       map (\<lambda>f. (sf_key f, sf_file_path f)) (filter (\<lambda>f. sf_bucket f = bucket) (db_files d)))) (\<lambda>files.
     bind_op (read_query (\<lambda>now c d. ())) (\<lambda>_.
     bind_op (read_query (\<lambda>now c d. fst (sql_delete_bucket bucket d))) (\<lambda>deleted_count.
     if deleted_count = 0 then
       bind_op (read_query (\<lambda>now c d. ())) (\<lambda>_. throw (InvalidBucket bucket))
     else
       bind_op (write_query (\<lambda>now d. snd (sql_delete_bucket bucket d))) (\<lambda>_.
       bind_op (for_each (remove_bucket_file sm bucket) files) (\<lambda>_.
       ignore (remove_dir_all (path_join (sm_base_path sm) bucket)))))))"

section \<open>Health and keys\<close>

definition storage_health_check :: "storage_manager \<Rightarrow> (storage_error, bool \<times> bool) op" where
  "storage_health_check sm =
     try_op (read_query (\<lambda>now c d. ())) (\<lambda>r.
     (let db_ok = (case r of Inr _ \<Rightarrow> True | Inl _ \<Rightarrow> False) in
      if cache_is_enabled (sm_cache sm) then
        bind_op (cache_health_check (sm_cache sm)) (\<lambda>redis_ok. ret (db_ok, redis_ok))
      else ret (db_ok, True)))"

definition create_encryption_key ::
  "string \<Rightarrow> string option \<Rightarrow> (storage_error, encryption_key) op" where
  "create_encryption_key algorithm description =
     bind_op (lift_result (algorithm_from_str algorithm)) (\<lambda>a.
     bind_op generate_key_id (\<lambda>key_id.
     bind_op (random_bytes 32) (\<lambda>key_data.
     create_key key_id key_data (algorithm_as_str a) description)))"

definition list_encryption_keys :: "(storage_error, encryption_key list) op" where
  "list_encryption_keys = list_keys"

definition deactivate_encryption_key :: "string \<Rightarrow> (storage_error, unit) op" where
  "deactivate_encryption_key key_id = deactivate_key key_id"

end
