(* ===== verification/Storage_Integrity.thy ===== *)
theory Storage_Integrity
  imports Storage
begin

text \<open>
  What every method of the storage manager keeps, whichever of its calls fail and whatever it
  returns: the integrity of the tables (\<open>db_wf\<close>: one row per object, every row within its
  column types and constraints, no row without its bucket or key) and the shape of the file
  tree (\<open>fs_wf\<close>).
\<close>

lemma keeps_create_bucket [keeps_intros]:
  "keeps (on_db db_wf) (create_bucket sm b)" "keeps (on_fs fs_wf) (create_bucket sm b)"
  unfolding create_bucket_def
  by (intro keeps_intros keeps_query_db; auto intro: db_wf_create_bucket)
    (intro keeps_intros)

lemma keeps_ensure_bucket_exists [keeps_intros]:
  "keeps (on_db db_wf) (ensure_bucket_exists sm b)" "keeps (on_fs fs_wf) (ensure_bucket_exists sm b)"
  unfolding ensure_bucket_exists_def by (intro keeps_intros)+

lemma keeps_store_alias [keeps_intros]:
  "keeps (on_db db_wf) (store_alias f b k ct opts h)" "keeps (on_fs J) (store_alias f b k ct opts h)"
  unfolding store_alias_def Let_def by (intro keeps_intros)+

lemma keeps_encrypt_content [keeps_intros]:
  "keeps (on_db I) (encrypt_content lib sm opts c)" "keeps (on_fs J) (encrypt_content lib sm opts c)"
  unfolding encrypt_content_def by (intro keeps_intros)+

lemma keeps_save_or_cleanup [keeps_intros]:
  "keeps (on_db db_wf) (save_or_cleanup f p)" "keeps (on_fs fs_wf) (save_or_cleanup f p)"
  unfolding save_or_cleanup_def by (intro keeps_intros)+

lemma keeps_finish_upload [keeps_intros]:
  "keeps (on_db db_wf) (finish_upload lib sm b k c p f)"
  "keeps (on_fs fs_wf) (finish_upload lib sm b k c p f)"
  unfolding finish_upload_def by (intro keeps_intros)+

lemma keeps_store_new [keeps_intros]:
  "keeps (on_db db_wf) (store_new lib sm b k c ct opts h)"
  "keeps (on_fs fs_wf) (store_new lib sm b k c ct opts h)"
  unfolding store_new_def Let_def by (intro keeps_intros)+

lemma keeps_store_file [keeps_intros]:
  "keeps (on_db db_wf) (store_file lib sm b k c ct opts)"
  "keeps (on_fs fs_wf) (store_file lib sm b k c ct opts)"
  unfolding store_file_def Let_def by (intro keeps_intros)+

lemma keeps_delete_transaction [keeps_intros]:
  "keeps (on_db db_wf) (delete_transaction b k)" "keeps (on_fs J) (delete_transaction b k)"
  unfolding delete_transaction_def
  by (intro keeps_intros keeps_write_query; rule db_wf_delete_file; assumption)
    (intro keeps_intros)

lemma keeps_delete_file [keeps_intros]:
  "keeps (on_db db_wf) (delete_file sm b k)" "keeps (on_fs fs_wf) (delete_file sm b k)"
  unfolding delete_file_def by (intro keeps_intros)+

lemma keeps_read_metadata [keeps_intros]:
  "keeps (on_db I) (read_metadata lib sm b k)" "keeps (on_fs J) (read_metadata lib sm b k)"
  unfolding read_metadata_def by (intro keeps_intros)+

lemma keeps_has_expired [keeps_intros]:
  "keeps (on_db I) (has_expired f)" "keeps (on_fs J) (has_expired f)"
  unfolding has_expired_def by (intro keeps_intros)+

lemma keeps_decode_content [keeps_intros]:
  "keeps (on_db I) (decode_content lib sm f c)" "keeps (on_fs J) (decode_content lib sm f c)"
  unfolding decode_content_def by (intro keeps_intros)+

lemma keeps_read_content [keeps_intros]:
  "keeps (on_db db_wf) (read_content sm b k f)" "keeps (on_fs fs_wf) (read_content sm b k f)"
  unfolding read_content_def by (intro keeps_intros)+

lemma keeps_get_file [keeps_intros]:
  "keeps (on_db db_wf) (get_file lib sm b k)" "keeps (on_fs fs_wf) (get_file lib sm b k)"
  unfolding get_file_def by (intro keeps_intros)+

lemma keeps_handles [keeps_intros]:
  "keeps (on_db I) (open_file p)" "keeps (on_db I) (seek_start n)" "keeps (on_db I) (read_exact h m l)"
  unfolding open_file_def seek_start_def read_exact_def by (intro keeps_intros)+

lemma keeps_handles_fs [keeps_intros]:
  "keeps (on_fs J) (open_file p)" "keeps (on_fs J) (seek_start n)" "keeps (on_fs J) (read_exact h m l)"
  unfolding open_file_def seek_start_def read_exact_def
  by (rule keeps_io_call_fs; auto simp: map_sum_def split: sum.splits if_splits)+

lemma keeps_range_reads [keeps_intros]:
  "keeps (on_db db_wf) (get_file_range_if_plain lib sm b k s e)"
  "keeps (on_fs J) (get_file_range_if_plain lib sm b k s e)"
  "keeps (on_db db_wf) (get_compressed_file_range lib sm b k s e)"
  "keeps (on_fs J) (get_compressed_file_range lib sm b k s e)"
  unfolding get_file_range_if_plain_def get_compressed_file_range_def Let_def
  by (intro keeps_intros)+

lemma keeps_get_file_info [keeps_intros]:
  "keeps (on_db db_wf) (get_file_info sm b k)" "keeps (on_fs fs_wf) (get_file_info sm b k)"
  unfolding get_file_info_def by (intro keeps_intros)+

lemma keeps_sweep_loop [keeps_intros]:
  "keeps (on_db db_wf) (sweep_loop sm n xs)" "keeps (on_fs fs_wf) (sweep_loop sm n xs)"
  by (induction xs arbitrary: n) (auto intro!: keeps_intros)

lemma keeps_sweep [keeps_intros]:
  "keeps (on_db db_wf) (sweep_expired_files sm)" "keeps (on_fs fs_wf) (sweep_expired_files sm)"
  unfolding sweep_expired_files_def by (intro keeps_intros)+

lemma keeps_remove_bucket_file [keeps_intros]:
  "keeps (on_db I) (remove_bucket_file sm b f)" "keeps (on_fs fs_wf) (remove_bucket_file sm b f)"
  unfolding remove_bucket_file_def Let_def by (intro keeps_intros)+

lemma keeps_delete_bucket [keeps_intros]:
  "keeps (on_db db_wf) (delete_bucket sm b)" "keeps (on_fs fs_wf) (delete_bucket sm b)"
  unfolding delete_bucket_def
  by (intro keeps_intros keeps_write_query; rule db_wf_delete_bucket; assumption)
    (intro keeps_intros)

lemma keeps_create_encryption_key [keeps_intros]:
  "keeps (on_db db_wf) (create_encryption_key a desc)" "keeps (on_fs J) (create_encryption_key a desc)"
  unfolding create_encryption_key_def by (intro keeps_intros)+

lemma keeps_listings [keeps_intros]:
  "keeps (on_db I) (list_files b p l off)" "keeps (on_fs J) (list_files b p l off)"
  "keeps (on_db I) (search_files lib bo q l)" "keeps (on_db I) (get_bucket_stats b)"
  unfolding list_files_def search_files_def get_bucket_stats_def Let_def by (intro keeps_intros)+

end
