(* ===== verification/S3_Xml.thy ===== *)
theory S3_Xml
  imports Prelude "HOL-Library.Monad_Syntax"
begin

text \<open>
  \<^verbatim>\<open>src/local-storage/src/s3/xml.rs\<close>: the documents that the S3-compatible API answers with.
  A document is serialised under the names that the source's \<^verbatim>\<open>serde\<close> attributes give: here as a
  tree of elements. How a tree is written down (escaping, empty elements) is \<^verbatim>\<open>quick_xml\<close>'s, a
  parameter; when it fails the code sends the XML declaration alone. A client that reads a
  document by those names gets back what went into it.
\<close>

section \<open>The documents\<close>

definition xmlns :: string where
  "xmlns = ''http://s3.amazonaws.com/doc/2006-03-01/''"

record bucket_entry =
  be_name :: string
  be_creation_date :: string

record list_all_my_buckets_result =
  lab_xmlns :: string
  lab_owner_id :: string
  lab_owner_display_name :: string
  lab_buckets :: "bucket_entry list"

record content =
  ct_key :: string
  ct_last_modified :: string
  ct_etag :: string
  ct_size :: int
  ct_storage_class :: string

record list_bucket_result =
  lbr_xmlns :: string
  lbr_name :: string
  lbr_prefix :: string
  lbr_key_count :: nat
  lbr_max_keys :: int
  lbr_is_truncated :: bool
  lbr_contents :: "content list"

record delete_error_entry =
  dee_key :: string
  dee_code :: string
  dee_message :: string

record delete_result =
  dr_xmlns :: string
  dr_deleted :: "string list"
  dr_error :: "delete_error_entry list"

record copy_object_result =
  cor_xmlns :: string
  cor_etag :: string
  cor_last_modified :: string

datatype xml_document =
    Buckets_document list_all_my_buckets_result
  | Objects_document list_bucket_result
  | Deleted_document delete_result
  | Copied_document copy_object_result

section \<open>Their trees\<close>

text \<open>An element with its name, attributes and xml_children; a field whose name starts with \<open>@\<close> is an
  attribute, a list is one element for each of its members, under the field's name.\<close>

datatype xml = Element string "(string \<times> string) list" "xml list" | Text string

definition leaf :: "string \<Rightarrow> string \<Rightarrow> xml" where
  "leaf name s = Element name [] [Text s]"

definition show_bool :: "bool \<Rightarrow> string" where
  "show_bool b = (if b then ''true'' else ''false'')"

definition bucket_element :: "bucket_entry \<Rightarrow> xml" where
  "bucket_element e =
     Element ''Bucket'' [] [leaf ''Name'' (be_name e), leaf ''CreationDate'' (be_creation_date e)]"

definition buckets_tree :: "list_all_my_buckets_result \<Rightarrow> xml" where
  "buckets_tree r =
     Element ''ListAllMyBucketsResult'' [(''xmlns'', lab_xmlns r)]
       [Element ''Owner'' []
          [leaf ''ID'' (lab_owner_id r), leaf ''DisplayName'' (lab_owner_display_name r)],
        Element ''Buckets'' [] (map bucket_element (lab_buckets r))]"

definition content_element :: "content \<Rightarrow> xml" where
  "content_element c =
     Element ''Contents'' []
       [leaf ''Key'' (ct_key c), leaf ''LastModified'' (ct_last_modified c), leaf ''ETag'' (ct_etag c),
        leaf ''Size'' (show_int (ct_size c)), leaf ''StorageClass'' (ct_storage_class c)]"

definition objects_tree :: "list_bucket_result \<Rightarrow> xml" where
  "objects_tree r =
     Element ''ListBucketResult'' [(''xmlns'', lbr_xmlns r)]
       ([leaf ''Name'' (lbr_name r), leaf ''Prefix'' (lbr_prefix r),
         leaf ''KeyCount'' (show_nat (lbr_key_count r)), leaf ''MaxKeys'' (show_int (lbr_max_keys r)),
         leaf ''IsTruncated'' (show_bool (lbr_is_truncated r))]
        @ map content_element (lbr_contents r))"

definition deleted_element :: "string \<Rightarrow> xml" where
  "deleted_element k = Element ''Deleted'' [] [leaf ''Key'' k]"

definition delete_error_element :: "delete_error_entry \<Rightarrow> xml" where
  "delete_error_element e =
     Element ''Error'' []
       [leaf ''Key'' (dee_key e), leaf ''Code'' (dee_code e), leaf ''Message'' (dee_message e)]"

definition deleted_tree :: "delete_result \<Rightarrow> xml" where
  "deleted_tree r =
     Element ''DeleteResult'' [(''xmlns'', dr_xmlns r)]
       (map deleted_element (dr_deleted r) @ map delete_error_element (dr_error r))"

definition copied_tree :: "copy_object_result \<Rightarrow> xml" where
  "copied_tree r =
     Element ''CopyObjectResult'' [(''xmlns'', cor_xmlns r)]
       [leaf ''ETag'' (cor_etag r), leaf ''LastModified'' (cor_last_modified r)]"

fun xml_tree :: "xml_document \<Rightarrow> xml" where
  "xml_tree (Buckets_document r) = buckets_tree r"
| "xml_tree (Objects_document r) = objects_tree r"
| "xml_tree (Deleted_document r) = deleted_tree r"
| "xml_tree (Copied_document r) = copied_tree r"

definition xml_declaration :: string where
  "xml_declaration =
     ''<?xml version='' @ [CHR 0x22] @ ''1.0'' @ [CHR 0x22] @ '' encoding='' @ [CHR 0x22] @ ''UTF-8''
       @ [CHR 0x22] @ ''?>'' @ [CHR 0x0A]"

definition to_xml :: "(xml \<Rightarrow> string option) \<Rightarrow> xml \<Rightarrow> string" where
  "to_xml serialize d = xml_declaration @ unwrap_or (serialize d) []"

section \<open>Reading them back\<close>

text \<open>What a client makes of a document: it looks for the elements by their names.\<close>

fun element_name :: "xml \<Rightarrow> string option" where
  "element_name (Element n _ _) = Some n"
| "element_name (Text _) = None"

fun xml_children :: "xml \<Rightarrow> xml list" where
  "xml_children (Element _ _ xs) = xs"
| "xml_children (Text _) = []"

definition xml_named :: "string \<Rightarrow> xml \<Rightarrow> xml list" where
  "xml_named n e = filter (\<lambda>x. element_name x = Some n) (xml_children e)"

fun element_text :: "xml \<Rightarrow> string option" where
  "element_text (Element _ _ [Text s]) = Some s"
| "element_text _ = None"

definition xml_field :: "string \<Rightarrow> xml \<Rightarrow> string option" where
  "xml_field n e = (case xml_named n e of [x] \<Rightarrow> element_text x | _ \<Rightarrow> None)"

fun xml_namespace :: "xml \<Rightarrow> string option" where
  "xml_namespace (Element _ as _) = map_of as ''xmlns''"
| "xml_namespace (Text _) = None"

definition read_object_entry :: "xml \<Rightarrow> content option" where
  "read_object_entry e =
     do {
       k \<leftarrow> xml_field ''Key'' e;
       m \<leftarrow> xml_field ''LastModified'' e;
       t \<leftarrow> xml_field ''ETag'' e;
       s \<leftarrow> Option.bind (xml_field ''Size'' e) parse_i64;
       c \<leftarrow> xml_field ''StorageClass'' e;
       Some \<lparr>ct_key = k, ct_last_modified = m, ct_etag = t, ct_size = s, ct_storage_class = c\<rparr>
     }"

definition read_listing :: "xml \<Rightarrow> list_bucket_result option" where
  "read_listing e =
     do {
       x \<leftarrow> xml_namespace e;
       n \<leftarrow> xml_field ''Name'' e;
       p \<leftarrow> xml_field ''Prefix'' e;
       c \<leftarrow> Option.bind (xml_field ''KeyCount'' e) parse_digits;
       m \<leftarrow> Option.bind (xml_field ''MaxKeys'' e) parse_i64;
       t \<leftarrow> Option.bind (xml_field ''IsTruncated'' e) parse_bool;
       cs \<leftarrow> those (map read_object_entry (xml_named ''Contents'' e));
       Some \<lparr>lbr_xmlns = x, lbr_name = n, lbr_prefix = p, lbr_key_count = c, lbr_max_keys = m,
         lbr_is_truncated = t, lbr_contents = cs\<rparr>
     }"

definition read_deleted :: "xml \<Rightarrow> (string list \<times> (string \<times> string) list) option" where
  "read_deleted e =
     do {
       ks \<leftarrow> those (map (xml_field ''Key'') (xml_named ''Deleted'' e));
       es \<leftarrow> those (map (\<lambda>x. do { k \<leftarrow> xml_field ''Key'' x; c \<leftarrow> xml_field ''Code'' x; Some (k, c) })
         (xml_named ''Error'' e));
       Some (ks, es)
     }"

definition read_bucket_names :: "xml \<Rightarrow> string list option" where
  "read_bucket_names e =
     (case xml_named ''Buckets'' e of
        [bs] \<Rightarrow> those (map (xml_field ''Name'') (xml_named ''Bucket'' bs))
      | _ \<Rightarrow> None)"

lemma parse_digits_show_nat: "parse_digits (show_nat n) = Some n"
  by (simp add: parse_digits_def digits_value_show_nat)

lemma parse_i64_show_int:
  assumes "- (2 ^ 63) \<le> i" "i < 2 ^ 63"
  shows "parse_i64 (show_int i) = Some i"
proof (cases "i < 0")
  case True
  with assms show ?thesis by (simp add: parse_signed_def show_int_def parse_digits_show_nat)
next
  case False
  obtain c cs where c: "show_nat (nat i) = c # cs"
    by (metis neq_Nil_conv show_nat_not_Nil)
  then have "is_digit c" using show_nat_digits [of c "nat i"] by simp
  then have "c \<noteq> CHR ''-''" "c \<noteq> CHR ''+''" by (auto simp: is_digit_def)
  then have "parse_i64 (show_nat (nat i)) =
      (case parse_digits (show_nat (nat i)) of
         None \<Rightarrow> None | Some n \<Rightarrow> if n < 2 ^ 63 then Some (int n) else None)"
    by (simp add: c parse_signed_def strip_plus_def split: option.split)
  with False assms show ?thesis by (simp add: show_int_def parse_digits_show_nat)
qed

lemma element_name_leaf [simp]: "element_name (leaf n s) = Some n"
  and element_text_leaf [simp]: "element_text (leaf n s) = Some s"
  by (simp_all add: leaf_def)

lemma element_name_elements [simp]:
  "element_name (bucket_element b) = Some ''Bucket''"
  "element_name (content_element c) = Some ''Contents''"
  "element_name (deleted_element k) = Some ''Deleted''"
  "element_name (delete_error_element e) = Some ''Error''"
  by (simp_all add: bucket_element_def content_element_def deleted_element_def delete_error_element_def)

lemma parse_bool_show [simp]: "parse_bool (show_bool b) = Some b"
  by (simp add: parse_bool_def show_bool_def)

lemma those_map_Some: "(\<And>x. x \<in> set xs \<Longrightarrow> f (g x) = Some (h x)) \<Longrightarrow> those (map f (map g xs)) = Some (map h xs)"
  by (induction xs) simp_all

lemma filter_other [simp]:
  "filter (\<lambda>x. element_name x = Some n) (map content_element cs) =
     (if n = ''Contents'' then map content_element cs else [])"
  "filter (\<lambda>x. element_name x = Some n) (map bucket_element bs) =
     (if n = ''Bucket'' then map bucket_element bs else [])"
  "filter (\<lambda>x. element_name x = Some n) (map deleted_element ks) =
     (if n = ''Deleted'' then map deleted_element ks else [])"
  "filter (\<lambda>x. element_name x = Some n) (map delete_error_element es) =
     (if n = ''Error'' then map delete_error_element es else [])"
  by (auto simp: filter_map o_def)

lemma read_object_element:
  "- (2 ^ 63) \<le> ct_size c \<Longrightarrow> ct_size c < 2 ^ 63 \<Longrightarrow> read_object_entry (content_element c) = Some c"
  by (simp add: read_object_entry_def content_element_def xml_field_def xml_named_def parse_i64_show_int [simplified])

text \<open>A listing is read back whole: no two listings are the same document.\<close>

lemma read_listing_tree:
  assumes "\<forall>c \<in> set (lbr_contents r). - (2 ^ 63) \<le> ct_size c \<and> ct_size c < 2 ^ 63"
    and "- (2 ^ 63) \<le> lbr_max_keys r" "lbr_max_keys r < 2 ^ 63"
  shows "read_listing (objects_tree r) = Some r"
proof -
  have "those (map read_object_entry (map content_element (lbr_contents r))) = Some (map id (lbr_contents r))"
    using assms(1) by (intro those_map_Some) (simp add: read_object_element)
  then show ?thesis
    using assms(2,3)
    by (simp add: read_listing_def objects_tree_def xml_field_def xml_named_def parse_i64_show_int [simplified]
        parse_digits_show_nat)
qed

lemma read_deleted_tree:
  "read_deleted (deleted_tree r) =
     Some (dr_deleted r, map (\<lambda>e. (dee_key e, dee_code e)) (dr_error r))"
proof -
  have "those (map (xml_field ''Key'') (map deleted_element ks)) = Some (map id ks)" for ks
    by (intro those_map_Some) (simp add: deleted_element_def xml_field_def xml_named_def)
  moreover have "those (map (\<lambda>x. do { k \<leftarrow> xml_field ''Key'' x; c \<leftarrow> xml_field ''Code'' x; Some (k, c) })
      (map delete_error_element es)) = Some (map (\<lambda>e. (dee_key e, dee_code e)) es)" for es
    by (intro those_map_Some) (simp add: delete_error_element_def xml_field_def xml_named_def)
  ultimately show ?thesis by (simp add: read_deleted_def deleted_tree_def xml_named_def)
qed

lemma read_bucket_names_tree:
  "read_bucket_names (buckets_tree r) = Some (map be_name (lab_buckets r))"
proof -
  have "those (map (xml_field ''Name'') (map bucket_element bs)) = Some (map be_name bs)" for bs
    by (intro those_map_Some) (simp add: bucket_element_def xml_field_def xml_named_def)
  then show ?thesis by (simp add: read_bucket_names_def buckets_tree_def xml_named_def)
qed

end
