(* ===== verification/S3_Error.thy ===== *)
theory S3_Error
  imports Errors S3_Xml
begin

text \<open>
  \<^verbatim>\<open>src/local-storage/src/s3/error.rs\<close>: the error of the S3-compatible API, its constructors
  and the translation of a storage error into it. \<open>s3_error_response\<close> is the status and the fields
  of the document that an error is answered with, and \<open>s3_error_tree\<close> the document.
\<close>

record s3_error =
  s3_status :: nat
  s3_code :: string
  s3_message :: string
  s3_resource :: string

definition s3_new :: "nat \<Rightarrow> string \<Rightarrow> string \<Rightarrow> string \<Rightarrow> s3_error" where
  "s3_new status code message resource =
     \<lparr>s3_status = status, s3_code = code, s3_message = message, s3_resource = resource\<rparr>"

definition no_such_bucket :: "string \<Rightarrow> s3_error" where
  "no_such_bucket bucket =
     s3_new 404 ''NoSuchBucket'' ''The specified bucket does not exist'' (''/'' @ bucket)"

definition no_such_key :: "string \<Rightarrow> string \<Rightarrow> s3_error" where
  "no_such_key bucket key =
     s3_new 404 ''NoSuchKey'' ''The specified key does not exist'' (''/'' @ bucket @ ''/'' @ key)"

definition access_denied :: "string \<Rightarrow> s3_error" where
  "access_denied message = s3_new 403 ''AccessDenied'' message ''''"

definition signature_does_not_match :: s3_error where
  "signature_does_not_match =
     s3_new 403 ''SignatureDoesNotMatch''
       ''The request signature we calculated does not match the signature you provided'' ''''"

definition invalid_request :: "string \<Rightarrow> s3_error" where
  "invalid_request message = s3_new 400 ''InvalidRequest'' message ''''"

definition s3_internal :: "string \<Rightarrow> s3_error" where
  "s3_internal message = s3_new 500 ''InternalError'' message ''''"

text \<open>The XML error document, with the fresh request id that the response generates.\<close>

record s3_error_body =
  seb_code :: string
  seb_message :: string
  seb_resource :: string
  seb_request_id :: uuid

definition s3_error_response :: "uuid \<Rightarrow> s3_error \<Rightarrow> nat \<times> s3_error_body" where
  "s3_error_response request_id e =
     (s3_status e,
      \<lparr>seb_code = s3_code e, seb_message = s3_message e, seb_resource = s3_resource e,
       seb_request_id = request_id\<rparr>)"

definition s3_error_tree :: "(uuid \<Rightarrow> string) \<Rightarrow> s3_error_body \<Rightarrow> xml" where
  "s3_error_tree show_uuid e =
     Element ''Error'' []
       [leaf ''Code'' (seb_code e), leaf ''Message'' (seb_message e), leaf ''Resource'' (seb_resource e),
        leaf ''RequestId'' (show_uuid (seb_request_id e))]"

text \<open>A client finds the code of every error under its name, which is what it raises its own
  exception by.\<close>

lemma error_code_is_read:
  "xml_field ''Code'' (s3_error_tree show_uuid (snd (s3_error_response i e))) = Some (s3_code e)"
  by (simp add: s3_error_tree_def s3_error_response_def xml_field_def xml_named_def)

fun s3_from_storage_error :: "storage_error \<Rightarrow> s3_error" where
  "s3_from_storage_error (NotFound b k) = no_such_key b k"
| "s3_from_storage_error (InvalidBucket msg) = s3_new 404 ''NoSuchBucket'' msg msg"
| "s3_from_storage_error (AlreadyExists b k) =
     s3_new 409 ''KeyAlreadyExists'' (''Object already exists: '' @ b @ ''/'' @ k)
       (''/'' @ b @ ''/'' @ k)"
| "s3_from_storage_error (InvalidKey msg) = invalid_request msg"
| "s3_from_storage_error (Validation msg) = invalid_request msg"
| "s3_from_storage_error (BadRequest msg) = invalid_request msg"
| "s3_from_storage_error (PayloadTooLarge msg) = s3_new 413 ''EntityTooLarge'' msg ''''"
| "s3_from_storage_error other = s3_internal (display_error other)"

lemmas s3_error_defs =
  s3_new_def no_such_bucket_def no_such_key_def access_denied_def signature_does_not_match_def
  invalid_request_def s3_internal_def

lemma s3_from_storage_error_status:
  "s3_status (s3_from_storage_error e) \<in> {400, 404, 409, 413, 500}"
  by (cases e) (simp_all add: s3_error_defs)

text \<open>Which storage errors the two APIs answer with the same status.\<close>

definition same_status_in_both_apis :: "storage_error \<Rightarrow> bool" where
  "same_status_in_both_apis e \<longleftrightarrow>
     s3_status (s3_from_storage_error e) = fst (status_and_message e)"

lemma same_status_iff:
  "same_status_in_both_apis e \<longleftrightarrow>
     (case e of InvalidBucket _ \<Rightarrow> False | InvalidFile _ \<Rightarrow> False | Json _ \<Rightarrow> False
      | Multipart _ \<Rightarrow> False | Forbidden _ \<Rightarrow> False | _ \<Rightarrow> True)"
  by (cases e) (simp_all add: same_status_in_both_apis_def s3_error_defs)

end
