(* ===== verification/Http.thy ===== *)
theory Http
  imports Prelude
begin

text \<open>
  The parts of an HTTP request that the handlers and the signature check read: the header map
  (the first value of a name, by its lower-case form) and \<^verbatim>\<open>HeaderValue::to_str\<close>, which
  gives text for a value of visible ASCII characters only.
\<close>

datatype header_value = Visible string | Opaque bytes

type_synonym header_map = "string \<Rightarrow> header_value option"

definition header_str :: "header_map \<Rightarrow> string \<Rightarrow> string option" where
  "header_str headers name =
     (case headers name of Some (Visible s) \<Rightarrow> Some s | _ \<Rightarrow> None)"

definition no_headers :: header_map where
  "no_headers = Map.empty"

lemma header_str_Some: "header_str h n = Some s \<longleftrightarrow> h n = Some (Visible s)"
  by (auto simp: header_str_def split: option.splits header_value.splits)

lemma header_str_update [simp]:
  "header_str (h(n \<mapsto> Visible s)) m = (if m = n then Some s else header_str h m)"
  by (simp add: header_str_def)

text \<open>\<^verbatim>\<open>split_whitespace\<close> of ASCII text.\<close>

definition split_whitespace :: "string \<Rightarrow> string list" where
  "split_whitespace s =
     filter (\<lambda>w. w \<noteq> [])
       (split_on (CHR '' '') (map (\<lambda>c. if ascii_space (ord_of c) then CHR '' '' else c) s))"

section \<open>Bytes to text\<close>

text \<open>\<^verbatim>\<open>String::from_utf8_lossy\<close>: text is its UTF-8 bytes; each longest part of a broken
  character becomes U+FFFD. \<open>utf8_step\<close> gives the length of the next character, or of the
  broken part, and whether it is well-formed.\<close>

definition in_range :: "nat \<Rightarrow> nat \<Rightarrow> nat list \<Rightarrow> bool" where
  "in_range lo hi s = (case s of [] \<Rightarrow> False | b # _ \<Rightarrow> lo \<le> b \<and> b \<le> hi)"

fun continuation_run :: "nat \<Rightarrow> nat list \<Rightarrow> nat" where
  "continuation_run 0 s = 0"
| "continuation_run (Suc n) s = (if in_range 128 191 s then Suc (continuation_run n (tl s)) else 0)"

definition utf8_tail :: "nat \<Rightarrow> nat \<Rightarrow> nat \<Rightarrow> nat list \<Rightarrow> nat \<times> bool" where
  "utf8_tail n lo hi s =
     (if in_range lo hi s then
        (let k = continuation_run n (tl s) in (Suc (Suc k), k = n))
      else (1, False))"

definition utf8_step :: "nat \<Rightarrow> nat list \<Rightarrow> nat \<times> bool" where
  "utf8_step b s =
     (if b < 128 then (1, True)
      else if 194 \<le> b \<and> b \<le> 223 then utf8_tail 0 128 191 s
      else if b = 224 then utf8_tail 1 160 191 s
      else if b = 237 then utf8_tail 1 128 159 s
      else if 225 \<le> b \<and> b \<le> 239 then utf8_tail 1 128 191 s
      else if b = 240 then utf8_tail 2 144 191 s
      else if 241 \<le> b \<and> b \<le> 243 then utf8_tail 2 128 191 s
      else if b = 244 then utf8_tail 2 128 143 s
      else (1, False))"

lemma utf8_step_pos: "0 < fst (utf8_step b s)"
  by (simp add: utf8_step_def utf8_tail_def Let_def)

definition replacement_char :: string where
  "replacement_char = [CHR 0xEF, CHR 0xBF, CHR 0xBD]"

function from_utf8_lossy :: "nat list \<Rightarrow> string" where
  "from_utf8_lossy [] = []"
| "from_utf8_lossy (b # s) =
     (if snd (utf8_step b s) then map char_of (take (fst (utf8_step b s)) (b # s))
      else replacement_char) @ from_utf8_lossy (drop (fst (utf8_step b s)) (b # s))"
  by pat_completeness auto
termination
  by (relation "measure length") (simp_all add: utf8_step_pos)

function utf8_valid :: "nat list \<Rightarrow> bool" where
  "utf8_valid [] = True"
| "utf8_valid (b # s) =
     (snd (utf8_step b s) \<and> utf8_valid (drop (fst (utf8_step b s)) (b # s)))"
  by pat_completeness auto
termination
  by (relation "measure length") (simp_all add: utf8_step_pos)

text \<open>\<^verbatim>\<open>std::str::from_utf8\<close>.\<close>

definition from_utf8 :: "bytes \<Rightarrow> string option" where
  "from_utf8 b = (if utf8_valid (map unat b) then Some (map (char_of \<circ> unat) b) else None)"

end
