(* ===== verification/S3_Auth.thy ===== *)
theory S3_Auth
  imports S3_Error Http Config
begin

text \<open>
  \<^verbatim>\<open>src/local-storage/src/s3/auth.rs\<close>: verification of AWS signature version 4. The hash
  functions, hexadecimal text, URL decoding and the date parser are third-party crates, so
  they are parameters (\<open>sig_lib\<close>); the parsing of the header, the canonical request, the
  chain of keys and the comparison are the code's own and modelled step by step.
\<close>

record sig_lib =
  hmac_sha256 :: "bytes \<Rightarrow> bytes \<Rightarrow> bytes"
  sha256 :: "bytes \<Rightarrow> bytes"
  hex_encode :: "bytes \<Rightarrow> string"
  url_decode :: "string \<Rightarrow> string option"
  parse_amz_date :: "string \<Rightarrow> time option"

definition sha256_hex :: "sig_lib \<Rightarrow> bytes \<Rightarrow> string" where
  "sha256_hex lib data = hex_encode lib (sha256 lib data)"

text \<open>The loop collects the differing bits of every pair of bytes.\<close>

definition constant_time_eq :: "bytes \<Rightarrow> bytes \<Rightarrow> bool" where
  "constant_time_eq a b =
     (if length a \<noteq> length b then False
      else foldl (\<lambda>diff (x, y). or diff (xor x y)) 0 (zip a b) = 0)"

section \<open>The Authorization header\<close>

record parsed_auth =
  pa_access_key :: string
  pa_date :: string
  pa_region :: string
  pa_signed_headers :: "string list"
  pa_signature :: string

text \<open>The loop over the comma-separated parts: the last value of each field wins.\<close>

type_synonym auth_fields = "string option \<times> string option \<times> string option"

definition auth_field :: "auth_fields \<Rightarrow> string \<Rightarrow> auth_fields" where
  "auth_field found part =
     (case found of (credential, signed_headers, signature) \<Rightarrow>
        (let p = trim_str part in
         case strip_prefix ''Credential='' p of
           Some v \<Rightarrow> (Some v, signed_headers, signature)
         | None \<Rightarrow>
             (case strip_prefix ''SignedHeaders='' p of
                Some v \<Rightarrow> (credential, Some v, signature)
              | None \<Rightarrow>
                  (case strip_prefix ''Signature='' p of
                     Some v \<Rightarrow> (credential, signed_headers, Some v)
                   | None \<Rightarrow> found))))"

definition parse_authorization :: "string \<Rightarrow> parsed_auth option" where
  "parse_authorization header =
     (case strip_prefix ''AWS4-HMAC-SHA256 '' header of
        None \<Rightarrow> None
      | Some rest \<Rightarrow>
          (case foldl auth_field (None, None, None) (split_on (CHR '','') rest) of
             (Some credential, Some signed_headers, Some signature) \<Rightarrow>
               (case splitn 5 (CHR ''/'') credential of
                  [access_key, date, region, service, request] \<Rightarrow>
                    Some \<lparr>pa_access_key = access_key, pa_date = date, pa_region = region,
                          pa_signed_headers = sort (map to_lowercase (split_on (CHR '';'') signed_headers)),
                          pa_signature = signature\<rparr>
                | _ \<Rightarrow> None)
           | _ \<Rightarrow> None))"

section \<open>The canonical request\<close>

definition is_ascii_alphanumeric :: "char \<Rightarrow> bool" where
  "is_ascii_alphanumeric c \<longleftrightarrow>
     (48 \<le> ord_of c \<and> ord_of c \<le> 57) \<or> (65 \<le> ord_of c \<and> ord_of c \<le> 90) \<or>
     (97 \<le> ord_of c \<and> ord_of c \<le> 122)"

definition unreserved :: "char \<Rightarrow> bool" where
  "unreserved c \<longleftrightarrow> is_ascii_alphanumeric c \<or> c \<in> {CHR ''-'', CHR ''_'', CHR ''.'', CHR ''~''}"

definition upper_hex_digit :: "nat \<Rightarrow> char" where
  "upper_hex_digit n = (if n < 10 then char_of (48 + n) else char_of (55 + n))"

definition percent_byte :: "char \<Rightarrow> string" where
  "percent_byte c =
     [CHR ''%'', upper_hex_digit (ord_of c div 16), upper_hex_digit (ord_of c mod 16)]"

definition uri_encode_char :: "bool \<Rightarrow> char \<Rightarrow> string" where
  "uri_encode_char preserve_slash c =
     (if unreserved c then [c]
      else if preserve_slash \<and> c = CHR ''/'' then [c]
      else percent_byte c)"

definition uri_encode :: "string \<Rightarrow> bool \<Rightarrow> string" where
  "uri_encode input preserve_slash = concat (map (uri_encode_char preserve_slash) input)"

definition decode_or_original :: "sig_lib \<Rightarrow> string \<Rightarrow> string" where
  "decode_or_original lib s = unwrap_or (url_decode lib s) s"

definition canonical_uri :: "sig_lib \<Rightarrow> string \<Rightarrow> string" where
  "canonical_uri lib path =
     (if path = [] then ''/''
      else join_str ''/''
        (map (\<lambda>segment. uri_encode (decode_or_original lib segment) False) (split_on (CHR ''/'') path)))"

definition query_pair :: "sig_lib \<Rightarrow> string \<Rightarrow> string \<times> string" where
  "query_pair lib pair =
     (case splitn 2 (CHR ''='') pair of
        [k] \<Rightarrow> (decode_or_original lib k, decode_or_original lib [])
      | [k, v] \<Rightarrow> (decode_or_original lib k, decode_or_original lib v)
      | _ \<Rightarrow> (decode_or_original lib [], decode_or_original lib []))"

definition canonical_query_string :: "sig_lib \<Rightarrow> string \<Rightarrow> string" where
  "canonical_query_string lib query =
     (if query = [] then []
      else join_str ''&''
        (map (\<lambda>(k, v). uri_encode k False @ ''='' @ uri_encode v False)
          (sort (map (query_pair lib) (filter (\<lambda>s. s \<noteq> []) (split_on (CHR ''&'') query))))))"

definition newline :: string where
  "newline = [CHR 0x0A]"

definition canonical_headers :: "header_map \<Rightarrow> string list \<Rightarrow> string" where
  "canonical_headers headers names =
     join_str newline
       (map (\<lambda>name. name @ '':'' @
          join_str '' '' (split_whitespace (trim_str (unwrap_or (header_str headers name) []))))
        names) @ newline"

record uri =
  uri_path :: string
  uri_query :: "string option"

definition canonical_request ::
  "sig_lib \<Rightarrow> string \<Rightarrow> uri \<Rightarrow> header_map \<Rightarrow> string list \<Rightarrow> string \<Rightarrow> string" where
  "canonical_request lib verb u headers signed_headers hashed_payload =
     join_str newline
       [verb, canonical_uri lib (uri_path u), canonical_query_string lib (unwrap_or (uri_query u) []),
        canonical_headers headers signed_headers, join_str '';'' signed_headers, hashed_payload]"

definition signing_key :: "sig_lib \<Rightarrow> string \<Rightarrow> string \<Rightarrow> string \<Rightarrow> bytes" where
  "signing_key lib secret_key date region =
     (let k_date = hmac_sha256 lib (as_bytes (''AWS4'' @ secret_key)) (as_bytes date);
          k_region = hmac_sha256 lib k_date (as_bytes region);
          k_service = hmac_sha256 lib k_region (as_bytes ''s3'')
      in hmac_sha256 lib k_service (as_bytes ''aws4_request''))"

section \<open>Verification\<close>

text \<open>The clock difference in whole seconds.\<close>

definition skew_seconds :: "time \<Rightarrow> time \<Rightarrow> int" where
  "skew_seconds now t = \<bar>now - t\<bar> div 1000000000"

definition hashed_payload_of ::
  "sig_lib \<Rightarrow> header_map \<Rightarrow> uri \<Rightarrow> bytes \<Rightarrow> s3_error + string" where
  "hashed_payload_of lib headers u body =
     (case header_str headers ''x-amz-content-sha256'' of
        Some declared \<Rightarrow>
          if declared = ''UNSIGNED-PAYLOAD'' then Inr ''UNSIGNED-PAYLOAD''
          else if starts_with ''STREAMING-'' declared then
            Inl (s3_new 501 ''NotImplemented''
              ''Chunked/streaming signed payloads (STREAMING-AWS4-HMAC-SHA256-PAYLOAD) are not supported yet''
              (uri_path u))
          else if declared \<noteq> sha256_hex lib body then Inl signature_does_not_match
          else Inr (sha256_hex lib body)
      | None \<Rightarrow> Inr (sha256_hex lib body))"

definition string_to_sign :: "sig_lib \<Rightarrow> string \<Rightarrow> string \<Rightarrow> string \<Rightarrow> string \<Rightarrow> string" where
  "string_to_sign lib amz_date date region canonical =
     join_str newline
       [''AWS4-HMAC-SHA256'', amz_date, date @ ''/'' @ region @ ''/s3/aws4_request'',
        sha256_hex lib (as_bytes canonical)]"

definition computed_signature ::
  "sig_lib \<Rightarrow> string \<Rightarrow> string \<Rightarrow> uri \<Rightarrow> header_map \<Rightarrow> string \<Rightarrow> string \<Rightarrow> parsed_auth \<Rightarrow> string" where
  "computed_signature lib secret_key verb u headers hashed_payload amz_date parsed =
     hex_encode lib (hmac_sha256 lib
       (signing_key lib secret_key (pa_date parsed) (pa_region parsed))
       (as_bytes (string_to_sign lib amz_date (pa_date parsed) (pa_region parsed)
         (canonical_request lib verb u headers (pa_signed_headers parsed) hashed_payload))))"

definition verify_sigv4 ::
  "sig_lib \<Rightarrow> time \<Rightarrow> header_map \<Rightarrow> string \<Rightarrow> uri \<Rightarrow> bytes \<Rightarrow> s3_config \<Rightarrow> s3_error + unit" where
  "verify_sigv4 lib now headers verb u body cfg =
     and_then (ok_or (header_str headers ''authorization'')
       (access_denied ''Missing Authorization header'')) (\<lambda>auth_header.
     and_then (ok_or (parse_authorization auth_header)
       (invalid_request ''Malformed Authorization header'')) (\<lambda>parsed.
     if pa_access_key parsed \<noteq> s3c_access_key cfg then Inl signature_does_not_match
     else
       and_then (ok_or (header_str headers ''x-amz-date'')
         (invalid_request ''Missing x-amz-date header'')) (\<lambda>amz_date.
       and_then (ok_or (parse_amz_date lib amz_date)
         (invalid_request ''Invalid x-amz-date'')) (\<lambda>request_time.
       if 900 < skew_seconds now request_time then
         Inl (s3_new 403 ''RequestTimeTooSkewed''
           ''The difference between the request time and the current time is too large''
           (uri_path u))
       else
         and_then (hashed_payload_of lib headers u body) (\<lambda>hashed_payload.
         if \<not> constant_time_eq
              (as_bytes (computed_signature lib (s3c_secret_key cfg) verb u headers hashed_payload
                 amz_date parsed))
              (as_bytes (pa_signature parsed))
         then Inl signature_does_not_match
         else Inr ())))))"

section \<open>The comparison\<close>

lemma or_zero_iff: "or a b = 0 \<longleftrightarrow> a = 0 \<and> b = 0" for a b :: "'a::len word"
  by (rule or_eq_0_iff)

lemma xor_zero_iff: "xor a b = 0 \<longleftrightarrow> a = b" for a b :: "'a::len word"
  by (metis xor.assoc xor.left_neutral xor.right_neutral xor_self_eq)

lemma diff_fold_zero:
  "foldl (\<lambda>d (x, y). or d (xor x y)) d xs = (0 :: u8) \<longleftrightarrow> d = 0 \<and> (\<forall>(x, y) \<in> set xs. x = y)"
  by (induction xs arbitrary: d) (auto simp: or_zero_iff xor_zero_iff)

lemma zip_all_equal: "length a = length b \<Longrightarrow> (\<forall>(x, y) \<in> set (zip a b). x = y) \<longleftrightarrow> a = b"
  by (induction a b rule: list_induct2) auto

lemma constant_time_eq_iff: "constant_time_eq a b \<longleftrightarrow> a = b"
  by (cases "length a = length b")
    (simp add: constant_time_eq_def diff_fold_zero zip_all_equal, auto simp: constant_time_eq_def)

lemma char_of_byte: "char_of (unat (of_char c :: u8)) = c"
proof -
  have "unat (of_nat (of_char c) :: u8) = of_char c mod 2 ^ 8"
    by (simp only: unat_of_nat) simp
  also have "\<dots> = of_char c"
    using nat_of_char_less_256 [of c] by simp
  finally have "unat (of_char c :: u8) = of_char c" by (simp only: of_nat_of_char)
  then show ?thesis by simp
qed

lemma as_bytes_inj: "as_bytes s = as_bytes t \<longleftrightarrow> s = t"
proof -
  have "inj (of_char :: char \<Rightarrow> u8)" by (rule inj_on_inverseI [of _ "\<lambda>b. char_of (unat b)"]) (rule char_of_byte)
  then show ?thesis by (simp add: as_bytes_def inj_map_eq_map)
qed

section \<open>What is accepted\<close>

text \<open>A request passes exactly when it names the configured access key, is recent, declares no
  payload other than its own, and carries the signature computed from the secret key.\<close>

lemma verify_sigv4_iff:
  "verify_sigv4 lib now headers verb u body cfg = Inr () \<longleftrightarrow>
     (\<exists>auth parsed amz_date t payload.
        header_str headers ''authorization'' = Some auth \<and> parse_authorization auth = Some parsed \<and>
        pa_access_key parsed = s3c_access_key cfg \<and>
        header_str headers ''x-amz-date'' = Some amz_date \<and> parse_amz_date lib amz_date = Some t \<and>
        skew_seconds now t \<le> 900 \<and> hashed_payload_of lib headers u body = Inr payload \<and>
        pa_signature parsed =
          computed_signature lib (s3c_secret_key cfg) verb u headers payload amz_date parsed)"
    (is "?lhs \<longleftrightarrow> ?rhs")
proof
  assume ?lhs
  then show ?rhs
    by (auto simp: verify_sigv4_def constant_time_eq_iff as_bytes_inj not_less split: if_splits)
next
  assume ?rhs
  then show ?lhs
    unfolding verify_sigv4_def by (elim exE) (simp add: constant_time_eq_iff as_bytes_inj)
qed

lemma hashed_payload_Inr:
  "hashed_payload_of lib headers u body = Inr p \<longleftrightarrow>
     (case header_str headers ''x-amz-content-sha256'' of
        None \<Rightarrow> p = sha256_hex lib body
      | Some d \<Rightarrow>
          (d = ''UNSIGNED-PAYLOAD'' \<and> p = d) \<or>
          (d \<noteq> ''UNSIGNED-PAYLOAD'' \<and> \<not> starts_with ''STREAMING-'' d \<and> d = sha256_hex lib body \<and> p = d))"
  by (auto simp: hashed_payload_of_def split: option.split)

section \<open>A header in the standard form\<close>

definition plain_char :: "char \<Rightarrow> bool" where
  "plain_char c \<longleftrightarrow> 33 \<le> ord_of c \<and> ord_of c < 127"

lemma trim_start_plain: "plain_char c \<Longrightarrow> trim_start (c # s) = c # s"
  by (cases s rule: remdups_adj.cases)
    (auto simp: plain_char_def ascii_space_def space2_def space3_def)

lemma trim_end_rev_plain: "plain_char c \<Longrightarrow> trim_end_rev (c # s) = c # s"
  by (cases s rule: remdups_adj.cases)
    (auto simp: plain_char_def ascii_space_def space2_def space3_def)

lemma trim_start_space: "trim_start (CHR '' '' # s) = trim_start s"
  by (cases s rule: remdups_adj.cases) (auto simp: ascii_space_def)

lemma trim_plain:
  assumes "s \<noteq> []" "plain_char (hd s)" "plain_char (last s)"
  shows "trim_str s = s" "trim_str (CHR '' '' # s) = s"
proof -
  obtain c t where s: "s = c # t" using assms(1) by (cases s) auto
  obtain d r where r: "rev s = d # r" using assms(1) by (cases "rev s") auto
  have "last s = d" using r by (metis last_rev list.sel(1) rev_rev_ident hd_rev)
  then have e: "trim_end_rev (rev s) = rev s" using r assms(3) by (simp add: trim_end_rev_plain)
  have "trim_start s = s" using s assms(2) by (simp add: trim_start_plain)
  then show "trim_str s = s" "trim_str (CHR '' '' # s) = s"
    using e by (simp_all add: trim_str_def trim_start_space)
qed

lemma splitn_step: "d \<notin> set a \<Longrightarrow> splitn (Suc (Suc n)) d (a @ d # b) = a # splitn (Suc n) d b"
  by simp

definition authorization_header ::
  "string \<Rightarrow> string \<Rightarrow> string \<Rightarrow> string list \<Rightarrow> string \<Rightarrow> string" where
  "authorization_header access_key date region names signature =
     ''AWS4-HMAC-SHA256 Credential='' @ access_key @ ''/'' @ date @ ''/'' @ region @
     ''/s3/aws4_request, SignedHeaders='' @ join_str '';'' names @ '', Signature='' @ signature"

definition plain_text :: "string \<Rightarrow> bool" where
  "plain_text s \<longleftrightarrow> s \<noteq> [] \<and> list_all plain_char s \<and> CHR '','' \<notin> set s"

lemma last_plain: "plain_text s \<Longrightarrow> plain_char (last s)"
  by (auto simp: plain_text_def list_all_iff)

lemma auth_fields_found:
  assumes "plain_text cred" "plain_text names" "plain_text signature"
  shows "foldl auth_field (None, None, None) (split_on (CHR '','')
    (''Credential='' @ cred @ '', SignedHeaders='' @ names @ '', Signature='' @ signature)) =
    (Some cred, Some names, Some signature)"
proof -
  let ?c = "''Credential='' @ cred" and ?n = "''SignedHeaders='' @ names" and ?s = "''Signature='' @ signature"
  have comma: "CHR '','' \<notin> set ?c" "CHR '','' \<notin> set (CHR '' '' # ?n)" "CHR '','' \<notin> set (CHR '' '' # ?s)"
    using assms by (auto simp: plain_text_def)
  have split: "split_on (CHR '','') (?c @ CHR '','' # (CHR '' '' # ?n) @ CHR '','' # (CHR '' '' # ?s)) =
      [?c, CHR '' '' # ?n, CHR '' '' # ?s]"
    by (simp only: split_on_append [OF comma(1)] split_on_append [OF comma(2)] split_on_id [OF comma(3)])
  have layout: "''Credential='' @ cred @ '', SignedHeaders='' @ names @ '', Signature='' @ signature =
      ?c @ CHR '','' # (CHR '' '' # ?n) @ CHR '','' # (CHR '' '' # ?s)"
    by simp
  have lasts: "plain_char (last ?c)" "plain_char (last ?n)" "plain_char (last ?s)"
    using assms last_plain by (auto simp: plain_text_def)
  have trims: "trim_str ?c = ?c" "trim_str (CHR '' '' # ?n) = ?n" "trim_str (CHR '' '' # ?s) = ?s"
    using trim_plain(1) [OF _ _ lasts(1)] trim_plain(2) [OF _ _ lasts(2)] trim_plain(2) [OF _ _ lasts(3)]
    by (simp_all add: plain_char_def)
  show ?thesis
    unfolding layout split
    using trims by (simp add: auth_field_def Let_def strip_prefix_def starts_with_def)
qed

lemma parse_authorization_header:
  assumes "plain_text access_key" "plain_text date" "plain_text region" "plain_text signature"
    and "CHR ''/'' \<notin> set access_key" "CHR ''/'' \<notin> set date" "CHR ''/'' \<notin> set region"
    and "names \<noteq> []" "\<And>n. n \<in> set names \<Longrightarrow> plain_text n \<and> CHR '';'' \<notin> set n"
  shows "parse_authorization (authorization_header access_key date region names signature) =
    Some \<lparr>pa_access_key = access_key, pa_date = date, pa_region = region,
          pa_signed_headers = sort (map to_lowercase names), pa_signature = signature\<rparr>"
proof -
  let ?cred = "access_key @ ''/'' @ date @ ''/'' @ region @ ''/s3/aws4_request''"
  have join: "plain_text (join_str '';'' names)"
    using assms(8,9)
  proof (induction names rule: list_nonempty_induct)
    case (cons x xs)
    then show ?case by (auto simp: plain_text_def plain_char_def join_Cons)
  qed simp
  have cred: "plain_text ?cred"
    using assms(1-3) by (simp add: plain_text_def plain_char_def)
  have parts: "splitn 5 (CHR ''/'') ?cred = [access_key, date, region, ''s3'', ''aws4_request'']"
    using assms(5-7) by (simp add: numeral_eq_Suc) (simp add: split_once_def)
  have names: "split_on (CHR '';'') (join_str '';'' names) = names"
    using assms(8,9) by (intro split_join) auto
  have hdr: "authorization_header access_key date region names signature =
      ''AWS4-HMAC-SHA256 '' @
      (''Credential='' @ ?cred @ '', SignedHeaders='' @ join_str '';'' names @ '', Signature='' @ signature)"
    by (simp add: authorization_header_def)
  have strip: "strip_prefix p (p @ t) = Some t" for p t :: string
    by simp
  show ?thesis
    unfolding hdr parse_authorization_def strip
    using parts names by (simp only: auth_fields_found [OF cred join assms(4)] option.case prod.case list.case)
qed

section \<open>Percent encoding loses nothing\<close>

definition hex_value :: "char \<Rightarrow> nat" where
  "hex_value c = (if ord_of c < 65 then ord_of c - 48 else ord_of c - 55)"

fun percent_decode :: "string \<Rightarrow> string" where
  "percent_decode [] = []"
| "percent_decode [c] = [c]"
| "percent_decode [c, d] = [c, d]"
| "percent_decode (c # a # b # s) =
     (if c = CHR ''%'' then char_of (16 * hex_value a + hex_value b) # percent_decode s
      else c # percent_decode (a # b # s))"

lemma percent_decode_plain: "c \<noteq> CHR ''%'' \<Longrightarrow> percent_decode (c # s) = c # percent_decode s"
  by (cases s rule: percent_decode.cases) auto

lemma hex_digit_value: "n < 16 \<Longrightarrow> hex_value (upper_hex_digit n) = n"
  by (auto simp: hex_value_def upper_hex_digit_def of_char_of)

lemma unreserved_not_percent: "unreserved c \<Longrightarrow> c \<noteq> CHR ''%''"
  by (auto simp: unreserved_def is_ascii_alphanumeric_def)

lemma percent_decode_encode_char:
  "percent_decode (uri_encode_char p c @ t) = c # percent_decode t"
proof (cases "unreserved c \<or> (p \<and> c = CHR ''/'')")
  case True
  then show ?thesis
    using unreserved_not_percent [of c]
    by (auto simp: uri_encode_char_def percent_decode_plain)
next
  case False
  have "ord_of c div 16 < 16" using nat_of_char_less_256 [of c] by (simp add: div_less_iff_less_mult)
  then have "percent_decode (percent_byte c @ t) =
      char_of (16 * (ord_of c div 16) + ord_of c mod 16) # percent_decode t"
    by (simp add: percent_byte_def hex_digit_value)
  then show ?thesis using False by (auto simp: uri_encode_char_def)
qed

lemma percent_decode_uri_encode: "percent_decode (uri_encode s p) = s"
  by (induction s) (simp_all add: uri_encode_def percent_decode_encode_char)

lemma uri_encode_inj: "uri_encode a p = uri_encode b p \<longleftrightarrow> a = b"
  by (metis percent_decode_uri_encode)

end
