(* ===== verification/Handlers.thy ===== *)
theory Handlers
  imports Storage_Integrity S3_Auth S3_Xml
begin

text \<open>
  The handlers of the service's own API: \<^verbatim>\<open>src/local-storage/src/handlers/file_handlers.rs\<close>,
  \<^verbatim>\<open>bucket_handlers.rs\<close>, \<^verbatim>\<open>key_handlers.rs\<close> and \<^verbatim>\<open>health_handler.rs\<close>, with the state they
  share (\<^verbatim>\<open>AppState\<close> of \<^verbatim>\<open>app.rs\<close>). A handler takes what the framework has extracted from
  the request and answers a status, headers and a body, or a storage error. JSON bodies are
  kept as the value they are made of. Which strings are header values and the date arithmetic
  of \<^verbatim>\<open>chrono\<close> (which panics when the result is out of its range) are parameters.
\<close>

record handler_lib =
  hl_storage :: storage_lib
  hl_sig :: sig_lib
  hl_header_ok :: "string \<Rightarrow> bool"
  hl_add_seconds :: "time \<Rightarrow> int \<Rightarrow> time option"
  hl_rfc3339 :: "time \<Rightarrow> string"
  hl_xml_text :: "xml \<Rightarrow> string option"
  hl_parse_delete :: "string \<Rightarrow> string + string list"

record app_state =
  as_storage :: storage_manager
  as_s3_config :: "s3_config option"
  as_download_protection_token :: "string option"
  as_protected_read_buckets :: "string list option"

record key_info =
  ki_key_id :: string
  ki_algorithm :: string
  ki_description :: "string option"
  ki_is_active :: "bool option"
  ki_created_at :: "time option"

datatype body =
    Empty_body
  | Text_body string
  | Content_body bytes
  | Info_body file_info
  | Infos_body "file_info list"
  | Stats_body storage_stats
  | Names_body "string list"
  | Key_body key_info
  | Keys_body "key_info list"
  | Xml_body string

record response =
  rs_status :: nat
  rs_headers :: "(string \<times> string) list"
  rs_body :: body

definition respond :: "nat \<Rightarrow> (string \<times> string) list \<Rightarrow> body \<Rightarrow> response" where
  "respond status headers b = \<lparr>rs_status = status, rs_headers = headers, rs_body = b\<rparr>"

section \<open>The read gate\<close>

definition download_is_authorized ::
  "string option \<Rightarrow> string list option \<Rightarrow> string option \<Rightarrow> string option \<Rightarrow> bool" where
  "download_is_authorized expected_token protected_buckets requested_bucket provided_token =
     (case expected_token of
        None \<Rightarrow> True
      | Some expected \<Rightarrow>
          (let in_scope =
             (case protected_buckets of
                Some allowlist \<Rightarrow>
                  (case requested_bucket of
                     Some name \<Rightarrow> list_ex (\<lambda>b. b = name) allowlist
                   | None \<Rightarrow> True)
              | None \<Rightarrow> True)
           in if \<not> in_scope then True else provided_token = Some expected))"

definition require_download_token ::
  "app_state \<Rightarrow> header_map \<Rightarrow> string option \<Rightarrow> storage_error + unit" where
  "require_download_token st headers bucket =
     (if download_is_authorized (as_download_protection_token st) (as_protected_read_buckets st)
           bucket (header_str headers ''x-activator-write-token'')
      then Inr ()
      else Inl (Forbidden ''valid X-Activator-Write-Token header required to read this bucket''))"

section \<open>Uploading\<close>

record upload_query =
  uq_compress :: "bool option"
  uq_encrypt :: "bool option"
  uq_compression_algorithm :: "string option"
  uq_compression_level :: "int option"
  uq_encryption_key_id :: "string option"
  uq_ttl_seconds :: "int option"

definition header_text :: "header_map \<Rightarrow> string \<Rightarrow> string option" where
  "header_text headers name =
     (case headers name of
        None \<Rightarrow> None
      | Some (Visible s) \<Rightarrow> Some s
      | Some (Opaque b) \<Rightarrow> Some (from_utf8_lossy (map unat b)))"

text \<open>\<^verbatim>\<open>split(p)\<close>, its second part: what is between the first \<open>p\<close> and the next.\<close>

definition second_part :: "string \<Rightarrow> string \<Rightarrow> string option" where
  "second_part p s =
     (case find_str p s of
        None \<Rightarrow> None
      | Some i \<Rightarrow>
          (let rest = drop (i + length p) s in
           Some (case find_str p rest of None \<Rightarrow> rest | Some j \<Rightarrow> take j rest)))"

definition unquote :: "string \<Rightarrow> string" where
  "unquote part =
     (if starts_with [CHR 0x22] part then
        (case find_str [CHR 0x22] (drop 1 part) of Some n \<Rightarrow> take n (drop 1 part) | None \<Rightarrow> part)
      else if starts_with [CHR 0x27] part then
        (case find_str [CHR 0x27] (drop 1 part) of Some n \<Rightarrow> take n (drop 1 part) | None \<Rightarrow> part)
      else (case find_str '';'' part of Some n \<Rightarrow> take n part | None \<Rightarrow> part))"

definition rfc5987_prefix :: string where
  "rfc5987_prefix = ''UTF-8'' @ [CHR 0x27, CHR 0x27]"

definition extract_filename_from_content_disposition ::
  "handler_lib \<Rightarrow> header_map \<Rightarrow> string option" where
  "extract_filename_from_content_disposition lib headers =
     (case header_text headers ''content-disposition'' of
        None \<Rightarrow> None
      | Some s \<Rightarrow>
          (case second_part ''filename='' s of
             None \<Rightarrow> None
           | Some part \<Rightarrow>
               (let filename = unquote (trim_str part) in
                if starts_with rfc5987_prefix filename then
                  url_decode (hl_sig lib) (drop 7 filename)
                else Some (unwrap_or (url_decode (hl_sig lib) filename) filename))))"

text \<open>The request body: a stream that ends or breaks. \<^verbatim>\<open>axum::body::to_bytes\<close> reads at most
  \<open>limit\<close> bytes of it.\<close>

datatype request_body = Whole bytes | Broken string

definition to_bytes :: "request_body \<Rightarrow> nat \<Rightarrow> string + bytes" where
  "to_bytes b limit =
     (case b of
        Broken e \<Rightarrow> Inl e
      | Whole content \<Rightarrow> if limit < length content then Inl ''length limit exceeded'' else Inr content)"

text \<open>A panic ends the request without an answer of the handler.\<close>

datatype 'e failure = Failed 'e | Panicked

definition content_length_of :: "header_map \<Rightarrow> nat option" where
  "content_length_of headers =
     (case header_str headers ''content-length'' of
        None \<Rightarrow> None | Some s \<Rightarrow> parse_unsigned (2 ^ 64) s)"

definition check_length :: "header_map \<Rightarrow> nat \<Rightarrow> storage_error + unit" where
  "check_length headers max_size =
     (case content_length_of headers of
        Some n \<Rightarrow>
          if max_size < n then
            Inl (PayloadTooLarge (''Content-Length '' @ show_nat n @ '' exceeds max file size ''
              @ show_nat max_size @ '' bytes''))
          else Inr ()
      | None \<Rightarrow> Inr ())"

definition read_body :: "request_body \<Rightarrow> nat \<Rightarrow> storage_error + bytes" where
  "read_body b max_size =
     map_err (\<lambda>e. if contains_str ''length limit exceeded'' e
                  then PayloadTooLarge (''Body exceeds max file size '' @ show_nat max_size @ '' bytes'')
                  else BadRequest (''Failed to read body: '' @ e))
       (to_bytes b max_size)"

definition expiry_of ::
  "handler_lib \<Rightarrow> int option \<Rightarrow> (storage_error failure, time option) op" where
  "expiry_of lib ttl_seconds =
     (case ttl_seconds of
        None \<Rightarrow> ret None
      | Some ttl \<Rightarrow>
          if 0 < ttl then
            bind_op now_op (\<lambda>now.
            case hl_add_seconds lib now ttl of Some t \<Rightarrow> ret (Some t) | None \<Rightarrow> throw Panicked)
          else throw (Failed (BadRequest
            (''ttl_seconds must be a positive number, got '' @ show_int ttl))))"

definition upload_file ::
  "handler_lib \<Rightarrow> app_state \<Rightarrow> string \<Rightarrow> upload_query \<Rightarrow> header_map \<Rightarrow> request_body \<Rightarrow>
     (storage_error failure, response) op" where
  "upload_file lib st bucket q headers b =
     bind_op
       (case extract_filename_from_content_disposition lib headers of
          Some name \<Rightarrow> ret name
        | None \<Rightarrow> bind_op now_op (\<lambda>now. ret (''file_'' @ show_int (now div 1000000000) @ ''.bin''))) (\<lambda>filename.
     (let content_type = unwrap_or (header_str headers ''content-type'') ''application/octet-stream'';
          max_size = max_file_size (as_storage st)
      in
      bind_op (lift_result (map_err Failed (check_length headers max_size))) (\<lambda>_.
      bind_op (lift_result (map_err Failed (read_body b max_size))) (\<lambda>content.
      if content = [] then throw (Failed (BadRequest ''No file content provided''))
      else
        bind_op (expiry_of lib (uq_ttl_seconds q)) (\<lambda>expires_at.
        (let opts =
           \<lparr>so_compress = uq_compress q, so_encrypt = uq_encrypt q, so_expires_at = expires_at,
            so_compression_algorithm = uq_compression_algorithm q,
            so_compression_level = uq_compression_level q,
            so_encryption_key_id = uq_encryption_key_id q, so_metadata = None\<rparr>
         in
         bind_op (map_err_op Failed
           (store_file (hl_storage lib) (as_storage st) bucket filename content (Some content_type) opts)) (\<lambda>file.
         ret (respond 201 [] (Info_body (file_info_from file))))))))))"

section \<open>Range requests\<close>

definition parse_range_header :: "string \<Rightarrow> u64 \<Rightarrow> (u64 \<times> u64) option" where
  "parse_range_header v total_len =
     (case strip_prefix ''bytes='' v of
        None \<Rightarrow> None
      | Some spec \<Rightarrow>
          if contains_str '','' spec then None
          else
            (case split_once (CHR ''-'') spec of
               None \<Rightarrow> None
             | Some (start_str, end_str) \<Rightarrow>
                 if start_str = [] then
                   (case parse_u64 end_str of
                      None \<Rightarrow> None
                    | Some suffix_len \<Rightarrow>
                        if suffix_len = 0 \<or> total_len = 0 then None
                        else Some (saturating_sub total_len suffix_len, total_len - 1))
                 else
                   (case parse_u64 start_str of
                      None \<Rightarrow> None
                    | Some start \<Rightarrow>
                        (case (if end_str = [] then Some (saturating_sub total_len 1)
                               else parse_u64 end_str) of
                           None \<Rightarrow> None
                         | Some stop \<Rightarrow>
                             if stop < start \<or> total_len \<le> start then None
                             else Some (start, min stop (saturating_sub total_len 1))))))"

definition header_value :: "handler_lib \<Rightarrow> string \<Rightarrow> string \<Rightarrow> storage_error + string" where
  "header_value lib what s = (if hl_header_ok lib s then Inr s else Inl (BadRequest what))"

definition content_range :: "u64 \<Rightarrow> u64 \<Rightarrow> u64 \<Rightarrow> string" where
  "content_range start stop total_len =
     ''bytes '' @ show_nat (unat start) @ ''-'' @ show_nat (unat stop) @ ''/'' @ show_nat (unat total_len)"

definition partial_response ::
  "handler_lib \<Rightarrow> string \<Rightarrow> u64 \<Rightarrow> u64 \<Rightarrow> u64 \<Rightarrow> bytes \<Rightarrow> storage_error + response" where
  "partial_response lib content_type start stop total_len buf =
     and_then (header_value lib ''Invalid content type'' content_type) (\<lambda>ct.
     and_then (header_value lib ''Invalid range'' (content_range start stop total_len)) (\<lambda>cr.
     Inr (respond 206
       [(''Content-Type'', ct), (''Accept-Ranges'', ''bytes''), (''Content-Range'', cr)]
       (Content_body buf))))"

definition unsatisfiable_response :: "handler_lib \<Rightarrow> u64 \<Rightarrow> storage_error + response" where
  "unsatisfiable_response lib total_len =
     and_then (header_value lib ''Invalid range'' (''bytes */'' @ show_nat (unat total_len))) (\<lambda>cr.
     Inr (respond 416 [(''Accept-Ranges'', ''bytes''), (''Content-Range'', cr)] Empty_body))"

definition slice_inclusive :: "bytes \<Rightarrow> u64 \<Rightarrow> u64 \<Rightarrow> bytes" where
  "slice_inclusive content start stop =
     take (unat stop + 1 - unat start) (drop (unat start) content)"

text \<open>The whole file, or its slice: what answers when no fast path did.\<close>

definition full_download ::
  "handler_lib \<Rightarrow> app_state \<Rightarrow> string \<Rightarrow> string \<Rightarrow> string option \<Rightarrow> (storage_error, response) op" where
  "full_download lib st bucket key range_header =
     bind_op (get_file (hl_storage lib) (as_storage st) bucket key) (\<lambda>(content, content_type).
     (let total_len = of_nat (length content) in
      bind_op
        (case content_type of
           None \<Rightarrow> ret []
         | Some ct \<Rightarrow>
             bind_op (lift_result (header_value lib ''Invalid content type'' ct)) (\<lambda>v.
             ret [(''Content-Type'', v)])) (\<lambda>ct_header.
      (let headers = ct_header @ [(''Accept-Ranges'', ''bytes'')] in
       case (case range_header of None \<Rightarrow> None | Some v \<Rightarrow> parse_range_header v total_len) of
         Some (start, stop) \<Rightarrow>
           bind_op (lift_result (header_value lib ''Invalid range'' (content_range start stop total_len))) (\<lambda>cr.
           ret (respond 206 (headers @ [(''Content-Range'', cr)])
             (Content_body (slice_inclusive content start stop))))
       | None \<Rightarrow> ret (respond 200 headers (Content_body content))))))"

definition range_fast_path ::
  "handler_lib \<Rightarrow> app_state \<Rightarrow> string \<Rightarrow> string \<Rightarrow> u64 \<Rightarrow> u64 \<Rightarrow> string \<Rightarrow> (storage_error, response) op" where
  "range_fast_path lib st bucket key start stop range_value =
     try_op (get_file_range_if_plain (hl_storage lib) (as_storage st) bucket key start stop) (\<lambda>r.
     case r of
       Inr (Some (buf, content_type, total_len)) \<Rightarrow>
         lift_result (partial_response lib content_type start stop total_len buf)
     | _ \<Rightarrow>
         try_op (get_compressed_file_range (hl_storage lib) (as_storage st) bucket key start stop) (\<lambda>r'.
         case r' of
           Inr (Some (buf, content_type, total_len)) \<Rightarrow>
             lift_result (partial_response lib content_type start stop total_len buf)
         | _ \<Rightarrow> full_download lib st bucket key (Some range_value)))"

definition range_request ::
  "handler_lib \<Rightarrow> app_state \<Rightarrow> string \<Rightarrow> string \<Rightarrow> string \<Rightarrow> (storage_error, response) op" where
  "range_request lib st bucket key range_value =
     try_op (get_file_info (as_storage st) bucket key) (\<lambda>r.
     case r of
       Inl _ \<Rightarrow> full_download lib st bucket key (Some range_value)
     | Inr info \<Rightarrow>
         (let total_len = i64_as_u64 (fi_original_size info) in
          case parse_range_header range_value total_len of
            Some (start, stop) \<Rightarrow> range_fast_path lib st bucket key start stop range_value
          | None \<Rightarrow>
              (case strip_prefix ''bytes='' range_value of
                 Some spec \<Rightarrow>
                   if \<not> contains_str '','' spec then lift_result (unsatisfiable_response lib total_len)
                   else full_download lib st bucket key (Some range_value)
               | None \<Rightarrow> full_download lib st bucket key (Some range_value))))"

section \<open>The file routes\<close>

definition handle_file_request ::
  "handler_lib \<Rightarrow> app_state \<Rightarrow> string \<Rightarrow> string \<Rightarrow> header_map \<Rightarrow> (storage_error, response) op" where
  "handle_file_request lib st bucket path request_headers =
     bind_op (lift_result (require_download_token st request_headers (Some bucket))) (\<lambda>_.
     (let is_info = ends_with ''/info'' path;
          key = (if is_info then trim_end_matches ''/info'' path else path)
      in
      if is_info then
        bind_op (get_file_info (as_storage st) bucket key) (\<lambda>info.
        ret (respond 200 [] (Info_body info)))
      else
        (case header_str request_headers ''range'' of
           Some range_value \<Rightarrow> range_request lib st bucket key range_value
         | None \<Rightarrow> full_download lib st bucket key None)))"

definition handle_file_delete ::
  "app_state \<Rightarrow> string \<Rightarrow> string \<Rightarrow> (storage_error, response) op" where
  "handle_file_delete st bucket path =
     (let key = trim_end_matches ''/info'' path in
      bind_op (delete_file (as_storage st) bucket key) (\<lambda>_. ret (respond 204 [] Empty_body)))"

record list_files_query =
  lq_prefix :: "string option"
  lq_limit :: "int option"
  lq_offset :: "int option"

record search_query =
  sq_bucket :: "string option"
  sq_query :: string
  sq_limit :: "int option"

definition list_files_handler ::
  "app_state \<Rightarrow> string \<Rightarrow> list_files_query \<Rightarrow> header_map \<Rightarrow> (storage_error, response) op" where
  "list_files_handler st bucket q headers =
     bind_op (lift_result (require_download_token st headers (Some bucket))) (\<lambda>_.
     bind_op (list_files bucket (lq_prefix q) (lq_limit q) (lq_offset q)) (\<lambda>files.
     ret (respond 200 [] (Infos_body files))))"

definition search_files_handler ::
  "handler_lib \<Rightarrow> app_state \<Rightarrow> search_query \<Rightarrow> header_map \<Rightarrow> (storage_error, response) op" where
  "search_files_handler lib st q headers =
     bind_op (lift_result (require_download_token st headers (sq_bucket q))) (\<lambda>_.
     bind_op (search_files (hl_storage lib) (sq_bucket q) (sq_query q) (sq_limit q)) (\<lambda>files.
     ret (respond 200 [] (Infos_body files))))"

section \<open>Buckets, statistics, keys and health\<close>

definition create_bucket_handler :: "app_state \<Rightarrow> string \<Rightarrow> (storage_error, response) op" where
  "create_bucket_handler st bucket =
     bind_op (create_bucket (as_storage st) bucket) (\<lambda>_. ret (respond 201 [] Empty_body))"

definition delete_bucket_handler :: "app_state \<Rightarrow> string \<Rightarrow> (storage_error, response) op" where
  "delete_bucket_handler st bucket =
     bind_op (delete_bucket (as_storage st) bucket) (\<lambda>_. ret (respond 204 [] Empty_body))"

definition list_buckets_handler :: "(storage_error, response) op" where
  "list_buckets_handler =
     bind_op list_buckets (\<lambda>names. ret (respond 200 [] (Names_body names)))"

definition get_bucket_stats_handler :: "string \<Rightarrow> (storage_error, response) op" where
  "get_bucket_stats_handler bucket =
     bind_op (get_bucket_stats bucket) (\<lambda>stats. ret (respond 200 [] (Stats_body stats)))"

definition get_storage_stats_handler :: "(storage_error, response) op" where
  "get_storage_stats_handler =
     bind_op get_storage_stats (\<lambda>stats. ret (respond 200 [] (Stats_body stats)))"

text \<open>The key material never leaves: \<open>key_info\<close> has no field for it.\<close>

definition key_info_from :: "encryption_key \<Rightarrow> key_info" where
  "key_info_from k =
     \<lparr>ki_key_id = ek_key_id k, ki_algorithm = ek_algorithm k, ki_description = ek_description k,
      ki_is_active = ek_is_active k, ki_created_at = ek_created_at k\<rparr>"

record create_key_request =
  ckr_algorithm :: "string option"
  ckr_description :: "string option"

definition default_algorithm :: string where
  "default_algorithm = ''aes-gcm''"

definition create_key_handler :: "create_key_request \<Rightarrow> (storage_error, response) op" where
  "create_key_handler req =
     bind_op (create_encryption_key (unwrap_or (ckr_algorithm req) default_algorithm)
       (ckr_description req)) (\<lambda>key.
     ret (respond 201 [] (Key_body (key_info_from key))))"

definition list_keys_handler :: "(storage_error, response) op" where
  "list_keys_handler =
     bind_op list_encryption_keys (\<lambda>keys.
     ret (respond 200 [] (Keys_body (map key_info_from keys))))"

definition deactivate_key_handler :: "string \<Rightarrow> (storage_error, response) op" where
  "deactivate_key_handler key_id =
     bind_op (deactivate_encryption_key key_id) (\<lambda>_. ret (respond 204 [] Empty_body))"

definition health_check_handler :: "('e, response) op" where
  "health_check_handler = ret (respond 200 [] (Text_body ''OK''))"

definition health_check_deep :: "app_state \<Rightarrow> (storage_error, response) op" where
  "health_check_deep st =
     bind_op (storage_health_check (as_storage st)) (\<lambda>(db_ok, redis_ok).
     if db_ok \<and> redis_ok then ret (respond 200 [] (Text_body ''OK''))
     else ret (respond 503 [] (Text_body ''UNHEALTHY'')))"

end
