(* ===== verification/S3_Handlers.thy ===== *)
theory S3_Handlers
  imports Handlers
begin

text \<open>
  \<^verbatim>\<open>src/local-storage/src/s3/handlers.rs\<close>: the S3-compatible API under \<^verbatim>\<open>/v2\<close>. Every handler
  first verifies the signature of the request as it was sent. Parsing the XML of a batch
  delete is a parameter (\<^verbatim>\<open>quick_xml\<close>).
\<close>

record s3_request =
  rq_verb :: string
  rq_uri :: uri
  rq_headers :: header_map
  rq_body :: bytes

definition require_s3_config :: "app_state \<Rightarrow> s3_error + s3_config" where
  "require_s3_config st =
     ok_or (as_s3_config st) (s3_new 501 ''NotImplemented'' ''S3 v2 API is not configured'' [])"

definition verify :: "handler_lib \<Rightarrow> app_state \<Rightarrow> s3_request \<Rightarrow> (s3_error, unit) op" where
  "verify lib st rq =
     bind_op (lift_result (require_s3_config st)) (\<lambda>cfg.
     bind_op now_op (\<lambda>now.
     lift_result (verify_sigv4 (hl_sig lib) now (rq_headers rq) (rq_verb rq) (rq_uri rq) (rq_body rq) cfg)))"

definition etag :: "string \<Rightarrow> string" where
  "etag hash_md5 = [CHR 0x22] @ hash_md5 @ [CHR 0x22]"

definition xml_response :: "handler_lib \<Rightarrow> xml_document \<Rightarrow> response" where
  "xml_response lib d =
     respond 200 [(''content-type'', ''application/xml'')] (Xml_body (to_xml (hl_xml_text lib) (xml_tree d)))"

text \<open>A header given as text: one that is not a header value turns the answer into an error.\<close>

definition with_header :: "handler_lib \<Rightarrow> nat \<Rightarrow> string \<Rightarrow> string \<Rightarrow> response" where
  "with_header lib status name v =
     (if hl_header_ok lib v then respond status [(name, v)] Empty_body
      else respond 500 [] (Text_body ''failed to parse header value''))"

definition optional_header :: "handler_lib \<Rightarrow> string \<Rightarrow> string \<Rightarrow> (string \<times> string) list" where
  "optional_header lib name v = (if hl_header_ok lib v then [(name, v)] else [])"

abbreviation s3_op :: "(storage_error, 'a) op \<Rightarrow> (s3_error, 'a) op" where
  "s3_op \<equiv> map_err_op s3_from_storage_error"

section \<open>Buckets\<close>

definition s3_list_buckets :: "handler_lib \<Rightarrow> app_state \<Rightarrow> s3_request \<Rightarrow> (s3_error, response) op" where
  "s3_list_buckets lib st rq =
     bind_op (verify lib st rq) (\<lambda>_.
     bind_op (s3_op list_buckets_with_created_at) (\<lambda>buckets.
     ret (xml_response lib (Buckets_document
       \<lparr>lab_xmlns = xmlns, lab_owner_id = ''local'', lab_owner_display_name = ''local'',
        lab_buckets = map (\<lambda>(name, created_at).
          \<lparr>be_name = name, be_creation_date = hl_rfc3339 lib created_at\<rparr>) buckets\<rparr>))))"

definition s3_create_bucket ::
  "handler_lib \<Rightarrow> app_state \<Rightarrow> string \<Rightarrow> s3_request \<Rightarrow> (s3_error, response) op" where
  "s3_create_bucket lib st bucket rq =
     bind_op (verify lib st rq) (\<lambda>_.
     bind_op (s3_op (create_bucket (as_storage st) bucket)) (\<lambda>_.
     ret (with_header lib 200 ''location'' (''/'' @ bucket))))"

definition s3_delete_bucket ::
  "handler_lib \<Rightarrow> app_state \<Rightarrow> string \<Rightarrow> s3_request \<Rightarrow> (s3_error, response) op" where
  "s3_delete_bucket lib st bucket rq =
     bind_op (verify lib st rq) (\<lambda>_.
     bind_op (s3_op (delete_bucket (as_storage st) bucket)) (\<lambda>_.
     ret (respond 204 [] Empty_body)))"

definition clamp_keys :: "int option \<Rightarrow> int" where
  "clamp_keys max_keys = max 1 (min 1000 (unwrap_or max_keys 1000))"

definition object_entry :: "handler_lib \<Rightarrow> file_info \<Rightarrow> content" where
  "object_entry lib f =
     \<lparr>ct_key = fi_key f, ct_last_modified = hl_rfc3339 lib (fi_upload_time f),
      ct_etag = etag (fi_hash_md5 f), ct_size = fi_file_size f, ct_storage_class = ''STANDARD''\<rparr>"

definition list_bucket_result_of ::
  "handler_lib \<Rightarrow> string \<Rightarrow> string option \<Rightarrow> int \<Rightarrow> file_info list \<Rightarrow> list_bucket_result" where
  "list_bucket_result_of lib bucket prefix max_keys fetched =
     (let files = take (nat max_keys) fetched in
      \<lparr>lbr_xmlns = xmlns, lbr_name = bucket, lbr_prefix = unwrap_or prefix [],
       lbr_key_count = length files, lbr_max_keys = max_keys,
       lbr_is_truncated = (max_keys < int (length fetched)),
       lbr_contents = map (object_entry lib) files\<rparr>)"

definition list_objects_v2 ::
  "handler_lib \<Rightarrow> app_state \<Rightarrow> string \<Rightarrow> string option \<Rightarrow> int option \<Rightarrow> s3_request \<Rightarrow>
     (s3_error, response) op" where
  "list_objects_v2 lib st bucket prefix max_keys rq =
     bind_op (verify lib st rq) (\<lambda>_.
     (let n = clamp_keys max_keys in
      bind_op (s3_op (list_files bucket prefix (Some (n + 1)) (Some 0))) (\<lambda>fetched.
      ret (xml_response lib (Objects_document (list_bucket_result_of lib bucket prefix n fetched))))))"

section \<open>Objects\<close>

text \<open>\<^verbatim>\<open>CopyObject\<close>: the source is read back and stored again, with the default options.\<close>

definition copy_source :: "string \<Rightarrow> s3_error + string \<times> string" where
  "copy_source source =
     ok_or (split_once (CHR ''/'') (trim_start_char (CHR ''/'') source))
       (invalid_request ''Invalid x-amz-copy-source'')"

definition copy_object ::
  "handler_lib \<Rightarrow> app_state \<Rightarrow> string \<Rightarrow> string \<Rightarrow> string \<Rightarrow> (s3_error, response) op" where
  "copy_object lib st bucket key source =
     bind_op (lift_result (copy_source source)) (\<lambda>(src_bucket, src_key).
     bind_op (s3_op (get_file (hl_storage lib) (as_storage st) src_bucket src_key)) (\<lambda>(content, content_type).
     bind_op (s3_op (store_file (hl_storage lib) (as_storage st) bucket key content content_type
       default_options)) (\<lambda>file.
     ret (xml_response lib (Copied_document
       \<lparr>cor_xmlns = xmlns, cor_etag = etag (sf_hash_md5 file),
        cor_last_modified = (case sf_upload_time file of None \<Rightarrow> [] | Some t \<Rightarrow> hl_rfc3339 lib t)\<rparr>)))))"

definition ttl_header :: "handler_lib \<Rightarrow> header_map \<Rightarrow> (s3_error failure, time option) op" where
  "ttl_header lib headers =
     (case header_str headers ''x-ttl-seconds'' of
        None \<Rightarrow> ret None
      | Some raw \<Rightarrow>
          (case parse_i64 raw of
             None \<Rightarrow> throw (Failed (invalid_request ''X-Ttl-Seconds must be a positive integer''))
           | Some ttl \<Rightarrow>
               if ttl \<le> 0 then
                 throw (Failed (invalid_request ''X-Ttl-Seconds must be a positive integer''))
               else
                 bind_op now_op (\<lambda>now.
                 case hl_add_seconds lib now ttl of Some t \<Rightarrow> ret (Some t) | None \<Rightarrow> throw Panicked)))"

definition put_object ::
  "handler_lib \<Rightarrow> app_state \<Rightarrow> string \<Rightarrow> string \<Rightarrow> s3_request \<Rightarrow> (s3_error failure, response) op" where
  "put_object lib st bucket key rq =
     bind_op (map_err_op Failed (verify lib st rq)) (\<lambda>_.
     case header_str (rq_headers rq) ''x-amz-copy-source'' of
       Some source \<Rightarrow> map_err_op Failed (copy_object lib st bucket key source)
     | None \<Rightarrow>
         (let content_type = header_str (rq_headers rq) ''content-type'' in
          bind_op (ttl_header lib (rq_headers rq)) (\<lambda>expires_at.
          bind_op (map_err_op Failed (s3_op (store_file (hl_storage lib) (as_storage st) bucket key
            (rq_body rq) content_type (default_options\<lparr>so_expires_at := expires_at\<rparr>)))) (\<lambda>file.
          ret (with_header lib 200 ''etag'' (etag (sf_hash_md5 file)))))))"

definition get_object ::
  "handler_lib \<Rightarrow> app_state \<Rightarrow> string \<Rightarrow> string \<Rightarrow> s3_request \<Rightarrow> (s3_error, response) op" where
  "get_object lib st bucket key rq =
     bind_op (verify lib st rq) (\<lambda>_.
     bind_op (s3_op (get_file (hl_storage lib) (as_storage st) bucket key)) (\<lambda>(content, content_type).
     bind_op (s3_op (get_file_info (as_storage st) bucket key)) (\<lambda>info.
     (let ct = (case content_type of None \<Rightarrow> [] | Some c \<Rightarrow> optional_header lib ''content-type'' c) in
      ret (respond 200 (ct @ optional_header lib ''etag'' (etag (fi_hash_md5 info)))
        (Content_body content))))))"

definition head_object ::
  "handler_lib \<Rightarrow> app_state \<Rightarrow> string \<Rightarrow> string \<Rightarrow> s3_request \<Rightarrow> (s3_error, response) op" where
  "head_object lib st bucket key rq =
     bind_op (verify lib st rq) (\<lambda>_.
     bind_op (s3_op (get_file_info (as_storage st) bucket key)) (\<lambda>info.
     ret (respond 200
       (optional_header lib ''content-type'' (fi_content_type info) @
        optional_header lib ''etag'' (etag (fi_hash_md5 info)) @
        optional_header lib ''content-length'' (show_int (fi_file_size info)))
       Empty_body)))"

text \<open>Deleting an absent key is a success.\<close>

definition delete_object ::
  "handler_lib \<Rightarrow> app_state \<Rightarrow> string \<Rightarrow> string \<Rightarrow> s3_request \<Rightarrow> (s3_error, response) op" where
  "delete_object lib st bucket key rq =
     bind_op (verify lib st rq) (\<lambda>_.
     try_op (delete_file (as_storage st) bucket key) (\<lambda>r.
     case r of
       Inr _ \<Rightarrow> ret (respond 204 [] Empty_body)
     | Inl (NotFound _ _) \<Rightarrow> ret (respond 204 [] Empty_body)
     | Inl e \<Rightarrow> throw (s3_from_storage_error e)))"

fun delete_objects ::
  "storage_manager \<Rightarrow> string \<Rightarrow> string list \<Rightarrow> string list \<Rightarrow> delete_error_entry list \<Rightarrow>
     (s3_error, string list \<times> delete_error_entry list) op" where
  "delete_objects sm bucket [] deleted errors = ret (deleted, errors)"
| "delete_objects sm bucket (key # keys) deleted errors =
     try_op (delete_file sm bucket key) (\<lambda>r.
     case r of
       Inr _ \<Rightarrow> delete_objects sm bucket keys (deleted @ [key]) errors
     | Inl (NotFound _ _) \<Rightarrow> delete_objects sm bucket keys (deleted @ [key]) errors
     | Inl e \<Rightarrow> delete_objects sm bucket keys deleted
         (errors @ [\<lparr>dee_key = key, dee_code = ''InternalError'', dee_message = display_error e\<rparr>]))"

definition bucket_post ::
  "handler_lib \<Rightarrow> app_state \<Rightarrow> string \<Rightarrow> (string \<Rightarrow> string option) \<Rightarrow> s3_request \<Rightarrow>
     (s3_error, response) op" where
  "bucket_post lib st bucket q rq =
     bind_op (verify lib st rq) (\<lambda>_.
     if q ''delete'' = None then throw (invalid_request ''Unsupported POST operation on bucket'')
     else
       bind_op (lift_result (ok_or (from_utf8 (rq_body rq))
         (invalid_request ''Delete request body is not valid UTF-8''))) (\<lambda>xml.
       bind_op (lift_result (map_err (\<lambda>e. invalid_request (''Invalid Delete XML body: '' @ e))
         (hl_parse_delete lib xml))) (\<lambda>keys.
       bind_op (delete_objects (as_storage st) bucket keys [] []) (\<lambda>(deleted, errors).
       ret (xml_response lib (Deleted_document
         \<lparr>dr_xmlns = xmlns, dr_deleted = deleted, dr_error = errors\<rparr>))))))"

end
