(* ===== verification/App.thy ===== *)
theory App
  imports S3_Handlers
begin

text \<open>
  \<^verbatim>\<open>src/local-storage/src/app.rs\<close>, \<^verbatim>\<open>src/local-storage/src/s3/mod.rs\<close> and the loops of
  \<^verbatim>\<open>src/local-storage/src/main.rs\<close>: the table of routes, the concurrency limiter as a state
  machine over the permits of its semaphore, the application state, the expiry sweep and the
  retried migrations. Matching a path against the patterns is \<^verbatim>\<open>axum\<close>'s; the table takes
  the decoded segments of the path. CORS headers, timeouts and the listener are left out.
\<close>

section \<open>Routes\<close>

datatype verb = GET | POST | PUT | DELETE | HEAD | Other_verb

datatype endpoint =
    Health | Health_deep | Upload string | List_files string | Bucket_stats string
  | Delete_bucket string | Create_bucket string | List_buckets | Storage_stats | Search
  | File_request string string | File_delete string string
  | Create_key | List_keys | Deactivate_key string
  | S3_list_buckets | S3_create_bucket string | S3_delete_bucket string | S3_list_objects string
  | S3_bucket_post string | S3_put_object string string | S3_get_object string string
  | S3_head_object string string | S3_delete_object string string

text \<open>A wildcard takes the rest of the path, at least one character.\<close>

definition wildcard :: "string list \<Rightarrow> string option" where
  "wildcard segments = (if join_str ''/'' segments = [] then None else Some (join_str ''/'' segments))"

fun upload_router :: "verb \<Rightarrow> string list \<Rightarrow> endpoint option" where
  "upload_router POST [a, b, c] =
     (if a = ''buckets'' \<and> c = ''files'' \<and> b \<noteq> [] then Some (Upload b) else None)"
| "upload_router _ _ = None"

definition bucket_files_route :: "verb \<Rightarrow> string \<Rightarrow> string list \<Rightarrow> endpoint option" where
  "bucket_files_route v b segments =
     (case wildcard segments of
        None \<Rightarrow> None
      | Some path \<Rightarrow>
          if v = GET \<or> v = HEAD then Some (File_request b path)
          else if v = DELETE then Some (File_delete b path) else None)"

text \<open>\<^verbatim>\<open>get\<close> routes answer HEAD requests too.\<close>

definition main_router :: "verb \<Rightarrow> string list \<Rightarrow> endpoint option" where
  "main_router v segments =
     (let get = (v = GET \<or> v = HEAD) in
      case segments of
        [a] \<Rightarrow>
          if a = ''health'' then (if get then Some Health else None)
          else if a = ''buckets'' then (if get then Some List_buckets else None)
          else if a = ''stats'' then (if get then Some Storage_stats else None)
          else if a = ''search'' then (if get then Some Search else None)
          else if a = ''keys'' then
            (if v = POST then Some Create_key else if get then Some List_keys else None)
          else None
      | [a, b] \<Rightarrow>
          if a = ''health'' \<and> b = ''deep'' then (if get then Some Health_deep else None)
          else if a = ''buckets'' \<and> b \<noteq> [] then
            (if v = DELETE then Some (Delete_bucket b)
             else if v = POST then Some (Create_bucket b) else None)
          else if a = ''keys'' \<and> b \<noteq> [] then (if v = DELETE then Some (Deactivate_key b) else None)
          else None
      | [a, b, c] \<Rightarrow>
          if a = ''buckets'' \<and> b \<noteq> [] then
            (if c = ''files'' then (if get then Some (List_files b) else None)
             else if c = ''stats'' then (if get then Some (Bucket_stats b) else None)
             else None)
          else None
      | a # b # c # rest \<Rightarrow>
          if a = ''buckets'' \<and> b \<noteq> [] \<and> c = ''files'' then bucket_files_route v b rest else None
      | [] \<Rightarrow> None)"

definition s3_router :: "verb \<Rightarrow> string list \<Rightarrow> endpoint option" where
  "s3_router v segments =
     (case segments of
        [a] \<Rightarrow> if a = ''v2'' \<and> (v = GET \<or> v = HEAD) then Some S3_list_buckets else None
      | [a, b] \<Rightarrow>
          if a \<noteq> ''v2'' then None
          else if b = [] then (if v = GET \<or> v = HEAD then Some S3_list_buckets else None)
          else
            (case v of
               PUT \<Rightarrow> Some (S3_create_bucket b)
             | DELETE \<Rightarrow> Some (S3_delete_bucket b)
             | GET \<Rightarrow> Some (S3_list_objects b)
             | HEAD \<Rightarrow> Some (S3_list_objects b)
             | POST \<Rightarrow> Some (S3_bucket_post b)
             | _ \<Rightarrow> None)
      | a # b # rest \<Rightarrow>
          if a \<noteq> ''v2'' \<or> b = [] then None
          else
            (case wildcard rest of
               None \<Rightarrow> None
             | Some key \<Rightarrow>
                 (case v of
                    PUT \<Rightarrow> Some (S3_put_object b key)
                  | GET \<Rightarrow> Some (S3_get_object b key)
                  | HEAD \<Rightarrow> Some (S3_head_object b key)
                  | DELETE \<Rightarrow> Some (S3_delete_object b key)
                  | _ \<Rightarrow> None))
      | [] \<Rightarrow> None)"

text \<open>The merged router, and whether a route is behind the concurrency limiter.\<close>

definition create_router :: "app_state \<Rightarrow> verb \<Rightarrow> string list \<Rightarrow> (endpoint \<times> bool) option" where
  "create_router st v segments =
     (case upload_router v segments of
        Some e \<Rightarrow> Some (e, False)
      | None \<Rightarrow>
          (case main_router v segments of
             Some e \<Rightarrow> Some (e, True)
           | None \<Rightarrow>
               if as_s3_config st \<noteq> None then map_option (\<lambda>e. (e, False)) (s3_router v segments)
               else None))"

section \<open>The concurrency limiter\<close>

text \<open>The permits that \<^verbatim>\<open>main\<close> gives the semaphore; the constant of \<^verbatim>\<open>app.rs\<close> with this
  name and value is only logged.\<close>

definition max_concurrent_requests :: nat where
  "max_concurrent_requests = 100"

record limiter =
  lm_permits :: nat
  lm_running :: "nat set"

definition limiter_new :: limiter where
  "limiter_new = \<lparr>lm_permits = max_concurrent_requests, lm_running = {}\<rparr>"

datatype limiter_event = Admitted nat | Rejected nat | Left nat

text \<open>A request takes a permit if there is one and is answered 429 otherwise. The permit goes
  back when the request has been answered, and also when its future is dropped.\<close>

inductive limiter_step :: "limiter \<Rightarrow> limiter_event \<Rightarrow> limiter \<Rightarrow> bool" where
  admit: "0 < lm_permits l \<Longrightarrow> i \<notin> lm_running l \<Longrightarrow>
    limiter_step l (Admitted i)
      (l\<lparr>lm_permits := lm_permits l - 1, lm_running := insert i (lm_running l)\<rparr>)"
| reject: "lm_permits l = 0 \<Longrightarrow> limiter_step l (Rejected i) l"
| leave: "i \<in> lm_running l \<Longrightarrow>
    limiter_step l (Left i)
      (l\<lparr>lm_permits := lm_permits l + 1, lm_running := lm_running l - {i}\<rparr>)"

inductive_cases limiter_admitE: "limiter_step l (Admitted i) l'"
inductive_cases limiter_rejectE: "limiter_step l (Rejected i) l'"
inductive_cases limiter_leaveE: "limiter_step l (Left i) l'"

inductive limiter_reach :: "limiter \<Rightarrow> bool" where
  start: "limiter_reach limiter_new"
| step: "limiter_reach l \<Longrightarrow> limiter_step l ev l' \<Longrightarrow> limiter_reach l'"

definition limiter_inv :: "limiter \<Rightarrow> bool" where
  "limiter_inv l \<longleftrightarrow> finite (lm_running l) \<and> lm_permits l + card (lm_running l) = max_concurrent_requests"

lemma limiter_step_inv: "limiter_step l ev l' \<Longrightarrow> limiter_inv l \<Longrightarrow> limiter_inv l'"
proof (induction rule: limiter_step.induct)
  case (leave i l)
  then show ?case using card_Suc_Diff1 [of "lm_running l" i] by (simp add: limiter_inv_def)
qed (auto simp: limiter_inv_def)

lemma limiter_reach_inv: "limiter_reach l \<Longrightarrow> limiter_inv l"
  by (induction rule: limiter_reach.induct)
    (auto simp: limiter_new_def limiter_inv_def dest: limiter_step_inv)

text \<open>A request is rejected only while the limit is reached.\<close>

lemma limiter_reject_full:
  "limiter_reach l \<Longrightarrow> limiter_step l (Rejected i) l' \<Longrightarrow>
     l' = l \<and> card (lm_running l) = max_concurrent_requests"
  by (auto elim!: limiter_rejectE dest!: limiter_reach_inv simp: limiter_inv_def)

section \<open>Start-up\<close>

definition app_state_new :: "config \<Rightarrow> storage_manager \<Rightarrow> app_state" where
  "app_state_new cfg sm =
     \<lparr>as_storage = sm, as_s3_config = cf_s3 cfg,
      as_download_protection_token = cf_download_protection_token cfg,
      as_protected_read_buckets = cf_protected_read_buckets cfg\<rparr>"

definition max_attempts :: nat where
  "max_attempts = 30"

text \<open>The outcome of each run of the migrator, by the number of failures before it.\<close>

function migrate_loop :: "(nat \<Rightarrow> string option) \<Rightarrow> nat \<Rightarrow> (nat \<times> string) + nat" where
  "migrate_loop outcome attempts =
     (case outcome attempts of
        None \<Rightarrow> Inr attempts
      | Some e \<Rightarrow>
          if attempts < max_attempts then migrate_loop outcome (attempts + 1)
          else Inl (attempts, e))"
  by pat_completeness auto
termination
  by (relation "measure (\<lambda>(_, attempts). max_attempts - attempts)") auto

declare migrate_loop.simps [simp del]

text \<open>The check for orphaned files only looks: it answers whether to warn.\<close>

definition orphan_check :: "config \<Rightarrow> (storage_error, bool) op" where
  "orphan_check cfg =
     try_op (read_query (\<lambda>now c d. length (db_files d))) (\<lambda>r.
     if r = Inr 0 then
       try_op (io_call (\<lambda>s. map_sum id (\<lambda>p. (p, s)) (at_path (stc_path (cf_storage cfg)) (\<lambda>s p.
                 if is_dir s p then Inr p else Inl (lookup_error s p)) s))) (\<lambda>dir.
       case dir of
         Inl _ \<Rightarrow> ret False
       | Inr p \<Rightarrow>
           try_op (io_call (\<lambda>s. Inr (\<exists>c. fs_nodes s (p @ [c]) \<noteq> None, s))) (\<lambda>entry.
           ret (entry = Inr True)))
     else ret False)"

definition run_background_db_init ::
  "(nat \<Rightarrow> string option) \<Rightarrow> config \<Rightarrow> (storage_error, bool) op" where
  "run_background_db_init outcome cfg =
     (case migrate_loop outcome 0 of Inl _ \<Rightarrow> ret False | Inr _ \<Rightarrow> orphan_check cfg)"

text \<open>The first ticks of the sweep's timer; a failed sweep is only logged.\<close>

fun run_ttl_sweep :: "storage_manager \<Rightarrow> nat \<Rightarrow> (storage_error, unit) op" where
  "run_ttl_sweep sm 0 = ret ()"
| "run_ttl_sweep sm (Suc ticks) =
     bind_op (ignore (sweep_expired_files sm)) (\<lambda>_. run_ttl_sweep sm ticks)"

lemma migrate_loop_Inr:
  "migrate_loop outcome attempts = Inr n \<Longrightarrow>
     attempts \<le> n \<and> (n \<le> max_attempts \<or> n = attempts) \<and> outcome n = None \<and>
     (\<forall>i. attempts \<le> i \<and> i < n \<longrightarrow> outcome i \<noteq> None)"
proof (induction outcome attempts rule: migrate_loop.induct)
  case (1 outcome attempts)
  show ?case
  proof (cases "outcome attempts")
    case None
    with 1(2) show ?thesis by (subst (asm) migrate_loop.simps) auto
  next
    case (Some e)
    with 1(2) have lt: "attempts < max_attempts" and rec: "migrate_loop outcome (attempts + 1) = Inr n"
      by (subst (asm) migrate_loop.simps; auto split: if_splits)+
    from 1(1) [OF Some lt rec] have ih: "attempts + 1 \<le> n" "n \<le> max_attempts" "outcome n = None"
      "\<And>i. attempts + 1 \<le> i \<Longrightarrow> i < n \<Longrightarrow> outcome i \<noteq> None"
      using lt by auto
    have "outcome i \<noteq> None" if "attempts \<le> i" "i < n" for i
      using ih(4) [of i] Some that by (cases "i = attempts") auto
    with ih show ?thesis by auto
  qed
qed

lemma migrate_loop_succeeds:
  "outcome n = None \<Longrightarrow> attempts \<le> n \<Longrightarrow> n \<le> max_attempts \<Longrightarrow> \<exists>m. migrate_loop outcome attempts = Inr m"
proof (induction outcome attempts rule: migrate_loop.induct)
  case (1 outcome attempts)
  show ?case
  proof (cases "outcome attempts")
    case None
    then show ?thesis by (subst migrate_loop.simps) simp
  next
    case (Some e)
    then have "attempts \<noteq> n" using 1(2) by auto
    then have "attempts < max_attempts" "attempts + 1 \<le> n" using 1(3,4) by auto
    with 1 Some show ?thesis by (subst migrate_loop.simps) simp
  qed
qed

end
