(* ===== verification/Service.thy ===== *)
theory Service
  imports App
begin

text \<open>
  The service as a whole: the calls it answers, the answer each one gets (a handler's
  response, or the response made of its error) and the background tasks, as one step function
  on the state; the states it can reach from a first one; and the integrity of all of them.
\<close>

datatype call =
    Upload_call string upload_query header_map request_body
  | File_call string string header_map
  | File_delete_call string string
  | List_call string list_files_query header_map
  | Search_call search_query header_map
  | Create_bucket_call string
  | Delete_bucket_call string
  | List_buckets_call
  | Bucket_stats_call string
  | Storage_stats_call
  | Create_key_call create_key_request
  | List_keys_call
  | Deactivate_key_call string
  | Health_call
  | Health_deep_call
  | S3_list_buckets_call s3_request
  | S3_create_bucket_call string s3_request
  | S3_delete_bucket_call string s3_request
  | S3_list_objects_call string "string option" "int option" s3_request
  | S3_put_object_call string string s3_request
  | S3_get_object_call string string s3_request
  | S3_head_object_call string string s3_request
  | S3_delete_object_call string string s3_request
  | S3_bucket_post_call string "string \<Rightarrow> string option" s3_request

datatype answer =
    Replied response
  | Refused nat error_body
  | S3_refused nat s3_error_body
  | No_answer
  | No_route

definition rest_answer :: "(storage_error, response) op \<Rightarrow> world \<Rightarrow> answer \<times> world" where
  "rest_answer m w =
     (case m w of
        (Inr r, w') \<Rightarrow> (Replied r, w')
      | (Inl e, w') \<Rightarrow>
          (let (status, b) = into_response (env_now (w_env w') (w_tick w')) e
           in (Refused status b, tick w')))"

definition rest_answer_or_panic ::
  "(storage_error failure, response) op \<Rightarrow> world \<Rightarrow> answer \<times> world" where
  "rest_answer_or_panic m w =
     (case m w of
        (Inr r, w') \<Rightarrow> (Replied r, w')
      | (Inl Panicked, w') \<Rightarrow> (No_answer, w')
      | (Inl (Failed e), w') \<Rightarrow>
          (let (status, b) = into_response (env_now (w_env w') (w_tick w')) e
           in (Refused status b, tick w')))"

definition s3_answer :: "(s3_error, response) op \<Rightarrow> world \<Rightarrow> answer \<times> world" where
  "s3_answer m w =
     (case m w of
        (Inr r, w') \<Rightarrow> (Replied r, w')
      | (Inl e, w') \<Rightarrow>
          (let (status, b) = s3_error_response (env_uuid (w_env w') (w_tick w')) e
           in (S3_refused status b, tick w')))"

definition s3_answer_or_panic ::
  "(s3_error failure, response) op \<Rightarrow> world \<Rightarrow> answer \<times> world" where
  "s3_answer_or_panic m w =
     (case m w of
        (Inr r, w') \<Rightarrow> (Replied r, w')
      | (Inl Panicked, w') \<Rightarrow> (No_answer, w')
      | (Inl (Failed e), w') \<Rightarrow>
          (let (status, b) = s3_error_response (env_uuid (w_env w') (w_tick w')) e
           in (S3_refused status b, tick w')))"

text \<open>The handler of each call.\<close>

fun handle_call :: "handler_lib \<Rightarrow> app_state \<Rightarrow> call \<Rightarrow> world \<Rightarrow> answer \<times> world" where
  "handle_call lib st (Upload_call b q h c) = rest_answer_or_panic (upload_file lib st b q h c)"
| "handle_call lib st (File_call b p h) = rest_answer (handle_file_request lib st b p h)"
| "handle_call lib st (File_delete_call b p) = rest_answer (handle_file_delete st b p)"
| "handle_call lib st (List_call b q h) = rest_answer (list_files_handler st b q h)"
| "handle_call lib st (Search_call q h) = rest_answer (search_files_handler lib st q h)"
| "handle_call lib st (Create_bucket_call b) = rest_answer (create_bucket_handler st b)"
| "handle_call lib st (Delete_bucket_call b) = rest_answer (delete_bucket_handler st b)"
| "handle_call lib st List_buckets_call = rest_answer list_buckets_handler"
| "handle_call lib st (Bucket_stats_call b) = rest_answer (get_bucket_stats_handler b)"
| "handle_call lib st Storage_stats_call = rest_answer get_storage_stats_handler"
| "handle_call lib st (Create_key_call r) = rest_answer (create_key_handler r)"
| "handle_call lib st List_keys_call = rest_answer list_keys_handler"
| "handle_call lib st (Deactivate_key_call k) = rest_answer (deactivate_key_handler k)"
| "handle_call lib st Health_call = rest_answer health_check_handler"
| "handle_call lib st Health_deep_call = rest_answer (health_check_deep st)"
| "handle_call lib st (S3_list_buckets_call r) = s3_answer (s3_list_buckets lib st r)"
| "handle_call lib st (S3_create_bucket_call b r) = s3_answer (s3_create_bucket lib st b r)"
| "handle_call lib st (S3_delete_bucket_call b r) = s3_answer (s3_delete_bucket lib st b r)"
| "handle_call lib st (S3_list_objects_call b p m r) = s3_answer (list_objects_v2 lib st b p m r)"
| "handle_call lib st (S3_put_object_call b k r) = s3_answer_or_panic (put_object lib st b k r)"
| "handle_call lib st (S3_get_object_call b k r) = s3_answer (get_object lib st b k r)"
| "handle_call lib st (S3_head_object_call b k r) = s3_answer (head_object lib st b k r)"
| "handle_call lib st (S3_delete_object_call b k r) = s3_answer (delete_object lib st b k r)"
| "handle_call lib st (S3_bucket_post_call b q r) = s3_answer (bucket_post lib st b q r)"

text \<open>The calls of the S3 protocol and their requests. They have routes only when the service has
  an S3 account; without one the router answers them itself, with 404 and no body.\<close>

fun signed_request :: "call \<Rightarrow> s3_request option" where
  "signed_request (S3_list_buckets_call r) = Some r"
| "signed_request (S3_create_bucket_call b r) = Some r"
| "signed_request (S3_delete_bucket_call b r) = Some r"
| "signed_request (S3_list_objects_call b p m r) = Some r"
| "signed_request (S3_put_object_call b k r) = Some r"
| "signed_request (S3_get_object_call b k r) = Some r"
| "signed_request (S3_head_object_call b k r) = Some r"
| "signed_request (S3_delete_object_call b k r) = Some r"
| "signed_request (S3_bucket_post_call b q r) = Some r"
| "signed_request _ = None"

definition serve :: "handler_lib \<Rightarrow> app_state \<Rightarrow> call \<Rightarrow> world \<Rightarrow> answer \<times> world" where
  "serve lib st c w =
     (if signed_request c \<noteq> None \<and> as_s3_config st = None then (No_route, w)
      else handle_call lib st c w)"

lemma serve_rest: "signed_request c = None \<Longrightarrow> serve lib st c w = handle_call lib st c w"
  and serve_mounted: "as_s3_config st = Some a \<Longrightarrow> serve lib st c w = handle_call lib st c w"
  and serve_Replied: "serve lib st c w = (Replied r, w') \<Longrightarrow> handle_call lib st c w = (Replied r, w')"
  by (simp_all add: serve_def split: if_splits)

text \<open>The states that a service gets to from a first one: it answers calls, and its sweep and its
  preload run, in any order.\<close>

inductive service_reach :: "handler_lib \<Rightarrow> app_state \<Rightarrow> world \<Rightarrow> world \<Rightarrow> bool" for lib st w0 where
  start: "service_reach lib st w0 w0"
| call: "service_reach lib st w0 w \<Longrightarrow> service_reach lib st w0 (snd (serve lib st c w))"
| sweep: "service_reach lib st w0 w \<Longrightarrow> service_reach lib st w0 (snd (run_ttl_sweep (as_storage st) n w))"
| preload: "service_reach lib st w0 w \<Longrightarrow>
    service_reach lib st w0 (snd (preload_popular_files (sm_cache (as_storage st)) w))"

section \<open>Integrity\<close>

lemma keeps_range_requests [keeps_intros]:
  "keeps (on_db db_wf) (full_download lib st b k r)" "keeps (on_fs fs_wf) (full_download lib st b k r)"
  "keeps (on_db db_wf) (range_request lib st b k v)" "keeps (on_fs fs_wf) (range_request lib st b k v)"
  unfolding range_request_def range_fast_path_def full_download_def Let_def
  by (intro keeps_intros)+

lemma keeps_upload_file [keeps_intros]:
  "keeps (on_db db_wf) (upload_file lib st b q h c)" "keeps (on_fs fs_wf) (upload_file lib st b q h c)"
  unfolding upload_file_def expiry_of_def Let_def by (intro keeps_intros)+

lemma keeps_file_handlers [keeps_intros]:
  "keeps (on_db db_wf) (handle_file_request lib st b p h)" "keeps (on_fs fs_wf) (handle_file_request lib st b p h)"
  "keeps (on_db db_wf) (handle_file_delete st b p)" "keeps (on_fs fs_wf) (handle_file_delete st b p)"
  unfolding handle_file_request_def handle_file_delete_def Let_def by (intro keeps_intros)+

lemma keeps_reads_fs [keeps_intros]:
  "keeps (on_fs J) (search_files lib bo q l)" "keeps (on_fs J) (get_bucket_stats b)"
  "keeps (on_fs J) get_storage_stats" "keeps (on_fs J) list_buckets"
  "keeps (on_fs J) list_buckets_with_created_at" "keeps (on_fs J) list_encryption_keys"
  "keeps (on_fs J) (storage_health_check sm)" "keeps (on_fs J) (deactivate_encryption_key k)"
  by (auto simp: search_files_def get_bucket_stats_def get_storage_stats_def list_buckets_def
      list_buckets_with_created_at_def list_encryption_keys_def storage_health_check_def
      deactivate_encryption_key_def db_search_files_def db_get_bucket_stats_def
      db_get_total_stats_def db_list_buckets_def db_list_buckets_with_created_at_def Let_def
      intro!: keeps_intros)

lemma keeps_reads_db [keeps_intros]:
  "keeps (on_db I) get_storage_stats" "keeps (on_db I) list_buckets"
  "keeps (on_db I) list_buckets_with_created_at" "keeps (on_db I) list_encryption_keys"
  "keeps (on_db I) (storage_health_check sm)" "keeps (on_db db_wf) (deactivate_encryption_key k)"
  by (auto simp: get_storage_stats_def list_buckets_def list_buckets_with_created_at_def
      list_encryption_keys_def storage_health_check_def deactivate_encryption_key_def Let_def
      intro!: keeps_intros)

lemma keeps_small_handlers [keeps_intros]:
  "keeps (on_db db_wf) (list_files_handler st b lq h)" "keeps (on_fs fs_wf) (list_files_handler st b lq h)"
  "keeps (on_db db_wf) (search_files_handler lib st sq h)" "keeps (on_fs fs_wf) (search_files_handler lib st sq h)"
  "keeps (on_db db_wf) (create_bucket_handler st b)" "keeps (on_fs fs_wf) (create_bucket_handler st b)"
  "keeps (on_db db_wf) (delete_bucket_handler st b)" "keeps (on_fs fs_wf) (delete_bucket_handler st b)"
  "keeps (on_db db_wf) list_buckets_handler" "keeps (on_fs fs_wf) list_buckets_handler"
  "keeps (on_db db_wf) (get_bucket_stats_handler b)" "keeps (on_fs fs_wf) (get_bucket_stats_handler b)"
  "keeps (on_db db_wf) get_storage_stats_handler" "keeps (on_fs fs_wf) get_storage_stats_handler"
  "keeps (on_db db_wf) (create_key_handler kr)" "keeps (on_fs fs_wf) (create_key_handler kr)"
  "keeps (on_db db_wf) list_keys_handler" "keeps (on_fs fs_wf) list_keys_handler"
  "keeps (on_db db_wf) (deactivate_key_handler k)" "keeps (on_fs fs_wf) (deactivate_key_handler k)"
  "keeps (on_db db_wf) (health_check_deep st)" "keeps (on_fs fs_wf) (health_check_deep st)"
  unfolding list_files_handler_def search_files_handler_def create_bucket_handler_def
    delete_bucket_handler_def list_buckets_handler_def get_bucket_stats_handler_def
    get_storage_stats_handler_def create_key_handler_def list_keys_handler_def
    deactivate_key_handler_def health_check_deep_def
  by (intro keeps_intros)+

lemma keeps_verify [keeps_intros]:
  "keeps (on_db I) (verify lib st rq)" "keeps (on_fs J) (verify lib st rq)"
  unfolding verify_def by (intro keeps_intros)+

lemma keeps_case_error [keeps_intros]:
  "(\<And>b k. e = NotFound b k \<Longrightarrow> keeps P (f b k)) \<Longrightarrow> (\<And>x. keeps P (g x)) \<Longrightarrow>
     keeps P (case e of NotFound b k \<Rightarrow> f b k | x \<Rightarrow> g x)"
  by (cases e) auto

lemma keeps_delete_objects [keeps_intros]:
  "keeps (on_db db_wf) (delete_objects sm b ks ds es)" "keeps (on_fs fs_wf) (delete_objects sm b ks ds es)"
proof (induction ks arbitrary: ds es)
  case (Cons k ks)
  { case 1 show ?case unfolding delete_objects.simps
      by (rule keeps_try_op [OF keeps_delete_file(1)]) (auto intro!: Cons.IH split: sum.split storage_error.split) }
  { case 2 show ?case unfolding delete_objects.simps
      by (rule keeps_try_op [OF keeps_delete_file(2)]) (auto intro!: Cons.IH split: sum.split storage_error.split) }
qed (simp_all add: keeps_ret)

lemma keeps_s3_handlers [keeps_intros]:
  "keeps (on_db db_wf) (s3_list_buckets lib st r)" "keeps (on_fs fs_wf) (s3_list_buckets lib st r)"
  "keeps (on_db db_wf) (s3_create_bucket lib st b r)" "keeps (on_fs fs_wf) (s3_create_bucket lib st b r)"
  "keeps (on_db db_wf) (s3_delete_bucket lib st b r)" "keeps (on_fs fs_wf) (s3_delete_bucket lib st b r)"
  "keeps (on_db db_wf) (list_objects_v2 lib st b p n r)" "keeps (on_fs fs_wf) (list_objects_v2 lib st b p n r)"
  "keeps (on_db db_wf) (get_object lib st b k r)" "keeps (on_fs fs_wf) (get_object lib st b k r)"
  "keeps (on_db db_wf) (head_object lib st b k r)" "keeps (on_fs fs_wf) (head_object lib st b k r)"
  "keeps (on_db db_wf) (bucket_post lib st b q r)" "keeps (on_fs fs_wf) (bucket_post lib st b q r)"
  unfolding s3_list_buckets_def s3_create_bucket_def s3_delete_bucket_def list_objects_v2_def
    get_object_def head_object_def bucket_post_def Let_def
  by (intro keeps_intros)+

lemma keeps_put_object [keeps_intros]:
  "keeps (on_db db_wf) (put_object lib st b k r)" "keeps (on_fs fs_wf) (put_object lib st b k r)"
  unfolding put_object_def copy_object_def ttl_header_def Let_def by (intro keeps_intros)+

lemma keeps_delete_object [keeps_intros]:
  "keeps (on_db db_wf) (delete_object lib st b k r)" "keeps (on_fs fs_wf) (delete_object lib st b k r)"
  unfolding delete_object_def
  by (intro keeps_bind_op keeps_verify keeps_try_op keeps_delete_file;
      auto intro!: keeps_intros split: sum.split storage_error.split)+

lemma keeps_run_ttl_sweep [keeps_intros]:
  "keeps (on_db db_wf) (run_ttl_sweep sm n)" "keeps (on_fs fs_wf) (run_ttl_sweep sm n)"
  by (induction n) (auto intro!: keeps_intros)

definition intact_state :: "world \<Rightarrow> bool" where
  "intact_state w \<longleftrightarrow> on_db db_wf w \<and> on_fs fs_wf w"

lemma intact_tick [simp]: "intact_state (tick w) = intact_state w"
  by (simp add: intact_state_def on_db_def on_fs_def)

lemma intact_op:
  "keeps (on_db db_wf) m \<Longrightarrow> keeps (on_fs fs_wf) m \<Longrightarrow> intact_state w \<Longrightarrow> m w = (r, w') \<Longrightarrow> intact_state w'"
  by (auto simp: intact_state_def dest: keepsD_eq)

lemma intact_answers:
  fixes m :: "(storage_error, response) op" and m1 :: "(storage_error failure, response) op"
    and m2 :: "(s3_error, response) op" and m3 :: "(s3_error failure, response) op"
  shows
  "keeps (on_db db_wf) m \<Longrightarrow> keeps (on_fs fs_wf) m \<Longrightarrow> intact_state w \<Longrightarrow> intact_state (snd (rest_answer m w))"
  "keeps (on_db db_wf) m1 \<Longrightarrow> keeps (on_fs fs_wf) m1 \<Longrightarrow> intact_state w \<Longrightarrow>
     intact_state (snd (rest_answer_or_panic m1 w))"
  "keeps (on_db db_wf) m2 \<Longrightarrow> keeps (on_fs fs_wf) m2 \<Longrightarrow> intact_state w \<Longrightarrow> intact_state (snd (s3_answer m2 w))"
  "keeps (on_db db_wf) m3 \<Longrightarrow> keeps (on_fs fs_wf) m3 \<Longrightarrow> intact_state w \<Longrightarrow>
     intact_state (snd (s3_answer_or_panic m3 w))"
  by (auto simp: rest_answer_def rest_answer_or_panic_def s3_answer_def s3_answer_or_panic_def
      split: prod.split sum.split failure.split intro: intact_op)

lemma health_check_intact: "intact_state w \<Longrightarrow> intact_state (snd (rest_answer health_check_handler w))"
  by (simp add: rest_answer_def health_check_handler_def)

lemma handle_call_intact: "intact_state w \<Longrightarrow> intact_state (snd (handle_call lib st c w))"
  by (cases c) (auto intro!: intact_answers keeps_intros health_check_intact)

lemma serve_intact: "intact_state w \<Longrightarrow> intact_state (snd (serve lib st c w))"
  by (simp add: serve_def handle_call_intact)

lemma service_reach_intact: "service_reach lib st w0 w \<Longrightarrow> intact_state w0 \<Longrightarrow> intact_state w"
proof (induction rule: service_reach.induct)
  case (call w c)
  then show ?case by (simp add: serve_intact)
next
  case (sweep w n)
  then show ?case using keepsD [OF keeps_run_ttl_sweep(1)] keepsD [OF keeps_run_ttl_sweep(2)]
    by (simp add: intact_state_def)
next
  case (preload w)
  then show ?case using keepsD [OF keeps_preload(1)] keepsD [OF keeps_preload(2)]
    by (simp add: intact_state_def)
qed

end
