(* ===== verification/Storage_Delete.thy ===== *)
theory Storage_Delete
  imports Storage_Integrity
begin

text \<open>
  Deleting an object: what \<open>delete_file\<close> does to the table and to the disk in every
  environment, and what follows for the expiry sweep. Bytes that another row still names
  survive, and a row that has not expired is never swept.
\<close>

section \<open>Queries that ran\<close>

lemma read_query_Inr:
  "read_query f w = (Inr x, w') \<Longrightarrow>
     x = f (env_now (w_env w) (w_tick w)) (env_choice (w_env w) (w_tick w)) (w_db w) \<and> w' = tick w"
  by (auto simp: read_query_def query_err_def tick_def Let_def split: option.splits)

lemma read_query_Inl: "read_query f w = (Inl e, w') \<Longrightarrow> w' = tick w"
  by (auto simp: read_query_def query_err_def tick_def Let_def split: option.splits)

lemma write_query_Inr:
  "write_query f w = (Inr x, w') \<Longrightarrow>
     w' = (tick w)\<lparr>w_db := f (env_now (w_env w) (w_tick w)) (w_db w)\<rparr>"
  by (auto simp: write_query_def query_err_def tick_def Let_def split: option.splits)

lemma write_query_Inl: "write_query f w = (Inl e, w') \<Longrightarrow> w' = tick w"
  by (auto simp: write_query_def query_err_def tick_def Let_def split: option.splits)

lemma bind_op_cases:
  assumes "bind_op m f w = (r, w')"
  obtains (err) e where "m w = (Inl e, w')" "r = Inl e"
    | (ok) x w1 where "m w = (Inr x, w1)" "f x w1 = (r, w')"
  using assms by (auto simp: bind_op_def split: prod.splits sum.splits)

text \<open>What an operation leaves alone.\<close>

definition same_state :: "world \<Rightarrow> world \<Rightarrow> bool" where
  "same_state w w' \<longleftrightarrow>
     w_env w' = w_env w \<and> w_db w' = w_db w \<and> w_fs w' = w_fs w \<and> w_cache w' = w_cache w"

lemma same_state_tick [simp]: "same_state w (tick w)"
  by (simp add: same_state_def)

lemma same_state_trans: "same_state w w1 \<Longrightarrow> same_state w1 w2 \<Longrightarrow> same_state w w2"
  by (simp add: same_state_def)

definition reads_only :: "('e, 'a) op \<Rightarrow> bool" where
  "reads_only m \<longleftrightarrow> (\<forall>w. same_state w (snd (m w)))"

definition fails_clean :: "('e, 'a) op \<Rightarrow> bool" where
  "fails_clean m \<longleftrightarrow> (\<forall>w e w'. m w = (Inl e, w') \<longrightarrow> same_state w w')"

lemma reads_only_intros:
  "reads_only (read_query f)" "reads_only (lift_result x)" "reads_only (ret y)"
  "reads_only (external g)"
  by (simp_all add: reads_only_def read_query_state external_apply) (simp_all add: same_state_def)

lemma reads_only_eq: "reads_only m \<Longrightarrow> m w = (r, w') \<Longrightarrow> same_state w w'"
  by (metis reads_only_def snd_conv)

lemma fails_clean_reads: "reads_only m \<Longrightarrow> fails_clean m"
  unfolding fails_clean_def by (blast dest: reads_only_eq)

lemma fails_clean_bind: "reads_only m \<Longrightarrow> (\<And>x. fails_clean (f x)) \<Longrightarrow> fails_clean (bind_op m f)"
  unfolding fails_clean_def
  by (auto elim!: bind_op_cases dest: reads_only_eq intro: same_state_trans)

lemma fails_clean_write: "fails_clean (bind_op (write_query f) (\<lambda>_. ret y))"
  unfolding fails_clean_def
  by (auto elim!: bind_op_cases dest!: write_query_Inl)

section \<open>One object\<close>

lemma delete_transaction_Inr:
  assumes "delete_transaction b k w = (Inr (p, n), w')"
  shows "\<exists>f. sql_get_file b k (w_db w) = Some f \<and> p = sf_file_path f \<and>
    n = sql_count_other_references p b k (w_db w) \<and>
    same_state (w\<lparr>w_db := snd (sql_delete_file b k (w_db w))\<rparr>) w'"
  using assms
  by (auto simp: delete_transaction_def bind_op_result_Inr same_state_def
      dest!: read_query_Inr write_query_Inr)

lemma delete_transaction_Inl: "delete_transaction b k w = (Inl e, w') \<Longrightarrow> same_state w w'"
proof -
  have "fails_clean (delete_transaction b k)"
    unfolding delete_transaction_def
    by (intro fails_clean_bind reads_only_intros fails_clean_write)
  then show "delete_transaction b k w = (Inl e, w') \<Longrightarrow> same_state w w'"
    by (simp add: fails_clean_def)
qed

lemma invalidate_file_state:
  "snd (invalidate_file m b k w) = w' \<Longrightarrow>
     w_env w' = w_env w \<and> w_db w' = w_db w \<and> w_fs w' = w_fs w"
  by (cases "invalidate_file m b k w")
    (auto simp: invalidate_file_def backend_del_def dest: backend_call_state)

definition removed_file :: "fs \<Rightarrow> string \<Rightarrow> fs \<Rightarrow> bool" where
  "removed_file s p s' \<longleftrightarrow> s' = s \<or> at_file p fs_remove_file s = Inr s'"

lemma remove_file_state:
  "snd (remove_file p w) = w' \<Longrightarrow>
     w_env w' = w_env w \<and> w_db w' = w_db w \<and> w_cache w' = w_cache w \<and>
     removed_file (w_fs w) p (w_fs w')"
  by (auto simp: remove_file_def io_call_def Let_def map_sum_def removed_file_def
      split: option.splits sum.splits)

lemma delete_file_Inl: "delete_file sm b k w = (Inl e, w') \<Longrightarrow> same_state w w'"
  by (auto simp: delete_file_def elim!: bind_op_cases dest: delete_transaction_Inl split: if_splits)

lemma delete_file_Inr:
  assumes "delete_file sm b k w = (Inr u, w')"
  shows "\<exists>f. sql_get_file b k (w_db w) = Some f \<and> w_env w' = w_env w \<and>
    w_db w' = snd (sql_delete_file b k (w_db w)) \<and>
    (if sql_count_other_references (sf_file_path f) b k (w_db w) = 0
     then removed_file (w_fs w) (sf_file_path f) (w_fs w') else w_fs w' = w_fs w)"
proof -
  obtain p n w1 where tr: "delete_transaction b k w = (Inr (p, n), w1)"
    and rest: "bind_op (if n = 0 then ignore (remove_file p) else ret ())
        (\<lambda>_. ignore (invalidate_file (sm_cache sm) b k)) w1 = (Inr u :: storage_error + unit, w')"
    using assms unfolding delete_file_def
    by (elim bind_op_cases) (auto split: prod.splits)
  from delete_transaction_Inr [OF tr] obtain f where f: "sql_get_file b k (w_db w) = Some f"
    "p = sf_file_path f" "n = sql_count_other_references p b k (w_db w)"
    and w1: "w_env w1 = w_env w" "w_db w1 = snd (sql_delete_file b k (w_db w))" "w_fs w1 = w_fs w"
    by (auto simp: same_state_def)
  define w2 where w2: "w2 = (if n = 0 then snd (remove_file p w1) else w1)"
  have inv: "snd (invalidate_file (sm_cache sm) b k w2) = w'"
    using rest by (cases "n = 0") (simp_all add: bind_op_def w2)
  note w' = invalidate_file_state [OF inv]
  show ?thesis
  proof (cases "n = 0")
    case True
    then have "w2 = snd (remove_file p w1)" by (simp add: w2)
    from remove_file_state [OF this [symmetric]] show ?thesis
      using True f w1 w' by (intro exI [of _ f]) simp
  next
    case False
    then show ?thesis using f w1 w' by (intro exI [of _ f]) (simp add: w2)
  qed
qed

text \<open>The content under a path, by the place it resolves to.\<close>

definition usable_path :: "string \<Rightarrow> bool" where
  "usable_path p \<longleftrightarrow> p \<noteq> [] \<and> CHR 0x00 \<notin> set p \<and> \<not> names_directory p"

lemma content_at_eq:
  "content_at s p =
     (if usable_path p \<and> final_place s p \<noteq> [] then
        (case fs_nodes s (final_place s p) of Some (File c) \<Rightarrow> Some c | _ \<Rightarrow> None)
      else None)"
  by (auto simp: content_at_def at_file_def at_path_def fs_read_def usable_path_def is_dir_def
      final_place_def split: option.splits node.splits)

lemma removed_file_nodes:
  "removed_file s p s' \<Longrightarrow> q \<noteq> final_place s p \<Longrightarrow>
     fs_nodes s' q = fs_nodes s q \<and> fs_cwd s' = fs_cwd s"
  by (auto simp: removed_file_def fs_remove_file_def final_place_def dest!: at_file_Inr split: if_splits)

lemma removed_file_content:
  "removed_file s p s' \<Longrightarrow> final_place s q \<noteq> final_place s p \<Longrightarrow> content_at s' q = content_at s q"
  using removed_file_nodes [of s p s' "final_place s q"]
  by (cases "final_place s q = []") (simp_all add: content_at_eq final_place_def)

text \<open>Two rows that mean one file name it alike.\<close>

definition paths_canonical :: "db \<Rightarrow> fs \<Rightarrow> bool" where
  "paths_canonical d s \<longleftrightarrow>
     (\<forall>f \<in> set (db_files d). \<forall>g \<in> set (db_files d).
        final_place s (sf_file_path f) = final_place s (sf_file_path g) \<longrightarrow>
        sf_file_path f = sf_file_path g)"

lemma other_references_zero:
  "sql_count_other_references p b k d = 0 \<longleftrightarrow>
     (\<forall>g \<in> set (db_files d). sf_file_path g = p \<longrightarrow> is_object b k g)"
  by (auto simp: sql_count_other_references_def filter_empty_conv)

lemma delete_file_shared:
  assumes "delete_file sm b k w = (r, w')" "paths_canonical (w_db w) (w_fs w)"
    and "g \<in> set (db_files (w_db w'))"
  shows "content_at (w_fs w') (sf_file_path g) = content_at (w_fs w) (sf_file_path g)"
proof (cases r)
  case (Inl e)
  then show ?thesis using delete_file_Inl assms(1) by (auto simp: same_state_def)
next
  case (Inr u)
  from delete_file_Inr [OF assms(1) [unfolded Inr]] obtain f where
    f: "sql_get_file b k (w_db w) = Some f" "w_db w' = snd (sql_delete_file b k (w_db w))"
    and fs: "if sql_count_other_references (sf_file_path f) b k (w_db w) = 0
      then removed_file (w_fs w) (sf_file_path f) (w_fs w') else w_fs w' = w_fs w" by auto
  have g: "g \<in> set (db_files (w_db w))" "\<not> is_object b k g"
    using assms(3) f(2) by (auto simp: sql_delete_file_def)
  show ?thesis
  proof (cases "sql_count_other_references (sf_file_path f) b k (w_db w) = 0")
    case True
    with g have "sf_file_path g \<noteq> sf_file_path f" by (auto simp: other_references_zero)
    with assms(2) g f have "final_place (w_fs w) (sf_file_path g) \<noteq> final_place (w_fs w) (sf_file_path f)"
      by (auto simp: paths_canonical_def dest: sql_get_file_Some)
    with fs True show ?thesis by (simp add: removed_file_content)
  next
    case False
    with fs show ?thesis by simp
  qed
qed

section \<open>The sweep\<close>

lemma delete_file_rows:
  assumes "delete_file sm b k w = (r, w')"
  shows "w_db w' = (if r = Inr () then snd (sql_delete_file b k (w_db w)) else w_db w) \<and>
    (r = Inr () \<longrightarrow> sql_get_file b k (w_db w) \<noteq> None)"
  using assms delete_file_Inr [of sm b k w] delete_file_Inl [of sm b k w]
  by (cases r) (auto simp: same_state_def)

lemma sweep_loop_other:
  "sweep_loop sm n xs w = (r, w') \<Longrightarrow> (b, k) \<notin> set xs \<Longrightarrow>
     sql_get_file b k (w_db w') = sql_get_file b k (w_db w)"
proof (induction xs arbitrary: n w)
  case (Cons x xs)
  obtain b' k' where x: "x = (b', k')" by fastforce
  obtain r1 w1 where d: "delete_file sm b' k' w = (r1, w1)" by (cases "delete_file sm b' k' w")
  have "sql_get_file b k (w_db w1) = sql_get_file b k (w_db w)"
    using delete_file_rows [OF d] Cons.prems(2) x by (auto simp: sql_get_delete)
  moreover have "\<exists>m. sweep_loop sm m xs w1 = (r, w')"
    using Cons.prems(1) d x by (cases r1) auto
  ultimately show ?case using Cons by auto
qed simp

lemma length_filter_unique:
  "distinct (map object_of fs) \<Longrightarrow> find (is_object b k) fs \<noteq> None \<Longrightarrow>
     length (filter (\<lambda>f. \<not> is_object b k f) fs) + 1 = length fs"
proof (induction fs)
  case (Cons f fs)
  show ?case
  proof (cases "is_object b k f")
    case True
    then have "\<forall>g \<in> set fs. \<not> is_object b k g" using Cons.prems(1)
      by (auto simp: is_object_def image_iff)
    then have "filter (\<lambda>g. \<not> is_object b k g) fs = fs" by simp
    with True show ?thesis by simp
  qed (use Cons in simp)
qed simp

lemma sweep_loop_count:
  "db_wf (w_db w) \<Longrightarrow> sweep_loop sm n xs w = (Inr m, w') \<Longrightarrow>
     length (db_files (w_db w')) + m = length (db_files (w_db w)) + n"
proof (induction xs arbitrary: n w)
  case (Cons x xs)
  obtain b k where x: "x = (b, k)" by fastforce
  obtain r1 w1 where d: "delete_file sm b k w = (r1, w1)" by (cases "delete_file sm b k w")
  have wf: "db_wf (w_db w1)"
    using keepsD_eq [OF keeps_delete_file(1) _ d] Cons.prems(1) by (simp add: on_db_def)
  show ?case
  proof (cases r1)
    case (Inl e)
    then have "w_db w1 = w_db w" using delete_file_rows [OF d] by simp
    then show ?thesis using Cons.IH [OF wf] Cons.prems(2) d x Inl by auto
  next
    case (Inr u)
    have "length (db_files (w_db w1)) + 1 = length (db_files (w_db w))"
      using delete_file_rows [OF d] Inr Cons.prems(1)
        length_filter_unique [of "db_files (w_db w)" b k]
      by (simp add: sql_delete_file_def sql_get_file_def db_wf_def)
    then show ?thesis using Cons.IH [OF wf] Cons.prems(2) d x Inr by auto
  qed
qed simp

lemma sweep_expired_other:
  assumes "sweep_expired_files sm w = (r, w')" "sql_get_file b k (w_db w) = Some f" "db_wf (w_db w)"
    and "sf_expires_at f = None \<or> (\<exists>t. sf_expires_at f = Some t \<and> env_now (w_env w) (w_tick w) \<le> t)"
  shows "sql_get_file b k (w_db w') = Some f"
  using assms(1) unfolding sweep_expired_files_def
proof (cases rule: bind_op_cases)
  case (err e)
  then show ?thesis using assms(2) by (auto simp: db_list_expired_files_def dest!: read_query_Inl)
next
  case (ok xs w1)
  then have xs: "xs = sql_expired (env_now (w_env w) (w_tick w)) (w_db w)" and w1: "w1 = tick w"
    by (auto simp: db_list_expired_files_def dest!: read_query_Inr)
  have "(b, k) \<notin> set xs"
  proof
    assume "(b, k) \<in> set xs"
    then obtain g where g: "g \<in> set (db_files (w_db w))" "is_object b k g"
      and "\<exists>t. sf_expires_at g = Some t \<and> t < env_now (w_env w) (w_tick w)"
      by (auto simp: xs sql_expired_def is_object_def split: option.splits)
    moreover from g have "g = f" using assms(2,3) sql_get_file_iff by (metis option.inject)
    ultimately show False using assms(4) by auto
  qed
  from sweep_loop_other [OF ok(2) this] show ?thesis using assms(2) w1 by simp
qed

lemma sweep_expired_count:
  assumes "db_wf (w_db w)" "sweep_expired_files sm w = (Inr n, w')"
  shows "length (db_files (w_db w')) + n = length (db_files (w_db w))"
  using assms(2) unfolding sweep_expired_files_def
proof (cases rule: bind_op_cases)
  case (ok xs w1)
  then have "w1 = tick w" by (auto simp: db_list_expired_files_def dest!: read_query_Inr)
  then show ?thesis using sweep_loop_count [OF _ ok(2)] assms(1) by simp
qed simp

end
