(* ===== verification/Storage_Roundtrip.thy ===== *)
theory Storage_Roundtrip
  imports Storage_Delete
begin

text \<open>
  Storing and reading back: the steps of \<open>store_new\<close> are undone by \<open>decode_content\<close>, for
  every combination of compression and encryption, and an object that was stored is read
  back with its bytes and its content type while nothing fails.
\<close>

section \<open>Encoding and decoding\<close>

lemma sql_get_key_cong: "db_keys d' = db_keys d \<Longrightarrow> sql_get_key k d' = sql_get_key k d"
  by (simp add: sql_get_key_def)

definition encoded_as ::
  "storage_lib \<Rightarrow> storage_manager \<Rightarrow> db \<Rightarrow> stored_file \<Rightarrow> bytes \<Rightarrow> bytes \<Rightarrow> bool" where
  "encoded_as lib sm d f raw content \<longleftrightarrow>
     (\<forall>w. quiet (w_env w) \<and> db_keys (w_db w) = db_keys d \<longrightarrow>
        (\<exists>w'. decode_content lib sm f raw w = (Inr content, w') \<and> same_state w w'))"

lemma encrypt_content_encoded:
  assumes enc: "encrypt_content lib sm opts packed w = (Inr (processed, encrypted), w')"
    and aead: "aead_law (sl_aead lib)"
    and f: "is_encrypted f = encrypted" "sf_encryption_key_id f = so_encryption_key_id opts"
      "encrypted \<Longrightarrow> sf_encryption_algorithm f = Some (cry_algorithm (cf_crypto (sm_config sm)))"
    and plain: "if is_compressed f then decompress (sl_codec lib) (sm_compression sm) packed = Inr content
      else packed = content"
  shows "encoded_as lib sm (w_db w) f processed content"
proof (cases "wants_encryption sm opts")
  case False
  then show ?thesis
    using enc f plain by (auto simp: encrypt_content_def encoded_as_def decode_content_def bind_op_def same_state_def)
next
  case True
  then obtain a where a: "algorithm_from_str (cry_algorithm (cf_crypto (sm_config sm))) = Inr a" "encrypted"
    using enc by (auto simp: encrypt_content_def bind_op_result_Inr split: option.splits)
  have len: "length (map h [0..<12]) = 12" for h :: "nat \<Rightarrow> u8" by simp
  show ?thesis
  proof (cases "so_encryption_key_id opts")
    case None
    then obtain h where "encrypt (sl_aead lib) (sm_crypto sm) (map h [0..<12]) packed a = Inr processed"
      using enc True a
      by (auto simp: encrypt_content_def bind_op_result_Inr random_bytes_def external_apply)
    from decrypt_encrypt [OF aead len this] show ?thesis
      using a f None plain
      by (auto simp: encoded_as_def decode_content_def bind_op_def same_state_def)
  next
    case (Some k)
    then obtain h key w1 where key: "get_key k w = (Inr key, w1)" and
      "encrypt_with_key (sl_aead lib) (map h [0..<12]) packed a (ek_key_data key) = Inr processed"
      using enc True a
      by (auto simp: encrypt_content_def bind_op_result_Inr random_bytes_def external_apply)
    note dec = decrypt_with_key_encrypt_with_key [OF aead len this(2)]
    show ?thesis
      unfolding encoded_as_def
    proof (intro allI impI)
      fix v :: world assume v: "quiet (w_env v) \<and> db_keys (w_db v) = db_keys (w_db w)"
      then have "get_key k v = (Inr key, tick v)"
        using get_key_Inr [OF key] sql_get_key_cong [of "w_db v" "w_db w" k]
        by (simp add: get_key_quiet)
      then show "\<exists>v'. decode_content lib sm f processed v = (Inr content, v') \<and> same_state v v'"
        using a f Some plain dec
        by (auto simp: decode_content_def bind_op_def)
    qed
  qed
qed

lemma compress_content_decompress:
  assumes "compress_content lib sm opts content = (packed, compressed)"
    and "gzip_law (sl_codec lib)" "zstd_law (sl_codec lib)"
    and "wants_compression sm opts \<Longrightarrow> cmp_enabled (sm_compression sm)"
  shows "if compressed then decompress (sl_codec lib) (sm_compression sm) packed = Inr content
    else packed = content"
  using assms decompress_compress [OF assms(2,3)]
  by (auto simp: compress_content_def split: if_splits sum.splits)

section \<open>What a write leaves behind\<close>

lemma rename_file_usable:
  assumes "rename_file a b w = (Inr u, w')"
  shows "content_at (w_fs w') b \<noteq> None \<and>
    (\<forall>c. fs_nodes (w_fs w) (resolve (fs_cwd (w_fs w)) a) = Some (File c) \<longrightarrow> content_at (w_fs w') b = Some c)"
  using assms
  by (auto simp: rename_file_def io_call_def Let_def map_sum_def at_file_def at_path_def
      fs_rename_def content_at_eq usable_path_def final_place_def is_dir_def
      split: option.splits sum.splits if_splits node.splits)

lemma write_file_atomic_content:
  assumes "write_file_atomic p content w = (Inr u, w')"
  shows "content_at (w_fs w') p = Some content"
proof -
  obtain w1 where w1: "write_file_optimized (with_extension p ''tmp'') content w = (Inr (), w1)"
    and ren: "rename_file (with_extension p ''tmp'') p w1 = (Inr u, w')"
    using assms by (auto simp: write_file_atomic_def Let_def bind_op_result_Inr)
  from write_file_optimized_Inr [OF w1] rename_file_usable [OF ren] show ?thesis by simp
qed

lemma keeps_env_cache [keeps_intros]:
  "keeps (on_env e) (write_file_atomic p c)" "keeps (on_cache ca) (write_file_atomic p c)"
  "keeps (on_env e) (create_parent_dir p)" "keeps (on_cache ca) (create_parent_dir p)"
  "keeps (on_env e) (encrypt_content lib sm opts c)" "keeps (on_cache ca) (encrypt_content lib sm opts c)"
  "keeps (on_env e) (ensure_bucket_exists sm b)" "keeps (on_cache ca) (ensure_bucket_exists sm b)"
proof -
  have h: "keeps (on_env e) (write_handle x c)" "keeps (on_cache ca) (write_handle x c)" for x
    by (auto simp: keeps_def on_env_def on_cache_def write_handle_def Let_def split: option.splits)
  show "keeps (on_env e) (write_file_atomic p c)" "keeps (on_cache ca) (write_file_atomic p c)"
    unfolding write_file_atomic_def write_file_optimized_def file_create_def sync_all_def
      rename_file_def Let_def by (intro keeps_intros h)+
  show "keeps (on_env e) (create_parent_dir p)" "keeps (on_cache ca) (create_parent_dir p)"
    unfolding create_parent_dir_def by (intro keeps_intros)+
  show "keeps (on_env e) (encrypt_content lib sm opts c)" "keeps (on_cache ca) (encrypt_content lib sm opts c)"
    unfolding encrypt_content_def get_key_def read_query_def by (intro keeps_intros)+
  show "keeps (on_env e) (ensure_bucket_exists sm b)" "keeps (on_cache ca) (ensure_bucket_exists sm b)"
    unfolding ensure_bucket_exists_def create_bucket_def create_dir_all_def read_query_def
    by (intro keeps_intros)+
qed

lemma keeps_ensure_bucket_rows:
  "keeps (on_db (\<lambda>d. db_keys d = ks \<and> db_files d = fs)) (ensure_bucket_exists sm b)"
  unfolding ensure_bucket_exists_def create_bucket_def
  by (intro keeps_intros keeps_query_db) (auto simp: sql_create_bucket_def split: if_splits)

text \<open>The state that a successful \<open>store_new\<close> leaves when nothing fails.\<close>

lemma store_new_quiet:
  assumes "quiet (w_env w)" "json_reads_back (sl_json lib) f"
    and "store_new lib sm b k content ct opts h w = (Inr f, w')"
  shows "\<exists>packed compressed processed encrypted w0.
    compress_content lib sm opts content = (packed, compressed) \<and>
    encrypt_content lib sm opts packed w = (Inr (processed, encrypted), w0) \<and>
    is_compressed f = compressed \<and> is_encrypted f = encrypted \<and>
    sf_encryption_key_id f = so_encryption_key_id opts \<and>
    sf_encryption_algorithm f = (if encrypted then Some (cry_algorithm (cf_crypto (sm_config sm))) else None) \<and>
    sf_content_type f = unwrap_or ct ''application/octet-stream'' \<and>
    sf_expires_at f = so_expires_at opts \<and> sf_original_size f = int (length content) \<and>
    sf_file_size f = int (length processed) \<and> object_of f = (b, k) \<and> sf_hash_blake3 f = fst h \<and>
    sf_hash_md5 f = snd h \<and>
    sql_save_file f (w_db w) = Inr (w_db w') \<and> w_env w' = w_env w \<and>
    sf_file_path f = get_file_path sm b k \<and>
    content_at (w_fs w') (sf_file_path f) = Some processed \<and>
    (\<exists>v. json_from_slice (sl_json lib) v = Inr f \<and> w_cache w' (metadata_key b k) = Some v \<and>
       w_cache w' = (if max_cached_content < length processed then (w_cache w)(metadata_key b k \<mapsto> v)
         else (w_cache w)(metadata_key b k \<mapsto> v, content_key b k \<mapsto> processed))) \<and>
    w_cache w' (content_key b k) =
      (if max_cached_content < length processed then w_cache w (content_key b k) else Some processed)"
proof -
  let ?p = "get_file_path sm b k"
  obtain packed compressed where pk: "compress_content lib sm opts content = (packed, compressed)"
    by fastforce
  obtain processed encrypted w0 w1 w2 where
    enc: "encrypt_content lib sm opts packed w = (Inr (processed, encrypted), w0)" and
    dir: "create_parent_dir ?p w0 = (Inr (), w1)" and
    wr: "write_file_atomic ?p processed w1 = (Inr (), w2)" and
    rest: "bind_op new_uuid (\<lambda>i. bind_op now_op (\<lambda>now. finish_upload lib sm b k processed ?p
      (upload_row sm b k ct opts h (length content) (length processed) compressed encrypted
          (ratio_of compressed (length packed) (length content)) i now))) w2 = (Inr f, w')"
    using assms(3) pk unfolding store_new_def Let_def
    by (simp add: bind_op_result_Inr split: prod.splits) blast
  have env: "w_env w2 = w_env w" "w_cache w2 = w_cache w"
    using keepsD_eq [OF keeps_env_cache(5) _ enc, of "w_env w"] keepsD_eq [OF keeps_env_cache(6) _ enc, of "w_cache w"]
      keepsD_eq [OF keeps_env_cache(3) _ dir, of "w_env w"] keepsD_eq [OF keeps_env_cache(4) _ dir, of "w_cache w"]
      keepsD_eq [OF keeps_env_cache(1) _ wr, of "w_env w"] keepsD_eq [OF keeps_env_cache(2) _ wr, of "w_cache w"]
    by (auto simp: on_env_def on_cache_def)
  have db: "w_db w2 = w_db w"
    using keepsD_eq [OF keeps_encrypt_content(1) _ enc, of "(=) (w_db w)"]
      keepsD_eq [OF keeps_create_parent_dir_db _ dir, of "(=) (w_db w)"]
      keepsD_eq [OF keeps_write_file_atomic_db _ wr, of "(=) (w_db w)"]
    by (auto simp: on_db_def)
  let ?f = "upload_row sm b k ct opts h (length content) (length processed) compressed encrypted
    (ratio_of compressed (length packed) (length content)) (env_uuid (w_env w2) (w_tick w2))
    (env_now (w_env w2) (Suc (w_tick w2)))"
  obtain w3 where sv: "save_or_cleanup ?f ?p (tick (tick w2)) = (Inr (), w3)"
    and fin: "bind_op (ignore (set_file_metadata (sl_json lib) (sm_cache sm) b k ?f)) (\<lambda>_.
       bind_op (ignore (set_file_content (sm_cache sm) b k processed)) (\<lambda>_. ret ?f)) w3 =
       (Inr f :: storage_error + stored_file, w')"
    using rest by (auto simp: bind_op_result_Inr external_apply finish_upload_def)
  obtain d where d: "sql_save_file ?f (w_db w) = Inr d" and w3: "w3 = (tick (tick (tick w2)))\<lparr>w_db := d\<rparr>"
    using sv db by (auto simp: save_or_cleanup_def try_op_def bind_op_def dest!: db_save_file_Inr
        split: prod.splits sum.splits)
  have same: "f = ?f" using fin by (simp add: bind_op_def)
  obtain v where v: "json_to_vec (sl_json lib) ?f = Inr v" "json_from_slice (sl_json lib) v = Inr ?f"
    using assms(2) unfolding same by (auto simp: json_reads_back_def split: sum.splits)
  have q3: "quiet (w_env w3)" using assms(1) w3 env by simp
  have f: "f = ?f"
    and w': "w_db w' = d" "w_fs w' = w_fs w2" "w_env w' = w_env w"
      "w_cache w' = (if max_cached_content < length processed then (w_cache w)(metadata_key b k \<mapsto> v)
         else (w_cache w)(metadata_key b k \<mapsto> v, content_key b k \<mapsto> processed))"
    using fin q3 v w3 env
    by (auto simp: set_file_metadata_quiet set_file_content_quiet bind_op_def split: if_splits)
  have row: "is_compressed f = compressed" "is_encrypted f = encrypted"
    "sf_encryption_key_id f = so_encryption_key_id opts"
    "sf_encryption_algorithm f = (if encrypted then Some (cry_algorithm (cf_crypto (sm_config sm))) else None)"
    "sf_content_type f = unwrap_or ct ''application/octet-stream''"
    "sf_expires_at f = so_expires_at opts" "sf_original_size f = int (length content)"
    "sf_file_size f = int (length processed)" "object_of f = (b, k)" "sf_file_path f = ?p"
    "sf_hash_blake3 f = fst h" "sf_hash_md5 f = snd h"
    by (simp_all add: f upload_row_def)
  show ?thesis
    using pk enc row d w' v write_file_atomic_content [OF wr]
    by (intro exI [of _ packed] exI [of _ compressed] exI [of _ processed] exI [of _ encrypted]
        exI [of _ w0]) (simp add: f)
qed

section \<open>Reading back\<close>

definition unexpired :: "environment \<Rightarrow> stored_file \<Rightarrow> bool" where
  "unexpired e f \<longleftrightarrow> (\<forall>t n. sf_expires_at f = Some t \<longrightarrow> env_now e n < t)"

lemma has_expired_unexpired:
  "unexpired (w_env w) f \<Longrightarrow> \<exists>w'. has_expired f w = (Inr False, w') \<and> same_state w w'"
  by (cases "sf_expires_at f")
    (auto simp: has_expired_def unexpired_def external_apply not_le same_state_def)

lemma encoded_as_apply:
  assumes "encoded_as lib sm d f raw content" "quiet (w_env w)" "db_keys (w_db w) = db_keys d"
  obtains w' where "decode_content lib sm f raw w = (Inr content, w')" "same_state w w'"
  using assms unfolding encoded_as_def by blast

lemma encoded_as_cong:
  "db_keys d' = db_keys d \<Longrightarrow> encoded_as lib sm d' f raw content = encoded_as lib sm d f raw content"
  by (simp add: encoded_as_def)

text \<open>The raw bytes that a read starts from: the cached ones, or else those on the disk.\<close>

definition raw_content :: "world \<Rightarrow> string \<Rightarrow> string \<Rightarrow> stored_file \<Rightarrow> bytes option" where
  "raw_content w b k f =
     (case w_cache w (content_key b k) of
        Some raw \<Rightarrow> Some raw | None \<Rightarrow> content_at (w_fs w) (sf_file_path f))"

lemma read_content_quiet:
  assumes "quiet (w_env w)" "raw_content w b k f = Some raw"
  shows "\<exists>w'. read_content sm b k f w = (Inr raw, w') \<and> w_env w' = w_env w \<and>
    w_db w' = w_db w \<and> w_fs w' = w_fs w"
proof (cases "w_cache w (content_key b k)")
  case None
  then have "content_at (w_fs w) (sf_file_path f) = Some raw"
    using assms(2) by (simp add: raw_content_def)
  then show ?thesis
    using assms(1) None
    by (simp add: read_content_def get_file_content_quiet read_file_content
        set_file_content_quiet)
next
  case (Some c)
  then show ?thesis
    using assms by (simp add: read_content_def get_file_content_quiet raw_content_def)
qed

lemma get_file_row_state:
  assumes "read_metadata lib sm b k w = (Inr f, w1)" "same_state w w1 \<or>
      (w_env w1 = w_env w \<and> w_db w1 = w_db w \<and> w_fs w1 = w_fs w \<and>
       w_cache w1 (content_key b k) = w_cache w (content_key b k))"
    and "quiet (w_env w)" "unexpired (w_env w) f" "raw_content w b k f = Some raw"
    and "encoded_as lib sm (w_db w) f raw content"
  shows "\<exists>w' now. get_file lib sm b k w = (Inr (content, Some (sf_content_type f)), w') \<and>
    w_env w' = w_env w \<and> w_db w' = sql_update_access now (sf_id f) (w_db w)"
proof -
  have w1: "w_env w1 = w_env w" "w_db w1 = w_db w" "w_fs w1 = w_fs w"
    "w_cache w1 (content_key b k) = w_cache w (content_key b k)"
    using assms(2) by (auto simp: same_state_def)
  obtain w2 where e: "has_expired f w1 = (Inr False :: storage_error + bool, w2)"
    and w2: "same_state w1 w2"
    using has_expired_unexpired [of w1 f] assms(4) w1(1) by auto
  have "raw_content w2 b k f = Some raw"
    using assms(5) w1 w2 by (simp add: raw_content_def same_state_def split: option.splits)
  moreover have "quiet (w_env w2)" using assms(3) w1 w2 by (simp add: same_state_def)
  ultimately obtain w3 where w3: "read_content sm b k f w2 = (Inr raw, w3)"
    "w_env w3 = w_env w2" "w_db w3 = w_db w2"
    using read_content_quiet by blast
  then have "quiet (w_env w3)" "db_keys (w_db w3) = db_keys (w_db w)"
    using assms(3) w1 w2 by (auto simp: same_state_def)
  from encoded_as_apply [OF assms(6) this]
  obtain w4 where w4: "decode_content lib sm f raw w3 = (Inr content, w4)" "same_state w3 w4" by blast
  then have env: "quiet (w_env w4)" "w_env w4 = w_env w" "w_db w4 = w_db w"
    using assms(3) w1 w2 w3 by (auto simp: same_state_def)
  then show ?thesis
    unfolding get_file_def using assms(1) w3(1) w4(1)
    by (intro exI [of _ "snd (db_update_access (sf_id f) w4)"] exI [of _ "env_now (w_env w4) (w_tick w4)"])
      (simp add: bind_op_Inr [where m = "has_expired f", OF e] db_update_access_quiet)
qed

lemma get_file_row:
  assumes "read_metadata lib sm b k w = (Inr f, w1)" "same_state w w1 \<or>
      (w_env w1 = w_env w \<and> w_db w1 = w_db w \<and> w_fs w1 = w_fs w \<and>
       w_cache w1 (content_key b k) = w_cache w (content_key b k))"
    and "quiet (w_env w)" "unexpired (w_env w) f" "raw_content w b k f = Some raw"
    and "encoded_as lib sm (w_db w) f raw content"
  shows "\<exists>w'. get_file lib sm b k w = (Inr (content, Some (sf_content_type f)), w')"
  using get_file_row_state [OF assms] by blast

lemma read_metadata_hit:
  assumes "quiet (w_env w)" "w_cache w (metadata_key b k) = Some v" "json_from_slice (sl_json lib) v = Inr f"
  shows "read_metadata lib sm b k w = (Inr f, tick w)"
  by (simp add: read_metadata_def get_file_metadata_hit [OF assms])

lemma sql_save_file_keys: "sql_save_file f d = Inr d' \<Longrightarrow> db_keys d' = db_keys d"
  by (auto simp: sql_save_file_def split: if_splits)

text \<open>The stored bytes decode to the content.\<close>

lemma store_new_encoded:
  assumes quiet: "quiet (w_env w)"
    and laws: "json_reads_back (sl_json lib) f" "gzip_law (sl_codec lib)" "zstd_law (sl_codec lib)" "aead_law (sl_aead lib)"
    and codec: "wants_compression sm opts \<Longrightarrow> cmp_enabled (sm_compression sm)"
    and store: "store_new lib sm b k content ct opts h w = (Inr f, w')"
  obtains processed v where "encoded_as lib sm (w_db w') f processed content"
    "content_at (w_fs w') (sf_file_path f) = Some processed" "sf_file_size f = int (length processed)"
    "json_from_slice (sl_json lib) v = Inr f" "w_cache w' (metadata_key b k) = Some v"
    "w_cache w' = (if max_cached_content < length processed then (w_cache w)(metadata_key b k \<mapsto> v)
       else (w_cache w)(metadata_key b k \<mapsto> v, content_key b k \<mapsto> processed))"
    "sql_save_file f (w_db w) = Inr (w_db w')" "w_env w' = w_env w" "object_of f = (b, k)"
    "sf_content_type f = unwrap_or ct ''application/octet-stream''" "sf_expires_at f = so_expires_at opts"
    "sf_file_path f = get_file_path sm b k" "sf_hash_blake3 f = fst h" "sf_hash_md5 f = snd h"
proof -
  obtain packed compressed processed encrypted w0 v where
    pk: "compress_content lib sm opts content = (packed, compressed)"
    and enc: "encrypt_content lib sm opts packed w = (Inr (processed, encrypted), w0)"
    and row: "is_compressed f = compressed" "is_encrypted f = encrypted"
      "sf_encryption_key_id f = so_encryption_key_id opts"
      "sf_encryption_algorithm f = (if encrypted then Some (cry_algorithm (cf_crypto (sm_config sm))) else None)"
    and rest: "sf_content_type f = unwrap_or ct ''application/octet-stream''" "sf_expires_at f = so_expires_at opts"
      "sf_file_size f = int (length processed)" "object_of f = (b, k)" "sf_hash_blake3 f = fst h" "sf_hash_md5 f = snd h"
    and db: "sql_save_file f (w_db w) = Inr (w_db w')" and env: "w_env w' = w_env w"
    and disk: "sf_file_path f = get_file_path sm b k" "content_at (w_fs w') (sf_file_path f) = Some processed"
    and meta: "json_from_slice (sl_json lib) v = Inr f" "w_cache w' (metadata_key b k) = Some v"
    and cache: "w_cache w' = (if max_cached_content < length processed then (w_cache w)(metadata_key b k \<mapsto> v)
       else (w_cache w)(metadata_key b k \<mapsto> v, content_key b k \<mapsto> processed))"
    using store_new_quiet [OF quiet laws(1) store] by blast
  have plain: "if compressed then decompress (sl_codec lib) (sm_compression sm) packed = Inr content
      else packed = content"
    by (rule compress_content_decompress [OF pk laws(2,3) codec])
  have "encoded_as lib sm (w_db w) f processed content"
    by (rule encrypt_content_encoded [OF enc laws(4)]) (use row plain in auto)
  then have "encoded_as lib sm (w_db w') f processed content"
    using encoded_as_cong sql_save_file_keys [OF db] by blast
  from that [OF this disk(2) rest(3) meta cache db env rest(4,1,2) disk(1) rest(5,6)] show thesis .
qed

lemma store_new_get:
  assumes quiet: "quiet (w_env w)"
    and laws: "json_reads_back (sl_json lib) f" "gzip_law (sl_codec lib)" "zstd_law (sl_codec lib)" "aead_law (sl_aead lib)"
    and codec: "wants_compression sm opts \<Longrightarrow> cmp_enabled (sm_compression sm)"
    and store: "store_new lib sm b k content ct opts h w = (Inr f, w')"
    and cache: "sf_file_size f \<le> int max_cached_content \<or> w_cache w (content_key b k) = None"
    and ttl: "unexpired (w_env w) f"
  shows "\<exists>w''. get_file lib sm b k w' = (Inr (content, Some (unwrap_or ct ''application/octet-stream'')), w'')"
proof -
  obtain processed v where enc: "encoded_as lib sm (w_db w') f processed content"
    and disk: "content_at (w_fs w') (sf_file_path f) = Some processed" "sf_file_size f = int (length processed)"
    and meta: "json_from_slice (sl_json lib) v = Inr f" "w_cache w' (metadata_key b k) = Some v"
    and entries: "w_cache w' = (if max_cached_content < length processed then (w_cache w)(metadata_key b k \<mapsto> v)
       else (w_cache w)(metadata_key b k \<mapsto> v, content_key b k \<mapsto> processed))"
    and rest: "w_env w' = w_env w" "sf_content_type f = unwrap_or ct ''application/octet-stream''"
    by (rule store_new_encoded [OF quiet laws codec store])
  have "raw_content w' b k f = Some processed"
    using cache disk by (auto simp: raw_content_def entries)
  moreover have "quiet (w_env w')" "unexpired (w_env w') f" using quiet ttl rest by simp_all
  ultimately show ?thesis
    using get_file_row [OF read_metadata_hit [OF _ meta(2,1)]] enc rest by simp
qed

text \<open>The whole upload, when its content is not already stored.\<close>

lemma store_file_new:
  assumes "quiet (w_env w)"
    and "\<And>g. stc_enable_deduplication (cf_storage (sm_config sm)) \<Longrightarrow> g \<in> set (db_files (w_db w)) \<Longrightarrow>
      sf_hash_blake3 g \<noteq> sl_blake3 lib content"
    and "store_file lib sm b k content ct opts w = (Inr f, w')"
  obtains w1 where "quiet (w_env w1)" "w_cache w1 = w_cache w" "w_env w1 = w_env w"
    "db_files (w_db w1) = db_files (w_db w)" "db_keys (w_db w1) = db_keys (w_db w)"
    "store_new lib sm b k content ct opts (sl_blake3 lib content, sl_md5 lib content) w1 = (Inr f, w')"
proof -
  let ?h = "(sl_blake3 lib content, sl_md5 lib content)"
  obtain w1 where w1: "ensure_bucket_exists sm b w = (Inr (), w1)"
    and rest: "(if stc_enable_deduplication (cf_storage (sm_config sm)) then
        bind_op (db_get_file_by_hash (fst ?h)) (\<lambda>existing.
        case existing of
          Some f \<Rightarrow> if sf_bucket f = b \<and> sf_key f = k then ret f else store_alias f b k ct opts ?h
        | None \<Rightarrow> store_new lib sm b k content ct opts ?h)
      else store_new lib sm b k content ct opts ?h) w1 = (Inr f, w')"
    using assms(3) by (auto simp: store_file_def compute_hashes_parallel_def bind_op_result_Inr Let_def)
  have env: "w_env w1 = w_env w" "w_cache w1 = w_cache w"
    using keepsD_eq [OF keeps_env_cache(7) _ w1, of "w_env w"]
      keepsD_eq [OF keeps_env_cache(8) _ w1, of "w_cache w"]
    by (auto simp: on_env_def on_cache_def)
  have files: "db_files (w_db w1) = db_files (w_db w)" "db_keys (w_db w1) = db_keys (w_db w)"
    using keepsD_eq [OF keeps_ensure_bucket_rows _ w1, of "db_keys (w_db w)" "db_files (w_db w)"]
    by (simp_all add: on_db_def)
  show ?thesis
  proof (cases "stc_enable_deduplication (cf_storage (sm_config sm))")
    case False
    then show ?thesis using that [of w1] env files assms(1) rest by simp
  next
    case True
    then have "sql_file_by_hash c (sl_blake3 lib content) (w_db w1) = None" for c
      using assms(2) files by (auto simp: sql_file_by_hash_def filter_empty_conv)
    then have "store_new lib sm b k content ct opts ?h (tick w1) = (Inr f, w')"
      using rest True env assms(1) by (simp add: db_get_file_by_hash_quiet bind_op_def)
    then show ?thesis using that [of "tick w1"] env files assms(1) by simp
  qed
qed

end
