(* ===== verification/Storage_Alias.thy ===== *)
theory Storage_Alias
  imports Storage_Roundtrip
begin

text \<open>
  Deduplication: what \<open>store_file\<close> does when the content is already stored. The new row names
  the file of the old one, no file and no cache entry changes, and reading either object
  decodes the same bytes with the same settings.
\<close>

section \<open>The choice of an existing row\<close>

text \<open>\<^verbatim>\<open>LIMIT 1\<close> without an order takes any row with the hash; here there is only one.\<close>

definition sole_copy :: "storage_lib \<Rightarrow> bytes \<Rightarrow> stored_file \<Rightarrow> db \<Rightarrow> bool" where
  "sole_copy lib content g d \<longleftrightarrow>
     g \<in> set (db_files d) \<and> (\<forall>f \<in> set (db_files d). sf_hash_blake3 f = sl_blake3 lib content \<longleftrightarrow> f = g)"

lemma sql_file_by_hash_sole:
  assumes "sole_copy lib content g d"
  shows "sql_file_by_hash c (sl_blake3 lib content) d = Some g"
proof -
  let ?rows = "filter (\<lambda>f. sf_hash_blake3 f = sl_blake3 lib content) (db_files d)"
  have set: "set ?rows = {g}" using assms by (auto simp: sole_copy_def)
  then have ne: "?rows \<noteq> []" by (metis empty_iff insertI1 list.set(1))
  then have "?rows ! (c mod length ?rows) \<in> set ?rows" by (intro nth_mem) simp
  then have "?rows ! (c mod length ?rows) = g" unfolding set by (rule singletonD)
  then show ?thesis using ne by (simp add: sql_file_by_hash_def Let_def)
qed

lemma ensure_bucket_exists_quiet:
  "quiet (w_env w) \<Longrightarrow> sql_bucket_exists b (w_db w) \<Longrightarrow> ensure_bucket_exists sm b w = (Inr (), tick w)"
  by (simp add: ensure_bucket_exists_def read_query_quiet bind_op_def)

lemma store_file_duplicate:
  assumes "quiet (w_env w)" "stc_enable_deduplication (cf_storage (sm_config sm))"
    and "sql_bucket_exists b (w_db w)" "sole_copy lib content g (w_db w)"
  shows "store_file lib sm b k content ct opts w =
    (if is_object b k g then ret g
     else store_alias g b k ct opts (sl_blake3 lib content, sl_md5 lib content)) (tick (tick w))"
proof -
  have "bind_op (ensure_bucket_exists sm b) f w = f () (tick w)" for f :: "unit \<Rightarrow> (storage_error, stored_file) op"
    using ensure_bucket_exists_quiet [OF assms(1,3)] by (simp add: bind_op_def)
  moreover have "bind_op (db_get_file_by_hash (sl_blake3 lib content)) f (tick w) = f (Some g) (tick (tick w))"
    for f :: "stored_file option \<Rightarrow> (storage_error, stored_file) op"
    using assms(1) sql_file_by_hash_sole [OF assms(4)] by (simp add: db_get_file_by_hash_quiet bind_op_def)
  ultimately show ?thesis
    using assms(2) by (simp add: store_file_def compute_hashes_parallel_def Let_def is_object_def)
qed

section \<open>The alias\<close>

lemma store_alias_Inr:
  assumes "store_alias g b k ct opts h w = (Inr f, w')"
  shows "f = alias_row g b k ct opts h (env_uuid (w_env w) (w_tick w)) (env_now (w_env w) (Suc (w_tick w))) \<and>
    sql_save_file f (w_db w) = Inr (w_db w') \<and>
    w_fs w' = w_fs w \<and> w_cache w' = w_cache w \<and> w_env w' = w_env w"
  using assms unfolding store_alias_def Let_def
  by (auto elim!: bind_op_cases dest!: db_save_file_Inr simp: external_apply)

text \<open>Two rows with the same encoding settings decode the same bytes to the same content.\<close>

definition same_encoding :: "stored_file \<Rightarrow> stored_file \<Rightarrow> bool" where
  "same_encoding f g \<longleftrightarrow> sf_is_compressed f = sf_is_compressed g \<and> sf_is_encrypted f = sf_is_encrypted g \<and>
     sf_encryption_algorithm f = sf_encryption_algorithm g \<and>
     sf_encryption_key_id f = sf_encryption_key_id g"

lemma decode_content_cong: "same_encoding f g \<Longrightarrow> decode_content lib sm f = decode_content lib sm g"
  by (simp add: same_encoding_def decode_content_def fun_eq_iff)

lemma encoded_as_same:
  "same_encoding f g \<Longrightarrow> encoded_as lib sm d g raw content \<Longrightarrow> encoded_as lib sm d f raw content"
  by (simp add: encoded_as_def decode_content_cong)

lemma alias_row_facts:
  "same_encoding (alias_row g b k ct opts h i now) g"
  "sf_file_path (alias_row g b k ct opts h i now) = sf_file_path g"
  "object_of (alias_row g b k ct opts h i now) = (b, k)"
  "sf_expires_at (alias_row g b k ct opts h i now) = so_expires_at opts"
  "sf_content_type (alias_row g b k ct opts h i now) = unwrap_or ct (sf_content_type g)"
  by (simp_all add: alias_row_def same_encoding_def)

text \<open>What the saved row has in common with the one that was handed to the statement.\<close>

lemma sql_get_saved:
  assumes "sql_save_file f d = Inr d'" "object_of f = (b, k)"
  obtains f' where "sql_get_file b k d' = Some f'" "same_encoding f' f" "sf_file_path f' = sf_file_path f"
    "sf_expires_at f' = sf_expires_at f" "sf_content_type f' = sf_content_type f"
    "sf_hash_md5 f' = sf_hash_md5 f"
  using sql_get_save_same [OF assms(1)] assms(2) that
  by (cases "sql_get_file b k d")
    (auto simp: overwrite_row_def fresh_row_def same_encoding_def)

section \<open>Reading through the database\<close>

lemma read_metadata_miss:
  assumes "quiet (w_env w)" "w_cache w (metadata_key b k) = None" "sql_get_file b k (w_db w) = Some f"
  obtains w1 where "read_metadata lib sm b k w = (Inr f, w1)" "w_env w1 = w_env w" "w_db w1 = w_db w"
    "w_fs w1 = w_fs w" "w_cache w1 (content_key b k) = w_cache w (content_key b k)"
proof (cases "json_to_vec (sl_json lib) f")
  case (Inl e)
  then show ?thesis
    using that [of "tick (tick w)"] assms
    by (simp add: read_metadata_def get_file_metadata_miss db_get_file_quiet bind_op_def
        set_file_metadata_def)
next
  case (Inr v)
  then show ?thesis
    using that [of "(tick (tick (tick w)))\<lparr>w_cache := (w_cache w)(metadata_key b k \<mapsto> v)\<rparr>"] assms
    by (simp add: read_metadata_def get_file_metadata_miss db_get_file_quiet bind_op_def
        set_file_metadata_quiet)
qed

lemma get_file_from_db:
  assumes "quiet (w_env w)" "w_cache w (metadata_key b k) = None" "sql_get_file b k (w_db w) = Some f"
    and "unexpired (w_env w) f" "raw_content w b k f = Some raw"
    and "encoded_as lib sm (w_db w) f raw content"
  shows "\<exists>w'. get_file lib sm b k w = (Inr (content, Some (sf_content_type f)), w')"
proof -
  obtain w1 where "read_metadata lib sm b k w = (Inr f, w1)" "w_env w1 = w_env w" "w_db w1 = w_db w"
    "w_fs w1 = w_fs w" "w_cache w1 (content_key b k) = w_cache w (content_key b k)"
    using read_metadata_miss [OF assms(1-3)] by blast
  then show ?thesis using get_file_row assms(1,4-6) by blast
qed

text \<open>An alias reads back as the content that the old row's bytes encode.\<close>

lemma alias_then_get:
  assumes quiet: "quiet (w_env w)" "stc_enable_deduplication (cf_storage (sm_config sm))"
    and bucket: "sql_bucket_exists b (w_db w)" and g: "sole_copy lib content g (w_db w)" "\<not> is_object b k g"
    and store: "store_file lib sm b k content ct opts w = (Inr f, w')"
    and cold: "w_cache w (metadata_key b k) = None" "w_cache w (content_key b k) = None"
    and bytes: "content_at (w_fs w) (sf_file_path g) = Some raw" "encoded_as lib sm (w_db w) g raw content"
    and ttl: "unexpired (w_env w) f"
  shows "\<exists>w''. get_file lib sm b k w' = (Inr (content, Some (unwrap_or ct (sf_content_type g))), w'')"
proof -
  have "store_alias g b k ct opts (sl_blake3 lib content, sl_md5 lib content) (tick (tick w)) = (Inr f, w')"
    using store store_file_duplicate [OF quiet bucket g(1)] g(2) by simp
  from store_alias_Inr [OF this] obtain i now where
    f: "f = alias_row g b k ct opts (sl_blake3 lib content, sl_md5 lib content) i now"
    and save: "sql_save_file f (w_db w) = Inr (w_db w')"
    and w': "w_fs w' = w_fs w" "w_cache w' = w_cache w" "w_env w' = w_env w"
    by auto
  obtain f' where f': "sql_get_file b k (w_db w') = Some f'" "same_encoding f' f"
    "sf_file_path f' = sf_file_path f" "sf_expires_at f' = sf_expires_at f"
    "sf_content_type f' = sf_content_type f"
    using sql_get_saved [OF save] f alias_row_facts(3) by metis
  have "same_encoding f' g" using f'(2) alias_row_facts(1) f by (simp add: same_encoding_def)
  then have "encoded_as lib sm (w_db w') f' raw content"
    using encoded_as_same [OF _ bytes(2)] encoded_as_cong sql_save_file_keys [OF save] by blast
  moreover have "raw_content w' b k f' = Some raw"
    using w' cold bytes(1) f'(3) f by (simp add: raw_content_def alias_row_facts)
  moreover have "unexpired (w_env w') f'" using ttl f'(4) w'(3) by (simp add: unexpired_def)
  ultimately show ?thesis
    using get_file_from_db [OF _ _ f'(1)] quiet(1) w' cold f'(5) f by (simp add: alias_row_facts)
qed

lemma store_alias_files:
  assumes "quiet (w_env w)" "stc_enable_deduplication (cf_storage (sm_config sm))"
    and "sql_bucket_exists b (w_db w)" "sole_copy lib content g (w_db w)" "\<not> is_object b k g"
    and "store_file lib sm b k content ct opts w = (Inr f, w')"
  shows "w_fs w' = w_fs w \<and> sf_file_path f = sf_file_path g"
proof -
  have "store_alias g b k ct opts (sl_blake3 lib content, sl_md5 lib content) (tick (tick w)) = (Inr f, w')"
    using assms(5,6) store_file_duplicate [OF assms(1-4)] by simp
  from store_alias_Inr [OF this] show ?thesis by (simp add: alias_row_facts)
qed

end
