(* ===== verification/Range_Facts.thy ===== *)
theory Range_Facts
  imports Handlers Storage_Delete
begin

text \<open>
  Range requests: what \<open>parse_range_header\<close> accepts lies inside the file, and the two fast
  paths of \<open>storage.rs\<close> (a seek in a plain file, a streamed decompression) give the slice that
  the full read would have given.
\<close>

section \<open>Parsing\<close>

lemma u64_pos: "(n :: u64) \<noteq> 0 \<Longrightarrow> 0 < unat n"
  by (simp add: unat_gt_0)

lemma saturating_sub_one: "n \<noteq> 0 \<Longrightarrow> saturating_sub n 1 = n - 1"
  using u64_pos [of n] by (simp add: saturating_sub_def word_less_nat_alt)

lemma parse_range_sound:
  assumes "parse_range_header v n = Some (s, e)"
  shows "s \<le> e \<and> e < n"
proof -
  have suffix: "n \<noteq> 0 \<Longrightarrow> k \<noteq> 0 \<Longrightarrow> saturating_sub n k \<le> n - 1 \<and> n - 1 < n" for k
    using u64_pos [of k] u64_pos [of n]
    by (simp add: word_le_nat_alt word_less_nat_alt unat_minus_one)
  have bound: "s < n \<Longrightarrow> s \<le> saturating_sub n 1 \<and> saturating_sub n 1 < n" for s
    by (auto simp: word_le_nat_alt word_less_nat_alt)
  have "(\<exists>k. k \<noteq> 0 \<and> n \<noteq> 0 \<and> s = saturating_sub n k \<and> e = n - 1) \<or>
      (\<exists>x. s \<le> x \<and> s < n \<and> e = min x (saturating_sub n 1))"
    using assms
    by (auto simp: parse_range_header_def not_less not_le split: option.splits if_splits prod.splits)
  then show ?thesis
  proof (elim disjE exE conjE)
    fix k
    assume "k \<noteq> 0" "n \<noteq> 0" "s = saturating_sub n k" "e = n - 1"
    then show ?thesis using suffix [of k] by simp
  next
    fix x
    assume "s \<le> x" "s < n" "e = min x (saturating_sub n 1)"
    then show ?thesis using bound [of s] by (auto simp: min_def)
  qed
qed

lemma digits_no_special:
  "CHR ''-'' \<notin> set (show_nat n)" "CHR '','' \<notin> set (show_nat n)" "CHR ''+'' \<notin> set (show_nat n)"
  using show_nat_digits [of "CHR ''-''" n] show_nat_digits [of "CHR '',''" n]
    show_nat_digits [of "CHR ''+''" n]
  by (auto simp: is_digit_def)

lemma parse_u64_show: "n < 2 ^ 64 \<Longrightarrow> parse_u64 (show_nat n) = Some (of_nat n)"
  by (simp add: parse_u64_def parse_show_nat)

lemma contains_char: "contains_str [c] s \<longleftrightarrow> c \<in> set s"
  by (auto simp: contains_str_iff in_set_conv_decomp)

text \<open>The three forms that players send.\<close>

lemma parse_range_spec:
  assumes "CHR '','' \<notin> set a" "CHR '','' \<notin> set b" "CHR ''-'' \<notin> set a"
  shows "parse_range_header (''bytes='' @ a @ CHR ''-'' # b) n =
    (if a = [] then
       (case parse_u64 b of None \<Rightarrow> None
        | Some k \<Rightarrow> if k = 0 \<or> n = 0 then None else Some (saturating_sub n k, n - 1))
     else
       (case parse_u64 a of None \<Rightarrow> None
        | Some s \<Rightarrow>
            (case (if b = [] then Some (saturating_sub n 1) else parse_u64 b) of None \<Rightarrow> None
             | Some e \<Rightarrow> if e < s \<or> n \<le> s then None else Some (s, min e (saturating_sub n 1)))))"
proof -
  have strip: "strip_prefix ''bytes='' (''bytes='' @ a @ CHR ''-'' # b) = Some (a @ CHR ''-'' # b)"
    by (rule iffD2 [OF strip_prefix_Some]) (rule refl)
  have split: "split_once (CHR ''-'') (a @ CHR ''-'' # b) = Some (a, b)"
    using assms(3) by simp
  have comma: "contains_str '','' (a @ CHR ''-'' # b) = False"
    using assms(1,2) by (simp add: contains_char)
  show ?thesis
    unfolding parse_range_header_def strip option.case comma if_False split prod.case by (rule refl)
qed

lemma u64_compare:
  "a < 2 ^ 64 \<Longrightarrow> b < 2 ^ 64 \<Longrightarrow> (of_nat b :: u64) < of_nat a \<longleftrightarrow> b < a"
  "a < 2 ^ 64 \<Longrightarrow> (n :: u64) \<le> of_nat a \<longleftrightarrow> unat n \<le> a"
  "a < 2 ^ 64 \<Longrightarrow> (n :: u64) < of_nat a \<longleftrightarrow> unat n < a"
  by (simp_all add: word_less_nat_alt word_le_nat_alt unat_of_nat)

lemma parse_range_closed:
  assumes "a < 2 ^ 64" "b < 2 ^ 64"
  shows "parse_range_header (''bytes='' @ show_nat a @ CHR ''-'' # show_nat b) n =
    (if a \<le> b \<and> a < unat n then Some (of_nat a, min (of_nat b) (saturating_sub n 1)) else None)"
  using assms digits_no_special parse_u64_show [OF assms(1)] parse_u64_show [OF assms(2)]
  by (subst parse_range_spec)
    (auto simp: u64_compare(1) [OF assms] u64_compare(2) [OF assms(1)] not_less not_le)

lemma parse_range_open:
  assumes "a < 2 ^ 64"
  shows "parse_range_header (''bytes='' @ show_nat a @ ''-'') n =
    (if a < unat n then Some (of_nat a, n - 1) else None)"
proof (cases "n = 0")
  case True
  then show ?thesis
    using assms digits_no_special parse_u64_show [OF assms]
    by (subst parse_range_spec) auto
next
  case False
  have "n - 1 < of_nat a \<longleftrightarrow> unat n - 1 < a"
    using assms False by (simp add: u64_compare(3) unat_minus_one)
  then show ?thesis
    using assms digits_no_special parse_u64_show [OF assms] False u64_pos [OF False]
      saturating_sub_one [OF False]
    by (subst parse_range_spec) (auto simp: u64_compare not_less not_le)
qed

lemma parse_range_suffix:
  assumes "k < 2 ^ 64"
  shows "parse_range_header (''bytes='' @ CHR ''-'' # show_nat k) n =
    (if k = 0 \<or> n = 0 then None else Some (saturating_sub n (of_nat k), n - 1))"
proof -
  have "(of_nat k :: u64) = 0 \<longleftrightarrow> k = 0"
    using u64_compare(3) [OF assms, of 0] u64_pos [of "of_nat k"] by (auto simp: word_less_nat_alt)
  then show ?thesis
    using parse_range_spec [of "[]" "show_nat k" n] digits_no_special parse_u64_show [OF assms]
    by simp
qed

lemma slice_inclusive_length:
  assumes "s \<le> e" "unat e < length c"
  shows "length (slice_inclusive c s e) = unat e - unat s + 1"
  using assms by (auto simp: slice_inclusive_def word_le_nat_alt)

section \<open>The fast paths\<close>

lemma clamp_range_Some:
  assumes "clamp_range n s e = Some (ce, len)"
  shows "n \<noteq> 0 \<and> ce = min e (saturating_sub n 1) \<and> s \<le> ce \<and> ce < n \<and> len = unat ce + 1 - unat s"
proof -
  have n: "n \<noteq> 0" and ce: "ce = min e (saturating_sub n 1)" "s \<le> ce" and len: "len = unat (ce - s + 1)"
    using assms by (auto simp: clamp_range_def Let_def not_less split: if_splits)
  have lt: "ce < n"
    using u64_pos [OF n] ce(1) by (auto simp: word_less_nat_alt word_le_nat_alt min_def)
  have "unat (ce - s) = unat ce - unat s" using ce(2) by (simp add: unat_sub)
  moreover have "unat ce < unat n" "unat s \<le> unat ce"
    using lt ce(2) by (auto simp: word_less_nat_alt word_le_nat_alt)
  moreover have "unat n < 2 ^ 64"
    using unsigned_less [of n, where 'a = nat] by simp
  ultimately have "unat (ce - s + 1) = unat ce + 1 - unat s"
    by (simp add: unat_word_ariths)
  with n ce lt len show ?thesis by simp
qed

lemma clamp_range_inside:
  assumes "s \<le> e" "e < n"
  shows "clamp_range n s e = Some (e, unat e + 1 - unat s)"
proof -
  have "e \<le> saturating_sub n 1" "n \<noteq> 0"
    using assms by (auto simp: word_less_nat_alt word_le_nat_alt)
  then have c: "clamp_range n s e = Some (e, unat (e - s + 1))"
    using assms by (simp add: clamp_range_def Let_def)
  then show ?thesis using clamp_range_Some [OF c] by simp
qed

lemma keeps_same_fs:
  assumes "\<And>J. keeps (on_fs J) m" "m w = (r, w')"
  shows "w_fs w' = w_fs w"
proof -
  have "on_fs (\<lambda>s. s = w_fs w) w'"
    by (rule keepsD_eq [OF assms(1) _ assms(2)]) (simp add: on_fs_def)
  then show ?thesis by (simp add: on_fs_def)
qed

lemma read_metadata_fs: "read_metadata lib sm b k w = (r, w') \<Longrightarrow> w_fs w' = w_fs w"
  by (rule keeps_same_fs [OF keeps_read_metadata(2)])

lemma open_file_Inr:
  "open_file p w = (Inr h, w') \<Longrightarrow> w_fs w' = w_fs w \<and> at_file p fs_open (w_fs w) = Inr h"
  by (auto simp: open_file_def io_call_def Let_def map_sum_def split: option.splits sum.splits)

lemma seek_start_fs: "seek_start n w = (r, w') \<Longrightarrow> w_fs w' = w_fs w"
  by (rule keeps_same_fs [OF keeps_handles_fs(2)])

lemma read_exact_Inr:
  "read_exact h pos len w = (Inr buf, w') \<Longrightarrow>
     \<exists>c. fs_read (w_fs w) h = Inr c \<and> pos + len \<le> length c + (if len = 0 then pos else 0) \<and>
       buf = take len (drop pos c) \<and> length buf = len"
  by (auto simp: read_exact_def io_call_def Let_def split: option.splits sum.splits if_splits)

lemma open_read_content:
  assumes "at_file p fs_open s = Inr h" "fs_read s h = Inr c"
  shows "content_at s p = Some c"
  using assms
  by (auto simp: content_at_def at_file_def at_path_def fs_open_def fs_read_def is_dir_def
      split: if_splits)

lemma get_file_range_if_plain_Some:
  assumes "get_file_range_if_plain lib sm b k s e w = (Inr (Some (buf, ct, n)), w')"
  shows "\<exists>f w1 c. read_metadata lib sm b k w = (Inr f, w1) \<and> \<not> is_compressed f \<and> \<not> is_encrypted f \<and>
    n = i64_as_u64 (sf_file_size f) \<and> ct = sf_content_type f \<and>
    content_at (w_fs w) (sf_file_path f) = Some c \<and>
    s \<le> min e (saturating_sub n 1) \<and>
    buf = slice_inclusive c s (min e (saturating_sub n 1)) \<and>
    length buf = unat (min e (saturating_sub n 1)) + 1 - unat s"
proof -
  obtain f w1 where meta: "read_metadata lib sm b k w = (Inr f, w1)"
    and plain: "\<not> is_compressed f" "\<not> is_encrypted f"
    and rest: "(let total_len = i64_as_u64 (sf_file_size f) in
        case clamp_range total_len s e of
          None \<Rightarrow> ret None
        | Some (_, len) \<Rightarrow>
            bind_op (map_err_op from_io_error (open_file (sf_file_path f))) (\<lambda>h.
            bind_op (map_err_op from_io_error (seek_start s)) (\<lambda>_.
            bind_op (map_err_op from_io_error (read_exact h (unat s) len)) (\<lambda>buf.
            bind_op (ignore (db_update_access (sf_id f))) (\<lambda>_.
            ret (Some (buf, sf_content_type f, total_len))))))) w1 =
          (Inr (Some (buf, ct, n)) :: storage_error + (bytes \<times> string \<times> u64) option, w')"
    using assms unfolding get_file_range_if_plain_def
    by (elim bind_op_cases) (auto split: if_splits)
  obtain ce len where cl: "clamp_range (i64_as_u64 (sf_file_size f)) s e = Some (ce, len)"
    using rest by (auto simp: Let_def split: option.splits)
  obtain h w2 w3 w4 where op: "open_file (sf_file_path f) w1 = (Inr h, w2)"
    and seek: "seek_start s w2 = (Inr (), w3)"
    and rd: "read_exact h (unat s) len w3 = (Inr buf, w4)"
    and eqs: "ct = sf_content_type f" "n = i64_as_u64 (sf_file_size f)"
    using rest cl by (auto simp: Let_def bind_op_result_Inr)
  have fs: "w_fs w1 = w_fs w" "w_fs w2 = w_fs w" "w_fs w3 = w_fs w"
    using read_metadata_fs [OF meta] open_file_Inr [OF op] seek_start_fs [OF seek] by auto
  obtain c where c: "fs_read (w_fs w) h = Inr c" "buf = take len (drop (unat s) c)" "length buf = len"
    using read_exact_Inr [OF rd] fs by auto
  have "content_at (w_fs w) (sf_file_path f) = Some c"
    using open_read_content [OF _ c(1)] open_file_Inr [OF op] fs by simp
  moreover obtain "ce = min e (saturating_sub n 1)" "s \<le> ce" "len = unat ce + 1 - unat s"
    using clamp_range_Some [OF cl] eqs by blast
  ultimately have "content_at (w_fs w) (sf_file_path f) = Some c \<and> s \<le> ce \<and>
      buf = slice_inclusive c s ce \<and> length buf = unat ce + 1 - unat s"
    using c by (simp add: slice_inclusive_def)
  then show ?thesis
    unfolding \<open>ce = _\<close> using meta plain eqs by blast
qed

lemma lift_result_Inr [simp]: "lift_result r w = (Inr x, w') \<longleftrightarrow> r = Inr x \<and> w' = w"
  by (auto simp: lift_result_def)

lemma get_compressed_file_range_Some:
  assumes "get_compressed_file_range lib sm b k s e w = (Inr (Some (buf, ct, n)), w')"
  shows "\<exists>f w1 c. read_metadata lib sm b k w = (Inr f, w1) \<and> is_compressed f \<and> \<not> is_encrypted f \<and>
    n = i64_as_u64 (sf_original_size f) \<and> ct = sf_content_type f \<and>
    content_at (w_fs w) (sf_file_path f) = Some c \<and>
    s \<le> min e (saturating_sub n 1) \<and>
    decompress_range (sl_codec lib) c (unat s) (unat (min e (saturating_sub n 1)) + 1 - unat s) =
      Inr (Some buf)"
proof -
  obtain f w1 where meta: "read_metadata lib sm b k w = (Inr f, w1)"
    and plain: "is_compressed f" "\<not> is_encrypted f"
    and rest: "(let total_len = i64_as_u64 (sf_original_size f) in
        case clamp_range total_len s e of
          None \<Rightarrow> ret None
        | Some (_, want_len) \<Rightarrow>
            bind_op (map_err_op from_io_error (read_file (sf_file_path f))) (\<lambda>compressed.
            bind_op (lift_result
              (decompress_range (sl_codec lib) compressed (unat s) want_len)) (\<lambda>decoded.
            case decoded of
              None \<Rightarrow> ret None
            | Some buf \<Rightarrow>
                bind_op (ignore (db_update_access (sf_id f))) (\<lambda>_.
                ret (Some (buf, sf_content_type f, total_len)))))) w1 =
          (Inr (Some (buf, ct, n)) :: storage_error + (bytes \<times> string \<times> u64) option, w')"
    using assms unfolding get_compressed_file_range_def
    by (elim bind_op_cases) (auto split: if_splits)
  obtain ce len where cl: "clamp_range (i64_as_u64 (sf_original_size f)) s e = Some (ce, len)"
    using rest by (auto simp: Let_def split: option.splits)
  obtain c w2 where rd: "read_file (sf_file_path f) w1 = (Inr c, w2)"
    and dec: "decompress_range (sl_codec lib) c (unat s) len = Inr (Some buf)"
    and eqs: "ct = sf_content_type f" "n = i64_as_u64 (sf_original_size f)"
    using rest cl by (auto simp: Let_def bind_op_result_Inr split: option.splits)
  have "content_at (w_fs w) (sf_file_path f) = Some c"
    using read_file_Inr [OF rd] read_metadata_fs [OF meta] by simp
  moreover obtain "ce = min e (saturating_sub n 1)" "s \<le> ce" "len = unat ce + 1 - unat s"
    using clamp_range_Some [OF cl] eqs by blast
  ultimately have "content_at (w_fs w) (sf_file_path f) = Some c \<and> s \<le> ce \<and>
      decompress_range (sl_codec lib) c (unat s) (unat ce + 1 - unat s) = Inr (Some buf)"
    using dec by simp
  then show ?thesis
    unfolding \<open>ce = _\<close> using meta plain eqs by blast
qed

text \<open>A streamed range is the slice of what the full decompression would have given.\<close>

lemma decompress_range_is_slice:
  assumes "cmp_enabled cfg" "decompress lib cfg (format # data) = Inr whole"
    and "format = 1 \<or> format = 2" "unat s \<le> length whole"
    and "decompress_range lib (format # data) (unat s) (unat e + 1 - unat s) = Inr (Some buf)"
  shows "buf = slice_inclusive whole s e"
  using decompress_range_agrees [OF assms(1-4), of "unat e + 1 - unat s"] assms(5)
  by (simp add: slice_inclusive_def)

section \<open>The full path\<close>

lemma full_download_Inr:
  assumes "full_download lib st b k rh w = (Inr r, w')"
  obtains content ct w1 where "get_file (hl_storage lib) (as_storage st) b k w = (Inr (content, ct), w1)"
    and "rs_body r = Content_body (case (case rh of None \<Rightarrow> None
        | Some v \<Rightarrow> parse_range_header v (of_nat (length content))) of
        None \<Rightarrow> content | Some (s, e) \<Rightarrow> slice_inclusive content s e)"
    and "rs_status r = (if (case rh of None \<Rightarrow> None
        | Some v \<Rightarrow> parse_range_header v (of_nat (length content))) = None then 200 else 206)"
proof -
  obtain content ct w1 where get: "get_file (hl_storage lib) (as_storage st) b k w = (Inr (content, ct), w1)"
    and rest: "(let total_len = of_nat (length content) in
      bind_op
        (case ct of
           None \<Rightarrow> ret []
         | Some ct \<Rightarrow>
             bind_op (lift_result (header_value lib ''Invalid content type'' ct)) (\<lambda>v.
             ret [(''Content-Type'', v)])) (\<lambda>ct_header.
      (let headers = ct_header @ [(''Accept-Ranges'', ''bytes'')] in
       case (case rh of None \<Rightarrow> None | Some v \<Rightarrow> parse_range_header v total_len) of
         Some (start, stop) \<Rightarrow>
           bind_op (lift_result (header_value lib ''Invalid range'' (content_range start stop total_len))) (\<lambda>cr.
           ret (respond 206 (headers @ [(''Content-Range'', cr)])
             (Content_body (slice_inclusive content start stop))))
       | None \<Rightarrow> ret (respond 200 headers (Content_body content))))) w1 = (Inr r, w')"
    using assms unfolding full_download_def by (elim bind_op_cases) auto
  from get show thesis
    by (rule that)
      (use rest in \<open>auto simp: Let_def bind_op_result_Inr respond_def
        split: option.splits prod.splits\<close>)
qed

lemma parse_range_fits:
  assumes "parse_range_header v (of_nat (length c)) = Some (s, e)" "length c < 2 ^ 64"
  shows "s \<le> e" "unat e < length c"
  using parse_range_sound [OF assms(1)] assms(2)
  by (auto simp: word_less_nat_alt unat_of_nat)

end
