(* ===== verification/Example_Service.thy ===== *)
theory Example_Service
  imports Examples
begin

text \<open>
  Concrete parameters of the handlers: toy hash functions and a toy date for the signatures,
  and the state of a service with a download token and an S3 account.
\<close>

definition ex_sig :: sig_lib where
  "ex_sig =
     \<lparr>hmac_sha256 = (\<lambda>key data. [sum_list key + sum_list data]),
      sha256 = (\<lambda>data. [sum_list data]),
      hex_encode = (\<lambda>data. ''x'' @ show_nat (sum_list (map unat data))),
      url_decode = Some,
      parse_amz_date = (\<lambda>s. if s = ''20240101T000000Z'' then Some 1000 else None)\<rparr>"

definition ex_hlib :: handler_lib where
  "ex_hlib =
     \<lparr>hl_storage = ex_lib no_json, hl_sig = ex_sig, hl_header_ok = (\<lambda>s. True),
      hl_add_seconds = (\<lambda>t n. if n < 1000000 then Some (t + n * 1000000000) else None),
      hl_rfc3339 = (\<lambda>t. show_int t), hl_xml_text = (\<lambda>d. None), hl_parse_delete = (\<lambda>s. Inr [s])\<rparr>"

definition ex_account :: s3_config where
  "ex_account = \<lparr>s3c_access_key = ''AK'', s3c_secret_key = ''SK'', s3c_region = ''us-east-1''\<rparr>"

definition ex_state :: app_state where
  "ex_state = (app_state_new ex_config ex_manager)\<lparr>as_s3_config := Some ex_account\<rparr>"

lemma ex_state_fields [simp]:
  "as_storage ex_state = ex_manager" "as_download_protection_token ex_state = Some ''secret''"
  "as_protected_read_buckets ex_state = Some [''private'']" "as_s3_config ex_state = Some ex_account"
  by (simp_all add: ex_state_def app_state_new_def ex_config_def)

definition ex_headers :: "(string \<times> string) list \<Rightarrow> header_map" where
  "ex_headers hs = (\<lambda>n. map_option Visible (map_of hs n))"

definition ex_query :: "int option \<Rightarrow> upload_query" where
  "ex_query ttl = \<lparr>uq_compress = None, uq_encrypt = None, uq_compression_algorithm = None,
     uq_compression_level = None, uq_encryption_key_id = None, uq_ttl_seconds = ttl\<rparr>"

end
