(* ===== verification/End_To_End.thy ===== *)
theory End_To_End
  imports Example_Service
begin

text \<open>
  Whole requests: what the service answers to one call after another.
\<close>

text \<open>The options of an upload without an expiry, and its content type.\<close>

definition upload_options :: "upload_query \<Rightarrow> store_options" where
  "upload_options q =
     \<lparr>so_compress = uq_compress q, so_encrypt = uq_encrypt q, so_expires_at = None,
      so_compression_algorithm = uq_compression_algorithm q,
      so_compression_level = uq_compression_level q,
      so_encryption_key_id = uq_encryption_key_id q, so_metadata = None\<rparr>"

definition upload_content_type :: "header_map \<Rightarrow> string" where
  "upload_content_type h = unwrap_or (header_str h ''content-type'') ''application/octet-stream''"

lemma upload_stores:
  assumes "upload_file lib st b q h (Whole c) w = (Inr r, w')"
    and "extract_filename_from_content_disposition lib h = Some k" "uq_ttl_seconds q = None"
  obtains f where "store_file (hl_storage lib) (as_storage st) b k c (Some (upload_content_type h))
      (upload_options q) w = (Inr f, w')"
    "r = respond 201 [] (Info_body (file_info_from f))"
proof -
  let ?max = "max_file_size (as_storage st)"
  have len: "check_length h ?max = Inr ()"
    using assms by (cases "check_length h ?max") (auto simp: upload_file_def bind_op_def lift_result_def ret_def)
  have body: "read_body (Whole c) ?max = Inr c"
    using assms len
    by (cases "read_body (Whole c) ?max")
      (auto simp: upload_file_def bind_op_def lift_result_def ret_def read_body_def to_bytes_def
        split: if_splits)
  obtain r1 w1 where run: "store_file (hl_storage lib) (as_storage st) b k c (Some (upload_content_type h))
      (upload_options q) w = (r1, w1)" by fastforce
  have "(case r1 of Inl e \<Rightarrow> (Inl (Failed e), w1)
      | Inr f \<Rightarrow> (Inr (respond 201 [] (Info_body (file_info_from f))), w1)) = (Inr r, w')"
    using assms len body run [unfolded upload_options_def upload_content_type_def]
    by (auto simp: upload_file_def bind_op_def lift_result_def ret_def expiry_of_def throw_def
        map_err_op_def map_err_def split: if_splits sum.splits)
  then show thesis using run that by (cases r1) auto
qed

lemma download_answers:
  assumes "get_file (hl_storage lib) (as_storage st) b k w = (Inr (c, Some ct), w')"
    and "require_download_token st h (Some b) = Inr ()" "\<not> ends_with ''/info'' k"
    and "header_str h ''range'' = None" "hl_header_ok lib ct"
  shows "handle_file_request lib st b k h w =
    (Inr (respond 200 [(''Content-Type'', ct), (''Accept-Ranges'', ''bytes'')] (Content_body c)), w')"
  using assms
  by (simp add: handle_file_request_def full_download_def bind_op_def lift_result_def ret_def
      header_value_def Let_def)

text \<open>C1 (roundtrip): a file uploaded over HTTP is downloaded over HTTP: after the answer to the
  upload, a GET of the bucket and the file name gives 200 with the very bytes of the upload and
  its content type, compressed and encrypted as they were in between. The conditions are these. Nothing
  fails and no cache entry is dropped. The upload is one without an expiry, of content whose hash no
  row has, under a name that does not end in \<open>/info\<close>, with a content type that is a header value;
  if it forces compression, the service has compression enabled. Its stored form is at most 1 MiB, as the
  answer to the upload says, or the cache holds no content under its key: a larger one over a cached
  one is answered with the old bytes (\<open>large_overwrite_serves_old_content\<close>). The reader carries the
  token if one is needed and asks for no range. The codecs, the cipher and JSON keep their laws.\<close>

theorem uploaded_file_is_downloaded:
  assumes "quiet (w_env w)"
    and laws: "gzip_law (sl_codec (hl_storage lib))" "zstd_law (sl_codec (hl_storage lib))"
      "aead_law (sl_aead (hl_storage lib))"
    and "uq_compress q \<noteq> Some True \<or> cmp_enabled (sm_compression (as_storage st))"
    and "sm_compression (as_storage st) = cf_compression (sm_config (as_storage st))"
    and new: "\<forall>g \<in> set (db_files (w_db w)). sf_hash_blake3 g \<noteq> sl_blake3 (hl_storage lib) c"
    and entry: "w_cache w (content_key b k) = None \<or>
      (\<forall>i. rs_body r = Info_body i \<longrightarrow> fi_file_size i \<le> int max_cached_content)"
    and name: "extract_filename_from_content_disposition lib h = Some k" "\<not> ends_with ''/info'' k"
    and query: "uq_ttl_seconds q = None" "hl_header_ok lib (upload_content_type h)"
    and upload: "serve lib st (Upload_call b q h (Whole c)) w = (Replied r, w')"
    and json: "\<forall>f. fst (store_file (hl_storage lib) (as_storage st) b k c
        (Some (upload_content_type h)) (upload_options q) w) = Inr f \<longrightarrow> json_reads_back (sl_json (hl_storage lib)) f"
    and reader: "require_download_token st h' (Some b) = Inr ()" "header_str h' ''range'' = None"
  shows "fst (serve lib st (File_call b k h') w') = Replied (respond 200
    [(''Content-Type'', upload_content_type h), (''Accept-Ranges'', ''bytes'')] (Content_body c))"
proof -
  let ?sm = "as_storage st"
  have "upload_file lib st b q h (Whole c) w = (Inr r, w')"
    using serve_Replied [OF upload] by (auto simp: rest_answer_or_panic_def split: prod.splits sum.splits failure.splits)
  from upload_stores [OF this name(1) query(1)] obtain f where
    store: "store_file (hl_storage lib) ?sm b k c (Some (upload_content_type h)) (upload_options q) w =
      (Inr f, w')"
    and r: "r = respond 201 [] (Info_body (file_info_from f))" .
  have js: "json_reads_back (sl_json (hl_storage lib)) f" using json store by simp
  obtain w1 where w1: "quiet (w_env w1)" "w_cache w1 = w_cache w" "w_env w1 = w_env w"
    "store_new (hl_storage lib) ?sm b k c (Some (upload_content_type h)) (upload_options q)
       (sl_blake3 (hl_storage lib) c, sl_md5 (hl_storage lib) c) w1 = (Inr f, w')"
    using store_file_new [OF assms(1) _ store] new by blast
  have "sf_expires_at f = None"
    using store_new_quiet [OF w1(1) js w1(4)] by (auto simp: upload_options_def)
  then have ttl: "unexpired (w_env w1) f" by (simp add: unexpired_def)
  have codec: "wants_compression ?sm (upload_options q) \<Longrightarrow> cmp_enabled (sm_compression ?sm)"
    using assms(5,6) by (cases "uq_compress q") (auto simp: wants_compression_def upload_options_def)
  have "sf_file_size f \<le> int max_cached_content \<or> w_cache w1 (content_key b k) = None"
    using entry w1(2) by (auto simp: r respond_def)
  then obtain w'' where "get_file (hl_storage lib) ?sm b k w' = (Inr (c, Some (upload_content_type h)), w'')"
    using store_new_get [OF w1(1) js laws codec w1(4) _ ttl] by auto
  from download_answers [OF this reader(1) name(2) reader(2) query(2)]
  show ?thesis by (simp add: serve_rest rest_answer_def)
qed

definition ex_uploader :: handler_lib where
  "ex_uploader = ex_hlib\<lparr>hl_storage := ex_lib (ex_json ex_row)\<rparr>"

lemma ex_uploader_fields:
  "sl_codec (hl_storage ex_uploader) = ex_codec" "sl_aead (hl_storage ex_uploader) = ex_aead"
  "hl_header_ok ex_uploader s"
  by (simp_all add: ex_uploader_def ex_hlib_def ex_lib_def)

lemma ex_query_fields: "uq_compress (ex_query ttl) = None" "uq_ttl_seconds (ex_query ttl) = ttl"
  by (simp_all add: ex_query_def)

lemma ex_manager_fields: "sm_compression ex_manager = cf_compression ex_config" "sm_config ex_manager = ex_config"
  by (simp_all add: ex_manager_def)

lemma ex_world_fields: "db_files (w_db ex_world) = []" "w_cache ex_world = Map.empty"
  by (simp_all add: ex_world_def)

definition ex_upload_headers :: header_map where
  "ex_upload_headers =
     ex_headers [(''content-disposition'', ''attachment; filename=a.jpg''), (''content-type'', ''image/jpeg'')]"

definition ex_upload_call :: call where
  "ex_upload_call = Upload_call ''photos'' (ex_query None) ex_upload_headers (Whole ex_content)"

theorem uploaded_file_is_downloaded_witness:
  "(case serve ex_uploader ex_state ex_upload_call ex_world of
      (Replied r, w) \<Rightarrow> fst (serve ex_uploader ex_state (File_call ''photos'' ''a.jpg'' no_headers) w) =
        Replied (respond 200 [(''Content-Type'', ''image/jpeg''), (''Accept-Ranges'', ''bytes'')]
          (Content_body ex_content))
    | _ \<Rightarrow> False)"
proof -
  let ?u = "serve ex_uploader ex_state ex_upload_call ex_world"
  have "(case fst ?u of Replied r \<Rightarrow> True | _ \<Rightarrow> False)" by code_simp
  then obtain r w where u: "?u = (Replied r, w)" by (cases ?u) (auto split: answer.splits)
  have name: "extract_filename_from_content_disposition ex_uploader ex_upload_headers = Some ''a.jpg''"
    by code_simp
  have opts: "upload_content_type ex_upload_headers = ''image/jpeg''"
    "upload_options (ex_query None) = default_options"
    by code_simp (simp add: upload_options_def ex_query_def default_options_def)
  have json: "\<forall>f. fst (store_file (hl_storage ex_uploader) (as_storage ex_state) ''photos'' ''a.jpg'' ex_content
      (Some ''image/jpeg'') default_options ex_world) = Inr f \<longrightarrow> json_reads_back (sl_json (hl_storage ex_uploader)) f"
    using ex_store_row ex_json_reads_back by (auto simp: ex_store_def ex_uploader_def ex_lib_def)
  have other: "\<not> ends_with ''/info'' ''a.jpg''" "require_download_token ex_state no_headers (Some ''photos'') = Inr ()"
    "header_str no_headers ''range'' = None" "cmp_enabled (cf_compression ex_config)"
    by code_simp+
  have "fst (serve ex_uploader ex_state (File_call ''photos'' ''a.jpg'' no_headers) w) =
    Replied (respond 200 [(''Content-Type'', upload_content_type ex_upload_headers),
      (''Accept-Ranges'', ''bytes'')] (Content_body ex_content))"
    using u ex_env_quiet ex_gzip_law ex_zstd_law ex_aead_law name json other
    by (intro uploaded_file_is_downloaded [where w = ex_world and q = "ex_query None" and c = ex_content])
      (simp_all add: ex_upload_call_def ex_uploader_fields opts ex_query_fields ex_world_fields ex_manager_fields)
  then show ?thesis by (simp add: u opts)
qed

end
