(* ===== verification/Tasks.thy ===== *)
theory Tasks
  imports World
begin

text \<open>
  Requests that run at the same time. A \<open>task\<close> is a request as the runtime sees it: what it does
  up to its next call of the database, the disk or the cache, which is one step on the shared
  state, and how it goes on from the answer. The tasks of a pool take their steps in any order
  (\<open>interleave\<close>). Run by itself, a task is an operation in the sense of \<open>World\<close> (\<open>run_task\<close>).
\<close>

section \<open>Tasks\<close>

datatype ('e, 'a) task =
    Done "'e + 'a"
  | Step "world \<Rightarrow> ('e, 'a) task \<times> world"

text \<open>A task that is alone.\<close>

primrec run_task :: "('e, 'a) task \<Rightarrow> ('e, 'a) op" where
  "run_task (Done r) = (\<lambda>w. (r, w))"
| "run_task (Step f) = (\<lambda>w. case map_prod run_task id (f w) of (m, w') \<Rightarrow> m w')"

text \<open>One call: a single step.\<close>

definition atom :: "('e, 'a) op \<Rightarrow> ('e, 'a) task" where
  "atom m = Step (\<lambda>w. case m w of (r, w') \<Rightarrow> (Done r, w'))"

text \<open>A task and then another one that depends on its result.\<close>

primrec t_try :: "('e, 'a) task \<Rightarrow> ('e + 'a \<Rightarrow> ('f, 'b) task) \<Rightarrow> ('f, 'b) task" where
  "t_try (Done r) k = k r"
| "t_try (Step f) k = Step (\<lambda>w. map_prod (\<lambda>t. t_try t k) id (f w))"

definition t_bind :: "('e, 'a) task \<Rightarrow> ('a \<Rightarrow> ('e, 'b) task) \<Rightarrow> ('e, 'b) task" where
  "t_bind t k = t_try t (\<lambda>r. case r of Inl e \<Rightarrow> Done (Inl e) | Inr x \<Rightarrow> k x)"

definition t_ret :: "'a \<Rightarrow> ('e, 'a) task" where
  "t_ret x = Done (Inr x)"

definition t_throw :: "'e \<Rightarrow> ('e, 'a) task" where
  "t_throw e = Done (Inl e)"

definition t_lift :: "'e + 'a \<Rightarrow> ('e, 'a) task" where
  "t_lift r = Done r"

definition t_map_err :: "('e \<Rightarrow> 'f) \<Rightarrow> ('e, 'a) task \<Rightarrow> ('f, 'a) task" where
  "t_map_err g t = t_try t (\<lambda>r. Done (map_err g r))"

definition t_ignore :: "('e, 'a) task \<Rightarrow> ('f, unit) task" where
  "t_ignore t = t_try t (\<lambda>_. t_ret ())"

fun t_for_each :: "('a \<Rightarrow> ('e, unit) task) \<Rightarrow> 'a list \<Rightarrow> ('e, unit) task" where
  "t_for_each f [] = t_ret ()"
| "t_for_each f (x # xs) = t_bind (f x) (\<lambda>_. t_for_each f xs)"

section \<open>A task that is alone is an operation\<close>

named_theorems run_task_simps

lemma run_atom [run_task_simps]: "run_task (atom m) = m"
  by (auto simp: atom_def fun_eq_iff split: prod.split)

lemma run_t_try [run_task_simps]: "run_task (t_try t k) = try_op (run_task t) (\<lambda>r. run_task (k r))"
proof (induction t)
  case (Step f)
  show ?case
  proof
    fix w
    obtain t' w' where f: "f w = (t', w')" by fastforce
    then have "run_task (t_try t' k) w' = try_op (run_task t') (\<lambda>r. run_task (k r)) w'"
      using Step [of "(t', w')" t'] by (metis fsts.intros prod.sel(1) rangeI)
    then show "run_task (t_try (Step f) k) w = try_op (run_task (Step f)) (\<lambda>r. run_task (k r)) w"
      by (simp add: f try_op_def)
  qed
qed (simp add: try_op_def fun_eq_iff)

lemma run_Done [run_task_simps]: "run_task (Done r) = lift_result r"
  by (simp add: fun_eq_iff)

lemma run_case_sum [run_task_simps]:
  "run_task (case r of Inl e \<Rightarrow> f e | Inr x \<Rightarrow> g x) = (case r of Inl e \<Rightarrow> run_task (f e) | Inr x \<Rightarrow> run_task (g x))"
  by (simp split: sum.split)

lemma run_t_bind [run_task_simps]: "run_task (t_bind t k) = bind_op (run_task t) (\<lambda>x. run_task (k x))"
  by (auto simp: t_bind_def run_t_try fun_eq_iff try_op_def bind_op_def split: prod.split sum.split)

lemma run_t_ret [run_task_simps]: "run_task (t_ret x) = ret x"
  and run_t_throw [run_task_simps]: "run_task (t_throw e) = throw e"
  and run_t_lift [run_task_simps]: "run_task (t_lift r) = lift_result r"
  by (simp_all add: t_ret_def t_throw_def t_lift_def fun_eq_iff)

lemma run_t_map_err [run_task_simps]: "run_task (t_map_err g t) = map_err_op g (run_task t)"
  by (auto simp: t_map_err_def run_t_try fun_eq_iff try_op_def map_err_op_def split: prod.split)

lemma run_t_ignore [run_task_simps]: "run_task (t_ignore t) = ignore (run_task t)"
  by (auto simp: t_ignore_def run_t_try run_t_ret fun_eq_iff try_op_def split: prod.split)

lemma run_t_for_each [run_task_simps]: "run_task (t_for_each f xs) = for_each (\<lambda>x. run_task (f x)) xs"
  by (induction xs) (simp_all add: run_task_simps)

lemma run_case_option [run_task_simps]:
  "run_task (case x of None \<Rightarrow> t | Some y \<Rightarrow> f y) = (case x of None \<Rightarrow> run_task t | Some y \<Rightarrow> run_task (f y))"
  by (simp split: option.split)

lemma run_case_prod [run_task_simps]:
  "run_task (case p of (x, y) \<Rightarrow> f x y) = (case p of (x, y) \<Rightarrow> run_task (f x y))"
  by (simp split: prod.split)

lemma run_if [run_task_simps]: "run_task (if b then t else u) = (if b then run_task t else run_task u)"
  by simp

section \<open>What a task keeps while others run\<close>

text \<open>Every step of the task keeps \<open>P\<close>, whatever the state in which it is taken as long as \<open>P\<close>
  holds there, and the result satisfies \<open>Q\<close>.\<close>

inductive safe :: "(world \<Rightarrow> bool) \<Rightarrow> ('e, 'a) task \<Rightarrow> ('e + 'a \<Rightarrow> bool) \<Rightarrow> bool" for P where
  safe_Done: "Q r \<Longrightarrow> safe P (Done r) Q"
| safe_Step: "(\<And>w t w'. P w \<Longrightarrow> f w = (t, w') \<Longrightarrow> P w' \<and> safe P t Q) \<Longrightarrow> safe P (Step f) Q"

inductive_cases safe_DoneE: "safe P (Done r) Q"
inductive_cases safe_StepE: "safe P (Step f) Q"

lemma safe_atom:
  assumes "\<And>w r w'. P w \<Longrightarrow> m w = (r, w') \<Longrightarrow> P w' \<and> Q r"
  shows "safe P (atom m) Q"
  unfolding atom_def by (rule safe_Step) (use assms in \<open>auto intro: safe_Done split: prod.splits\<close>)

lemma safe_weaken: "safe P t Q \<Longrightarrow> (\<And>r. Q r \<Longrightarrow> Q' r) \<Longrightarrow> safe P t Q'"
proof (induction rule: safe.induct)
  case (safe_Step f Q)
  show ?case
  proof (rule safe.safe_Step)
    fix w t w' assume "P w" "f w = (t, w')"
    then show "P w' \<and> safe P t Q'" using safe_Step by blast
  qed
qed (auto intro: safe.safe_Done)

lemma safe_t_try: "safe P t R \<Longrightarrow> (\<And>r. R r \<Longrightarrow> safe P (k r) Q) \<Longrightarrow> safe P (t_try t k) Q"
proof (induction rule: safe.induct)
  case (safe_Step f R)
  show ?case unfolding t_try.simps
  proof (rule safe.safe_Step)
    fix w t w' assume w: "P w" and "map_prod (\<lambda>t. t_try t k) id (f w) = (t, w')"
    then obtain u where f: "f w = (u, w')" and t: "t = t_try u k"
      by (metis eq_fst_iff fst_map_prod id_apply prod.collapse snd_conv snd_map_prod)
    have "P w'" using safe_Step(1) [OF w f] by blast
    moreover have "safe P (t_try u k) Q" using safe_Step(1) [OF w f] safe_Step(2) by blast
    ultimately show "P w' \<and> safe P t Q" by (simp add: t)
  qed
qed simp

lemma safe_t_bind:
  "safe P t R \<Longrightarrow> (\<And>e. R (Inl e) \<Longrightarrow> Q (Inl e)) \<Longrightarrow> (\<And>x. R (Inr x) \<Longrightarrow> safe P (k x) Q) \<Longrightarrow>
     safe P (t_bind t k) Q"
  unfolding t_bind_def by (rule safe_t_try, assumption) (auto intro: safe_Done split: sum.split)

lemma safe_t_ret: "Q (Inr x) \<Longrightarrow> safe P (t_ret x) Q"
  and safe_t_throw: "Q (Inl e) \<Longrightarrow> safe P (t_throw e) Q"
  and safe_t_lift: "Q r \<Longrightarrow> safe P (t_lift r) Q"
  by (simp_all add: t_ret_def t_throw_def t_lift_def safe_Done)

lemma safe_t_map_err: "safe P t (\<lambda>r. Q (map_err g r)) \<Longrightarrow> safe P (t_map_err g t) Q"
  unfolding t_map_err_def by (rule safe_t_try, assumption) (rule safe_Done)

lemma safe_t_ignore: "safe P t (\<lambda>_. True) \<Longrightarrow> Q (Inr ()) \<Longrightarrow> safe P (t_ignore t) Q"
  unfolding t_ignore_def by (rule safe_t_try, assumption) (rule safe_t_ret)

lemma safe_ignore_then:
  assumes "safe P t (\<lambda>_. True)" "safe P u Q"
  shows "safe P (t_bind (t_ignore t) (\<lambda>_. u)) Q"
proof (rule safe_t_bind)
  show "safe P (t_ignore t) (\<lambda>r. \<exists>x. r = Inr x)" using assms(1) by (rule safe_t_ignore) simp
qed (use assms(2) in simp_all)

text \<open>The tasks that keep a fact, whatever they answer.\<close>

abbreviation keeping :: "(world \<Rightarrow> bool) \<Rightarrow> ('e, 'a) task \<Rightarrow> bool" where
  "keeping P t \<equiv> safe P t (\<lambda>_. True)"

named_theorems keeping_intros

lemma keeping_atom [keeping_intros]: "keeps P m \<Longrightarrow> keeping P (atom m)"
  by (rule safe_atom) (auto dest: keepsD_eq)

lemma keeping_t_bind [keeping_intros]: "keeping P t \<Longrightarrow> (\<And>x. keeping P (k x)) \<Longrightarrow> keeping P (t_bind t k)"
  by (rule safe_t_bind) auto

lemma keeping_t_try [keeping_intros]: "keeping P t \<Longrightarrow> (\<And>r. keeping P (k r)) \<Longrightarrow> keeping P (t_try t k)"
  by (rule safe_t_try) auto

lemma keeping_results [keeping_intros]: "keeping P (t_ret x)" "keeping P (t_throw e)" "keeping P (t_lift r)"
  by (simp_all add: safe_t_ret safe_t_throw safe_t_lift)

lemma keeping_t_map_err [keeping_intros]: "keeping P t \<Longrightarrow> keeping P (t_map_err g t)"
  and keeping_t_ignore [keeping_intros]: "keeping P t \<Longrightarrow> keeping P (t_ignore t)"
  by (simp_all add: safe_t_map_err safe_t_ignore)

lemma keeping_t_for_each [keeping_intros]: "(\<And>x. keeping P (f x)) \<Longrightarrow> keeping P (t_for_each f xs)"
  by (induction xs) (auto intro!: keeping_intros)

lemma keeping_cases [keeping_intros]:
  "(b \<Longrightarrow> keeping P t) \<Longrightarrow> (\<not> b \<Longrightarrow> keeping P u) \<Longrightarrow> keeping P (if b then t else u)"
  "(x = None \<Longrightarrow> keeping P t) \<Longrightarrow> (\<And>y. x = Some y \<Longrightarrow> keeping P (f y)) \<Longrightarrow>
     keeping P (case x of None \<Rightarrow> t | Some y \<Rightarrow> f y)"
  "(\<And>e. r = Inl e \<Longrightarrow> keeping P (g e)) \<Longrightarrow> (\<And>y. r = Inr y \<Longrightarrow> keeping P (h y)) \<Longrightarrow>
     keeping P (case r of Inl e \<Rightarrow> g e | Inr y \<Rightarrow> h y)"
  "(\<And>a c. p = (a, c) \<Longrightarrow> keeping P (i a c)) \<Longrightarrow> keeping P (case p of (a, c) \<Rightarrow> i a c)"
  by (simp_all split: option.split sum.split prod.split)

section \<open>Pools\<close>

text \<open>One turn of task \<open>i\<close>; the turn of a finished or unknown task changes nothing.\<close>

definition turn :: "nat \<Rightarrow> ('e, 'a) task list \<times> world \<Rightarrow> ('e, 'a) task list \<times> world" where
  "turn i s =
     (case s of (ts, w) \<Rightarrow>
        if i < length ts then
          (case ts ! i of
             Done r \<Rightarrow> (ts, w)
           | Step f \<Rightarrow> (case f w of (t, w') \<Rightarrow> (ts[i := t], w')))
        else (ts, w))"

fun interleave :: "nat list \<Rightarrow> ('e, 'a) task list \<times> world \<Rightarrow> ('e, 'a) task list \<times> world" where
  "interleave [] s = s"
| "interleave (i # is) s = interleave is (turn i s)"

lemma turn_safe:
  assumes "\<forall>i < length ts. safe P (ts ! i) (Q i)" "P w" "turn j (ts, w) = (ts', w')"
  shows "length ts' = length ts \<and> (\<forall>i < length ts'. safe P (ts' ! i) (Q i)) \<and> P w'"
proof (cases "j < length ts")
  case True
  show ?thesis
  proof (cases "ts ! j")
    case (Step f)
    obtain t v where f: "f w = (t, v)" by fastforce
    have "safe P (Step f) (Q j)" using assms(1) True Step by metis
    then have "P v \<and> safe P t (Q j)" using assms(2) f by (auto elim: safe_StepE)
    then show ?thesis using assms True Step f by (auto simp: turn_def nth_list_update)
  qed (use assms True in \<open>simp add: turn_def\<close>)
qed (use assms in \<open>simp add: turn_def\<close>)

lemma interleave_safe:
  assumes "\<forall>i < length ts. safe P (ts ! i) (Q i)" "P w" "interleave is (ts, w) = (ts', w')"
  shows "length ts' = length ts \<and> (\<forall>i < length ts'. safe P (ts' ! i) (Q i)) \<and> P w'"
  using assms
proof (induction "is" arbitrary: ts w)
  case (Cons j js)
  obtain ts1 w1 where t: "turn j (ts, w) = (ts1, w1)" by fastforce
  note s = turn_safe [OF Cons.prems(1,2) t]
  have "interleave js (ts1, w1) = (ts', w')" using Cons.prems(3) t by simp
  from Cons.IH [OF _ _ this] s show ?case by auto
qed simp

lemma safe_result: "safe P (Done r) Q \<Longrightarrow> Q r"
  by (auto elim: safe_DoneE)

text \<open>A task that is scheduled alone does what the operation does.\<close>

lemma interleave_alone: "\<exists>n. interleave (replicate n 0) ([t], w) = ([Done (fst (run_task t w))], snd (run_task t w))"
proof (induction t arbitrary: w)
  case (Done r)
  have "interleave (replicate 0 0) ([Done r], w) = ([Done r], w)" by simp
  then show ?case by (metis fst_conv run_task.simps(1) snd_conv)
next
  case (Step f)
  obtain t v where f: "f w = (t, v)" by fastforce
  then obtain n where "interleave (replicate n 0) ([t], v) = ([Done (fst (run_task t v))], snd (run_task t v))"
    using Step [of "(t, v)" t v] by (metis fsts.intros prod.sel(1) rangeI)
  then have "interleave (replicate (Suc n) 0) ([Step f], w) =
      ([Done (fst (run_task (Step f) w))], snd (run_task (Step f) w))"
    by (simp add: turn_def f)
  then show ?case by blast
qed

section \<open>Fair schedules\<close>

text \<open>The pool after the first \<open>n\<close> turns of an endless schedule. Every task that gets its turn
  again and again comes to its end, whatever the others do.\<close>

primrec after_turns :: "(nat \<Rightarrow> nat) \<Rightarrow> ('e, 'a) task list \<times> world \<Rightarrow> nat \<Rightarrow> ('e, 'a) task list \<times> world" where
  "after_turns sched s 0 = s"
| "after_turns sched s (Suc n) = turn (sched n) (after_turns sched s n)"

lemma length_turn [simp]: "length (fst (turn i s)) = length (fst s)"
  by (cases s) (simp add: turn_def split: task.split prod.split)

lemma length_after_turns [simp]: "length (fst (after_turns sched s n)) = length (fst s)"
  by (induction n) simp_all

lemma turn_other: "i \<noteq> j \<Longrightarrow> fst (turn j s) ! i = fst s ! i"
  by (cases s) (simp add: turn_def split: task.split prod.split)

lemma after_turns_idle:
  "m \<le> n \<Longrightarrow> (\<And>j. m \<le> j \<Longrightarrow> j < n \<Longrightarrow> sched j \<noteq> i) \<Longrightarrow>
     fst (after_turns sched s n) ! i = fst (after_turns sched s m) ! i"
proof (induction n rule: dec_induct)
  case (step n)
  then have "sched n \<noteq> i" by simp
  then have "fst (after_turns sched s (Suc n)) ! i = fst (after_turns sched s n) ! i"
    by (simp add: turn_other)
  with step show ?case by simp
qed simp

lemma fair_task_ends:
  assumes "\<forall>m. \<exists>n \<ge> m. sched n = i" "i < length (fst s)"
  shows "\<exists>n r. fst (after_turns sched s n) ! i = Done r"
proof -
  have "fst (after_turns sched s m) ! i = t \<Longrightarrow> \<exists>n r. fst (after_turns sched s n) ! i = Done r" for m t
  proof (induction t arbitrary: m)
    case (Step f)
    define n where "n = (LEAST n. m \<le> n \<and> sched n = i)"
    have n: "m \<le> n" "sched n = i"
      using assms(1) LeastI_ex [of "\<lambda>n. m \<le> n \<and> sched n = i"] unfolding n_def by blast+
    have idle: "j < n \<Longrightarrow> m \<le> j \<Longrightarrow> sched j \<noteq> i" for j unfolding n_def using not_less_Least by blast
    have same: "fst (after_turns sched s n) ! i = Step f"
      by (rule trans [OF after_turns_idle [OF n(1)] Step.prems]) (use idle in blast)
    obtain ts w where p: "after_turns sched s n = (ts, w)" by fastforce
    obtain u v where f: "f w = (u, v)" by fastforce
    have "i < length ts" using assms(2) length_after_turns [of sched s n] p by simp
    then have "fst (after_turns sched s (Suc n)) ! i = u"
      using same p f n(2) by (simp add: turn_def)
    from Step.IH [OF _ _ this] f show ?case by (metis fsts.intros prod.sel(1) rangeI)
  qed auto
  then show ?thesis by blast
qed

end
