(* ===== verification/Storage_Tasks.thy ===== *)
theory Storage_Tasks
  imports Tasks Storage_Integrity
begin

text \<open>
  The methods of \<^verbatim>\<open>StorageManager\<close> that make more than one call, as tasks: after each call other
  requests may run. The manager is shared by all requests through a lock that each of them takes
  for reading only, so nothing orders them. Four groups of calls are one step: the writing of
  the temporary file, the opening and reading of a file, a statement that changes rows with the
  commit of its transaction (no other transaction can change these rows in between), and the
  two deletions of an invalidation. Run alone, each task is the operation of \<open>Storage\<close>.
\<close>

section \<open>Storing\<close>

definition t_create_bucket :: "storage_manager \<Rightarrow> string \<Rightarrow> (storage_error, unit) task" where
  "t_create_bucket sm bucket =
     t_bind (atom (map_err_op from_io_error (create_dir_all (path_join (sm_base_path sm) bucket)))) (\<lambda>_.
     atom (query (\<lambda>now c d. and_then (sql_create_bucket now bucket d) (\<lambda>d'. Inr ((), d')))))"

definition t_ensure_bucket_exists :: "storage_manager \<Rightarrow> string \<Rightarrow> (storage_error, unit) task" where
  "t_ensure_bucket_exists sm bucket =
     t_bind (atom (read_query (\<lambda>now c. sql_bucket_exists bucket))) (\<lambda>exists.
     if \<not> exists then t_create_bucket sm bucket else t_ret ())"

definition t_store_alias ::
  "stored_file \<Rightarrow> string \<Rightarrow> string \<Rightarrow> string option \<Rightarrow> store_options \<Rightarrow> string \<times> string \<Rightarrow>
     (storage_error, stored_file) task" where
  "t_store_alias existing bucket key content_type opts hashes =
     t_bind (atom new_uuid) (\<lambda>i.
     t_bind (atom now_op) (\<lambda>now.
     (let aliased = alias_row existing bucket key content_type opts hashes i now in
      t_bind (atom (db_save_file aliased)) (\<lambda>_. t_ret aliased))))"

definition t_encrypt_content ::
  "storage_lib \<Rightarrow> storage_manager \<Rightarrow> store_options \<Rightarrow> bytes \<Rightarrow> (storage_error, bytes \<times> bool) task" where
  "t_encrypt_content lib sm opts content =
     (if wants_encryption sm opts then
        t_bind (t_lift (algorithm_from_str (cry_algorithm (cf_crypto (sm_config sm))))) (\<lambda>algorithm.
        case so_encryption_key_id opts of
          Some key_id \<Rightarrow>
            t_bind (atom (get_key key_id)) (\<lambda>key.
            t_bind (atom (random_bytes 12)) (\<lambda>nonce.
            t_bind (t_lift
              (encrypt_with_key (sl_aead lib) nonce content algorithm (ek_key_data key))) (\<lambda>c.
            t_ret (c, True))))
        | None \<Rightarrow>
            t_bind (atom (random_bytes 12)) (\<lambda>nonce.
            t_bind (t_lift (encrypt (sl_aead lib) (sm_crypto sm) nonce content algorithm)) (\<lambda>c.
            t_ret (c, True))))
      else t_ret (content, False))"

definition t_write_file_atomic :: "string \<Rightarrow> bytes \<Rightarrow> (io_error, unit) task" where
  "t_write_file_atomic p content =
     (let temp_path = with_extension p ''tmp'' in
      t_bind (atom (write_file_optimized temp_path content)) (\<lambda>_.
      atom (rename_file temp_path p)))"

definition t_save_or_cleanup :: "stored_file \<Rightarrow> string \<Rightarrow> (storage_error, unit) task" where
  "t_save_or_cleanup file file_path =
     t_try (atom (db_save_file file)) (\<lambda>r.
     case r of
       Inl e \<Rightarrow> t_bind (t_ignore (atom (remove_file file_path))) (\<lambda>_. t_throw e)
     | Inr _ \<Rightarrow> t_ret ())"

definition t_finish_upload ::
  "storage_lib \<Rightarrow> storage_manager \<Rightarrow> string \<Rightarrow> string \<Rightarrow> bytes \<Rightarrow> string \<Rightarrow> stored_file \<Rightarrow>
     (storage_error, stored_file) task" where
  "t_finish_upload lib sm bucket key processed file_path file =
     t_bind (t_save_or_cleanup file file_path) (\<lambda>_.
     t_bind (t_ignore (atom (set_file_metadata (sl_json lib) (sm_cache sm) bucket key file))) (\<lambda>_.
     t_bind (t_ignore (atom (set_file_content (sm_cache sm) bucket key processed))) (\<lambda>_.
     t_ret file)))"

definition t_store_new ::
  "storage_lib \<Rightarrow> storage_manager \<Rightarrow> string \<Rightarrow> string \<Rightarrow> bytes \<Rightarrow> string option \<Rightarrow> store_options \<Rightarrow>
     string \<times> string \<Rightarrow> (storage_error, stored_file) task" where
  "t_store_new lib sm bucket key content content_type opts hashes =
     (let original_size = length content;
          (packed, compressed) = compress_content lib sm opts content;
          ratio = ratio_of compressed (length packed) original_size;
          file_path = get_file_path sm bucket key
      in
      t_bind (t_encrypt_content lib sm opts packed) (\<lambda>(processed, encrypted).
      t_bind (atom (map_err_op from_io_error (create_parent_dir file_path))) (\<lambda>_.
      t_bind (t_map_err from_io_error (t_write_file_atomic file_path processed)) (\<lambda>_.
      t_bind (atom new_uuid) (\<lambda>i.
      t_bind (atom now_op) (\<lambda>now.
      t_finish_upload lib sm bucket key processed file_path
        (upload_row sm bucket key content_type opts hashes original_size (length processed)
          compressed encrypted ratio i now)))))))"

definition t_store_file ::
  "storage_lib \<Rightarrow> storage_manager \<Rightarrow> string \<Rightarrow> string \<Rightarrow> bytes \<Rightarrow> string option \<Rightarrow> store_options \<Rightarrow>
     (storage_error, stored_file) task" where
  "t_store_file lib sm bucket key content content_type opts =
     t_bind (t_ensure_bucket_exists sm bucket) (\<lambda>_.
     (let hashes = compute_hashes_parallel (sl_blake3 lib) (sl_md5 lib) content in
      if stc_enable_deduplication (cf_storage (sm_config sm)) then
        t_bind (atom (db_get_file_by_hash (fst hashes))) (\<lambda>existing.
        case existing of
          Some f \<Rightarrow>
            if sf_bucket f = bucket \<and> sf_key f = key then t_ret f
            else t_store_alias f bucket key content_type opts hashes
        | None \<Rightarrow> t_store_new lib sm bucket key content content_type opts hashes)
      else t_store_new lib sm bucket key content content_type opts hashes))"

section \<open>Deleting\<close>

definition t_delete_transaction :: "string \<Rightarrow> string \<Rightarrow> (storage_error, string \<times> nat) task" where
  "t_delete_transaction bucket key =
     t_bind (atom (read_query (\<lambda>now c d. ()))) (\<lambda>_.
     t_bind (atom (read_query (\<lambda>now c. sql_get_file bucket key))) (\<lambda>row.
     t_bind (t_lift (ok_or row (NotFound bucket key))) (\<lambda>file.
     t_bind (atom (read_query (\<lambda>now c. sql_count_other_references (sf_file_path file) bucket key))) (\<lambda>others.
     t_bind (atom (bind_op (read_query (\<lambda>now c d. fst (sql_delete_file bucket key d))) (\<lambda>_.
       write_query (\<lambda>now d. snd (sql_delete_file bucket key d))))) (\<lambda>_.
     t_ret (sf_file_path file, others))))))"

definition t_delete_file ::
  "storage_manager \<Rightarrow> string \<Rightarrow> string \<Rightarrow> (storage_error, unit) task" where
  "t_delete_file sm bucket key =
     t_bind (t_delete_transaction bucket key) (\<lambda>(file_path, other_references).
     t_bind (if other_references = 0 then t_ignore (atom (remove_file file_path)) else t_ret ()) (\<lambda>_.
     t_ignore (atom (invalidate_file (sm_cache sm) bucket key))))"

section \<open>Reading\<close>

definition t_get_file_metadata ::
  "json_lib \<Rightarrow> cache_manager \<Rightarrow> string \<Rightarrow> string \<Rightarrow> (storage_error, stored_file option) task" where
  "t_get_file_metadata lib m bucket key =
     t_bind (atom (backend_get m (metadata_key bucket key))) (\<lambda>value.
     case value of
       Some b \<Rightarrow>
         (case json_from_slice lib b of
            Inr file \<Rightarrow> t_ret (Some file)
          | Inl _ \<Rightarrow>
              t_bind (t_ignore (atom (backend_del m [metadata_key bucket key]))) (\<lambda>_. t_ret None))
     | None \<Rightarrow> t_ret None)"

definition t_read_metadata ::
  "storage_lib \<Rightarrow> storage_manager \<Rightarrow> string \<Rightarrow> string \<Rightarrow> (storage_error, stored_file) task" where
  "t_read_metadata lib sm bucket key =
     t_try (t_get_file_metadata (sl_json lib) (sm_cache sm) bucket key) (\<lambda>r.
     case r of
       Inr (Some cached) \<Rightarrow> t_ret cached
     | _ \<Rightarrow>
         t_bind (atom (db_get_file bucket key)) (\<lambda>file.
         t_bind (t_ignore (atom (set_file_metadata (sl_json lib) (sm_cache sm) bucket key file))) (\<lambda>_.
         t_ret file)))"

definition t_has_expired :: "stored_file \<Rightarrow> ('e, bool) task" where
  "t_has_expired file =
     (case sf_expires_at file of
        None \<Rightarrow> t_ret False
      | Some expires_at \<Rightarrow> t_bind (atom now_op) (\<lambda>now. t_ret (expires_at \<le> now)))"

definition t_decode_content ::
  "storage_lib \<Rightarrow> storage_manager \<Rightarrow> stored_file \<Rightarrow> bytes \<Rightarrow> (storage_error, bytes) task" where
  "t_decode_content lib sm file content =
     t_bind
       (if is_encrypted file then
          t_bind (t_lift (algorithm_from_str
            (unwrap_or (sf_encryption_algorithm file) ''aes-gcm''))) (\<lambda>algorithm.
          case sf_encryption_key_id file of
            Some key_id \<Rightarrow>
              t_bind (atom (get_key key_id)) (\<lambda>key.
              t_lift (decrypt_with_key (sl_aead lib) content algorithm (ek_key_data key)))
          | None \<Rightarrow> t_lift (decrypt (sl_aead lib) (sm_crypto sm) content algorithm))
        else t_ret content) (\<lambda>plain.
     if is_compressed file then t_lift (decompress (sl_codec lib) (sm_compression sm) plain)
     else t_ret plain)"

definition t_read_content ::
  "storage_manager \<Rightarrow> string \<Rightarrow> string \<Rightarrow> stored_file \<Rightarrow> (storage_error, bytes) task" where
  "t_read_content sm bucket key file =
     t_try (atom (get_file_content (sm_cache sm) bucket key)) (\<lambda>r.
     case r of
       Inr (Some cached) \<Rightarrow> t_ret cached
     | _ \<Rightarrow>
         t_try (atom (read_file (sf_file_path file))) (\<lambda>r'.
         case r' of
           Inr content \<Rightarrow>
             t_bind (t_ignore (atom (set_file_content (sm_cache sm) bucket key content))) (\<lambda>_. t_ret content)
         | Inl e \<Rightarrow>
             if looks_missing (display_io_error e) then
               t_bind (t_ignore (t_delete_file sm bucket key)) (\<lambda>_. t_throw (NotFound bucket key))
             else t_throw (Io (display_io_error e))))"

definition t_get_file ::
  "storage_lib \<Rightarrow> storage_manager \<Rightarrow> string \<Rightarrow> string \<Rightarrow> (storage_error, bytes \<times> string option) task" where
  "t_get_file lib sm bucket key =
     t_bind (t_read_metadata lib sm bucket key) (\<lambda>file.
     t_bind (t_has_expired file) (\<lambda>gone.
     if gone then
       t_bind (t_ignore (t_delete_file sm bucket key)) (\<lambda>_. t_throw (NotFound bucket key))
     else
       t_bind (t_read_content sm bucket key file) (\<lambda>raw_content.
       t_bind (t_decode_content lib sm file raw_content) (\<lambda>content.
       t_bind (t_ignore (atom (db_update_access (sf_id file)))) (\<lambda>_.
       t_ret (content, Some (sf_content_type file)))))))"

definition t_get_file_info ::
  "storage_manager \<Rightarrow> string \<Rightarrow> string \<Rightarrow> (storage_error, file_info) task" where
  "t_get_file_info sm bucket key =
     t_bind (atom (db_get_file bucket key)) (\<lambda>file.
     t_bind (t_has_expired file) (\<lambda>gone.
     if gone then
       t_bind (t_ignore (t_delete_file sm bucket key)) (\<lambda>_. t_throw (NotFound bucket key))
     else t_ret (file_info_from file)))"

definition t_get_file_range_if_plain ::
  "storage_lib \<Rightarrow> storage_manager \<Rightarrow> string \<Rightarrow> string \<Rightarrow> u64 \<Rightarrow> u64 \<Rightarrow>
     (storage_error, (bytes \<times> string \<times> u64) option) task" where
  "t_get_file_range_if_plain lib sm bucket key start stop =
     t_bind (t_read_metadata lib sm bucket key) (\<lambda>file.
     if is_compressed file \<or> is_encrypted file then t_ret None
     else
       (let total_len = i64_as_u64 (sf_file_size file) in
        case clamp_range total_len start stop of
          None \<Rightarrow> t_ret None
        | Some (_, len) \<Rightarrow>
            t_bind (atom (
              bind_op (map_err_op from_io_error (open_file (sf_file_path file))) (\<lambda>f.
              bind_op (map_err_op from_io_error (seek_start start)) (\<lambda>_.
              map_err_op from_io_error (read_exact f (unat start) len))))) (\<lambda>buf.
            t_bind (t_ignore (atom (db_update_access (sf_id file)))) (\<lambda>_.
            t_ret (Some (buf, sf_content_type file, total_len))))))"

definition t_get_compressed_file_range ::
  "storage_lib \<Rightarrow> storage_manager \<Rightarrow> string \<Rightarrow> string \<Rightarrow> u64 \<Rightarrow> u64 \<Rightarrow>
     (storage_error, (bytes \<times> string \<times> u64) option) task" where
  "t_get_compressed_file_range lib sm bucket key start stop =
     t_bind (t_read_metadata lib sm bucket key) (\<lambda>file.
     if is_encrypted file \<or> \<not> is_compressed file then t_ret None
     else
       (let total_len = i64_as_u64 (sf_original_size file) in
        case clamp_range total_len start stop of
          None \<Rightarrow> t_ret None
        | Some (_, want_len) \<Rightarrow>
            t_bind (atom (map_err_op from_io_error (read_file (sf_file_path file)))) (\<lambda>compressed.
            t_bind (t_lift
              (decompress_range (sl_codec lib) compressed (unat start) want_len)) (\<lambda>decoded.
            case decoded of
              None \<Rightarrow> t_ret None
            | Some buf \<Rightarrow>
                t_bind (t_ignore (atom (db_update_access (sf_id file)))) (\<lambda>_.
                t_ret (Some (buf, sf_content_type file, total_len)))))))"

section \<open>Removing many\<close>

fun t_sweep_loop ::
  "storage_manager \<Rightarrow> nat \<Rightarrow> (string \<times> string) list \<Rightarrow> (storage_error, nat) task" where
  "t_sweep_loop sm removed [] = t_ret removed"
| "t_sweep_loop sm removed ((bucket, key) # rest) =
     t_try (t_delete_file sm bucket key) (\<lambda>r.
     case r of
       Inr _ \<Rightarrow> t_sweep_loop sm (removed + 1) rest
     | Inl _ \<Rightarrow> t_sweep_loop sm removed rest)"

definition t_sweep_expired_files :: "storage_manager \<Rightarrow> (storage_error, nat) task" where
  "t_sweep_expired_files sm = t_bind (atom db_list_expired_files) (t_sweep_loop sm 0)"

definition t_remove_bucket_file ::
  "storage_manager \<Rightarrow> string \<Rightarrow> string \<times> string \<Rightarrow> (storage_error, unit) task" where
  "t_remove_bucket_file sm bucket file =
     (case file of (key, file_path) \<Rightarrow>
        t_try (atom (read_query (\<lambda>now c. sql_count_references file_path))) (\<lambda>r.
        (let other_references = (case r of Inr n \<Rightarrow> n | Inl _ \<Rightarrow> 0) in
         t_bind (if other_references = 0 then t_ignore (atom (remove_file file_path)) else t_ret ()) (\<lambda>_.
         t_ignore (atom (invalidate_file (sm_cache sm) bucket key))))))"

definition t_delete_bucket :: "storage_manager \<Rightarrow> string \<Rightarrow> (storage_error, unit) task" where
  "t_delete_bucket sm bucket =
     t_bind (atom (read_query (\<lambda>now c d.
       map (\<lambda>f. (sf_key f, sf_file_path f)) (filter (\<lambda>f. sf_bucket f = bucket) (db_files d))))) (\<lambda>files.
     t_bind (atom (read_query (\<lambda>now c d. ()))) (\<lambda>_.
     t_bind (atom (
       bind_op (read_query (\<lambda>now c d. fst (sql_delete_bucket bucket d))) (\<lambda>deleted_count.
       if deleted_count = 0 then
         bind_op (read_query (\<lambda>now c d. ())) (\<lambda>_. throw (InvalidBucket bucket))
       else write_query (\<lambda>now d. snd (sql_delete_bucket bucket d))))) (\<lambda>_.
     t_bind (t_for_each (t_remove_bucket_file sm bucket) files) (\<lambda>_.
     t_ignore (atom (remove_dir_all (path_join (sm_base_path sm) bucket)))))))"

section \<open>Run alone, they are the operations\<close>

lemmas task_congs = if_cong option.case_cong sum.case_cong

lemma run_storing [run_task_simps]:
  "run_task (t_create_bucket sm b) = create_bucket sm b"
  "run_task (t_store_alias f b k ct opts h) = store_alias f b k ct opts h"
  "run_task (t_encrypt_content lib sm opts c) = encrypt_content lib sm opts c"
  "run_task (t_write_file_atomic p c) = write_file_atomic p c"
  "run_task (t_save_or_cleanup f p) = save_or_cleanup f p"
  by (simp_all add: t_create_bucket_def create_bucket_def t_store_alias_def store_alias_def
      t_encrypt_content_def encrypt_content_def t_write_file_atomic_def write_file_atomic_def
      t_save_or_cleanup_def save_or_cleanup_def Let_def run_task_simps cong: task_congs)

lemma run_ensure_bucket_exists [run_task_simps]:
  "run_task (t_ensure_bucket_exists sm b) = ensure_bucket_exists sm b"
  by (simp add: t_ensure_bucket_exists_def ensure_bucket_exists_def run_task_simps cong: task_congs)

lemma run_finish_upload [run_task_simps]:
  "run_task (t_finish_upload lib sm b k c p f) = finish_upload lib sm b k c p f"
  by (simp add: t_finish_upload_def finish_upload_def run_task_simps cong: task_congs)

lemma run_store_new [run_task_simps]:
  "run_task (t_store_new lib sm b k c ct opts h) = store_new lib sm b k c ct opts h"
  by (simp add: t_store_new_def store_new_def Let_def run_task_simps cong: task_congs)

lemma run_store_file [run_task_simps]:
  "run_task (t_store_file lib sm b k c ct opts) = store_file lib sm b k c ct opts"
  by (simp add: t_store_file_def store_file_def Let_def run_task_simps cong: task_congs)

lemma run_delete_transaction [run_task_simps]:
  "run_task (t_delete_transaction b k) = delete_transaction b k"
  by (simp add: t_delete_transaction_def delete_transaction_def run_task_simps bind_op_assoc cong: task_congs)

lemma run_delete_file [run_task_simps]: "run_task (t_delete_file sm b k) = delete_file sm b k"
  by (simp add: t_delete_file_def delete_file_def run_task_simps cong: task_congs)

lemma run_reading [run_task_simps]:
  "run_task (t_get_file_metadata json m b k) = get_file_metadata json m b k"
  "run_task (t_has_expired f) = has_expired f"
  "run_task (t_decode_content lib sm f c) = decode_content lib sm f c"
  "run_task (t_read_content sm b k f) = read_content sm b k f"
  by (simp_all add: t_get_file_metadata_def get_file_metadata_def t_has_expired_def has_expired_def
      t_decode_content_def decode_content_def t_read_content_def read_content_def run_task_simps cong: task_congs)

lemma run_read_metadata [run_task_simps]:
  "run_task (t_read_metadata lib sm b k) = read_metadata lib sm b k"
  by (simp add: t_read_metadata_def read_metadata_def run_task_simps cong: task_congs)

lemma run_reads [run_task_simps]:
  "run_task (t_get_file lib sm b k) = get_file lib sm b k"
  "run_task (t_get_file_info sm b k) = get_file_info sm b k"
  "run_task (t_get_file_range_if_plain lib sm b k s e) = get_file_range_if_plain lib sm b k s e"
  "run_task (t_get_compressed_file_range lib sm b k s e) = get_compressed_file_range lib sm b k s e"
  by (simp_all add: t_get_file_def get_file_def t_get_file_info_def get_file_info_def
      t_get_file_range_if_plain_def get_file_range_if_plain_def t_get_compressed_file_range_def
      get_compressed_file_range_def Let_def run_task_simps bind_op_assoc cong: task_congs)

lemma run_sweep_loop [run_task_simps]: "run_task (t_sweep_loop sm n xs) = sweep_loop sm n xs"
  by (induction sm n xs rule: sweep_loop.induct) (simp_all add: run_task_simps cong: task_congs)

lemma run_removing [run_task_simps]:
  "run_task (t_sweep_expired_files sm) = sweep_expired_files sm"
  "run_task (t_remove_bucket_file sm b x) = remove_bucket_file sm b x"
  by (simp_all add: t_sweep_expired_files_def sweep_expired_files_def t_remove_bucket_file_def
      remove_bucket_file_def Let_def run_task_simps cong: task_congs)

lemma bind_op_if: "bind_op (if b then m else m') f = (if b then bind_op m f else bind_op m' f)"
  and bind_op_throw: "bind_op (throw e) f = throw e"
  by (simp_all add: fun_eq_iff bind_op_def)

lemma run_delete_bucket [run_task_simps]: "run_task (t_delete_bucket sm b) = delete_bucket sm b"
  by (simp add: t_delete_bucket_def delete_bucket_def run_task_simps bind_op_assoc bind_op_if bind_op_throw
      cong: task_congs)

section \<open>Requests\<close>

datatype storage_request =
    Store string string bytes "string option" store_options
  | Fetch string string
  | Inform string string
  | Fetch_range string string u64 u64
  | Fetch_compressed_range string string u64 u64
  | Remove string string
  | Make_bucket string
  | Drop_bucket string
  | Sweep

datatype storage_reply =
    Stored stored_file
  | Content bytes "string option"
  | Information file_info
  | Part "(bytes \<times> string \<times> u64) option"
  | Swept nat
  | Finished

fun task_of :: "storage_lib \<Rightarrow> storage_manager \<Rightarrow> storage_request \<Rightarrow> (storage_error, storage_reply) task" where
  "task_of lib sm (Store b k c ct opts) = t_bind (t_store_file lib sm b k c ct opts) (\<lambda>f. t_ret (Stored f))"
| "task_of lib sm (Fetch b k) = t_bind (t_get_file lib sm b k) (\<lambda>(c, ct). t_ret (Content c ct))"
| "task_of lib sm (Inform b k) = t_bind (t_get_file_info sm b k) (\<lambda>i. t_ret (Information i))"
| "task_of lib sm (Fetch_range b k s e) =
     t_bind (t_get_file_range_if_plain lib sm b k s e) (\<lambda>p. t_ret (Part p))"
| "task_of lib sm (Fetch_compressed_range b k s e) =
     t_bind (t_get_compressed_file_range lib sm b k s e) (\<lambda>p. t_ret (Part p))"
| "task_of lib sm (Remove b k) = t_bind (t_delete_file sm b k) (\<lambda>_. t_ret Finished)"
| "task_of lib sm (Make_bucket b) = t_bind (t_create_bucket sm b) (\<lambda>_. t_ret Finished)"
| "task_of lib sm (Drop_bucket b) = t_bind (t_delete_bucket sm b) (\<lambda>_. t_ret Finished)"
| "task_of lib sm Sweep = t_bind (t_sweep_expired_files sm) (\<lambda>n. t_ret (Swept n))"

text \<open>The same requests as operations that nothing interrupts.\<close>

fun operation_of :: "storage_lib \<Rightarrow> storage_manager \<Rightarrow> storage_request \<Rightarrow> (storage_error, storage_reply) op" where
  "operation_of lib sm (Store b k c ct opts) = bind_op (store_file lib sm b k c ct opts) (\<lambda>f. ret (Stored f))"
| "operation_of lib sm (Fetch b k) = bind_op (get_file lib sm b k) (\<lambda>(c, ct). ret (Content c ct))"
| "operation_of lib sm (Inform b k) = bind_op (get_file_info sm b k) (\<lambda>i. ret (Information i))"
| "operation_of lib sm (Fetch_range b k s e) =
     bind_op (get_file_range_if_plain lib sm b k s e) (\<lambda>p. ret (Part p))"
| "operation_of lib sm (Fetch_compressed_range b k s e) =
     bind_op (get_compressed_file_range lib sm b k s e) (\<lambda>p. ret (Part p))"
| "operation_of lib sm (Remove b k) = bind_op (delete_file sm b k) (\<lambda>_. ret Finished)"
| "operation_of lib sm (Make_bucket b) = bind_op (create_bucket sm b) (\<lambda>_. ret Finished)"
| "operation_of lib sm (Drop_bucket b) = bind_op (delete_bucket sm b) (\<lambda>_. ret Finished)"
| "operation_of lib sm Sweep = bind_op (sweep_expired_files sm) (\<lambda>n. ret (Swept n))"

lemma run_task_of: "run_task (task_of lib sm r) = operation_of lib sm r"
  by (cases r) (simp_all add: run_task_simps)

section \<open>Integrity\<close>

lemma keeping_storing [keeping_intros]:
  "keeping (on_db db_wf) (t_create_bucket sm b)" "keeping (on_fs fs_wf) (t_create_bucket sm b)"
  "keeping (on_db db_wf) (t_store_alias f b k ct opts h)" "keeping (on_fs fs_wf) (t_store_alias f b k ct opts h)"
  "keeping (on_db db_wf) (t_encrypt_content lib sm opts c)" "keeping (on_fs fs_wf) (t_encrypt_content lib sm opts c)"
  "keeping (on_db db_wf) (t_write_file_atomic p c)" "keeping (on_fs fs_wf) (t_write_file_atomic p c)"
  "keeping (on_db db_wf) (t_save_or_cleanup f p)" "keeping (on_fs fs_wf) (t_save_or_cleanup f p)"
proof -
  have q: "keeps (on_db db_wf) (query (\<lambda>now c d. and_then (sql_create_bucket now b d) (\<lambda>d'. Inr ((), d'))))"
    by (rule keeps_query_db) (auto intro: db_wf_create_bucket)
  show "keeping (on_db db_wf) (t_create_bucket sm b)" "keeping (on_fs fs_wf) (t_create_bucket sm b)"
    unfolding t_create_bucket_def by (intro keeping_intros keeps_intros q)+
  have "keeps (on_db db_wf) (write_file_optimized x c)" for x
    unfolding write_file_optimized_def by (intro keeps_intros)
  then show "keeping (on_db db_wf) (t_write_file_atomic p c)" "keeping (on_fs fs_wf) (t_write_file_atomic p c)"
    unfolding t_write_file_atomic_def Let_def by (intro keeping_intros keeps_intros | assumption)+
qed (unfold t_store_alias_def t_encrypt_content_def t_save_or_cleanup_def Let_def;
    intro keeping_intros keeps_intros)+

lemma keeping_store_file [keeping_intros]:
  "keeping (on_db db_wf) (t_store_file lib sm b k c ct opts)"
  "keeping (on_fs fs_wf) (t_store_file lib sm b k c ct opts)"
  unfolding t_store_file_def t_ensure_bucket_exists_def t_store_new_def t_finish_upload_def Let_def
  by (intro keeping_intros keeps_intros)+

lemma keeping_delete_file [keeping_intros]:
  "keeping (on_db db_wf) (t_delete_file sm b k)" "keeping (on_fs fs_wf) (t_delete_file sm b k)"
  unfolding t_delete_file_def t_delete_transaction_def
  by (intro keeping_intros keeps_intros keeps_write_query; (rule db_wf_delete_file)?; assumption?)+

lemma keeping_reading [keeping_intros]:
  "keeping (on_db db_wf) (t_read_metadata lib sm b k)" "keeping (on_fs fs_wf) (t_read_metadata lib sm b k)"
  "keeping (on_db db_wf) (t_has_expired f)" "keeping (on_fs fs_wf) (t_has_expired f)"
  "keeping (on_db db_wf) (t_decode_content lib sm f c)" "keeping (on_fs fs_wf) (t_decode_content lib sm f c)"
  "keeping (on_db db_wf) (t_read_content sm b k f)" "keeping (on_fs fs_wf) (t_read_content sm b k f)"
  unfolding t_read_metadata_def t_get_file_metadata_def backend_get_def backend_del_def t_has_expired_def t_decode_content_def
    t_read_content_def
  by (intro keeping_intros keeps_intros)+

lemma keeping_reads [keeping_intros]:
  "keeping (on_db db_wf) (t_get_file lib sm b k)" "keeping (on_fs fs_wf) (t_get_file lib sm b k)"
  "keeping (on_db db_wf) (t_get_file_info sm b k)" "keeping (on_fs fs_wf) (t_get_file_info sm b k)"
  "keeping (on_db db_wf) (t_get_file_range_if_plain lib sm b k s e)"
  "keeping (on_fs fs_wf) (t_get_file_range_if_plain lib sm b k s e)"
  "keeping (on_db db_wf) (t_get_compressed_file_range lib sm b k s e)"
  "keeping (on_fs fs_wf) (t_get_compressed_file_range lib sm b k s e)"
  unfolding t_get_file_def t_get_file_info_def t_get_file_range_if_plain_def
    t_get_compressed_file_range_def Let_def
  by (intro keeping_intros keeps_intros)+

lemma keeping_sweep_loop [keeping_intros]:
  "keeping (on_db db_wf) (t_sweep_loop sm n xs)" "keeping (on_fs fs_wf) (t_sweep_loop sm n xs)"
  by (induction sm n xs rule: t_sweep_loop.induct) (auto intro!: keeping_intros)

lemma keeping_removing [keeping_intros]:
  "keeping (on_db db_wf) (t_sweep_expired_files sm)" "keeping (on_fs fs_wf) (t_sweep_expired_files sm)"
  "keeping (on_db db_wf) (t_delete_bucket sm b)" "keeping (on_fs fs_wf) (t_delete_bucket sm b)"
  unfolding t_sweep_expired_files_def t_delete_bucket_def t_remove_bucket_file_def Let_def
  by (intro keeping_intros keeps_intros keeps_write_query; (rule db_wf_delete_bucket)?; assumption?)+

lemma keeping_task_of:
  "keeping (on_db db_wf) (task_of lib sm r)" "keeping (on_fs fs_wf) (task_of lib sm r)"
  by (cases r; auto intro!: keeping_intros)+

end
