(* ===== verification/Cache_Properties.thy ===== *)
theory Cache_Properties
  imports Examples
begin

text \<open>
  The read-through cache: a cache that tells the truth changes no answer, its keys do not
  collide, and what it may hold.
\<close>

section \<open>A truthful cache changes no answer\<close>

text \<open>What a read looks at in a row: not its counters.\<close>

definition reads_alike :: "stored_file \<Rightarrow> stored_file \<Rightarrow> bool" where
  "reads_alike f g \<longleftrightarrow> same_encoding f g \<and> sf_file_path f = sf_file_path g \<and>
     sf_content_type f = sf_content_type g \<and> sf_expires_at f = sf_expires_at g"

text \<open>What the cache may say of one object: its row, but for the counters, and the bytes of its file.\<close>

definition truthful :: "json_lib \<Rightarrow> string \<Rightarrow> string \<Rightarrow> world \<Rightarrow> bool" where
  "truthful json b k w \<longleftrightarrow>
     (case w_cache w (metadata_key b k) of None \<Rightarrow> True
      | Some v \<Rightarrow> (case json_from_slice json v of Inl _ \<Rightarrow> False
                  | Inr g \<Rightarrow> (case sql_get_file b k (w_db w) of None \<Rightarrow> False | Some f \<Rightarrow> reads_alike g f))) \<and>
     (case w_cache w (content_key b k) of None \<Rightarrow> True
      | Some raw \<Rightarrow> (case sql_get_file b k (w_db w) of None \<Rightarrow> False
                    | Some f \<Rightarrow> content_at (w_fs w) (sf_file_path f) = Some raw))"

lemma decode_content_quiet:
  assumes "quiet (w_env w)" "w_env v = w_env w" "w_db v = w_db w"
  shows "fst (decode_content lib sm f raw v) = fst (decode_content lib sm f raw w)"
  using assms
  by (auto simp: decode_content_def bind_op_def get_key_quiet lift_result_def ret_def
      split: option.split sum.split)

lemma get_file_present:
  assumes quiet: "quiet (w_env w)" and truth: "truthful (sl_json lib) b k w"
    and row: "sql_get_file b k (w_db w) = Some f" "sf_expires_at f = None"
    and disk: "content_at (w_fs w) (sf_file_path f) = Some raw"
  shows "fst (get_file lib sm b k w) =
    map_sum id (\<lambda>c. (c, Some (sf_content_type f))) (fst (decode_content lib sm f raw w))"
proof -
  obtain g w1 where meta: "read_metadata lib sm b k w = (Inr g, w1)" and g: "reads_alike g f"
    and w1: "w_env w1 = w_env w" "w_db w1 = w_db w" "w_fs w1 = w_fs w"
      "w_cache w1 (content_key b k) = w_cache w (content_key b k)"
  proof (cases "w_cache w (metadata_key b k)")
    case None
    have "reads_alike f f" by (simp add: reads_alike_def same_encoding_def)
    from read_metadata_miss [OF quiet None row(1)] show thesis by (metis that \<open>reads_alike f f\<close>)
  next
    case (Some v)
    then obtain g where "json_from_slice (sl_json lib) v = Inr g" "reads_alike g f"
      using truth row(1) by (auto simp: truthful_def split: sum.splits)
    then show thesis using read_metadata_hit [OF quiet Some] that [of g "tick w"] by simp
  qed
  have path: "sf_file_path g = sf_file_path f" and ct: "sf_content_type g = sf_content_type f"
    and ex: "sf_expires_at g = None" and enc: "same_encoding g f"
    using g row(2) by (simp_all add: reads_alike_def)
  have "raw_content w1 b k g = Some raw"
    using truth row(1) disk w1 path by (auto simp: truthful_def raw_content_def split: option.splits)
  then obtain w2 where w2: "read_content sm b k g w1 = (Inr raw, w2)" "w_env w2 = w_env w1" "w_db w2 = w_db w1"
    using read_content_quiet quiet w1(1) by metis
  have exp: "has_expired g w1 = (Inr False :: storage_error + bool, w1)"
    using ex by (simp add: has_expired_def ret_def)
  have dec: "fst (decode_content lib sm g raw w2) = fst (decode_content lib sm f raw w)"
    using decode_content_quiet [of w w2] quiet w1 w2 decode_content_cong [OF enc] by simp
  show ?thesis
    using meta w2(1) exp dec ct
    by (cases "decode_content lib sm g raw w2")
      (auto simp: get_file_def bind_op_def ignore_def ret_def split: sum.splits)
qed

text \<open>C15 (equivalence): a read through a cache whose entries for the object are truthful answers
  exactly what a read without any cache answers, errors of decoding included, for an object
  without an expiry whose file is there, while nothing fails.\<close>

theorem cached_read_equals_uncached:
  assumes "quiet (w_env w)" "truthful (sl_json lib) b k w"
    and "sql_get_file b k (w_db w) = Some f" "sf_expires_at f = None"
    and "content_at (w_fs w) (sf_file_path f) = Some raw"
  shows "fst (get_file lib sm b k w) = fst (get_file lib sm b k (w\<lparr>w_cache := Map.empty\<rparr>))"
proof -
  let ?v = "w\<lparr>w_cache := Map.empty\<rparr>"
  have "truthful (sl_json lib) b k ?v" by (simp add: truthful_def)
  then have "fst (get_file lib sm b k ?v) =
      map_sum id (\<lambda>c. (c, Some (sf_content_type f))) (fst (decode_content lib sm f raw ?v))"
    using get_file_present [of ?v lib b k f raw sm] assms by simp
  moreover have "fst (decode_content lib sm f raw ?v) = fst (decode_content lib sm f raw w)"
    by (rule decode_content_quiet) (use assms(1) in simp_all)
  ultimately show ?thesis using get_file_present [OF assms, of sm] by simp
qed

definition ex_cached :: world where
  "ex_cached = ex_stored\<lparr>w_cache := [metadata_key ''photos'' ''a.jpg'' \<mapsto> [1],
     content_key ''photos'' ''a.jpg'' \<mapsto> ex_bytes]\<rparr>"

lemma ex_stored_get_row: "sql_get_file ''photos'' ''a.jpg'' (w_db ex_stored) = Some ex_stored_row"
  by (simp add: sql_get_file_def is_object_def ex_stored_object)

theorem cached_read_witness:
  "fst (get_file (ex_lib (ex_json ex_row)) ex_manager ''photos'' ''a.jpg'' ex_cached) =
   fst (get_file (ex_lib (ex_json ex_row)) ex_manager ''photos'' ''a.jpg'' (ex_cached\<lparr>w_cache := Map.empty\<rparr>))"
proof -
  have same: "w_env ex_cached = ex_env" "w_db ex_cached = w_db ex_stored" "w_fs ex_cached = w_fs ex_stored"
    by (simp_all add: ex_cached_def)
  have "reads_alike ex_row ex_stored_row"
    by (simp add: reads_alike_def same_encoding_def ex_stored_row_def fresh_row_def)
  then have "truthful (ex_json ex_row) ''photos'' ''a.jpg'' ex_cached"
    using ex_stored_get_row ex_stored_bytes
    by (simp add: truthful_def ex_json_def same) (simp add: ex_cached_def)
  moreover have "sf_expires_at ex_stored_row = None"
    by (simp add: ex_stored_row_def fresh_row_def ex_row_def upload_row_def default_options_def)
  ultimately show ?thesis
    using cached_read_equals_uncached [of ex_cached "ex_lib (ex_json ex_row)" "''photos''" "''a.jpg''"
        ex_stored_row ex_bytes ex_manager] ex_env_quiet ex_stored_get_row ex_stored_bytes same
    by (simp add: ex_lib_def)
qed

text \<open>An upload of new content leaves a truthful cache for its object: the cached
  row reads like the stored one and the cached bytes, if any, are those on the disk, when
  nothing fails and the stored form fits the cache or the key had no cached content.\<close>

theorem upload_leaves_a_truthful_cache:
  assumes "quiet (w_env w)" "json_reads_back (sl_json lib) f"
    and "stc_enable_deduplication (cf_storage (sm_config sm)) \<longrightarrow>
      (\<forall>g \<in> set (db_files (w_db w)). sf_hash_blake3 g \<noteq> sl_blake3 lib content)"
    and "store_file lib sm b k content ct opts w = (Inr f, w')"
    and "sf_file_size f \<le> int max_cached_content \<or> w_cache w (content_key b k) = None"
  shows "truthful (sl_json lib) b k w'"
proof -
  obtain w1 where w1: "quiet (w_env w1)" "w_cache w1 = w_cache w"
    "store_new lib sm b k content ct opts (sl_blake3 lib content, sl_md5 lib content) w1 = (Inr f, w')"
    using store_file_new [OF assms(1) _ assms(4)] assms(3) by blast
  obtain processed v where row: "sf_file_size f = int (length processed)" "object_of f = (b, k)"
    and db: "sql_save_file f (w_db w1) = Inr (w_db w')"
    and disk: "content_at (w_fs w') (sf_file_path f) = Some processed"
    and meta: "json_from_slice (sl_json lib) v = Inr f" "w_cache w' (metadata_key b k) = Some v"
    and cont: "w_cache w' (content_key b k) =
      (if max_cached_content < length processed then w_cache w1 (content_key b k) else Some processed)"
    using store_new_quiet [OF w1(1) assms(2) w1(3)] by blast
  obtain g where g: "sql_get_file b k (w_db w') = Some g" "same_encoding g f"
    "sf_file_path g = sf_file_path f" "sf_expires_at g = sf_expires_at f" "sf_content_type g = sf_content_type f"
    using sql_get_saved [OF db row(2)] by blast
  then have "reads_alike f g" by (simp add: reads_alike_def same_encoding_def)
  then show ?thesis
    using g(1,3) meta cont disk row(1) assms(5) w1(2) by (auto simp: truthful_def)
qed

theorem upload_leaves_a_truthful_cache_witness:
  "truthful (ex_json ex_row) ''photos'' ''a.jpg'' (snd (ex_store ex_row))"
proof -
  have "store_file (ex_lib (ex_json ex_row)) ex_manager ''photos'' ''a.jpg'' ex_content
      (Some ''image/jpeg'') default_options ex_world = (Inr ex_row, snd (ex_store ex_row))"
    using ex_store_row by (cases "ex_store ex_row") (simp add: ex_store_def)
  then show ?thesis
    using upload_leaves_a_truthful_cache [of ex_world "ex_lib (ex_json ex_row)" ex_row]
      ex_row_now ex_dedup_fresh ex_env_quiet ex_json_reads_back
    by (simp add: ex_lib_def)
qed

section \<open>Keys\<close>

text \<open>For buckets without a colon the cache keeps objects apart: its keys are
  those of the same object only, and a row never shares a key with a content (a bucket with a
  colon breaks this, see \<open>colon_bucket_serves_another_object\<close>).\<close>

theorem cache_keys_keep_objects_apart:
  assumes "no_colon b" "no_colon b'"
  shows "(metadata_key b k = metadata_key b' k' \<longleftrightarrow> (b, k) = (b', k')) \<and>
    (content_key b k = content_key b' k' \<longleftrightarrow> (b, k) = (b', k')) \<and> metadata_key b k \<noteq> content_key b' k'"
  using metadata_key_inj [OF assms] content_key_inj [OF assms] by simp

theorem cache_keys_witness: "metadata_key ''a'' ''b:c'' \<noteq> metadata_key ''a'' ''c:b''"
  using cache_keys_keep_objects_apart [of "''a''" "''a''" "''b:c''" "''c:b''"] by (simp add: no_colon_def)

end
