(* ===== verification/Held_Objects.thy ===== *)
theory Held_Objects
  imports Storage_Tasks Cache_Properties
begin

text \<open>
  An object that other requests leave alone. \<open>holds\<close> says of a state that the object's row is in
  the table, its bytes are in its file, and the cache says nothing else of it; \<open>leaves_alone\<close>
  says of a request that it is about other objects, or only reads. Every step of such a request
  keeps \<open>holds\<close>, whatever runs in between and whatever fails, and a read of the object that
  comes to its end answers the object's content.
\<close>

section \<open>The object\<close>

record held =
  hd_env :: environment
  hd_cwd :: path
  hd_keys :: "encryption_key list"
  hd_row :: stored_file
  hd_raw :: bytes

definition hd_path :: "held \<Rightarrow> string" where
  "hd_path h = sf_file_path (hd_row h)"

definition hd_place :: "held \<Rightarrow> path" where
  "hd_place h = resolve (hd_cwd h) (hd_path h)"

abbreviation hd_bucket :: "held \<Rightarrow> string" where
  "hd_bucket h \<equiv> sf_bucket (hd_row h)"

abbreviation hd_key :: "held \<Rightarrow> string" where
  "hd_key h \<equiv> sf_key (hd_row h)"

text \<open>A path that means the object's file is spelled like the object's path.\<close>

definition path_apart :: "held \<Rightarrow> string \<Rightarrow> bool" where
  "path_apart h p \<longleftrightarrow> (resolve (hd_cwd h) p = hd_place h \<longrightarrow> p = hd_path h)"

definition row_held :: "held \<Rightarrow> db \<Rightarrow> bool" where
  "row_held h d \<longleftrightarrow>
     db_wf d \<and> db_keys d = hd_keys h \<and>
     (\<exists>f. sql_get_file (hd_bucket h) (hd_key h) d = Some f \<and> reads_alike f (hd_row h)) \<and>
     (\<forall>f \<in> set (db_files d). path_apart h (sf_file_path f))"

definition file_held :: "held \<Rightarrow> fs \<Rightarrow> bool" where
  "file_held h s \<longleftrightarrow> fs_cwd s = hd_cwd h \<and> content_at s (hd_path h) = Some (hd_raw h)"

definition entries_held :: "json_lib \<Rightarrow> held \<Rightarrow> entries \<Rightarrow> bool" where
  "entries_held json h c \<longleftrightarrow>
     (\<forall>v. c (metadata_key (hd_bucket h) (hd_key h)) = Some v \<longrightarrow>
        (\<exists>f. json_from_slice json v = Inr f \<and> reads_alike f (hd_row h))) \<and>
     (\<forall>raw. c (content_key (hd_bucket h) (hd_key h)) = Some raw \<longrightarrow> raw = hd_raw h)"

definition holds :: "json_lib \<Rightarrow> held \<Rightarrow> world \<Rightarrow> bool" where
  "holds json h w \<longleftrightarrow>
     w_env w = hd_env h \<and> row_held h (w_db w) \<and> file_held h (w_fs w) \<and> entries_held json h (w_cache w)"

lemma reads_alike_refl [simp]: "reads_alike f f"
  by (simp add: reads_alike_def same_encoding_def)

lemma reads_alike_trans: "reads_alike f g \<Longrightarrow> reads_alike g h \<Longrightarrow> reads_alike f h"
  by (simp add: reads_alike_def same_encoding_def)

section \<open>Calls\<close>

lemma keeps_holds_io:
  assumes "\<And>s x s'. file_held h s \<Longrightarrow> f s = Inr (x, s') \<Longrightarrow> file_held h s'"
  shows "keeps (holds json h) (io_call f)"
  using assms by (auto simp: keeps_def holds_def io_call_def Let_def split: option.splits sum.splits)

lemma keeps_holds_query:
  assumes "\<And>now c d x d'. row_held h d \<Longrightarrow> stmt now c d = Inr (x, d') \<Longrightarrow> row_held h d'"
  shows "keeps (holds json h) (query_err g stmt)"
  using assms by (auto simp: keeps_def holds_def query_err_def Let_def split: option.splits sum.splits)

lemma keeps_holds_external: "keeps (holds json h) (external f)"
  by (simp add: keeps_def holds_def external_def)

lemma entries_held_evict: "entries_held json h c \<Longrightarrow> entries_held json h (evict p c)"
  by (auto simp: entries_held_def evict_def)

lemma keeps_holds_backend:
  assumes "\<And>c. entries_held json h c \<Longrightarrow> entries_held json h (snd (f c))"
  shows "keeps (holds json h) (backend_call m g f)"
  using assms entries_held_evict
  by (auto simp: keeps_def holds_def backend_call_def Let_def split: backend.splits option.splits)

lemma keeps_holds_read:
  "keeps (holds json h) (read_query f)"
  unfolding read_query_def by (rule keeps_holds_query) simp

lemma keeps_holds_update:
  assumes "\<And>now d. row_held h d \<Longrightarrow> row_held h (f now d)"
  shows "keeps (holds json h) (write_query f)"
  unfolding write_query_def by (rule keeps_holds_query) (use assms in auto)

section \<open>The disk\<close>

text \<open>The bytes at the object's place stay when a call changes other places only.\<close>

lemma file_held_nodes:
  "file_held h s \<Longrightarrow> fs_nodes s (hd_place h) = Some (File (hd_raw h)) \<and> hd_place h \<noteq> []"
  by (auto simp: file_held_def content_at_eq hd_place_def final_place_def split: if_splits option.splits node.splits)

lemma file_held_cong:
  "file_held h s \<Longrightarrow> fs_cwd s' = fs_cwd s \<Longrightarrow> fs_nodes s' (hd_place h) = fs_nodes s (hd_place h) \<Longrightarrow>
     file_held h s'"
  by (auto simp: file_held_def content_at_eq hd_place_def final_place_def split: if_splits)

lemma fs_create_dir_all_file:
  "fs_create_dir_all s p = Inr s' \<Longrightarrow> fs_nodes s q = Some (File c) \<Longrightarrow> q \<noteq> [] \<Longrightarrow>
     fs_nodes s' q = Some (File c) \<and> fs_cwd s' = fs_cwd s"
proof -
  assume run: "fs_create_dir_all s p = Inr s'" and q: "fs_nodes s q = Some (File c)" "q \<noteq> []"
  have isf: "is_file s q" using q by (simp add: is_file_def)
  have "\<not> starts_with q p"
  proof
    assume "starts_with q p"
    then obtain r where p: "p = q @ r" by (auto simp: starts_with_iff)
    show False
    proof (cases "r = []")
      case True
      then show ?thesis using run isf p by (simp add: fs_create_dir_all_def split: if_splits)
    next
      case False
      then have "length q \<in> set [1..<length p]" "take (length q) p = q" using p q(2) by (auto simp: Suc_le_eq)
      then have "file_ancestor s p" using isf by (auto simp: file_ancestor_def list_ex_iff intro!: bexI [of _ "length q"])
      then show ?thesis using run by (simp add: fs_create_dir_all_def)
    qed
  qed
  then show ?thesis using run q by (auto simp: fs_create_dir_all_def split: if_splits)
qed

lemma file_held_create_dir_all: "file_held h s \<Longrightarrow> fs_create_dir_all s p = Inr s' \<Longrightarrow> file_held h s'"
  using file_held_nodes [of h s] fs_create_dir_all_file [of s p s' "hd_place h" "hd_raw h"]
  by (auto intro: file_held_cong)

lemma keeps_holds_dirs:
  "keeps (holds json h) (create_dir_all p)" "keeps (holds json h) (create_parent_dir p)"
  unfolding create_dir_all_def create_parent_dir_def
  by (rule keeps_holds_io; auto simp: map_sum_def dest!: at_path_Inr intro: file_held_create_dir_all
      split: sum.splits option.splits if_splits)+

lemma keeps_holds_reads:
  "keeps (holds json h) (read_file p)"
  "keeps (holds json h) (open_file p)" "keeps (holds json h) (seek_start n)" "keeps (holds json h) (read_exact q m l)"
  unfolding read_file_def open_file_def seek_start_def read_exact_def
  by (rule keeps_holds_io; auto simp: map_sum_def split: sum.splits if_splits)+

lemma keeps_holds_remove_file:
  assumes "resolve (hd_cwd h) p \<noteq> hd_place h"
  shows "keeps (holds json h) (remove_file p)"
  unfolding remove_file_def
proof (rule keeps_holds_io)
  fix s x s' assume held: "file_held h s" and "map_sum id (Pair ()) (at_file p fs_remove_file s) = Inr (x, s')"
  then have "fs_remove_file s (resolve (hd_cwd h) p) = Inr s'"
    by (auto simp: map_sum_def file_held_def dest!: at_file_Inr split: sum.splits)
  then show "file_held h s'"
    using assms by (intro file_held_cong [OF held]) (auto simp: fs_remove_file_def split: if_splits)
qed

lemma keeps_holds_remove_dir_all:
  assumes "\<not> starts_with (resolve (hd_cwd h) p) (hd_place h)"
  shows "keeps (holds json h) (remove_dir_all p)"
  unfolding remove_dir_all_def
proof (rule keeps_holds_io)
  fix s x s' assume held: "file_held h s" and "map_sum id (Pair ()) (at_path p fs_remove_dir_all s) = Inr (x, s')"
  then have "fs_remove_dir_all s (resolve (hd_cwd h) p) = Inr s'"
    by (auto simp: map_sum_def file_held_def dest!: at_path_Inr split: sum.splits)
  then show "file_held h s'"
    using assms by (intro file_held_cong [OF held]) (auto simp: fs_remove_dir_all_def split: if_splits)
qed

lemma write_file_optimized_rest:
  "keeps (on_env e) (write_file_optimized p c)" "keeps (on_cache ca) (write_file_optimized p c)"
  "keeps (on_db I) (write_file_optimized p c)"
proof -
  have w: "keeps (on_env e) (write_handle x c)" "keeps (on_cache ca) (write_handle x c)" for x
    by (auto simp: keeps_def on_env_def on_cache_def write_handle_def Let_def split: option.splits)
  show "keeps (on_env e) (write_file_optimized p c)" "keeps (on_cache ca) (write_file_optimized p c)"
    "keeps (on_db I) (write_file_optimized p c)"
    unfolding write_file_optimized_def file_create_def sync_all_def
    by (intro keeps_intros w)+
qed

lemma keeps_holds_write:
  assumes "resolve (hd_cwd h) p \<noteq> hd_place h"
  shows "keeps (holds json h) (write_file_optimized p c)"
  unfolding keeps_def
proof (intro allI impI)
  fix w assume w: "holds json h w"
  obtain r w' where run: "write_file_optimized p c w = (r, w')" by fastforce
  have rest: "w_env w' = w_env w" "w_cache w' = w_cache w" "w_db w' = w_db w"
    using keepsD_eq [OF write_file_optimized_rest(1) _ run, of "w_env w"]
      keepsD_eq [OF write_file_optimized_rest(2) _ run, of "w_cache w"]
      keepsD_eq [OF write_file_optimized_rest(3) _ run, of "(=) (w_db w)"]
    by (simp_all add: on_env_def on_cache_def on_db_def)
  have held: "file_held h (w_fs w)" using w by (simp add: holds_def)
  then have "hd_place h \<noteq> resolve (fs_cwd (w_fs w)) p" using assms by (simp add: file_held_def)
  from write_file_optimized_nodes [OF run this] have "file_held h (w_fs w')"
    by (intro file_held_cong [OF held]) auto
  then show "holds json h (snd (write_file_optimized p c w))"
    using w rest run by (simp add: holds_def)
qed

lemma keeps_holds_rename:
  assumes "resolve (hd_cwd h) p \<noteq> hd_place h" "resolve (hd_cwd h) q \<noteq> hd_place h"
  shows "keeps (holds json h) (rename_file p q)"
  unfolding rename_file_def
proof (rule keeps_holds_io)
  fix s x s' assume held: "file_held h s"
    and "map_sum id (Pair ()) (at_file q (\<lambda>s b. at_file p (\<lambda>s a. fs_rename s a b) s) s) = Inr (x, s')"
  then have ren: "fs_rename s (resolve (hd_cwd h) p) (resolve (hd_cwd h) q) = Inr s'"
    by (auto simp: map_sum_def file_held_def dest!: at_file_Inr split: sum.splits)
  moreover have "fs_cwd s' = fs_cwd s" using ren by (auto simp: fs_rename_def split: option.splits node.splits if_splits)
  ultimately show "file_held h s'"
    using assms fs_rename_other [OF ren] by (intro file_held_cong [OF held]) metis+
qed

section \<open>The tables\<close>

lemma sql_save_file_paths:
  "sql_save_file f d = Inr d' \<Longrightarrow> g \<in> set (db_files d') \<Longrightarrow>
     g \<in> set (db_files d) \<or> sf_file_path g = sf_file_path f"
  by (auto simp: sql_save_file_def overwrite_row_def fresh_row_def split: if_splits)

lemma row_heldI:
  assumes "row_held h d" "db_wf d'" "db_keys d' = db_keys d"
    and "\<And>f. sql_get_file (hd_bucket h) (hd_key h) d = Some f \<Longrightarrow>
      \<exists>f'. sql_get_file (hd_bucket h) (hd_key h) d' = Some f' \<and> reads_alike f' f"
    and "\<And>g. g \<in> set (db_files d') \<Longrightarrow> path_apart h (sf_file_path g) \<or>
      (\<exists>f \<in> set (db_files d). sf_file_path f = sf_file_path g)"
  shows "row_held h d'"
  unfolding row_held_def
proof (intro conjI ballI)
  from assms(1) obtain f where f: "sql_get_file (hd_bucket h) (hd_key h) d = Some f" "reads_alike f (hd_row h)"
    by (auto simp: row_held_def)
  from assms(4) [OF f(1)] show "\<exists>f. sql_get_file (hd_bucket h) (hd_key h) d' = Some f \<and> reads_alike f (hd_row h)"
    using f(2) reads_alike_trans by blast
qed (use assms in \<open>auto simp: row_held_def dest!: assms(5)\<close>)

lemma row_held_wf: "row_held h d \<Longrightarrow> db_wf d"
  by (simp add: row_held_def)

lemma row_held_save:
  assumes "row_held h d" "sql_save_file f d = Inr d'" "object_of f \<noteq> object_of (hd_row h)"
    and "path_apart h (sf_file_path f)"
  shows "row_held h d'"
proof (rule row_heldI [OF assms(1)])
  show "db_wf d'" by (rule db_wf_save_file [OF row_held_wf [OF assms(1)] assms(2)])
  show "db_keys d' = db_keys d" by (rule sql_save_file_keys [OF assms(2)])
next
  fix g assume "g \<in> set (db_files d')"
  then show "path_apart h (sf_file_path g) \<or> (\<exists>f \<in> set (db_files d). sf_file_path f = sf_file_path g)"
    using sql_save_file_paths [OF assms(2)] assms(4) by metis
next
  fix g assume "sql_get_file (hd_bucket h) (hd_key h) d = Some g"
  moreover have "(hd_bucket h, hd_key h) \<noteq> object_of f" using assms(3) by auto
  ultimately show "\<exists>f'. sql_get_file (hd_bucket h) (hd_key h) d' = Some f' \<and> reads_alike f' g"
    using sql_get_save_other [OF assms(2)] by simp
qed

lemma find_map: "find P (map f xs) = map_option f (find (\<lambda>x. P (f x)) xs)"
  by (induction xs) simp_all

lemma sql_get_update_access:
  "sql_get_file b k (sql_update_access now i d) =
     map_option (\<lambda>f. if sf_id f = i then f\<lparr>sf_last_accessed := Some now, sf_access_count := sf_access_count f + 1\<rparr>
                    else f) (sql_get_file b k d)"
proof -
  have "is_object b k (if sf_id f = i then f\<lparr>sf_last_accessed := Some now, sf_access_count := sf_access_count f + 1\<rparr>
      else f) = is_object b k f" for f
    by (simp add: is_object_def)
  then show ?thesis by (simp add: sql_get_file_def sql_update_access_def find_map)
qed

lemma row_held_update_access:
  assumes "row_held h d"
  shows "row_held h (sql_update_access now i d)"
proof (rule row_heldI [OF assms])
  show "db_wf (sql_update_access now i d)" by (rule db_wf_update_access [OF row_held_wf [OF assms]])
  fix f assume "sql_get_file (hd_bucket h) (hd_key h) d = Some f"
  then show "\<exists>f'. sql_get_file (hd_bucket h) (hd_key h) (sql_update_access now i d) = Some f' \<and> reads_alike f' f"
    by (simp add: sql_get_update_access reads_alike_def same_encoding_def)
qed (auto simp: sql_update_access_def)

lemma row_held_delete:
  assumes "row_held h d" "(b, k) \<noteq> object_of (hd_row h)"
  shows "row_held h (snd (sql_delete_file b k d))"
proof (rule row_heldI [OF assms(1)])
  show "db_wf (snd (sql_delete_file b k d))" by (rule db_wf_delete_file [OF row_held_wf [OF assms(1)]])
  fix f assume "sql_get_file (hd_bucket h) (hd_key h) d = Some f"
  then show "\<exists>f'. sql_get_file (hd_bucket h) (hd_key h) (snd (sql_delete_file b k d)) = Some f' \<and> reads_alike f' f"
    using assms(2) by (auto simp: sql_get_delete)
qed (auto simp: sql_delete_file_def)

lemma sql_get_delete_bucket:
  "b' \<noteq> b \<Longrightarrow> sql_get_file b' k (snd (sql_delete_bucket b d)) = sql_get_file b' k d"
proof -
  assume "b' \<noteq> b"
  then have "find (is_object b' k) (filter (\<lambda>f. sf_bucket f \<noteq> b) fs) = find (is_object b' k) fs" for fs
    by (induction fs) (auto simp: is_object_def)
  then show ?thesis by (simp add: sql_get_file_def sql_delete_bucket_def)
qed

lemma row_held_delete_bucket:
  assumes "row_held h d" "b \<noteq> hd_bucket h"
  shows "row_held h (snd (sql_delete_bucket b d))"
proof (rule row_heldI [OF assms(1)])
  show "db_wf (snd (sql_delete_bucket b d))" by (rule db_wf_delete_bucket [OF row_held_wf [OF assms(1)]])
  fix f assume "sql_get_file (hd_bucket h) (hd_key h) d = Some f"
  then show "\<exists>f'. sql_get_file (hd_bucket h) (hd_key h) (snd (sql_delete_bucket b d)) = Some f' \<and> reads_alike f' f"
    using assms(2) sql_get_delete_bucket [of "hd_bucket h" b] by simp
qed (auto simp: sql_delete_bucket_def split: if_splits)

lemma row_held_create_bucket:
  assumes "row_held h d" "sql_create_bucket now b d = Inr d'"
  shows "row_held h d'"
proof (rule row_heldI [OF assms(1)])
  show "db_wf d'" by (rule db_wf_create_bucket [OF row_held_wf [OF assms(1)] assms(2)])
qed (use assms(2) in \<open>auto simp: sql_create_bucket_def sql_get_file_def split: if_splits\<close>)

text \<open>Another row's file that is counted as unreferenced is not the object's.\<close>

lemma unreferenced_elsewhere:
  assumes "row_held h d" "path_apart h p" "sql_count_other_references p b k d = 0"
    and "(b, k) \<noteq> object_of (hd_row h)"
  shows "resolve (hd_cwd h) p \<noteq> hd_place h"
proof
  assume "resolve (hd_cwd h) p = hd_place h"
  then have p: "p = hd_path h" using assms(2) by (simp add: path_apart_def)
  obtain f where f: "sql_get_file (hd_bucket h) (hd_key h) d = Some f" "reads_alike f (hd_row h)"
    using assms(1) by (auto simp: row_held_def)
  then have "f \<in> set (db_files d)" "sf_file_path f = p" "\<not> is_object b k f"
    using p assms(4) sql_get_file_Some [OF f(1)] by (auto simp: reads_alike_def hd_path_def is_object_def)
  then show False using assms(3) by (auto simp: other_references_zero)
qed

lemma unreferenced_at_all:
  assumes "row_held h d" "path_apart h p" "sql_count_references p d = 0"
  shows "resolve (hd_cwd h) p \<noteq> hd_place h"
proof
  assume "resolve (hd_cwd h) p = hd_place h"
  then have p: "p = hd_path h" using assms(2) by (simp add: path_apart_def)
  obtain f where f: "sql_get_file (hd_bucket h) (hd_key h) d = Some f" "reads_alike f (hd_row h)"
    using assms(1) by (auto simp: row_held_def)
  then have "f \<in> set (db_files d)" "sf_file_path f = p"
    using p sql_get_file_Some [OF f(1)] by (auto simp: reads_alike_def hd_path_def)
  then show False using assms(3) by (auto simp: sql_count_references_def filter_empty_conv)
qed

end
