(* ===== verification/S3_End_To_End.thy ===== *)
theory S3_End_To_End
  imports End_To_End Held_Objects
begin

text \<open>
  Whole requests over the S3 protocol: a signed PUT followed by a signed GET.
\<close>

lemma verify_tick: "verify lib st rq w = (Inr (), w') \<Longrightarrow> w' = tick w"
  by (auto simp: verify_def bind_op_def lift_result_def external_apply split: sum.splits)

lemma verify_configured: "verify lib st rq w = (Inr (), w') \<Longrightarrow> \<exists>a. as_s3_config st = Some a"
  by (cases "as_s3_config st") (simp_all add: verify_def bind_op_def require_s3_config_def)

lemma s3_put_stores:
  assumes "serve lib st (S3_put_object_call b k rq) w = (Replied r, w')"
    and "header_str (rq_headers rq) ''x-amz-copy-source'' = None" "header_str (rq_headers rq) ''x-ttl-seconds'' = None"
  obtains f where "store_file (hl_storage lib) (as_storage st) b k (rq_body rq)
      (header_str (rq_headers rq) ''content-type'') default_options (tick w) = (Inr f, w')"
    "r = with_header lib 200 ''etag'' (etag (sf_hash_md5 f))"
proof -
  have put: "put_object lib st b k rq w = (Inr r, w')"
    using serve_Replied [OF assms(1)] by (auto simp: s3_answer_or_panic_def split: prod.splits sum.splits failure.splits)
  have opts: "default_options\<lparr>so_expires_at := None\<rparr> = default_options" by (simp add: default_options_def)
  obtain w1 where v: "verify lib st rq w = (Inr (), w1)"
    using put by (auto simp: put_object_def bind_op_result_Inr)
  then show thesis
    using that put verify_tick [OF v] assms(2,3)
    by (auto simp: put_object_def bind_op_result_Inr ttl_header_def opts)
qed

lemma s3_get_answers:
  assumes "verify lib st rq w = (Inr (), v)"
    and "get_file (hl_storage lib) (as_storage st) b k v = (Inr (c, Some ct), w1)"
    and "get_file_info (as_storage st) b k w1 = (Inr info, w2)"
  shows "fst (serve lib st (S3_get_object_call b k rq) w) =
    Replied (respond 200 (optional_header lib ''content-type'' ct @
      optional_header lib ''etag'' (etag (fi_hash_md5 info))) (Content_body c))"
proof -
  obtain a where "as_s3_config st = Some a" using verify_configured [OF assms(1)] by blast
  from serve_mounted [OF this] show ?thesis using assms by (simp add: s3_answer_def get_object_def)
qed

lemma get_file_info_quiet:
  assumes "quiet (w_env w)" "sql_get_file b k (w_db w) = Some f" "sf_expires_at f = None"
  shows "get_file_info sm b k w = (Inr (file_info_from f), tick w)"
  using assms by (simp add: get_file_info_def db_get_file_quiet has_expired_def bind_op_def)

text \<open>C6 (roundtrip): an object put over the S3 protocol is got over it: after a PUT that is answered, a
  GET with a valid signature answers 200 with the very bytes of the PUT's body, its content type
  and the entity tag that the PUT answered, the MD5 hash of the body, whatever compression and
  encryption the service is configured with. The conditions: nothing fails and no cache entry is
  dropped; the PUT neither copies nor has a lifetime, and no row has the hash of its body; its stored
  form is at most 1 MiB or the cache holds no content under the key (a larger one over a cached one is
  answered with the old bytes, see \<open>large_overwrite_serves_old_content\<close>); the codecs, the cipher and
  JSON keep their laws.\<close>

theorem put_object_is_got:
  assumes "quiet (w_env w)"
    and laws: "gzip_law (sl_codec (hl_storage lib))" "zstd_law (sl_codec (hl_storage lib))"
      "aead_law (sl_aead (hl_storage lib))"
    and conf: "sm_compression (as_storage st) = cf_compression (sm_config (as_storage st))"
    and new: "\<forall>g \<in> set (db_files (w_db w)). sf_hash_blake3 g \<noteq> sl_blake3 (hl_storage lib) (rq_body rq)"
    and entry: "w_cache w (content_key b k) = None \<or>
      (\<forall>f. fst (store_file (hl_storage lib) (as_storage st) b k (rq_body rq)
        (header_str (rq_headers rq) ''content-type'') default_options (tick w)) = Inr f \<longrightarrow>
        sf_file_size f \<le> int max_cached_content)"
    and plain: "header_str (rq_headers rq) ''x-amz-copy-source'' = None"
      "header_str (rq_headers rq) ''x-ttl-seconds'' = None"
    and put: "serve lib st (S3_put_object_call b k rq) w = (Replied r, w')"
    and json: "\<forall>f. fst (store_file (hl_storage lib) (as_storage st) b k (rq_body rq)
        (header_str (rq_headers rq) ''content-type'') default_options (tick w)) = Inr f \<longrightarrow>
      json_reads_back (sl_json (hl_storage lib)) f"
    and signed: "fst (verify lib st rq' w') = Inr ()"
  shows "r = with_header lib 200 ''etag'' (etag (sl_md5 (hl_storage lib) (rq_body rq))) \<and>
    fst (serve lib st (S3_get_object_call b k rq') w') = Replied (respond 200
      (optional_header lib ''content-type''
         (unwrap_or (header_str (rq_headers rq) ''content-type'') ''application/octet-stream'') @
       optional_header lib ''etag'' (etag (sl_md5 (hl_storage lib) (rq_body rq))))
      (Content_body (rq_body rq)))"
proof -
  let ?sm = "as_storage st" and ?c = "rq_body rq" and ?ct = "header_str (rq_headers rq) ''content-type''"
  from s3_put_stores [OF put plain] obtain f where
    store: "store_file (hl_storage lib) ?sm b k ?c ?ct default_options (tick w) = (Inr f, w')"
    and r: "r = with_header lib 200 ''etag'' (etag (sf_hash_md5 f))" .
  have js: "json_reads_back (sl_json (hl_storage lib)) f" using json store by simp
  have tick: "quiet (w_env (tick w))" using assms(1) by simp
  obtain w1 where w1: "quiet (w_env w1)" "w_cache w1 = w_cache w" "w_env w1 = w_env w"
    "store_new (hl_storage lib) ?sm b k ?c ?ct default_options
       (sl_blake3 (hl_storage lib) ?c, sl_md5 (hl_storage lib) ?c) w1 = (Inr f, w')"
    using store_file_new [OF tick _ store] new by auto
  have codec: "wants_compression ?sm default_options \<Longrightarrow> cmp_enabled (sm_compression ?sm)"
    using conf by (simp add: wants_compression_def default_options_def)
  obtain raw v where enc: "encoded_as (hl_storage lib) ?sm (w_db w') f raw ?c"
    and disk: "content_at (w_fs w') (sf_file_path f) = Some raw" "sf_file_size f = int (length raw)"
    and meta: "json_from_slice (sl_json (hl_storage lib)) v = Inr f" "w_cache w' (metadata_key b k) = Some v"
    and entries: "w_cache w' = (if max_cached_content < length raw then (w_cache w1)(metadata_key b k \<mapsto> v)
       else (w_cache w1)(metadata_key b k \<mapsto> v, content_key b k \<mapsto> raw))"
    and db: "sql_save_file f (w_db w1) = Inr (w_db w')" and env: "w_env w' = w_env w1"
    and row: "object_of f = (b, k)" "sf_content_type f = unwrap_or ?ct ''application/octet-stream''"
      "sf_expires_at f = so_expires_at default_options"
      "sf_hash_md5 f = snd (sl_blake3 (hl_storage lib) ?c, sl_md5 (hl_storage lib) ?c)"
    by (rule store_new_encoded [OF w1(1) js laws codec w1(4)])
  have none: "sf_expires_at f = None" using row(3) by (simp add: default_options_def)
  obtain v where v: "verify lib st rq' w' = (Inr (), v)" using signed by (cases "verify lib st rq' w'") simp
  note now = verify_tick [OF v]
  have q: "quiet (w_env v)" using env w1(1) by (simp add: now)
  have "length raw \<le> max_cached_content \<or> w_cache w1 (content_key b k) = None"
    using entry store disk(2) w1(2) by auto
  then have "raw_content v b k f = Some raw" using disk(1) by (auto simp: raw_content_def entries now)
  moreover have "unexpired (w_env v) f" using none by (simp add: unexpired_def)
  moreover have "read_metadata (hl_storage lib) ?sm b k v = (Inr f, tick v)"
    using read_metadata_hit [OF q _ meta(1)] meta(2) by (simp add: now)
  moreover have "encoded_as (hl_storage lib) ?sm (w_db v) f raw ?c" using enc by (simp add: now)
  ultimately obtain w2 t where got: "get_file (hl_storage lib) ?sm b k v = (Inr (?c, Some (sf_content_type f)), w2)"
    and w2: "w_env w2 = w_env v" "w_db w2 = sql_update_access t (sf_id f) (w_db v)"
    using get_file_row_state [of "hl_storage lib" ?sm b k v f "tick v" raw ?c] q by auto
  obtain g where g: "sql_get_file b k (w_db w') = Some g" "sf_expires_at g = None" "sf_hash_md5 g = sf_hash_md5 f"
    by (rule sql_get_saved [OF db row(1)]) (simp add: none)
  then obtain g' where "sql_get_file b k (w_db w2) = Some g'" "sf_expires_at g' = None" "sf_hash_md5 g' = sf_hash_md5 f"
    by (simp add: w2 now sql_get_update_access)
  then have "get_file_info ?sm b k w2 = (Inr (file_info_from g'), tick w2)" "fi_hash_md5 (file_info_from g') = sf_hash_md5 f"
    using get_file_info_quiet q w2(1) by simp_all
  from s3_get_answers [OF v got this(1)] this(2) show ?thesis using r row by simp
qed


text \<open>Requests signed with the account of the example service.\<close>

definition ex_signed :: "string \<Rightarrow> string \<Rightarrow> (string \<times> string) list \<Rightarrow> bytes \<Rightarrow> s3_request" where
  "ex_signed verb path headers body =
     (let u = \<lparr>uri_path = path, uri_query = None\<rparr>;
          dated = (''host'', ''localhost'') # (''x-amz-date'', ''20240101T000000Z'') # headers;
          auth = \<lparr>pa_access_key = ''AK'', pa_date = ''20240101'', pa_region = ''us-east-1'',
                  pa_signed_headers = [''host''], pa_signature = []\<rparr>;
          signature = computed_signature ex_sig ''SK'' verb u (ex_headers dated)
            (sha256_hex ex_sig body) ''20240101T000000Z'' auth
      in \<lparr>rq_verb = verb, rq_uri = u,
          rq_headers = ex_headers ((''authorization'',
            authorization_header ''AK'' ''20240101'' ''us-east-1'' [''host''] signature) # dated),
          rq_body = body\<rparr>)"

definition ex_put_row :: stored_file where
  "ex_put_row = upload_row ex_manager ''photos'' ''a.jpg'' (Some ''image/jpeg'') default_options
     (''h140'', ''h140'') 20 30 True True (Some (1 / 10)) 511 1012"

definition ex_s3_lib :: handler_lib where
  "ex_s3_lib = ex_hlib\<lparr>hl_storage := ex_lib (ex_json ex_put_row)\<rparr>"

definition ex_put :: call where
  "ex_put = S3_put_object_call ''photos'' ''a.jpg''
     (ex_signed ''PUT'' ''/v2/photos/a.jpg'' [(''content-type'', ''image/jpeg'')] ex_content)"

definition ex_get :: s3_request where
  "ex_get = ex_signed ''GET'' ''/v2/photos/a.jpg'' [] []"

lemma ex_put_stored:
  "fst (store_file (ex_lib (ex_json ex_put_row)) ex_manager ''photos'' ''a.jpg'' ex_content
    (Some ''image/jpeg'') default_options (tick ex_world)) = Inr ex_put_row"
  by code_simp

lemma ex_put_answered:
  "case fst (serve ex_s3_lib ex_state ex_put ex_world) of Replied r \<Rightarrow> rs_status r = 200 | _ \<Rightarrow> False"
  by code_simp


lemma keeps_env_store_file: "keeps (on_env e) (store_file lib sm b k c ct opts)"
proof -
  have "keeps (on_env e) (backend_call m g f)" for m g f
    by (auto simp: keeps_def on_env_def backend_call_def Let_def split: backend.splits option.splits)
  note backend = this
  show ?thesis
    unfolding store_file_def store_new_def finish_upload_def save_or_cleanup_def store_alias_def remove_file_def
      db_save_file_def db_get_file_by_hash_def read_query_def set_file_metadata_def set_file_content_def backend_set_def Let_def
    by (intro keeps_intros keeps_env_cache backend)
qed

lemma ex_put_ticks: "w_tick (snd (serve ex_s3_lib ex_state ex_put ex_world)) = 16"
  by code_simp

lemma ex_get_signature:
  "verify_sigv4 ex_sig 1016 (rq_headers ex_get) (rq_verb ex_get) (rq_uri ex_get) (rq_body ex_get) ex_account = Inr ()"
  by code_simp

lemma ex_get_verified:
  assumes "w_env w = ex_env" "w_tick w = 16"
  shows "fst (verify ex_s3_lib ex_state ex_get w) = Inr ()"
proof -
  have "hl_sig ex_s3_lib = ex_sig" "env_now ex_env 16 = 1016"
    by (simp_all add: ex_s3_lib_def ex_hlib_def ex_env_def)
  then show ?thesis
    using assms ex_get_signature
    by (simp add: verify_def bind_op_def require_s3_config_def external_apply ok_or_def)
qed

lemma ex_s3_fields:
  "sl_codec (hl_storage ex_s3_lib) = ex_codec" "sl_aead (hl_storage ex_s3_lib) = ex_aead"
  "sl_json (hl_storage ex_s3_lib) = ex_json ex_put_row" "hl_storage ex_s3_lib = ex_lib (ex_json ex_put_row)"
  "hl_header_ok ex_s3_lib s" "sl_md5 (hl_storage ex_s3_lib) = ex_hash"
  by (simp_all add: ex_s3_lib_def ex_hlib_def ex_lib_def)

theorem put_object_is_got_witness:
  "fst (serve ex_s3_lib ex_state (S3_get_object_call ''photos'' ''a.jpg'' ex_get)
      (snd (serve ex_s3_lib ex_state ex_put ex_world))) =
    Replied (respond 200 [(''content-type'', ''image/jpeg''), (''etag'', etag ''h140'')] (Content_body ex_content))"
proof -
  let ?rq = "ex_signed ''PUT'' ''/v2/photos/a.jpg'' [(''content-type'', ''image/jpeg'')] ex_content"
  obtain r where put: "serve ex_s3_lib ex_state (S3_put_object_call ''photos'' ''a.jpg'' ?rq) ex_world =
      (Replied r, snd (serve ex_s3_lib ex_state ex_put ex_world))"
    using ex_put_answered
    by (cases "serve ex_s3_lib ex_state ex_put ex_world") (auto simp: ex_put_def split: answer.splits)
  have rq: "rq_body ?rq = ex_content" "header_str (rq_headers ?rq) ''content-type'' = Some ''image/jpeg''"
    "header_str (rq_headers ?rq) ''x-amz-copy-source'' = None" "header_str (rq_headers ?rq) ''x-ttl-seconds'' = None"
    by (simp_all add: ex_signed_def Let_def ex_headers_def header_str_def)
  let ?w = "snd (serve ex_s3_lib ex_state ex_put ex_world)"
  from s3_put_stores [OF put rq(3,4)] obtain f where
    "store_file (hl_storage ex_s3_lib) (as_storage ex_state) ''photos'' ''a.jpg'' (rq_body ?rq)
      (header_str (rq_headers ?rq) ''content-type'') default_options (tick ex_world) = (Inr f, ?w)" .
  from keepsD_eq [OF keeps_env_store_file _ this, of ex_env] have "w_env ?w = ex_env"
    by (simp add: on_env_def)
  from ex_get_verified [OF this ex_put_ticks] have verified: "fst (verify ex_s3_lib ex_state ex_get ?w) = Inr ()" .
  have "ex_hash ex_content = ''h140''" by code_simp
  moreover have "sm_compression (as_storage ex_state) = cf_compression (sm_config (as_storage ex_state))"
    by (simp add: ex_manager_def)
  moreover have "\<forall>f. fst (store_file (hl_storage ex_s3_lib) (as_storage ex_state) ''photos'' ''a.jpg'' (rq_body ?rq)
      (header_str (rq_headers ?rq) ''content-type'') default_options (tick ex_world)) = Inr f \<longrightarrow>
      json_reads_back (sl_json (hl_storage ex_s3_lib)) f"
    using ex_put_stored ex_json_reads_back by (simp add: ex_s3_fields(4) rq ex_lib_def)
  ultimately show ?thesis
    using put_object_is_got [OF _ _ _ _ _ _ _ rq(3,4) put _ verified] ex_env_quiet ex_gzip_law
      ex_zstd_law ex_aead_law
    by (simp add: ex_s3_fields rq ex_world_fields optional_header_def ex_lib_def)
qed

end
