(* ===== verification/Service_Properties.thy ===== *)
theory Service_Properties
  imports Example_Service
begin

text \<open>
  Listings, encryption keys, errors, configuration and the life of the process.
\<close>

section \<open>Listings\<close>

definition matching :: "string \<Rightarrow> string option \<Rightarrow> db \<Rightarrow> stored_file list" where
  "matching b prefix d = filter (\<lambda>f. sf_bucket f = b \<and>
     (case prefix of None \<Rightarrow> True | Some p \<Rightarrow> like (p @ ''%'') (sf_key f))) (db_files d)"

lemma sql_list_files_Inr:
  "sql_list_files b prefix lmt off d = Inr rows \<longleftrightarrow>
     0 \<le> lmt \<and> 0 \<le> off \<and> rows = take (nat lmt) (drop (nat off) (sort_key upload_order (matching b prefix d)))"
  by (auto simp: sql_list_files_def limit_offset_def matching_def)

lemma list_files_Inr:
  assumes "list_files b prefix (Some lmt) (Some off) w = (Inr infos, v)"
  shows "0 \<le> lmt" "0 \<le> off" "infos = map file_info_from (take (nat lmt) (drop (nat off)
    (sort_key upload_order (matching b prefix (w_db w)))))"
  using assms
  by (auto simp: list_files_def bind_op_def db_list_files_def read_query_err_def query_err_def Let_def
      ret_def sql_list_files_Inr split: option.splits sum.splits)

lemma concat_pages: "concat (map (\<lambda>i. take n (drop (i * n) xs)) [0..<m]) = take (m * n) xs"
  by (induction m) (simp_all add: take_add [symmetric] add.commute)

text \<open>C33 (functional): paging through a listing visits the objects of the bucket whose keys start with
  the prefix, each once, the latest first: the answers for the limit \<open>n\<close> at the offsets 0, n, 2n, ...,
  taken while the table stays as it is and until \<open>m * n\<close> is no less than the number of objects,
  are together exactly those objects, and every page but the last is full. A negative limit or
  offset is refused. (The prefix is one without the wildcards of \<open>LIKE\<close>; of objects uploaded at the
  same instant the model takes the order of the table, which PostgreSQL need not.)\<close>

theorem pages_are_the_listing:
  assumes "db_wf d" "list_all plain_pattern_char p"
    and "\<forall>i < m. w_db (ws i) = d \<and>
      fst (list_files b (Some p) (Some (int n)) (Some (int (i * n))) (ws i)) = Inr (pages i)"
    and "length (filter (\<lambda>f. sf_bucket f = b \<and> starts_with p (sf_key f)) (db_files d)) \<le> m * n"
  shows "concat (map pages [0..<m]) = map file_info_from (sort_key upload_order
      (filter (\<lambda>f. sf_bucket f = b \<and> starts_with p (sf_key f)) (db_files d))) \<and>
    distinct (map fi_key (concat (map pages [0..<m]))) \<and>
    (\<forall>i < m. length (pages i) =
      min n (length (filter (\<lambda>f. sf_bucket f = b \<and> starts_with p (sf_key f)) (db_files d)) - i * n)) \<and>
    (\<forall>lmt off w. lmt < 0 \<or> off < 0 \<longrightarrow> (\<exists>e. fst (list_files b (Some p) (Some lmt) (Some off) w) = Inl e))"
proof -
  let ?objects = "filter (\<lambda>f. sf_bucket f = b \<and> starts_with p (sf_key f)) (db_files d)"
  let ?xs = "sort_key upload_order ?objects"
  have matching: "matching b (Some p) d = ?objects" by (simp add: matching_def like_prefix [OF assms(2)])
  have page: "pages i = map file_info_from (take n (drop (i * n) ?xs))" if "i < m" for i
  proof -
    have "w_db (ws i) = d" "fst (list_files b (Some p) (Some (int n)) (Some (int (i * n))) (ws i)) = Inr (pages i)"
      using assms(3) that by blast+
    then show ?thesis
      using list_files_Inr(3) [of b "Some p" "int n" "int (i * n)" "ws i"] matching
      by (cases "list_files b (Some p) (Some (int n)) (Some (int (i * n))) (ws i)") (simp add: nat_mult_distrib)
  qed
  then have "concat (map pages [0..<m]) = concat (map (\<lambda>i. map file_info_from (take n (drop (i * n) ?xs))) [0..<m])"
    by (intro arg_cong [where f = concat] map_cong) simp_all
  also have "\<dots> = map file_info_from (take (m * n) ?xs)"
    unfolding concat_pages [symmetric] by (simp only: map_concat map_map comp_def)
  finally have all: "concat (map pages [0..<m]) = map file_info_from ?xs" using assms(4) by simp
  have "inj_on sf_key (set ?objects)"
    using assms(1) by (auto simp: db_wf_def distinct_map inj_on_def)
  moreover have "distinct ?objects" using assms(1) by (auto simp: db_wf_def distinct_map)
  ultimately have "distinct (map fi_key (map file_info_from ?xs))" by (simp add: distinct_map comp_def)
  moreover have "\<exists>e. fst (list_files b (Some p) (Some lmt) (Some off) w) = Inl e" if "lmt < 0 \<or> off < 0" for lmt off w
    using list_files_Inr(1,2) [of b "Some p" lmt off w] that
    by (cases "list_files b (Some p) (Some lmt) (Some off) w"; cases "fst (list_files b (Some p) (Some lmt) (Some off) w)") auto
  moreover have "length (pages i) = min n (length ?objects - i * n)" if "i < m" for i
    by (simp add: page [OF that] min.commute)
  ultimately show ?thesis unfolding all by blast
qed

lemma ex_listing:
  "fst (list_files ''photos'' (Some ''a'') (Some 1) (Some i) ex_stored) = Inr (if i = 0 then [file_info_from ex_stored_row] else [])"
  if "0 \<le> i"
proof -
  have "like (''a'' @ ''%'') ''a.jpg''" by code_simp
  then have "sql_list_files ''photos'' (Some ''a'') 1 i (w_db ex_stored) = Inr (if i = 0 then [ex_stored_row] else [])"
    using that by (simp add: sql_list_files_def limit_offset_def ex_stored_object)
  then show ?thesis
    using ex_env_quiet
    by (simp add: list_files_def bind_op_def db_list_files_def read_query_err_quiet ret_def)
qed

theorem pages_are_the_listing_witness:
  "fst (list_files ''photos'' (Some ''a'') (Some 1) (Some 0) ex_stored) = Inr [file_info_from ex_stored_row] \<and>
    fst (list_files ''photos'' (Some ''a'') (Some 1) (Some 1) ex_stored) = Inr [] \<and>
    concat [[file_info_from ex_stored_row], []] = map file_info_from (sort_key upload_order
      (filter (\<lambda>f. sf_bucket f = ''photos'' \<and> starts_with ''a'' (sf_key f)) (db_files (w_db ex_stored))))"
proof -
  have pages: "\<forall>i < 2. fst (list_files ''photos'' (Some ''a'') (Some 1) (Some (int i)) ex_stored) =
      Inr (if i = 0 then [file_info_from ex_stored_row] else [])"
    by (simp add: ex_listing)
  have "list_all plain_pattern_char ''a''" by code_simp
  moreover have "length (filter f (db_files (w_db ex_stored))) \<le> 2 * 1" for f by (simp add: ex_stored_def)
  ultimately have "concat (map (\<lambda>i. if i = 0 then [file_info_from ex_stored_row] else []) [0..<2]) =
      map file_info_from (sort_key upload_order
        (filter (\<lambda>f. sf_bucket f = ''photos'' \<and> starts_with ''a'' (sf_key f)) (db_files (w_db ex_stored))))"
    using pages_are_the_listing [of "w_db ex_stored" "''a''" 2 "\<lambda>_. ex_stored" "''photos''" 1
        "\<lambda>i. if i = 0 then [file_info_from ex_stored_row] else []"] pages ex_stored_wf by auto
  then show ?thesis using ex_listing [of 0] ex_listing [of 1] by (simp add: upt_conv_Cons)
qed

text \<open>An S3 listing has at most 1000 entries, counts them, and is marked truncated
  exactly when the bucket has more objects with the prefix than it shows.\<close>

theorem s3_listing_is_bounded:
  assumes "list_files b prefix (Some (clamp_keys m + 1)) (Some 0) w = (Inr fetched, w')"
  shows "lbr_key_count (list_bucket_result_of lib b prefix (clamp_keys m) fetched) \<le> 1000 \<and>
    length (lbr_contents (list_bucket_result_of lib b prefix (clamp_keys m) fetched)) =
      lbr_key_count (list_bucket_result_of lib b prefix (clamp_keys m) fetched) \<and>
    (lbr_is_truncated (list_bucket_result_of lib b prefix (clamp_keys m) fetched) \<longleftrightarrow>
      lbr_key_count (list_bucket_result_of lib b prefix (clamp_keys m) fetched) <
        length (matching b prefix (w_db w)))"
proof -
  let ?n = "clamp_keys m"
  have n: "1 \<le> ?n" "?n \<le> 1000" by (auto simp: clamp_keys_def)
  obtain rows where rows: "sql_list_files b prefix (?n + 1) 0 (w_db w) = Inr rows"
    and fetched: "fetched = map file_info_from rows"
    using assms
    by (auto simp: list_files_def bind_op_def db_list_files_def read_query_err_def query_err_def Let_def
        ret_def split: option.splits sum.splits)
  then have len: "length fetched = min (nat (?n + 1)) (length (matching b prefix (w_db w)))"
    by (simp add: sql_list_files_Inr)
  then show ?thesis
    using n by (auto simp: list_bucket_result_of_def Let_def)
qed

theorem s3_listing_witness:
  "lbr_key_count (list_bucket_result_of ex_hlib ''photos'' None 1 [file_info_from ex_stored_row]) \<le> 1000"
proof -
  have one: "clamp_keys (Some 0) = 1" by (simp add: clamp_keys_def)
  have "sql_list_files ''photos'' None 2 0 (w_db ex_stored) = Inr [ex_stored_row]"
    by (simp add: sql_list_files_def limit_offset_def ex_stored_object)
  then have "list_files ''photos'' None (Some 2) (Some 0) ex_stored =
      (Inr [file_info_from ex_stored_row], tick ex_stored)"
    using ex_env_quiet
    by (simp add: list_files_def bind_op_def db_list_files_def read_query_err_quiet ret_def)
  then have "list_files ''photos'' None (Some (clamp_keys (Some 0) + 1)) (Some 0) ex_stored =
      (Inr [file_info_from ex_stored_row], tick ex_stored)"
    by (simp add: one)
  from s3_listing_is_bounded [OF this, of ex_hlib] show ?thesis by (simp add: one)
qed

section \<open>Encryption keys\<close>

text \<open>C34 (functional): a key that was created is the one fetched under its id until it is
  deactivated; after that no fetch finds it, and the other keys are as before throughout.\<close>

theorem key_life_cycle:
  assumes "db_wf d" "sql_create_key now k kd a desc d = Inr (row, d')" "k' \<noteq> k"
  shows "sql_get_key k d' = Some row \<and> ek_key_data row = kd \<and> ek_algorithm row = a \<and>
    sql_get_key k (sql_deactivate_key now' k d') = None \<and>
    sql_get_key k' (sql_deactivate_key now' k d') = sql_get_key k' d"
  using sql_get_key_create [OF assms(1,2)] assms(3) sql_get_key_deactivated
    sql_get_key_deactivate_other [OF assms(3)] by metis

theorem key_life_cycle_witness:
  "\<exists>row d'. sql_create_key 5 ''k1'' [1] ''aes-gcm'' None (w_db ex_stored) = Inr (row, d') \<and>
    sql_get_key ''k1'' d' = Some row \<and> sql_get_key ''k1'' (sql_deactivate_key 6 ''k1'' d') = None"
proof -
  have "(case sql_create_key 5 ''k1'' [1] ''aes-gcm'' None (w_db ex_stored) of Inr _ \<Rightarrow> True | Inl _ \<Rightarrow> False)"
    by code_simp
  then obtain row d' where new: "sql_create_key 5 ''k1'' [1] ''aes-gcm'' None (w_db ex_stored) = Inr (row, d')"
    by (cases "sql_create_key 5 ''k1'' [1] ''aes-gcm'' None (w_db ex_stored)") auto
  from key_life_cycle [OF ex_stored_wf new, of "''k2''"] new show ?thesis by auto
qed

section \<open>Errors and configuration\<close>

text \<open>The message of an error answer is the error's text and its status says whose fault
  it was: 400, 403, 404, 409 or 413 for the request's, 500 for the server's.\<close>

theorem error_answers:
  "eb_error (snd (into_response now e)) = display_error e \<and>
   eb_status (snd (into_response now e)) = fst (into_response now e) \<and>
   fst (into_response now e) \<in> (if client_error e then {400, 403, 404, 409, 413} else {500})"
  using status_and_message_display [of e] status_class [of e]
  by (simp add: into_response_def case_prod_unfold Let_def)

text \<open>The two APIs answer a storage error with the same status, except for five
  kinds: a missing bucket (404 against 400) and the ones the S3 API reports as internal.\<close>

theorem s3_status_agrees:
  "s3_status (s3_from_storage_error e) = fst (status_and_message e) \<longleftrightarrow>
     (case e of InvalidBucket _ \<Rightarrow> False | InvalidFile _ \<Rightarrow> False | Json _ \<Rightarrow> False
      | Multipart _ \<Rightarrow> False | Forbidden _ \<Rightarrow> False | _ \<Rightarrow> True)"
  using same_status_iff [of e] by (simp add: same_status_in_both_apis_def)

text \<open>C37 (type): every configuration that loads has its numbers within the widths of their fields -
  the ports, the sizes of the pools, the limits, the compression level -, S3 credentials that are not
  empty, if there are any, a download token that is not empty, if there is one, and, if there is a list
  of protected buckets, at least one name in it, none of them empty or with a comma.\<close>

theorem loaded_configuration_is_sound:
  assumes "config_load vars = Inr c"
  shows "config_wf c"
  by (rule config_load_wf [OF assms])

theorem loaded_configuration_witness: "config_wf ex_config"
  by (rule loaded_configuration_is_sound [OF ex_config_loaded])

section \<open>The process\<close>

text \<open>C38 (bounds): at most 100 requests run behind the limiter at any time, and one is turned away
  with 429 only while exactly 100 run.\<close>

theorem limiter_bounds_the_requests:
  assumes "limiter_reach l"
  shows "card (lm_running l) \<le> 100 \<and>
    (\<forall>i l'. limiter_step l (Rejected i) l' \<longrightarrow> l' = l \<and> card (lm_running l) = 100)"
  using limiter_reach_inv [OF assms] limiter_reject_full [OF assms]
  by (auto simp: limiter_inv_def max_concurrent_requests_def)

theorem limiter_witness: "card (lm_running (limiter_new\<lparr>lm_permits := 99, lm_running := {7}\<rparr>)) \<le> 100"
proof -
  have "limiter_step limiter_new (Admitted 7) (limiter_new\<lparr>lm_permits := lm_permits limiter_new - 1,
      lm_running := insert 7 (lm_running limiter_new)\<rparr>)"
    by (rule limiter_step.admit) (simp_all add: limiter_new_def max_concurrent_requests_def)
  then have "limiter_reach (limiter_new\<lparr>lm_permits := 99, lm_running := {7}\<rparr>)"
    using limiter_reach.step [OF limiter_reach.start] by (simp add: limiter_new_def max_concurrent_requests_def)
  from limiter_bounds_the_requests [OF this] show ?thesis by blast
qed

text \<open>C40 (termination): the migration loop of the start-up ends after at most 31 runs: it succeeds
  with the first run that does, if that is among them, and otherwise gives up.\<close>

theorem migrations_end:
  "case migrate_loop outcome 0 of
     Inr n \<Rightarrow> n \<le> 30 \<and> outcome n = None \<and> \<not> (\<exists>i < n. outcome i = None)
   | Inl (n, e) \<Rightarrow> \<not> (\<exists>i \<le> 30. outcome i = None)"
proof (cases "migrate_loop outcome 0")
  case (Inl p)
  have "\<not> (outcome i = None \<and> i \<le> 30)" for i
    using migrate_loop_succeeds [of outcome i 0] Inl by (auto simp: max_attempts_def)
  then show ?thesis using Inl by (auto split: prod.split)
next
  case (Inr n)
  from migrate_loop_Inr [OF Inr] show ?thesis
    using Inr by (auto simp: max_attempts_def)
qed

end
