(* ===== verification/S3_Listing.thy ===== *)
theory S3_Listing
  imports S3_End_To_End Service_Properties
begin

text \<open>
  Listings over the S3 protocol, up to the document that the client reads.
\<close>

definition i64_sizes :: "db \<Rightarrow> bool" where
  "i64_sizes d \<longleftrightarrow> (\<forall>f \<in> set (db_files d). sf_file_size f < 2 ^ 63)"

lemma listed_entry:
  "ct_key (object_entry lib (file_info_from f)) = sf_key f"
  "ct_size (object_entry lib (file_info_from f)) = sf_file_size f"
  "ct_etag (object_entry lib (file_info_from f)) = etag (sf_hash_md5 f)"
  by (simp_all add: object_entry_def file_info_from_def)

lemma list_objects_rows:
  assumes "serve lib st (S3_list_objects_call b p m rq) w = (Replied r, w')"
  shows "r = xml_response lib (Objects_document (list_bucket_result_of lib b p (clamp_keys m)
    (map file_info_from (take (nat (clamp_keys m + 1)) (sort_key upload_order (matching b p (w_db w)))))))"
proof -
  have run: "list_objects_v2 lib st b p m rq w = (Inr r, w')"
    using serve_Replied [OF assms] by (auto simp: s3_answer_def split: prod.splits sum.splits)
  then obtain w1 where v: "verify lib st rq w = (Inr (), w1)"
    by (auto simp: list_objects_v2_def bind_op_result_Inr)
  then show ?thesis
    using run verify_tick [OF v]
    by (auto simp: list_objects_v2_def Let_def bind_op_def map_err_op_def map_err_def list_files_def
        db_list_files_def read_query_err_def query_err_def sql_list_files_Inr ret_def
        split: option.splits sum.splits prod.splits)
qed

text \<open>C32 (roundtrip): what a client learns from a listing. The document that a list request is answered
  with reads back, by the names that the protocol gives its elements, as the listing of the
  bucket: the keys that match the prefix, the latest first and at most as many as were asked for
  (1 to 1000), each with the size and the entity tag of its row, the number of them, and that the
  listing is truncated exactly when there are more.\<close>

theorem listing_is_read_back:
  assumes "serve lib st (S3_list_objects_call b p m rq) w = (Replied r, w')"
    and "db_wf (w_db w)" "i64_sizes (w_db w)"
  shows "\<exists>listing. rs_body r = Xml_body (to_xml (hl_xml_text lib) (objects_tree listing)) \<and>
    read_listing (objects_tree listing) = Some listing \<and>
    map (\<lambda>c. (ct_key c, ct_size c, ct_etag c)) (lbr_contents listing) =
      map (\<lambda>f. (sf_key f, sf_file_size f, etag (sf_hash_md5 f)))
        (take (nat (clamp_keys m)) (sort_key upload_order (matching b p (w_db w)))) \<and>
    lbr_key_count listing = min (nat (clamp_keys m)) (length (matching b p (w_db w))) \<and>
    (lbr_is_truncated listing \<longleftrightarrow> nat (clamp_keys m) < length (matching b p (w_db w)))"
proof -
  let ?n = "clamp_keys m" and ?fs = "sort_key upload_order (matching b p (w_db w))"
  let ?L = "list_bucket_result_of lib b p ?n (map file_info_from (take (nat (?n + 1)) ?fs))"
  have n: "1 \<le> ?n" "?n \<le> 1000" by (auto simp: clamp_keys_def)
  then have two: "take (nat ?n) (map file_info_from (take (nat (?n + 1)) ?fs)) = map file_info_from (take (nat ?n) ?fs)"
    by (simp add: take_map min_def)
  have contents: "lbr_contents ?L = map (\<lambda>f. object_entry lib (file_info_from f)) (take (nat ?n) ?fs)"
    and count: "lbr_key_count ?L = min (nat ?n) (length (matching b p (w_db w)))"
    and trunc: "lbr_is_truncated ?L \<longleftrightarrow> nat ?n < length (matching b p (w_db w))"
    and max: "lbr_max_keys ?L = ?n"
    using n two by (auto simp: list_bucket_result_of_def Let_def min_def)
  have "sf_file_size f < 2 ^ 63 \<and> 0 \<le> sf_file_size f" if "f \<in> set (take (nat ?n) ?fs)" for f
  proof -
    have "f \<in> set (db_files (w_db w))" using in_set_takeD [OF that] by (simp add: matching_def)
    then show ?thesis using assms(2,3) db_wf_rows [of "w_db w" f] by (simp add: i64_sizes_def row_ok_def row_checks_def)
  qed
  then have "read_listing (objects_tree ?L) = Some ?L"
    using n by (intro read_listing_tree) (fastforce simp: contents max listed_entry)+
  moreover have "rs_body r = Xml_body (to_xml (hl_xml_text lib) (objects_tree ?L))"
    by (simp add: list_objects_rows [OF assms(1)] xml_response_def respond_def)
  moreover have "map (\<lambda>c. (ct_key c, ct_size c, ct_etag c)) (lbr_contents ?L) =
      map (\<lambda>f. (sf_key f, sf_file_size f, etag (sf_hash_md5 f))) (take (nat ?n) ?fs)"
    by (simp add: contents listed_entry comp_def)
  ultimately show ?thesis using count trunc by blast
qed

definition ex_list :: s3_request where
  "ex_list = ex_signed ''GET'' ''/v2/photos'' [] []"

lemma ex_list_answered:
  "case fst (serve ex_hlib ex_state (S3_list_objects_call ''photos'' (Some ''a'') (Some 10) ex_list) ex_stored) of
    Replied r \<Rightarrow> rs_status r = 200 | _ \<Rightarrow> False"
  by code_simp

theorem listing_is_read_back_witness:
  "\<exists>listing. read_listing (objects_tree listing) = Some listing \<and>
    map (\<lambda>c. (ct_key c, ct_size c)) (lbr_contents listing) = [(''a.jpg'', 30)] \<and> \<not> lbr_is_truncated listing"
proof -
  obtain r w' where "serve ex_hlib ex_state (S3_list_objects_call ''photos'' (Some ''a'') (Some 10) ex_list) ex_stored =
      (Replied r, w')"
    using ex_list_answered
    by (cases "serve ex_hlib ex_state (S3_list_objects_call ''photos'' (Some ''a'') (Some 10) ex_list) ex_stored")
      (auto split: answer.splits)
  moreover have matching: "matching ''photos'' (Some ''a'') (w_db ex_stored) = [ex_stored_row]"
  proof -
    have "like (''a'' @ ''%'') ''a.jpg''" by code_simp
    then show ?thesis by (simp add: matching_def ex_stored_object)
  qed
  moreover have size: "sf_file_size ex_stored_row = 30" by code_simp
  moreover have "sf_key ex_stored_row = ''a.jpg''" by code_simp
  moreover have "i64_sizes (w_db ex_stored)" using size by (simp add: i64_sizes_def ex_stored_def)
  moreover have "clamp_keys (Some 10) = 10" by (simp add: clamp_keys_def)
  ultimately show ?thesis
    using listing_is_read_back [of ex_hlib ex_state "''photos''" "Some ''a''" "Some 10" ex_list ex_stored r w'] ex_stored_wf
    by (fastforce simp: map_eq_Cons_conv)
qed

end
