(* ===== verification/Start_Up.thy ===== *)
theory Start_Up
  imports Held_Objects Example_Service
begin

text \<open>
  \<^verbatim>\<open>main\<close> of \<^verbatim>\<open>src/local-storage/src/main.rs\<close>: the configuration, the lazy pool, the background
  tasks, the storage manager, the state of the handlers and the listener. Whether the database
  URL parses and whether the port can be bound are parameters. What a service that has started
  owes to its configuration, and what a restart keeps.
\<close>

section \<open>The start\<close>

datatype start_error =
    Config_error config_error
  | Database_url_error string
  | Manager_error storage_error
  | Listener_error string

datatype background_task = Background_db_init config | Ttl_sweep storage_manager

definition service_main ::
  "storage_lib \<Rightarrow> (string \<Rightarrow> string option) \<Rightarrow> (nat \<Rightarrow> string option) \<Rightarrow> env_vars \<Rightarrow>
     (start_error, app_state \<times> background_task list) op" where
  "service_main lib url_error bind_error vars =
     bind_op (lift_result (map_err Config_error (config_load vars))) (\<lambda>cfg.
     case url_error (dbc_url (cf_database cfg)) of
       Some e \<Rightarrow> throw (Database_url_error e)
     | None \<Rightarrow>
         bind_op (map_err_op Manager_error (storage_new lib cfg)) (\<lambda>sm.
         let state = app_state_new cfg sm in
         case bind_error (svc_port (cf_server cfg)) of
           Some e \<Rightarrow> throw (Listener_error e)
         | None \<Rightarrow> ret (state, [Background_db_init cfg, Ttl_sweep sm])))"

lemma service_main_Inr:
  assumes "service_main lib url_error bind_error vars w = (Inr (st, tasks), w')"
  obtains cfg where "config_load vars = Inr cfg" "storage_new lib cfg w = (Inr (as_storage st), w')"
    "st = app_state_new cfg (as_storage st)"
  using assms
  by (auto simp: service_main_def bind_op_result_Inr map_err_Inr Let_def app_state_new_def throw_def split: option.splits)

lemma storage_new_Inr:
  assumes "storage_new lib cfg w = (Inr sm, w')"
  obtains random w1 where "create_dir_all (stc_path (cf_storage cfg)) w = (Inr (), w1)" "w' = tick w1"
    "crypto_new (sl_aead lib) random (cf_crypto cfg) = Inr (sm_crypto sm)"
    "sm_config sm = cfg" "sm_base_path sm = stc_path (cf_storage cfg)"
    "sm_cache sm = cache_new (sl_redis_open lib) cfg" "sm_compression sm = cf_compression cfg"
  using assms
  by (auto simp: storage_new_def bind_op_result_Inr random_bytes_def external_apply)

section \<open>What the start needs and leaves\<close>

definition with_database :: "(nat \<Rightarrow> string option) \<Rightarrow> db \<Rightarrow> world \<Rightarrow> world" where
  "with_database faults d w = w\<lparr>w_env := (w_env w)\<lparr>env_db_fault := faults\<rparr>, w_db := d\<rparr>"

text \<open>C36 (safety): the start neither asks nor changes the database: it comes to the same result,
  files and cache whatever the tables hold and whether the server is up, as the comments on the lazy pool
  promise.\<close>

theorem start_needs_no_database:
  "let (r, w1) = service_main lib url_error bind_error vars w;
       (r', w2) = service_main lib url_error bind_error vars (with_database faults d w)
   in r' = r \<and> w2 = with_database faults d w1 \<and> w_db w1 = w_db w"
proof -
  have dir: "create_dir_all p (with_database faults d w) =
      (fst (create_dir_all p w), with_database faults d (snd (create_dir_all p w)))"
    "w_db (snd (create_dir_all p w)) = w_db w" for p
    by (auto simp: create_dir_all_def io_call_def with_database_def Let_def split: option.split sum.split prod.split)
  have new: "storage_new lib cfg (with_database faults d w) =
      (fst (storage_new lib cfg w), with_database faults d (snd (storage_new lib cfg w)))"
    "w_db (snd (storage_new lib cfg w)) = w_db w" for cfg
    using dir [of "stc_path (cf_storage cfg)"]
    by (cases "create_dir_all (stc_path (cf_storage cfg)) w"; cases "fst (create_dir_all (stc_path (cf_storage cfg)) w)";
        auto simp: storage_new_def bind_op_def map_err_op_def map_err_def random_bytes_def external_def
          with_database_def split: sum.split)+
  show ?thesis
  proof (cases "config_load vars")
    case (Inl e)
    then show ?thesis by (simp add: service_main_def bind_op_def map_err_def)
  next
    case (Inr cfg)
    show ?thesis
      using new [of cfg]
      by (cases "storage_new lib cfg w"; cases "fst (storage_new lib cfg w)")
        (auto simp: service_main_def Inr bind_op_def map_err_def map_err_op_def Let_def throw_def ret_def
          split: option.split)
  qed
qed

text \<open>C35 (functional): a service that starts does what its configuration says. The manager has the
  configured compression, base path and cache: Redis if that is configured and its URL is accepted, and
  otherwise the memory cache with the configured capacity and lifetime. The limits and the protection of
  the handlers are those of the environment variables, and the storage directory exists. With encryption
  on, there is a key of 32 bytes for the configured algorithm and none for the other one, which is the
  configured key if there is one; with encryption off there is no key.\<close>

theorem started_service_is_configured:
  assumes "service_main lib url_error bind_error vars w = (Inr (st, tasks), w')"
  shows "\<exists>cfg. config_load vars = Inr cfg \<and> config_wf cfg \<and>
    sm_config (as_storage st) = cfg \<and> sm_compression (as_storage st) = cf_compression cfg \<and>
    sm_base_path (as_storage st) = stc_path (cf_storage cfg) \<and>
    ca_backend (sm_cache (as_storage st)) =
      (if cs_backend (cf_cache cfg) = RedisKind \<and> sl_redis_open lib (redis_url cfg) then Redis_Client (redis_url cfg)
       else Memory \<lparr>mc_max_capacity = of_nat (cs_max_size_mb (cf_cache cfg)) * 1024 * 1024,
              mc_time_to_live = cs_ttl_seconds (cf_cache cfg)\<rparr>) \<and>
    as_s3_config st = s3_config_of vars \<and>
    as_download_protection_token st = download_protection_token_of vars \<and>
    as_protected_read_buckets st = protected_read_buckets_of vars \<and>
    is_dir (w_fs w') (resolve (fs_cwd (w_fs w')) (stc_path (cf_storage cfg))) \<and>
    (let aes = cm_aes_key (sm_crypto (as_storage st)); chacha = cm_chacha_key (sm_crypto (as_storage st)) in
     if cry_enabled (cf_crypto cfg) then
       (\<exists>key. length key = 32 \<and>
          (cry_algorithm (cf_crypto cfg) = ''aes-gcm'' \<and> aes = Some key \<and> chacha = None \<or>
           cry_algorithm (cf_crypto cfg) = ''chacha20poly1305'' \<and> aes = None \<and> chacha = Some key) \<and>
          (\<forall>s. cry_key (cf_crypto cfg) = Some s \<longrightarrow>
             (if length s = 64 then hex_decode (sl_aead lib) s = Inr key else key = as_bytes s)))
     else aes = None \<and> chacha = None)"
proof -
  from assms obtain cfg where cfg: "config_load vars = Inr cfg" and new: "storage_new lib cfg w = (Inr (as_storage st), w')"
    and st: "st = app_state_new cfg (as_storage st)" by (rule service_main_Inr)
  from new obtain random w1 where dir: "create_dir_all (stc_path (cf_storage cfg)) w = (Inr (), w1)" "w' = tick w1"
    and key: "crypto_new (sl_aead lib) random (cf_crypto cfg) = Inr (sm_crypto (as_storage st))"
    and sm: "sm_config (as_storage st) = cfg" "sm_base_path (as_storage st) = stc_path (cf_storage cfg)"
      "sm_compression (as_storage st) = cf_compression cfg"
    and cache: "sm_cache (as_storage st) = cache_new (sl_redis_open lib) cfg" by (rule storage_new_Inr)
  have "is_dir (w_fs w1) (resolve (fs_cwd (w_fs w1)) (stc_path (cf_storage cfg)))"
    using dir(1)
    by (auto simp: create_dir_all_def io_call_def Let_def map_sum_def fs_create_dir_all_def is_dir_def starts_with_iff
        dest!: at_path_Inr split: option.splits sum.splits if_splits)
  moreover have "as_s3_config st = s3_config_of vars" "as_download_protection_token st = download_protection_token_of vars"
    "as_protected_read_buckets st = protected_read_buckets_of vars"
    using config_load_components(13-15) [OF cfg] by (subst st, simp add: app_state_new_def)+
  moreover have "ca_backend (sm_cache (as_storage st)) =
      (if cs_backend (cf_cache cfg) = RedisKind \<and> sl_redis_open lib (redis_url cfg) then Redis_Client (redis_url cfg)
       else Memory \<lparr>mc_max_capacity = of_nat (cs_max_size_mb (cf_cache cfg)) * 1024 * 1024,
              mc_time_to_live = cs_ttl_seconds (cf_cache cfg)\<rparr>)"
    by (cases "cs_backend (cf_cache cfg)") (simp_all add: cache cache_new_def build_memory_cache_def)
  moreover have "let aes = cm_aes_key (sm_crypto (as_storage st)); chacha = cm_chacha_key (sm_crypto (as_storage st)) in
     if cry_enabled (cf_crypto cfg) then
       (\<exists>key. length key = 32 \<and>
          (cry_algorithm (cf_crypto cfg) = ''aes-gcm'' \<and> aes = Some key \<and> chacha = None \<or>
           cry_algorithm (cf_crypto cfg) = ''chacha20poly1305'' \<and> aes = None \<and> chacha = Some key) \<and>
          (\<forall>s. cry_key (cf_crypto cfg) = Some s \<longrightarrow>
             (if length s = 64 then hex_decode (sl_aead lib) s = Inr key else key = as_bytes s)))
     else aes = None \<and> chacha = None"
    using crypto_new_keys [OF key] by (simp add: Let_def)
  ultimately show ?thesis
    using cfg config_load_wf [OF cfg] sm dir(2) by auto
qed


definition ex_main :: "stored_file \<Rightarrow> world \<Rightarrow> (start_error + app_state \<times> background_task list) \<times> world" where
  "ex_main f = service_main (ex_lib (ex_json f)) (\<lambda>_. None) (\<lambda>_. None) ex_vars"

definition is_started :: "start_error + app_state \<times> background_task list \<Rightarrow> bool" where
  "is_started r = (case r of Inl _ \<Rightarrow> False | Inr (st, tasks) \<Rightarrow>
     as_storage st = ex_manager \<and> tasks = [Background_db_init ex_config, Ttl_sweep ex_manager])"

lemma ex_first_start: "is_started (fst (ex_main ex_row ex_world))"
  by code_simp

lemma is_startedE:
  assumes "is_started (fst (service_main lib ue be vars w))"
  obtains st tasks where "service_main lib ue be vars w = (Inr (st, tasks), snd (service_main lib ue be vars w))"
    "as_storage st = ex_manager"
  using assms
  by (cases "service_main lib ue be vars w"; cases "fst (service_main lib ue be vars w)")
    (auto simp: is_started_def split: prod.splits)

theorem started_service_witness:
  "config_wf ex_config \<and> is_dir (w_fs (snd (ex_main ex_row ex_world)))
    (resolve (fs_cwd (w_fs (snd (ex_main ex_row ex_world)))) ''/data'')"
proof -
  from ex_first_start obtain st tasks where
    "ex_main ex_row ex_world = (Inr (st, tasks), snd (ex_main ex_row ex_world))"
    unfolding ex_main_def by (rule is_startedE)
  moreover have "stc_path (cf_storage ex_config) = ''/data''" by (simp add: ex_config_def)
  ultimately show ?thesis
    using started_service_is_configured [of "ex_lib (ex_json ex_row)" "\<lambda>_. None" "\<lambda>_. None" ex_vars ex_world]
    unfolding ex_main_def by (metis ex_config_loaded sum.inject(2))
qed

section \<open>Restarts\<close>

text \<open>The process ends: what it had in memory is gone, the tables and the disk stay.\<close>

definition process_ends :: "world \<Rightarrow> world" where
  "process_ends w = w\<lparr>w_cache := Map.empty\<rparr>"

lemma same_manager:
  assumes "storage_new lib cfg w = (Inr sm, w')" "storage_new lib cfg v = (Inr sm', v')"
    and "cry_enabled (cf_crypto cfg) \<Longrightarrow> cry_key (cf_crypto cfg) \<noteq> None"
  shows "sm' = sm"
proof -
  have crypto: "crypto_new a r (cf_crypto cfg) = crypto_new a r' (cf_crypto cfg)" for a r r'
    using assms(3) by (auto simp: crypto_new_def init_cipher_def cipher_key_bytes_def Let_def split: option.split)
  from assms(1) obtain r where "crypto_new (sl_aead lib) r (cf_crypto cfg) = Inr (sm_crypto sm)"
    "sm_config sm = cfg" "sm_base_path sm = stc_path (cf_storage cfg)"
    "sm_cache sm = cache_new (sl_redis_open lib) cfg" "sm_compression sm = cf_compression cfg"
    by (rule storage_new_Inr)
  moreover from assms(2) obtain r' where "crypto_new (sl_aead lib) r' (cf_crypto cfg) = Inr (sm_crypto sm')"
    "sm_config sm' = cfg" "sm_base_path sm' = stc_path (cf_storage cfg)"
    "sm_cache sm' = cache_new (sl_redis_open lib) cfg" "sm_compression sm' = cf_compression cfg"
    by (rule storage_new_Inr)
  ultimately show ?thesis using crypto [of "sl_aead lib" r r'] by simp
qed

lemma storage_new_state:
  assumes "storage_new lib cfg w = (Inr sm, w')" "content_at (w_fs w) p = Some c"
  shows "w_env w' = w_env w \<and> w_db w' = w_db w \<and> w_cache w' = w_cache w \<and> content_at (w_fs w') p = Some c"
proof -
  from assms(1) obtain w1 where dir: "create_dir_all (stc_path (cf_storage cfg)) w = (Inr (), w1)" "w' = tick w1"
    by (rule storage_new_Inr)
  then have rest: "w_env w1 = w_env w" "w_db w1 = w_db w" "w_cache w1 = w_cache w"
    and made: "fs_create_dir_all (w_fs w) (resolve (fs_cwd (w_fs w)) (stc_path (cf_storage cfg))) = Inr (w_fs w1)"
    by (auto simp: create_dir_all_def io_call_def Let_def map_sum_def dest!: at_path_Inr split: option.splits sum.splits)
  have "fs_nodes (w_fs w) (final_place (w_fs w) p) = Some (File c)" "final_place (w_fs w) p \<noteq> []" "usable_path p"
    using assms(2) by (auto simp: content_at_eq split: if_splits option.splits node.splits)
  with fs_create_dir_all_file [OF made this(1,2)] have "content_at (w_fs w1) p = Some c"
    by (simp add: content_at_eq final_place_def)
  with dir(2) rest show ?thesis by simp
qed

text \<open>C4 (roundtrip): an upload survives a restart: with the same environment variables a service that
  starts again on the tables and the disk of the one before, its memory lost, reads the content of the
  last upload from the disk and decodes it, compressed and encrypted as it was. The upload is one
  without an expiry and, with deduplication on, of content that is not stored yet; nothing fails; it
  asks for compression only if the service has it enabled; with encryption on the key has to be a
  configured one (without it each start makes a new one, and the code warns of it); the codecs,
  the cipher and JSON keep their laws. (\<open>objects_survive_a_crash\<close> is about what was stored longer ago,
  and about a process that ends in the middle of its requests.)\<close>

theorem uploads_survive_a_restart:
  assumes first: "service_main lib url_error bind_error vars w0 = (Inr (st, tasks), w0')"
    and key: "\<forall>cfg. config_load vars = Inr cfg \<longrightarrow> cry_enabled (cf_crypto cfg) \<longrightarrow> cry_key (cf_crypto cfg) \<noteq> None"
    and quiet: "quiet (w_env w)"
    and laws: "json_reads_back (sl_json lib) f" "gzip_law (sl_codec lib)" "zstd_law (sl_codec lib)"
      "aead_law (sl_aead lib)"
    and codec: "wants_compression (as_storage st) opts \<longrightarrow> cmp_enabled (sm_compression (as_storage st))"
    and new: "stc_enable_deduplication (cf_storage (sm_config (as_storage st))) \<longrightarrow>
      (\<forall>g \<in> set (db_files (w_db w)). sf_hash_blake3 g \<noteq> sl_blake3 lib content)"
    and store: "store_file lib (as_storage st) b k content ct opts w = (Inr f, w1)" "so_expires_at opts = None"
    and again: "service_main lib url_error' bind_error' vars (process_ends w1) = (Inr (st', tasks'), w2)"
  shows "fst (get_file lib (as_storage st') b k w2) = Inr (content, Some (unwrap_or ct ''application/octet-stream''))"
proof -
  from first obtain cfg where cfg: "config_load vars = Inr cfg" "storage_new lib cfg w0 = (Inr (as_storage st), w0')"
    by (rule service_main_Inr)
  from again obtain cfg' where cfg': "config_load vars = Inr cfg'"
    "storage_new lib cfg' (process_ends w1) = (Inr (as_storage st'), w2)" by (rule service_main_Inr)
  have again': "storage_new lib cfg (process_ends w1) = (Inr (as_storage st'), w2)" using cfg cfg' by simp
  have same: "as_storage st' = as_storage st" using same_manager [OF cfg(2) again'] key cfg(1) by blast
  obtain v1 where v1: "quiet (w_env v1)" "w_env v1 = w_env w"
    "store_new lib (as_storage st) b k content ct opts (sl_blake3 lib content, sl_md5 lib content) v1 = (Inr f, w1)"
    using store_file_new [OF quiet _ store(1)] new by blast
  have compress: "wants_compression (as_storage st) opts \<Longrightarrow> cmp_enabled (sm_compression (as_storage st))"
    using codec by simp
  obtain raw where enc: "encoded_as lib (as_storage st) (w_db w1) f raw content"
    and disk: "content_at (w_fs w1) (sf_file_path f) = Some raw"
    and db: "sql_save_file f (w_db v1) = Inr (w_db w1)" and env: "w_env w1 = w_env v1"
    and row: "object_of f = (b, k)" "sf_content_type f = unwrap_or ct ''application/octet-stream''"
      "sf_expires_at f = so_expires_at opts"
    by (rule store_new_encoded [OF v1(1) laws compress v1(3)])
  obtain g where g: "sql_get_file b k (w_db w1) = Some g" "same_encoding g f" "sf_file_path g = sf_file_path f"
    "sf_expires_at g = None" "sf_content_type g = sf_content_type f"
    by (rule sql_get_saved [OF db row(1)]) (simp add: row(3) store(2))
  have "content_at (w_fs (process_ends w1)) (sf_file_path f) = Some raw" using disk by (simp add: process_ends_def)
  note w2 = storage_new_state [OF again' this]
  have read: "quiet (w_env w2)" "w_cache w2 (metadata_key b k) = None" "sql_get_file b k (w_db w2) = Some g"
    "unexpired (w_env w2) g" "raw_content w2 b k g = Some raw" "encoded_as lib (as_storage st) (w_db w2) g raw content"
    using w2 v1(1) env g encoded_as_same [OF g(2) enc]
    by (simp_all add: process_ends_def unexpired_def raw_content_def)
  show ?thesis using get_file_from_db [OF read] g(5) row(2) same by auto
qed


lemma ex_second_start: "is_started (fst (ex_main ex_row (process_ends (snd (ex_store ex_row)))))"
  by code_simp

theorem uploads_survive_a_restart_witness:
  "case ex_main ex_row (process_ends (snd (ex_store ex_row))) of
     (Inr (st, _), w) \<Rightarrow> fst (get_file (ex_lib (ex_json ex_row)) (as_storage st) ''photos'' ''a.jpg'' w) =
       Inr (ex_content, Some ''image/jpeg'')
   | _ \<Rightarrow> False"
proof -
  from ex_first_start obtain st tasks where
    first: "ex_main ex_row ex_world = (Inr (st, tasks), snd (ex_main ex_row ex_world))" and st: "as_storage st = ex_manager"
    unfolding ex_main_def by (rule is_startedE)
  from ex_second_start obtain st' tasks' where
    again: "ex_main ex_row (process_ends (snd (ex_store ex_row))) =
      (Inr (st', tasks'), snd (ex_main ex_row (process_ends (snd (ex_store ex_row)))))"
    unfolding ex_main_def by (rule is_startedE)
  have store: "store_file (ex_lib (ex_json ex_row)) (as_storage st) ''photos'' ''a.jpg'' ex_content
      (Some ''image/jpeg'') default_options ex_world = (Inr ex_row, snd (ex_store ex_row))"
    using ex_store_row st by (cases "ex_store ex_row") (simp add: ex_store_def)
  have "cmp_enabled (sm_compression ex_manager)" "cry_key (cf_crypto ex_config) \<noteq> None" by code_simp+
  then have "fst (get_file (ex_lib (ex_json ex_row)) (as_storage st') ''photos'' ''a.jpg''
      (snd (ex_main ex_row (process_ends (snd (ex_store ex_row)))))) =
    Inr (ex_content, Some (unwrap_or (Some ''image/jpeg'') ''application/octet-stream''))"
    using st ex_config_loaded ex_dedup_fresh ex_env_quiet ex_json_reads_back ex_gzip_law ex_zstd_law ex_aead_law
    unfolding ex_main_def
    by (intro uploads_survive_a_restart [OF first [unfolded ex_main_def] _ _ _ _ _ _ _ _ store _ again [unfolded ex_main_def]])
      (simp_all add: ex_lib_def default_options_def)
  then show ?thesis by (subst again) simp
qed

section \<open>Encryption that is asked for and off\<close>

text \<open>With encryption off in the configuration, an upload that asks for it is stored as it is, in
  the clear, and its row says that it is encrypted.\<close>

theorem requested_encryption_stores_the_plaintext:
  assumes "storage_new lib cfg w0 = (Inr sm, w0')" "\<not> cry_enabled (cf_crypto cfg)"
    and "so_encrypt opts = Some True" "so_encryption_key_id opts = None"
    and "algorithm_from_str (cry_algorithm (cf_crypto cfg)) = Inr a"
  shows "encrypt_content lib sm opts content w = (Inr (content, True), tick w)"
proof -
  from assms(1) obtain r where "crypto_new (sl_aead lib) r (cf_crypto cfg) = Inr (sm_crypto sm)" "sm_config sm = cfg"
    by (rule storage_new_Inr)
  moreover from this(1) [symmetric] have "cm_config (sm_crypto sm) = cf_crypto cfg"
    using assms(2) by (simp add: crypto_new_def Let_def)
  ultimately show ?thesis
    using assms(2-5) by (simp add: encrypt_content_def wants_encryption_def bind_op_def random_bytes_def external_apply encrypt_def)
qed

end
