(* ===== verification/Held_Requests.thy ===== *)
theory Held_Requests
  imports Held_Objects
begin

text \<open>
  Every step of a request about other objects keeps an object, and every step of a read of the
  object does too and brings the read nearer to the object's content.
\<close>

section \<open>What is asked of the object and of the requests\<close>

text \<open>The bucket name is unambiguous in the cache, the object does not expire, no failure of the
  disk reads like a missing file, rows are read back from their JSON, and the bytes decode.\<close>

definition held_ok :: "storage_lib \<Rightarrow> storage_manager \<Rightarrow> held \<Rightarrow> bytes \<Rightarrow> bool" where
  "held_ok lib sm h content \<longleftrightarrow>
     no_colon (hd_bucket h) \<and> sf_expires_at (hd_row h) = None \<and>
     (\<forall>n e. env_io_fault (hd_env h) n = Some e \<longrightarrow> \<not> looks_missing (display_io_error e)) \<and>
     (\<forall>f v. json_to_vec (sl_json lib) f = Inr v \<longrightarrow> json_from_slice (sl_json lib) v = Inr f) \<and>
     (\<forall>d. db_keys d = hd_keys h \<longrightarrow> encoded_as lib sm d (hd_row h) (hd_raw h) content)"

text \<open>Uploads and deletions name other objects; an upload's file and its temporary file are not the
  object's file; a deleted bucket's directory is not above it, and no count of references fails
  (a failed one is taken for 0). Reads may be of any object.\<close>

fun leaves_alone :: "storage_manager \<Rightarrow> held \<Rightarrow> storage_request \<Rightarrow> bool" where
  "leaves_alone sm h (Store b k c ct opts) \<longleftrightarrow>
     (b, k) \<noteq> object_of (hd_row h) \<and> no_colon b \<and>
     resolve (hd_cwd h) (get_file_path sm b k) \<noteq> hd_place h \<and>
     resolve (hd_cwd h) (with_extension (get_file_path sm b k) ''tmp'') \<noteq> hd_place h"
| "leaves_alone sm h (Remove b k) \<longleftrightarrow> (b, k) \<noteq> object_of (hd_row h)"
| "leaves_alone sm h (Drop_bucket b) \<longleftrightarrow>
     b \<noteq> hd_bucket h \<and> (\<forall>n. env_db_fault (hd_env h) n = None) \<and>
     \<not> starts_with (resolve (hd_cwd h) (path_join (sm_base_path sm) b)) (hd_place h)"
| "leaves_alone sm h (Fetch b k) \<longleftrightarrow> no_colon b"
| "leaves_alone sm h (Fetch_range b k s e) \<longleftrightarrow> no_colon b"
| "leaves_alone sm h (Fetch_compressed_range b k s e) \<longleftrightarrow> no_colon b"
| "leaves_alone sm h _ \<longleftrightarrow> True"

section \<open>The cache\<close>

named_theorems holds_intros

lemma holds_simple_calls [holds_intros]:
  "keeps (holds json h) (external f)" "keeps (holds json h) (random_bytes n)"
  "keeps (holds json h) (read_query g)" "keeps (holds json h) (backend_get m n')"
  "keeps (holds json h) (backend_del m ns)"
  "keeps (holds json h) (get_file_content m b k)" "keeps (holds json h) (invalidate_file m b k)"
  unfolding random_bytes_def backend_get_def backend_del_def get_file_content_def invalidate_file_def
  by (rule keeps_holds_external keeps_holds_read keeps_holds_backend; auto simp: entries_held_def)+

lemma holds_derived_calls [holds_intros]:
  "keeps (holds json h) (get_key i)" "keeps (holds json h) (db_get_file b k)"
  "keeps (holds json h) (db_get_file_by_hash x)" "keeps (holds json h) db_list_expired_files"
  "keeps (holds json h) (db_update_access u)"
  unfolding get_key_def db_get_file_def db_get_file_by_hash_def db_list_expired_files_def db_update_access_def
  by (intro keeps_bind_op holds_intros keeps_lift_result keeps_holds_update row_held_update_access; assumption)+

lemma holds_disk_calls [holds_intros]:
  "keeps (holds json h) (create_dir_all p)" "keeps (holds json h) (create_parent_dir p)"
  "keeps (holds json h) (read_file p)" "keeps (holds json h) (open_file p)"
  "keeps (holds json h) (seek_start n)" "keeps (holds json h) (read_exact q m l)"
  by (rule keeps_holds_dirs keeps_holds_reads)+

lemma holds_set_metadata:
  assumes "no_colon (hd_bucket h)" "no_colon b" "(b, k) \<noteq> object_of (hd_row h)"
  shows "keeps (holds json h) (set_file_metadata json' m b k f)"
  unfolding set_file_metadata_def backend_set_def
  by (intro keeps_bind_op keeps_lift_result keeps_holds_backend)
    (use assms in \<open>auto simp: entries_held_def metadata_key_inj\<close>)

lemma holds_set_content:
  assumes "no_colon (hd_bucket h)" "no_colon b" "(b, k) \<noteq> object_of (hd_row h)"
  shows "keeps (holds json h) (set_file_content m b k c)"
  unfolding set_file_content_def backend_set_def
  by (intro keeps_if keeps_ret keeps_holds_backend)
    (use assms in \<open>auto simp: entries_held_def content_key_inj\<close>)

lemma holds_set_own_metadata:
  assumes "\<forall>f v. json_to_vec json f = Inr v \<longrightarrow> json_from_slice json v = Inr f" "reads_alike f (hd_row h)"
  shows "keeps (holds json h) (set_file_metadata json m (hd_bucket h) (hd_key h) f)"
proof (cases "json_to_vec json f")
  case (Inl e)
  then show ?thesis by (simp add: keeps_def set_file_metadata_def bind_op_def map_err_def)
next
  case (Inr v)
  then have "keeps (holds json h) (backend_set m (metadata_key (hd_bucket h) (hd_key h)) v)"
    unfolding backend_set_def using assms
    by (intro keeps_holds_backend) (auto simp: entries_held_def)
  then show ?thesis using Inr by (simp add: keeps_def set_file_metadata_def bind_op_def map_err_def)
qed

lemma holds_set_own_content:
  "keeps (holds json h) (set_file_content m (hd_bucket h) (hd_key h) (hd_raw h))"
  unfolding set_file_content_def backend_set_def
  by (intro keeps_if keeps_ret keeps_holds_backend) (auto simp: entries_held_def)

section \<open>Requests about other objects\<close>

lemma holds_create_bucket [keeping_intros]: "keeping (holds json h) (t_create_bucket sm b)"
  unfolding t_create_bucket_def
  by (intro keeping_intros keeps_map_err_op holds_intros keeps_holds_query)
    (auto intro: row_held_create_bucket)

lemma holds_ensure_bucket [keeping_intros]: "keeping (holds json h) (t_ensure_bucket_exists sm b)"
  unfolding t_ensure_bucket_exists_def by (intro keeping_intros holds_intros)

lemma holds_encrypt_content [keeping_intros]: "keeping (holds json h) (t_encrypt_content lib sm opts c)"
  unfolding t_encrypt_content_def by (intro keeping_intros holds_intros)

lemma holds_decode_content [keeping_intros]: "keeping (holds json h) (t_decode_content lib sm f c)"
  unfolding t_decode_content_def by (intro keeping_intros holds_intros)

lemma holds_has_expired [keeping_intros]: "keeping (holds json h) (t_has_expired f)"
  unfolding t_has_expired_def by (intro keeping_intros holds_intros)

lemma holds_save:
  assumes "object_of f \<noteq> object_of (hd_row h)" "path_apart h (sf_file_path f)"
  shows "keeps (holds json h) (db_save_file f)"
  unfolding db_save_file_def
  by (rule keeps_holds_query) (auto intro: row_held_save [OF _ _ assms])

lemma holds_store_alias:
  assumes "(b, k) \<noteq> object_of (hd_row h)" "path_apart h (sf_file_path f)"
  shows "keeping (holds json h) (t_store_alias f b k ct opts hs)"
  unfolding t_store_alias_def Let_def
  by (intro keeping_intros holds_intros holds_save) (use assms in \<open>simp_all add: alias_row_def\<close>)

lemma holds_store_new:
  assumes "no_colon (hd_bucket h)" "leaves_alone sm h (Store b k c ct opts)"
  shows "keeping (holds json h) (t_store_new lib sm b k c ct opts hs)"
proof -
  have apart: "path_apart h (get_file_path sm b k)" using assms(2) by (simp add: path_apart_def)
  have "keeping (holds json h) (t_write_file_atomic (get_file_path sm b k) x)" for x
    unfolding t_write_file_atomic_def Let_def
    by (intro keeping_intros keeps_holds_write keeps_holds_rename) (use assms(2) in auto)
  moreover have "keeping (holds json h) (t_finish_upload lib sm b k x (get_file_path sm b k)
      (upload_row sm b k ct opts hs s1 s2 co en r i now))" for x s1 s2 co en r i now
    unfolding t_finish_upload_def t_save_or_cleanup_def
    by (intro keeping_intros holds_save keeps_holds_remove_file holds_set_metadata holds_set_content)
      (use assms apart in \<open>simp_all add: upload_row_def\<close>)
  ultimately show ?thesis
    unfolding t_store_new_def Let_def
    by (intro keeping_intros keeps_map_err_op holds_intros)
qed

lemma safe_read_query:
  assumes "\<And>now c d. row_held h d \<Longrightarrow> Q (f now c d)"
  shows "safe (holds json h) (atom (read_query f)) (\<lambda>r. case r of Inl _ \<Rightarrow> \<not> quiet (hd_env h) | Inr x \<Rightarrow> Q x)"
proof (rule safe_atom)
  fix w r w' assume w: "holds json h w" and run: "read_query f w = (r, w')"
  then have "holds json h w'" using keepsD_eq [OF keeps_holds_read] by blast
  moreover have "case r of Inl _ \<Rightarrow> \<not> quiet (hd_env h) | Inr x \<Rightarrow> Q x"
  proof (cases r)
    case (Inl e)
    then show ?thesis using run w read_query_quiet [of w f] by (auto simp: holds_def)
  next
    case (Inr x)
    then show ?thesis using read_query_Inr [OF run [unfolded Inr]] w assms by (simp add: holds_def)
  qed
  ultimately show "holds json h w' \<and> (case r of Inl _ \<Rightarrow> \<not> quiet (hd_env h) | Inr x \<Rightarrow> Q x)" by blast
qed

lemma safe_read_query_ok:
  assumes "\<forall>n. env_db_fault (hd_env h) n = None" "\<And>now c d. row_held h d \<Longrightarrow> Q (f now c d)"
  shows "safe (holds json h) (atom (read_query f)) (\<lambda>r. \<exists>x. r = Inr x \<and> Q x)"
proof (rule safe_atom)
  fix w r w' assume w: "holds json h w" and run: "read_query f w = (r, w')"
  then have "holds json h w'" using keepsD_eq [OF keeps_holds_read] by blast
  moreover have "r = Inr (f (env_now (w_env w) (w_tick w)) (env_choice (w_env w) (w_tick w)) (w_db w))"
    using run w assms(1) by (simp add: read_query_def query_err_def holds_def Let_def)
  ultimately show "holds json h w' \<and> (\<exists>x. r = Inr x \<and> Q x)"
    using assms(2) w by (auto simp: holds_def)
qed

lemma sql_file_by_hash_row:
  assumes "sql_file_by_hash c x d = Some f"
  shows "f \<in> set (db_files d)"
proof -
  let ?rows = "filter (\<lambda>f. sf_hash_blake3 f = x) (db_files d)"
  have "?rows \<noteq> []" "f = ?rows ! (c mod length ?rows)"
    using assms by (auto simp: sql_file_by_hash_def Let_def split: if_splits)
  then have "f \<in> set ?rows" using nth_mem [of "c mod length ?rows" ?rows] by simp
  then show ?thesis by simp
qed

lemma row_held_apart: "row_held h d \<Longrightarrow> f \<in> set (db_files d) \<Longrightarrow> path_apart h (sf_file_path f)"
  by (simp add: row_held_def)

lemma holds_store_file:
  assumes "no_colon (hd_bucket h)" "leaves_alone sm h (Store b k c ct opts)"
  shows "keeping (holds json h) (t_store_file lib sm b k c ct opts)"
proof -
  have hit: "safe (holds json h) (atom (db_get_file_by_hash x))
      (\<lambda>r. case r of Inl _ \<Rightarrow> \<not> quiet (hd_env h) | Inr row \<Rightarrow>
         (case row of None \<Rightarrow> True | Some f \<Rightarrow> path_apart h (sf_file_path f)))" for x
    unfolding db_get_file_by_hash_def
    by (rule safe_read_query) (auto split: option.split dest!: sql_file_by_hash_row intro: row_held_apart)
  have found: "keeping (holds json h) (t_bind (atom (db_get_file_by_hash x)) (\<lambda>existing. case existing of
      Some f \<Rightarrow> if sf_bucket f = b \<and> sf_key f = k then t_ret f else t_store_alias f b k ct opts hs
    | None \<Rightarrow> t_store_new lib sm b k c ct opts hs))" for x hs
    using assms
    by (intro safe_t_bind [OF hit] TrueI)
      (auto split: option.split intro!: keeping_intros holds_store_new holds_store_alias)
  show ?thesis
    unfolding t_store_file_def Let_def
    by (rule keeping_t_bind, rule keeping_intros, rule keeping_cases(1), rule found,
        rule holds_store_new [OF assms])
qed

lemma holds_delete_file:
  assumes "(b, k) \<noteq> object_of (hd_row h)"
  shows "keeping (holds json h) (t_delete_file sm b k)"
proof -
  let ?H = "holds json h"
  have row: "safe ?H (atom (read_query (\<lambda>now c. sql_get_file b k)))
      (\<lambda>r. case r of Inl _ \<Rightarrow> \<not> quiet (hd_env h) | Inr row \<Rightarrow>
         (case row of None \<Rightarrow> True | Some f \<Rightarrow> path_apart h (sf_file_path f)))"
    by (rule safe_read_query) (auto split: option.split dest!: sql_get_file_Some intro: row_held_apart)
  have count: "safe ?H (atom (read_query (\<lambda>now c. sql_count_other_references p b k)))
      (\<lambda>r. case r of Inl _ \<Rightarrow> \<not> quiet (hd_env h) | Inr n \<Rightarrow>
         n = 0 \<longrightarrow> resolve (hd_cwd h) p \<noteq> hd_place h)" if "path_apart h p" for p
    by (rule safe_read_query) (auto dest: unreferenced_elsewhere [OF _ that _ assms])
  have del: "keeps ?H (bind_op (read_query g) (\<lambda>_. write_query (\<lambda>now d. snd (sql_delete_file b k d))))"
    for g :: "int \<Rightarrow> nat \<Rightarrow> db \<Rightarrow> nat"
    by (intro keeps_bind_op holds_intros keeps_holds_update) (rule row_held_delete [OF _ assms])
  let ?R = "\<lambda>r. case r of Inl _ \<Rightarrow> True | Inr (p, n) \<Rightarrow> n = 0 \<longrightarrow> resolve (hd_cwd h) p \<noteq> hd_place h"
  have "safe ?H (t_delete_transaction b k) ?R"
    unfolding t_delete_transaction_def
  proof (rule safe_t_bind [OF keeping_atom])
    show "keeps ?H (read_query (\<lambda>now c d. ()))" by (rule holds_intros)
    show "safe ?H (t_bind (atom (read_query (\<lambda>now c. sql_get_file b k))) (\<lambda>row.
       t_bind (t_lift (ok_or row (NotFound b k))) (\<lambda>file.
       t_bind (atom (read_query (\<lambda>now c. sql_count_other_references (sf_file_path file) b k))) (\<lambda>others.
       t_bind (atom (bind_op (read_query (\<lambda>now c d. fst (sql_delete_file b k d))) (\<lambda>_.
         write_query (\<lambda>now d. snd (sql_delete_file b k d))))) (\<lambda>_.
       t_ret (sf_file_path file, others)))))) ?R"
    proof (rule safe_t_bind [OF row])
      fix row assume row: "case Inr row of Inl _ \<Rightarrow> \<not> quiet (hd_env h) | Inr row \<Rightarrow>
         (case row of None \<Rightarrow> True | Some f \<Rightarrow> path_apart h (sf_file_path f))"
      show "safe ?H (t_bind (t_lift (ok_or row (NotFound b k))) (\<lambda>file.
       t_bind (atom (read_query (\<lambda>now c. sql_count_other_references (sf_file_path file) b k))) (\<lambda>others.
       t_bind (atom (bind_op (read_query (\<lambda>now c d. fst (sql_delete_file b k d))) (\<lambda>_.
         write_query (\<lambda>now d. snd (sql_delete_file b k d))))) (\<lambda>_.
       t_ret (sf_file_path file, others))))) ?R"
      proof (cases row)
        case None
        then show ?thesis by (simp add: ok_or_def t_lift_def t_bind_def safe_Done)
      next
        case (Some f)
        then have "path_apart h (sf_file_path f)" using row by simp
        from safe_t_bind [OF count [OF this]] show ?thesis
          using Some del
          by (auto simp: ok_or_def t_lift_def t_bind_def [of "Done _"]
              intro!: safe_t_bind [OF count [OF \<open>path_apart h (sf_file_path f)\<close>]]
                safe_t_bind [OF keeping_atom [OF del]] safe_t_ret)
      qed
    qed simp
  qed simp
  then show ?thesis
    unfolding t_delete_file_def
  proof (rule safe_t_bind)
    fix x assume "?R (Inr x)"
    then show "keeping ?H (case x of (p, n) \<Rightarrow>
        t_bind (if n = 0 then t_ignore (atom (remove_file p)) else t_ret ())
          (\<lambda>_. t_ignore (atom (invalidate_file (sm_cache sm) b k))))"
      by (cases x) (auto intro!: keeping_intros keeps_holds_remove_file holds_intros)
  qed simp
qed

section \<open>Reads of any object\<close>

text \<open>The row that a read of the object works with, from the cache or from the table.\<close>

definition own_row :: "held \<Rightarrow> storage_error + stored_file \<Rightarrow> bool" where
  "own_row h r \<longleftrightarrow> (case r of Inl _ \<Rightarrow> \<not> quiet (hd_env h) | Inr f \<Rightarrow> reads_alike f (hd_row h))"

lemma safe_own_row: "safe (holds json h) (atom (db_get_file (hd_bucket h) (hd_key h))) (own_row h)"
proof (rule safe_atom)
  fix w r w' assume w: "holds json h w" and run: "db_get_file (hd_bucket h) (hd_key h) w = (r, w')"
  then have "holds json h w'" using keepsD_eq [OF holds_derived_calls(2)] by blast
  moreover obtain f where f: "sql_get_file (hd_bucket h) (hd_key h) (w_db w) = Some f" "reads_alike f (hd_row h)"
    using w by (auto simp: holds_def row_held_def)
  have "own_row h r"
  proof (cases r)
    case (Inl e)
    then have "\<not> quiet (w_env w)" using run f(1) by (auto simp: db_get_file_quiet)
    then show ?thesis using Inl w by (simp add: own_row_def holds_def)
  next
    case (Inr g)
    then have "g = f" using run f(1)
      by (auto simp: db_get_file_def ok_or_def bind_op_def lift_result_def dest!: read_query_Inr
          split: prod.splits sum.splits option.splits)
    then show ?thesis using Inr f(2) by (simp add: own_row_def)
  qed
  ultimately show "holds json h w' \<and> own_row h r" by blast
qed

lemma safe_own_metadata:
  "safe (holds json h) (t_get_file_metadata json m (hd_bucket h) (hd_key h))
     (\<lambda>r. case r of Inr (Some f) \<Rightarrow> reads_alike f (hd_row h) | _ \<Rightarrow> True)"
proof -
  let ?n = "metadata_key (hd_bucket h) (hd_key h)"
  have get: "safe (holds json h) (atom (backend_get m ?n))
      (\<lambda>r. case r of Inr (Some v) \<Rightarrow> (\<exists>f. json_from_slice json v = Inr f \<and> reads_alike f (hd_row h)) | _ \<Rightarrow> True)"
  proof (rule safe_atom)
    fix w r w' assume w: "holds json h w" and run: "backend_get m ?n w = (r, w')"
    then have "holds json h w'" using keepsD_eq [OF holds_simple_calls(4)] by blast
    moreover have "r = Inr (evict (env_evicts (w_env w) (w_tick w)) (w_cache w) ?n) \<or> (\<exists>e. r = Inl e)"
      using run by (auto simp: backend_get_def backend_call_def Let_def split: backend.splits option.splits)
    moreover have "entries_held json h (evict (env_evicts (w_env w) (w_tick w)) (w_cache w))"
      using w by (simp add: holds_def entries_held_evict)
    ultimately show "holds json h w' \<and> (case r of Inr (Some v) \<Rightarrow>
        (\<exists>f. json_from_slice json v = Inr f \<and> reads_alike f (hd_row h)) | _ \<Rightarrow> True)"
      by (auto simp: entries_held_def split: option.split)
  qed
  show ?thesis
    unfolding t_get_file_metadata_def
    by (rule safe_t_bind [OF get]) (auto split: option.split sum.split intro!: safe_t_ret)
qed

lemma safe_own_read_metadata:
  assumes "held_ok lib sm h content"
  shows "safe (holds (sl_json lib) h) (t_read_metadata lib sm (hd_bucket h) (hd_key h)) (own_row h)"
proof -
  let ?H = "holds (sl_json lib) h"
  have json: "\<forall>f v. json_to_vec (sl_json lib) f = Inr v \<longrightarrow> json_from_slice (sl_json lib) v = Inr f"
    using assms by (simp add: held_ok_def)
  have miss: "safe ?H (t_bind (atom (db_get_file (hd_bucket h) (hd_key h))) (\<lambda>file.
      t_bind (t_ignore (atom (set_file_metadata (sl_json lib) (sm_cache sm) (hd_bucket h) (hd_key h) file)))
        (\<lambda>_. t_ret file))) (own_row h)"
  proof (rule safe_t_bind [OF safe_own_row])
    fix f assume f: "own_row h (Inr f)"
    then have "keeps ?H (set_file_metadata (sl_json lib) (sm_cache sm) (hd_bucket h) (hd_key h) f)"
      using holds_set_own_metadata [OF json] by (simp add: own_row_def)
    then show "safe ?H (t_bind (t_ignore (atom (set_file_metadata (sl_json lib) (sm_cache sm) (hd_bucket h)
        (hd_key h) f))) (\<lambda>_. t_ret f)) (own_row h)"
      by (intro safe_ignore_then keeping_atom) (use f in \<open>auto intro: safe_t_ret\<close>)
  qed simp
  show ?thesis
    unfolding t_read_metadata_def
    by (rule safe_t_try [OF safe_own_metadata])
      (auto split: sum.split option.split intro!: safe_t_ret miss simp: own_row_def)
qed

lemma held_okD:
  assumes "held_ok lib sm h content"
  shows "no_colon (hd_bucket h)" "sf_expires_at (hd_row h) = None"
    "env_io_fault (hd_env h) n = Some e \<Longrightarrow> \<not> looks_missing (display_io_error e)"
    "db_keys d = hd_keys h \<Longrightarrow> encoded_as lib sm d (hd_row h) (hd_raw h) content"
  using assms by (auto simp: held_ok_def)

lemma holds_get_metadata: "keeping (holds json h) (t_get_file_metadata json' m b k)"
  unfolding t_get_file_metadata_def by (intro keeping_intros holds_intros)

lemma holds_read_metadata:
  assumes "held_ok lib sm h content" "no_colon b"
  shows "keeping (holds (sl_json lib) h) (t_read_metadata lib sm b k)"
proof (cases "(b, k) = object_of (hd_row h)")
  case True
  then show ?thesis using safe_weaken [OF safe_own_read_metadata [OF assms(1)]] by auto
next
  case False
  note set = holds_set_metadata [OF held_okD(1) [OF assms(1)] assms(2) False]
  show ?thesis
    unfolding t_read_metadata_def
    by (intro keeping_intros holds_get_metadata holds_intros set)
qed

lemma holds_read_content_other:
  assumes "held_ok lib sm h content" "no_colon b" "(b, k) \<noteq> object_of (hd_row h)"
  shows "keeping (holds json h) (t_read_content sm b k f)"
  unfolding t_read_content_def
  by (intro keeping_intros holds_intros holds_delete_file [OF assms(3)]
      holds_set_content [OF held_okD(1) [OF assms(1)] assms(2,3)])

text \<open>The bytes that a read of the object works with.\<close>

definition own_bytes :: "held \<Rightarrow> bytes \<Rightarrow> 'e + bytes \<Rightarrow> bool" where
  "own_bytes h c r \<longleftrightarrow> (case r of Inl _ \<Rightarrow> \<not> quiet (hd_env h) | Inr x \<Rightarrow> x = c)"

lemma safe_own_cached:
  "safe (holds json h) (atom (get_file_content m (hd_bucket h) (hd_key h)))
     (\<lambda>r. case r of Inr (Some c) \<Rightarrow> c = hd_raw h | _ \<Rightarrow> True)"
proof (rule safe_atom)
  let ?n = "content_key (hd_bucket h) (hd_key h)"
  fix w r w' assume w: "holds json h w" and run: "get_file_content m (hd_bucket h) (hd_key h) w = (r, w')"
  then have "holds json h w'" using keepsD_eq [OF holds_simple_calls(6)] by blast
  moreover have "r = Inr (evict (env_evicts (w_env w) (w_tick w)) (w_cache w) ?n) \<or> (\<exists>e. r = Inl e)"
    using run by (auto simp: get_file_content_def backend_get_def backend_call_def Let_def
        split: backend.splits option.splits)
  moreover have "entries_held json h (evict (env_evicts (w_env w) (w_tick w)) (w_cache w))"
    using w by (simp add: holds_def entries_held_evict)
  ultimately show "holds json h w' \<and> (case r of Inr (Some c) \<Rightarrow> c = hd_raw h | _ \<Rightarrow> True)"
    by (auto simp: entries_held_def split: option.split)
qed

lemma safe_own_disk:
  assumes "held_ok lib sm h content"
  shows "safe (holds json h) (atom (read_file (hd_path h)))
    (\<lambda>r. case r of Inl e \<Rightarrow> \<not> quiet (hd_env h) \<and> \<not> looks_missing (display_io_error e) | Inr c \<Rightarrow> c = hd_raw h)"
proof (rule safe_atom)
  fix w r w' assume w: "holds json h w" and run: "read_file (hd_path h) w = (r, w')"
  then have "holds json h w'" using keepsD_eq [OF holds_disk_calls(3)] by blast
  moreover have at: "at_file (hd_path h) fs_read (w_fs w) = Inr (hd_raw h)"
    using w by (auto simp: holds_def file_held_def content_at_def split: sum.splits)
  have "case r of Inl e \<Rightarrow> \<not> quiet (hd_env h) \<and> \<not> looks_missing (display_io_error e) | Inr c \<Rightarrow> c = hd_raw h"
  proof (cases "env_io_fault (w_env w) (w_tick w)")
    case None
    then have "r = Inr (hd_raw h)" using run at by (simp add: read_file_def io_call_def Let_def)
    then show ?thesis by simp
  next
    case (Some e)
    then have "r = Inl e" using run by (simp add: read_file_def io_call_def Let_def)
    moreover have env: "env_io_fault (hd_env h) (w_tick w) = Some e" using w Some by (simp add: holds_def)
    moreover from env have "\<not> quiet (hd_env h)" using quietD(2) by (metis option.distinct(1))
    ultimately show ?thesis using held_okD(3) [OF assms env] by simp
  qed
  ultimately show "holds json h w' \<and> (case r of Inl e \<Rightarrow>
      \<not> quiet (hd_env h) \<and> \<not> looks_missing (display_io_error e) | Inr c \<Rightarrow> c = hd_raw h)" by blast
qed

lemma safe_own_read_content:
  assumes "held_ok lib sm h content" "reads_alike f (hd_row h)"
  shows "safe (holds json h) (t_read_content sm (hd_bucket h) (hd_key h) f) (own_bytes h (hd_raw h))"
proof -
  let ?H = "holds json h" and ?Q = "own_bytes h (hd_raw h) :: storage_error + bytes \<Rightarrow> bool"
  have path: "sf_file_path f = hd_path h" using assms(2) by (simp add: reads_alike_def hd_path_def)
  have cached: "safe ?H (t_bind (t_ignore (atom (set_file_content (sm_cache sm) (hd_bucket h) (hd_key h) (hd_raw h))))
      (\<lambda>_. t_ret (hd_raw h))) ?Q"
    by (intro safe_ignore_then keeping_atom holds_set_own_content) (simp add: safe_t_ret own_bytes_def)
  have miss: "safe ?H (t_try (atom (read_file (sf_file_path f))) (\<lambda>r'.
         case r' of
           Inr content \<Rightarrow>
             t_bind (t_ignore (atom (set_file_content (sm_cache sm) (hd_bucket h) (hd_key h) content)))
               (\<lambda>_. t_ret content)
         | Inl e \<Rightarrow>
             if looks_missing (display_io_error e) then
               t_bind (t_ignore (t_delete_file sm (hd_bucket h) (hd_key h)))
                 (\<lambda>_. t_throw (NotFound (hd_bucket h) (hd_key h)))
             else t_throw (Io (display_io_error e)))) ?Q"
    unfolding path
  proof (rule safe_t_try [OF safe_own_disk [OF assms(1)]], goal_cases)
    case (1 r)
    then show ?case using cached by (cases r) (simp_all add: safe_t_throw own_bytes_def)
  qed
  show ?thesis
    unfolding t_read_content_def
  proof (rule safe_t_try [OF safe_own_cached], goal_cases)
    case (1 r)
    then show ?case using miss by (cases r; cases "projr r") (simp_all add: safe_t_ret own_bytes_def)
  qed
qed

lemma safe_own_key:
  "safe (holds json h) (atom (get_key i))
     (\<lambda>r. case r of Inl _ \<Rightarrow> \<not> quiet (hd_env h) \<or> find (\<lambda>k. ek_key_id k = i \<and> ek_is_active k = Some True) (hd_keys h) = None
        | Inr k \<Rightarrow> find (\<lambda>k. ek_key_id k = i \<and> ek_is_active k = Some True) (hd_keys h) = Some k)"
proof (rule safe_atom)
  fix w r w' assume w: "holds json h w" and run: "get_key i w = (r, w')"
  then have "holds json h w'" using keepsD_eq [OF holds_derived_calls(1)] by blast
  moreover have keys: "sql_get_key i (w_db w) = find (\<lambda>k. ek_key_id k = i \<and> ek_is_active k = Some True) (hd_keys h)"
    using w by (simp add: holds_def row_held_def sql_get_key_def)
  have "case r of Inl _ \<Rightarrow> \<not> quiet (hd_env h) \<or> sql_get_key i (w_db w) = None | Inr k \<Rightarrow> sql_get_key i (w_db w) = Some k"
  proof (cases r)
    case (Inl e)
    then have "\<not> quiet (w_env w) \<or> sql_get_key i (w_db w) = None"
      using run by (auto simp: get_key_quiet ok_or_def split: option.splits)
    then show ?thesis using Inl w by (simp add: holds_def)
  next
    case (Inr k)
    then show ?thesis using run
      by (auto simp: get_key_def ok_or_def bind_op_def lift_result_def dest!: read_query_Inr
          split: prod.splits sum.splits option.splits)
  qed
  ultimately show "holds json h w' \<and> (case r of
      Inl _ \<Rightarrow> \<not> quiet (hd_env h) \<or> find (\<lambda>k. ek_key_id k = i \<and> ek_is_active k = Some True) (hd_keys h) = None
    | Inr k \<Rightarrow> find (\<lambda>k. ek_key_id k = i \<and> ek_is_active k = Some True) (hd_keys h) = Some k)"
    unfolding keys by blast
qed

lemma t_bind_now [simp]: "t_bind (t_ret x) k = k x" "t_bind (t_lift (Inr x)) k = k x"
  by (simp_all add: t_bind_def t_ret_def t_lift_def)

definition calm :: "environment \<Rightarrow> environment" where
  "calm e = e\<lparr>env_db_fault := (\<lambda>_. None), env_io_fault := (\<lambda>_. None), env_redis_fault := (\<lambda>_. None),
     env_evicts := (\<lambda>_ _. False)\<rparr>"

lemma quiet_calm [simp]: "quiet (calm e)"
  by (simp add: quiet_def calm_def)

lemma safe_own_decode:
  assumes ok: "held_ok lib sm h content" and f: "reads_alike f (hd_row h)"
  shows "safe (holds json h) (t_decode_content lib sm f (hd_raw h)) (own_bytes h content)"
proof -
  let ?H = "holds json h"
  define d where "d = \<lparr>db_files = [], db_buckets = [], db_keys = hd_keys h, db_next_key_id = 1, db_cache_config = None\<rparr>"
  define w where "w = \<lparr>w_env = calm (hd_env h), w_tick = 0, w_db = d, w_fs = \<lparr>fs_cwd = [], fs_nodes = Map.empty\<rparr>,
    w_cache = Map.empty\<rparr>"
  have keys: "db_keys d = hd_keys h" by (simp add: d_def)
  have w: "quiet (w_env w)" "w_db w = d" by (simp_all add: w_def)
  have "encoded_as lib sm d f (hd_raw h) content"
    by (rule encoded_as_same [OF _ held_okD(4) [OF ok keys]]) (use f in \<open>simp add: reads_alike_def\<close>)
  then have run: "fst (decode_content lib sm f (hd_raw h) w) = Inr content"
    unfolding encoded_as_def using w by fastforce
  have key: "sql_get_key i d = find (\<lambda>k. ek_key_id k = i \<and> ek_is_active k = Some True) (hd_keys h)" for i
    by (simp add: sql_get_key_def keys)
  let ?last = "\<lambda>plain. if is_compressed f then t_lift (decompress (sl_codec lib) (sm_compression sm) plain)
    else t_ret plain"
  have fin: "safe ?H (?last p) (own_bytes h content)"
    if "(if is_compressed f then decompress (sl_codec lib) (sm_compression sm) p else Inr p) = Inr content" for p
    using that by (auto intro!: safe_t_lift safe_t_ret simp: own_bytes_def split: if_splits)
  show ?thesis
  proof (cases "is_encrypted f")
    case False
    then show ?thesis using run fin [of "hd_raw h"]
      by (auto simp: t_decode_content_def decode_content_def t_bind_def t_ret_def bind_op_def split: if_splits)
  next
    case True
    then obtain a where a: "algorithm_from_str (unwrap_or (sf_encryption_algorithm f) ''aes-gcm'') = Inr a"
      using run by (cases "algorithm_from_str (unwrap_or (sf_encryption_algorithm f) ''aes-gcm'')")
        (auto simp: decode_content_def bind_op_def)
    show ?thesis
    proof (cases "sf_encryption_key_id f")
      case None
      then obtain p where "decrypt (sl_aead lib) (sm_crypto sm) (hd_raw h) a = Inr p"
        "(if is_compressed f then decompress (sl_codec lib) (sm_compression sm) p else Inr p) = Inr content"
        using run a True by (auto simp: decode_content_def bind_op_def split: sum.splits if_splits)
      then show ?thesis using fin [of p] a True None
        by (simp add: t_decode_content_def t_bind_def t_lift_def)
    next
      case (Some i)
      then obtain k p where k: "sql_get_key i d = Some k"
        and p: "decrypt_with_key (sl_aead lib) (hd_raw h) a (ek_key_data k) = Inr p"
        "(if is_compressed f then decompress (sl_codec lib) (sm_compression sm) p else Inr p) = Inr content"
        using run a True w
        by (auto simp: decode_content_def bind_op_def get_key_quiet ok_or_def split: sum.splits if_splits option.splits)
      have plain: "safe ?H (t_bind (atom (get_key i)) (\<lambda>key.
          t_lift (decrypt_with_key (sl_aead lib) (hd_raw h) a (ek_key_data key)))) (own_bytes h p)"
        by (rule safe_t_bind [OF safe_own_key])
          (use k p key in \<open>auto simp: own_bytes_def intro!: safe_t_lift\<close>)
      have "safe ?H (t_bind (t_bind (atom (get_key i)) (\<lambda>key.
          t_lift (decrypt_with_key (sl_aead lib) (hd_raw h) a (ek_key_data key)))) ?last) (own_bytes h content)"
        by (rule safe_t_bind [OF plain]) (use fin [OF p(2)] in \<open>auto simp: own_bytes_def\<close>)
      then show ?thesis using a True Some by (simp add: t_decode_content_def)
    qed
  qed
qed

lemma own_not_expired:
  "held_ok lib sm h content \<Longrightarrow> reads_alike f (hd_row h) \<Longrightarrow> t_has_expired f = t_ret False"
  by (simp add: t_has_expired_def reads_alike_def held_ok_def)

text \<open>What a read of the object answers when it ends.\<close>

definition own_answer :: "held \<Rightarrow> bytes \<Rightarrow> storage_error + bytes \<times> string option \<Rightarrow> bool" where
  "own_answer h content r \<longleftrightarrow>
     (case r of Inl _ \<Rightarrow> \<not> quiet (hd_env h) | Inr x \<Rightarrow> x = (content, Some (sf_content_type (hd_row h))))"

lemma safe_own_get_file:
  assumes ok: "held_ok lib sm h content"
  shows "safe (holds (sl_json lib) h) (t_get_file lib sm (hd_bucket h) (hd_key h)) (own_answer h content)"
  unfolding t_get_file_def
proof (rule safe_t_bind [OF safe_own_read_metadata [OF ok]], goal_cases)
  case (2 f)
  then have f: "reads_alike f (hd_row h)" by (simp add: own_row_def)
  have fin: "safe (holds (sl_json lib) h) (t_bind (t_ignore (atom (db_update_access (sf_id f))))
      (\<lambda>_. t_ret (content, Some (sf_content_type f)))) (own_answer h content)"
    by (intro safe_ignore_then keeping_atom holds_intros safe_t_ret)
      (use f in \<open>simp add: own_answer_def reads_alike_def\<close>)
  have decode: "safe (holds (sl_json lib) h) (t_bind (t_decode_content lib sm f (hd_raw h)) (\<lambda>content.
      t_bind (t_ignore (atom (db_update_access (sf_id f)))) (\<lambda>_. t_ret (content, Some (sf_content_type f)))))
      (own_answer h content)"
    by (rule safe_t_bind [OF safe_own_decode [OF ok f]])
      (use fin in \<open>auto simp: own_bytes_def own_answer_def\<close>)
  show ?case
    unfolding own_not_expired [OF ok f]
    by (simp, rule safe_t_bind [OF safe_own_read_content [OF ok f]])
      (use decode in \<open>auto simp: own_bytes_def own_answer_def\<close>)
qed (simp add: own_row_def own_answer_def)

lemma holds_get_file:
  assumes ok: "held_ok lib sm h content" and b: "no_colon b"
  shows "keeping (holds (sl_json lib) h) (t_get_file lib sm b k)"
proof (cases "(b, k) = object_of (hd_row h)")
  case True
  then show ?thesis using safe_weaken [OF safe_own_get_file [OF ok]] by auto
next
  case False
  show ?thesis
    unfolding t_get_file_def
    by (intro keeping_intros holds_intros holds_read_metadata [OF ok b] holds_delete_file [OF False]
        holds_read_content_other [OF ok b False])
qed

lemma holds_get_file_info:
  assumes ok: "held_ok lib sm h content"
  shows "keeping (holds json h) (t_get_file_info sm b k)"
proof (cases "(b, k) = object_of (hd_row h)")
  case True
  have "keeping (holds json h) (t_bind (atom (db_get_file (hd_bucket h) (hd_key h))) (\<lambda>file.
      t_bind (t_has_expired file) (\<lambda>gone.
      if gone then
        t_bind (t_ignore (t_delete_file sm (hd_bucket h) (hd_key h))) (\<lambda>_. t_throw (NotFound (hd_bucket h) (hd_key h)))
      else t_ret (file_info_from file))))"
    by (rule safe_t_bind [OF safe_own_row])
      (auto simp: own_row_def own_not_expired [OF ok] intro: safe_t_ret)
  then show ?thesis using True by (simp add: t_get_file_info_def)
next
  case False
  show ?thesis
    unfolding t_get_file_info_def
    by (intro keeping_intros holds_intros holds_delete_file [OF False])
qed

lemma holds_ranges:
  assumes ok: "held_ok lib sm h content" and b: "no_colon b"
  shows "keeping (holds (sl_json lib) h) (t_get_file_range_if_plain lib sm b k s e)"
    "keeping (holds (sl_json lib) h) (t_get_compressed_file_range lib sm b k s e)"
  unfolding t_get_file_range_if_plain_def t_get_compressed_file_range_def Let_def
  by (intro keeping_intros holds_intros holds_read_metadata [OF ok b] keeps_bind_op keeps_map_err_op)+

section \<open>Removing many\<close>

lemma holds_sweep_loop:
  "object_of (hd_row h) \<notin> set xs \<Longrightarrow> keeping (holds json h) (t_sweep_loop sm n xs)"
proof (induction sm n xs rule: t_sweep_loop.induct)
  case (2 sm n b k xs)
  show ?case unfolding t_sweep_loop.simps
  proof (rule keeping_t_try)
    show "keeping (holds json h) (t_delete_file sm b k)" by (rule holds_delete_file) (use 2 in auto)
  qed (use 2 in \<open>auto split: sum.split\<close>)
qed (simp add: safe_t_ret)

lemma expired_is_other:
  assumes "row_held h d" "sf_expires_at (hd_row h) = None"
  shows "object_of (hd_row h) \<notin> set (sql_expired now d)"
proof
  assume "object_of (hd_row h) \<in> set (sql_expired now d)"
  then obtain g where g: "g \<in> set (db_files d)" "is_object (hd_bucket h) (hd_key h) g" "sf_expires_at g \<noteq> None"
    by (auto simp: sql_expired_def is_object_def split: option.splits)
  then have "sql_get_file (hd_bucket h) (hd_key h) d = Some g"
    using assms(1) sql_get_file_iff by (simp add: row_held_def)
  then show False using assms g(3) by (auto simp: row_held_def reads_alike_def)
qed

lemma holds_sweep:
  assumes ok: "held_ok lib sm h content"
  shows "keeping (holds json h) (t_sweep_expired_files sm)"
proof -
  have list: "safe (holds json h) (atom db_list_expired_files)
    (\<lambda>r. case r of Inl _ \<Rightarrow> \<not> quiet (hd_env h) | Inr xs \<Rightarrow> object_of (hd_row h) \<notin> set xs)"
    unfolding db_list_expired_files_def
    by (rule safe_read_query) (rule expired_is_other [OF _ held_okD(2) [OF ok]])
  show ?thesis
    unfolding t_sweep_expired_files_def
    by (rule safe_t_bind [OF list]) (auto intro: holds_sweep_loop)
qed

lemma holds_drop_bucket:
  assumes "leaves_alone sm h (Drop_bucket b)"
  shows "keeping (holds json h) (t_delete_bucket sm b)"
proof -
  let ?H = "holds json h"
  have list: "safe ?H (atom (read_query (\<lambda>now c d.
       map (\<lambda>f. (sf_key f, sf_file_path f)) (filter (\<lambda>f. sf_bucket f = b) (db_files d)))))
    (\<lambda>r. case r of Inl _ \<Rightarrow> \<not> quiet (hd_env h) | Inr xs \<Rightarrow> \<forall>(k, p) \<in> set xs. path_apart h p)"
    by (rule safe_read_query) (auto intro: row_held_apart)
  have one: "keeping ?H (t_remove_bucket_file sm b (k, p))" if p: "path_apart h p" for k p
  proof -
    have count: "safe ?H (atom (read_query (\<lambda>now c. sql_count_references p)))
      (\<lambda>r. \<exists>n. r = Inr n \<and> (n = 0 \<longrightarrow> resolve (hd_cwd h) p \<noteq> hd_place h))"
      by (rule safe_read_query_ok) (use assms unreferenced_at_all [OF _ p] in auto)
    have "keeping ?H (t_bind (if n = 0 then t_ignore (atom (remove_file p)) else t_ret ())
        (\<lambda>_. t_ignore (atom (invalidate_file (sm_cache sm) b k))))"
      if "n = 0 \<longrightarrow> resolve (hd_cwd h) p \<noteq> hd_place h" for n :: nat
      using that by (intro keeping_intros holds_intros keeps_holds_remove_file) simp
    note rest = this
    show ?thesis
      unfolding t_remove_bucket_file_def prod.case Let_def
    proof (rule safe_t_try [OF count], goal_cases)
      case (1 r)
      then obtain n where "r = Inr n" "n = 0 \<longrightarrow> resolve (hd_cwd h) p \<noteq> hd_place h" by blast
      with rest [of n] show ?case by (simp only: sum.case)
    qed
  qed
  have all: "keeping ?H (t_for_each (t_remove_bucket_file sm b) xs)" if "\<forall>(k, p) \<in> set xs. path_apart h p" for xs
    using that by (induction xs) (auto intro!: keeping_intros one)
  have del: "keeps ?H (bind_op (read_query g) (\<lambda>n. if n = 0 then bind_op (read_query g') (\<lambda>_. throw x)
      else write_query (\<lambda>now d. snd (sql_delete_bucket b d))))"
    for g :: "int \<Rightarrow> nat \<Rightarrow> db \<Rightarrow> nat" and g' :: "int \<Rightarrow> nat \<Rightarrow> db \<Rightarrow> unit" and x
    by (intro keeps_bind_op keeps_if keeps_throw holds_intros keeps_holds_update)
      (use assms in \<open>auto intro: row_held_delete_bucket\<close>)
  show ?thesis
    unfolding t_delete_bucket_def
  proof (rule safe_t_bind [OF list], goal_cases)
    case (2 files)
    then have files: "\<forall>(k, p) \<in> set files. path_apart h p" by simp
    show ?case
      by (intro keeping_t_bind keeping_atom del all [OF files] keeping_t_ignore holds_intros
          keeps_holds_remove_dir_all) (use assms in auto)
  qed simp
qed

section \<open>All requests\<close>

lemma holds_task_of:
  assumes "held_ok lib sm h content" "leaves_alone sm h r"
  shows "keeping (holds (sl_json lib) h) (task_of lib sm r)"
  using assms holds_store_file [OF held_okD(1) [OF assms(1)]] holds_delete_file holds_drop_bucket
    holds_get_file holds_get_file_info holds_ranges holds_sweep
  by (cases r) (auto intro!: keeping_intros)

text \<open>What a \<open>Fetch\<close> of the object answers when it ends.\<close>

definition fetched :: "held \<Rightarrow> bytes \<Rightarrow> storage_error + storage_reply \<Rightarrow> bool" where
  "fetched h content r \<longleftrightarrow>
     (case r of Inl _ \<Rightarrow> \<not> quiet (hd_env h) | Inr x \<Rightarrow> x = Content content (Some (sf_content_type (hd_row h))))"

lemma safe_own_fetch:
  assumes "held_ok lib sm h content"
  shows "safe (holds (sl_json lib) h) (task_of lib sm (Fetch (hd_bucket h) (hd_key h))) (fetched h content)"
  by (simp, rule safe_t_bind [OF safe_own_get_file [OF assms]])
    (auto simp: own_answer_def fetched_def intro!: safe_t_ret)

end
