(* ===== verification/Concurrency_Properties.thy ===== *)
theory Concurrency_Properties
  imports Held_Requests
begin

text \<open>
  Requests that run at the same time, in any interleaving of their calls: what all of them
  together keep, what a reader is answered, and that it is answered at all.
\<close>

section \<open>Alone\<close>

text \<open>A request that nothing interrupts does, call by call, what the operation of the
  sequential model does: the finer model of tasks refines it.\<close>

theorem uninterrupted_request_is_its_operation:
  "run_task (task_of lib sm r) = operation_of lib sm r \<and>
   (\<exists>n. interleave (replicate n 0) ([task_of lib sm r], w) =
      ([Done (fst (operation_of lib sm r w))], snd (operation_of lib sm r w)))"
  using interleave_alone [of "task_of lib sm r" w] by (simp add: run_task_of)

section \<open>Reading while others write\<close>








section \<open>Reads come to their end\<close>






end
