(* ===== verification/Restarts.thy ===== *)
theory Restarts
  imports Start_Up Concurrency_Properties
begin








end
