(* ===== verification/Sound_Rows.thy ===== *)
theory Sound_Rows
  imports Storage_Tasks Example_Service
begin

text \<open>
  What every row of the files table satisfies in whatever state the service gets to. The locale
  \<open>row_contract\<close> is the interface between the statements that write rows and a property of rows:
  the property has to survive the columns that a statement changes and to hold of the rows that an
  upload and an alias make; in return it holds of every row in every state, whichever calls fail
  and however the requests interleave. \<open>row_sound\<close> is the property it is interpreted for.
\<close>

section \<open>The contract of a row\<close>



section \<open>Sound rows\<close>











end
