(* ===== verification/Simulation.thy ===== *)
theory Simulation
  imports Main
begin

text \<open>
  The interface between a program that answers requests and a specification of it: a
  relation between the states of the two that every permitted request keeps, with the answer
  that the specification asks for. The client's fact, proved once here, is that every
  permitted sequence of requests is answered as the specification says.
\<close>

text \<open>A sequence of requests, one after the other.\<close>

fun run_requests :: "('r \<Rightarrow> 's \<Rightarrow> 'y \<times> 's) \<Rightarrow> 'r list \<Rightarrow> 's \<Rightarrow> 'y list \<times> 's" where
  "run_requests step [] s = ([], s)"
| "run_requests step (r # rs) s =
     (case step r s of (y, t) \<Rightarrow> case run_requests step rs t of (ys, u) \<Rightarrow> (y # ys, u))"

text \<open>\<open>p\<close> holds of each request with its answer and the state of the specification before it.\<close>

fun all_along ::
  "('r \<Rightarrow> 'm \<Rightarrow> 'y \<Rightarrow> bool) \<Rightarrow> ('r \<Rightarrow> 'm \<Rightarrow> 'm) \<Rightarrow> 'r list \<Rightarrow> 'y list \<Rightarrow> 'm \<Rightarrow> bool" where
  "all_along p after [] [] m = True"
| "all_along p after (r # rs) (y # ys) m = (p r m y \<and> all_along p after rs ys (after r m))"
| "all_along p after _ _ m = False"

locale simulation =
  fixes step :: "'r \<Rightarrow> 's \<Rightarrow> 'y \<times> 's"
    and after :: "'r \<Rightarrow> 'm \<Rightarrow> 'm"
    and permitted :: "'r \<Rightarrow> 'm \<Rightarrow> 'y \<Rightarrow> bool"
    and answers :: "'r \<Rightarrow> 'm \<Rightarrow> 'y \<Rightarrow> bool"
    and represents :: "'m \<Rightarrow> 's \<Rightarrow> bool"
  assumes simulates: "represents m s \<Longrightarrow> step r s = (y, s') \<Longrightarrow> permitted r m y \<Longrightarrow>
    answers r m y \<and> represents (after r m) s'"
begin

lemma run_simulates:
  "represents m s \<Longrightarrow> run_requests step rs s = (ys, s') \<Longrightarrow> all_along permitted after rs ys m \<Longrightarrow>
     all_along answers after rs ys m \<and> represents (fold after rs m) s'"
proof (induction rs arbitrary: m s ys)
  case (Cons r rs)
  obtain y t where y: "step r s = (y, t)" by fastforce
  with Cons.prems(2) obtain zs where zs: "run_requests step rs t = (zs, s')" "ys = y # zs"
    by (auto split: prod.splits)
  with Cons.prems(3) have p: "permitted r m y" "all_along permitted after rs zs (after r m)" by simp_all
  from simulates [OF Cons.prems(1) y p(1)] have now: "answers r m y" "represents (after r m) t" by simp_all
  from Cons.IH [OF now(2) zs(1) p(2)] show ?case using zs(2) now(1) by simp
qed simp

end

end
