(* ===== verification/Lifecycle_Properties.thy ===== *)
theory Lifecycle_Properties
  imports Examples
begin

text \<open>
  Deleting, expiring, overwriting and caching: what each of them changes, and what it leaves.
\<close>

section \<open>Deleting\<close>

text \<open>C22 (error): a deletion that is refused or fails, at whatever step, leaves the tables, the
  files and the cache exactly as they were.\<close>

theorem failed_delete_changes_nothing:
  "case delete_file sm b k w of (Inl e, w') \<Rightarrow> same_state w w' | (Inr u, w') \<Rightarrow> True"
  using delete_file_Inl [of sm b k w] by (auto split: prod.split sum.split)

text \<open>C7 (safety): a deletion never destroys bytes that another object still names: whatever
  happens during it, the file of every row that remains keeps its content. Rows that mean the
  same file must spell its path alike.\<close>

theorem delete_keeps_the_bytes_of_others:
  assumes "delete_file sm b k w = (r, w')" "paths_canonical (w_db w) (w_fs w)"
    and "g \<in> set (db_files (w_db w'))"
  shows "content_at (w_fs w') (sf_file_path g) = content_at (w_fs w) (sf_file_path g)"
  by (rule delete_file_shared [OF assms])

definition ex_alias :: stored_file where
  "ex_alias = fresh_row (alias_row ex_stored_row ''photos'' ''b.jpg'' None default_options
     (''h140'', ''h140'') 522 1024)"

definition ex_shared :: world where
  "ex_shared = ex_stored\<lparr>w_db := (w_db ex_stored)\<lparr>db_files := [ex_stored_row, ex_alias]\<rparr>\<rparr>"

lemma ex_shared_paths: "paths_canonical (w_db ex_shared) (w_fs ex_shared)"
  by (simp add: paths_canonical_def ex_shared_def ex_alias_def fresh_row_def alias_row_def)

lemma ex_shared_deleted:
  "fst (delete_file ex_manager ''photos'' ''a.jpg'' ex_shared) = Inr ()"
  "db_files (w_db (snd (delete_file ex_manager ''photos'' ''a.jpg'' ex_shared))) = [ex_alias]"
  by code_simp+

theorem delete_keeps_the_bytes_witness:
  "content_at (w_fs (snd (delete_file ex_manager ''photos'' ''a.jpg'' ex_shared))) (sf_file_path ex_alias) =
    Some ex_bytes"
proof -
  have "sf_file_path ex_alias = sf_file_path ex_stored_row" "w_fs ex_shared = w_fs ex_stored"
    by (simp_all add: ex_alias_def fresh_row_def alias_row_def ex_shared_def)
  then show ?thesis
    using delete_keeps_the_bytes_of_others [OF prod.collapse [symmetric] ex_shared_paths, of ex_alias]
      ex_shared_deleted ex_stored_bytes by simp
qed

lemma delete_file_effect:
  assumes "quiet (w_env w)" "delete_file sm b k w = (Inr u, w')"
  shows "w_env w' = w_env w \<and> w_db w' = snd (sql_delete_file b k (w_db w)) \<and>
    w_cache w' (metadata_key b k) = None \<and> w_cache w' (content_key b k) = None"
proof -
  obtain p n w1 where tr: "delete_transaction b k w = (Inr (p, n), w1)"
    and rest: "bind_op (if n = 0 then ignore (remove_file p) else ret ())
        (\<lambda>_. ignore (invalidate_file (sm_cache sm) b k)) w1 = (Inr u :: storage_error + unit, w')"
    using assms(2) unfolding delete_file_def by (elim bind_op_cases) (auto split: prod.splits)
  define w2 where "w2 = (if n = 0 then snd (remove_file p w1) else w1)"
  have inv: "snd (invalidate_file (sm_cache sm) b k w2) = w'"
    using rest by (cases "n = 0") (simp_all add: bind_op_def w2_def)
  have "w_env w1 = w_env w" using delete_transaction_Inr [OF tr] by (auto simp: same_state_def)
  then have "w_env w2 = w_env w"
    using remove_file_state [OF refl, of p w1] by (simp add: w2_def)
  then have "w_cache w' (metadata_key b k) = None \<and> w_cache w' (content_key b k) = None"
    unfolding inv [symmetric] using assms(1) by (simp add: invalidate_file_quiet)
  then show ?thesis using delete_file_Inr [OF assms(2)] by auto
qed

text \<open>C18 (functional): after a deletion that succeeds while nothing fails the object is gone: the table has
  no row of it, the cache has neither its row nor its content, and reading it answers \<open>NotFound\<close>; every
  other row is as before. (When the invalidation of the cache fails, which the deletion ignores, the
  object is still read from the cache.)\<close>

theorem deleted_is_gone:
  assumes "quiet (w_env w)" "delete_file sm b k w = (Inr u, w')"
  shows "sql_get_file b k (w_db w') = None \<and>
    w_cache w' (metadata_key b k) = None \<and> w_cache w' (content_key b k) = None \<and>
    fst (get_file lib sm b k w') = Inl (NotFound b k) \<and>
    (\<forall>b' k'. (b', k') \<noteq> (b, k) \<longrightarrow> sql_get_file b' k' (w_db w') = sql_get_file b' k' (w_db w))"
proof -
  note eff = delete_file_effect [OF assms]
  then have none: "sql_get_file b k (w_db w') = None" by (simp add: sql_get_delete)
  with eff assms(1) have "fst (get_file lib sm b k w') = Inl (NotFound b k)"
    by (simp add: get_file_def read_metadata_def get_file_metadata_miss db_get_file_quiet bind_op_def)
  with eff none show ?thesis by (auto simp: sql_get_delete)
qed

theorem deleted_is_gone_witness:
  "fst (get_file (ex_lib no_json) ex_manager ''photos'' ''a.jpg''
    (snd (delete_file ex_manager ''photos'' ''a.jpg'' ex_shared))) = Inl (NotFound ''photos'' ''a.jpg'')"
proof -
  have "delete_file ex_manager ''photos'' ''a.jpg'' ex_shared =
      (Inr (), snd (delete_file ex_manager ''photos'' ''a.jpg'' ex_shared))"
    using ex_shared_deleted(1) by (metis prod.collapse)
  moreover have "quiet (w_env ex_shared)" using ex_env_quiet by (simp add: ex_shared_def)
  ultimately show ?thesis using deleted_is_gone by blast
qed

section \<open>Expiry\<close>

text \<open>An object past its expiry is never served: \<open>get_file\<close> answers \<open>NotFound\<close>, even
  from a cached row and even when the clean-up that it then attempts fails.\<close>

theorem expired_is_not_served:
  assumes "read_metadata lib sm b k w = (Inr f, w1)"
    and "sf_expires_at f = Some t" "t \<le> env_now (w_env w1) (w_tick w1)"
  shows "fst (get_file lib sm b k w) = Inl (NotFound b k)"
  using assms by (simp add: get_file_def has_expired_def bind_op_def external_apply ignore_def throw_def
      split: prod.split)

definition ex_expired :: world where
  "ex_expired = ex_stored\<lparr>w_db := (w_db ex_stored)\<lparr>db_files := [ex_stored_row\<lparr>sf_expires_at := Some 900\<rparr>]\<rparr>\<rparr>"

lemma ex_expired_read:
  "read_metadata (ex_lib no_json) ex_manager ''photos'' ''a.jpg'' ex_expired =
    (Inr (ex_stored_row\<lparr>sf_expires_at := Some 900\<rparr>), tick (tick ex_expired))"
proof -
  have "sql_get_file ''photos'' ''a.jpg'' (w_db ex_expired) = Some (ex_stored_row\<lparr>sf_expires_at := Some 900\<rparr>)"
    by (simp add: sql_get_file_def ex_expired_def is_object_def ex_stored_object)
  moreover have "w_env ex_expired = ex_env" "w_cache ex_expired = Map.empty" by (simp_all add: ex_expired_def)
  ultimately show ?thesis
    using ex_env_quiet
    by (simp add: read_metadata_def get_file_metadata_miss db_get_file_quiet bind_op_def
        set_file_metadata_def ex_lib_def no_json_def)
qed

theorem expired_is_not_served_witness:
  "fst (get_file (ex_lib no_json) ex_manager ''photos'' ''a.jpg'' ex_expired) =
    Inl (NotFound ''photos'' ''a.jpg'')"
  by (rule expired_is_not_served [OF ex_expired_read, where t = 900])
    (simp_all add: ex_expired_def ex_env_def ex_stored_def)

text \<open>C20 (safety): the sweep never removes an object without an expiry, or with one that has not
  come when the sweep starts, whatever fails during the sweep.\<close>

theorem sweep_spares_the_unexpired:
  assumes "sweep_expired_files sm w = (r, w')" "sql_get_file b k (w_db w) = Some f" "db_wf (w_db w)"
    and "sf_expires_at f = None \<or> (\<exists>t. sf_expires_at f = Some t \<and> env_now (w_env w) (w_tick w) \<le> t)"
  shows "sql_get_file b k (w_db w') = Some f"
  by (rule sweep_expired_other [OF assms])

theorem sweep_spares_witness:
  "sql_get_file ''photos'' ''a.jpg'' (w_db (snd (sweep_expired_files ex_manager ex_stored))) = Some ex_stored_row"
  by (rule sweep_spares_the_unexpired [OF prod.collapse [symmetric] _ ex_stored_wf])
    (simp_all add: sql_get_file_def is_object_def ex_stored_object ex_stored_row_def fresh_row_def
      ex_row_def upload_row_def default_options_def)

text \<open>The sweep answers the number of rows it removed.\<close>

theorem sweep_counts_the_removed:
  assumes "db_wf (w_db w)" "sweep_expired_files sm w = (Inr n, w')"
  shows "length (db_files (w_db w')) + n = length (db_files (w_db w))"
  by (rule sweep_expired_count [OF assms])

lemma ex_expired_wf: "db_wf (w_db ex_expired)"
  by (simp add: db_wf_def ex_expired_def ex_stored_def bucket_names_def key_ids_def) code_simp

lemma ex_sweep: "fst (sweep_expired_files ex_manager ex_expired) = Inr 1"
  by code_simp

theorem sweep_counts_witness:
  "length (db_files (w_db (snd (sweep_expired_files ex_manager ex_expired)))) + 1 = 1"
proof -
  have "sweep_expired_files ex_manager ex_expired = (Inr 1, snd (sweep_expired_files ex_manager ex_expired))"
    using ex_sweep by (metis prod.collapse)
  from sweep_counts_the_removed [OF ex_expired_wf this] show ?thesis by (simp add: ex_expired_def)
qed

end
