(* ===== verification/Storage_Map.thy ===== *)
theory Storage_Map
  imports Held_Requests Simulation Lifecycle_Properties "HOL-Library.AList"
begin

text \<open>
  The storage as a shelf of objects: what uploads, reads, deletions, sweeps and the making and
  dropping of buckets that run one after the other do to it, deduplication included, and the
  relation between that shelf and the state of the service.
\<close>

section \<open>The specification\<close>

text \<open>An object has its content and its content type; its home is the object that its bytes were
  first stored for, whose file they are in.\<close>

record item =
  it_content :: bytes
  it_type :: string
  it_home :: "string \<times> string"

record shelf =
  sh_buckets :: "string set"
  sh_objects :: "((string \<times> string) \<times> item) list"

definition empty_shelf :: "string set \<Rightarrow> shelf" where
  "empty_shelf bs = \<lparr>sh_buckets = bs, sh_objects = []\<rparr>"

abbreviation stored :: "shelf \<Rightarrow> string \<times> string \<Rightarrow> item option" where
  "stored m \<equiv> map_of (sh_objects m)"

abbreviation dedups :: "storage_manager \<Rightarrow> bool" where
  "dedups sm \<equiv> stc_enable_deduplication (cf_storage (sm_config sm))"

definition twin :: "bytes \<Rightarrow> shelf \<Rightarrow> item option" where
  "twin c m = find (\<lambda>i. it_content i = c) (map snd (sh_objects m))"

text \<open>An upload of content that is there already gets the bytes that are there; of the object that
  has that content already, nothing.\<close>

definition shelve ::
  "storage_manager \<Rightarrow> string \<times> string \<Rightarrow> bytes \<Rightarrow> string option \<Rightarrow> shelf \<Rightarrow> ((string \<times> string) \<times> item) list" where
  "shelve sm obj c ct m =
     (case (if dedups sm then twin c m else None) of
        None \<Rightarrow> AList.update obj
          \<lparr>it_content = c, it_type = unwrap_or ct ''application/octet-stream'', it_home = obj\<rparr> (sh_objects m)
      | Some t \<Rightarrow>
          if stored m obj \<noteq> None then sh_objects m
          else AList.update obj \<lparr>it_content = c, it_type = unwrap_or ct (it_type t), it_home = it_home t\<rparr>
            (sh_objects m))"

fun after_request :: "storage_manager \<Rightarrow> storage_request \<Rightarrow> shelf \<Rightarrow> shelf" where
  "after_request sm (Store b k c ct opts) m =
     \<lparr>sh_buckets = insert b (sh_buckets m), sh_objects = shelve sm (b, k) c ct m\<rparr>"
| "after_request sm (Remove b k) m = m\<lparr>sh_objects := AList.delete (b, k) (sh_objects m)\<rparr>"
| "after_request sm (Make_bucket b) m = m\<lparr>sh_buckets := insert b (sh_buckets m)\<rparr>"
| "after_request sm (Drop_bucket b) m =
     \<lparr>sh_buckets = sh_buckets m - {b}, sh_objects = filter (\<lambda>(obj, i). fst obj \<noteq> b) (sh_objects m)\<rparr>"
| "after_request sm _ m = m"

fun map_answers :: "storage_lib \<Rightarrow> storage_request \<Rightarrow> shelf \<Rightarrow> storage_error + storage_reply \<Rightarrow> bool" where
  "map_answers lib (Store b k c ct opts) m r \<longleftrightarrow>
     (\<exists>f. r = Inr (Stored f) \<and> object_of f = (b, k) \<and> sf_original_size f = int (length c))"
| "map_answers lib (Fetch b k) m r \<longleftrightarrow>
     r = (case stored m (b, k) of
            None \<Rightarrow> Inl (NotFound b k) | Some i \<Rightarrow> Inr (Content (it_content i) (Some (it_type i))))"
| "map_answers lib (Inform b k) m r \<longleftrightarrow>
     (case stored m (b, k) of
        None \<Rightarrow> r = Inl (NotFound b k)
      | Some i \<Rightarrow> (\<exists>f. r = Inr (Information f) \<and> fi_bucket f = b \<and> fi_key f = k \<and> fi_content_type f = it_type i \<and>
          fi_original_size f = int (length (it_content i)) \<and> fi_hash_blake3 f = sl_blake3 lib (it_content i)))"
| "map_answers lib (Remove b k) m r \<longleftrightarrow>
     r = (if stored m (b, k) = None then Inl (NotFound b k) else Inr Finished)"
| "map_answers lib (Drop_bucket b) m r \<longleftrightarrow>
     r = (if b \<in> sh_buckets m then Inr Finished else Inl (InvalidBucket b))"
| "map_answers lib Sweep m r \<longleftrightarrow> r = Inr (Swept 0)"
| "map_answers lib _ m r \<longleftrightarrow> True"

section \<open>Which requests it speaks of\<close>

text \<open>No other object's bytes are in the file of this one.\<close>

definition unshared :: "string \<times> string \<Rightarrow> shelf \<Rightarrow> bool" where
  "unshared obj m \<longleftrightarrow> (\<forall>(obj', i) \<in> set (sh_objects m). obj' \<noteq> obj \<longrightarrow> it_home i \<noteq> obj)"

text \<open>With deduplication: hashes of stored contents tell them apart, and content that is there is
  uploaded, with its type, for an object that is not there, or again for the only one that has it.\<close>

definition upload_fits ::
  "storage_lib \<Rightarrow> storage_manager \<Rightarrow> string \<times> string \<Rightarrow> bytes \<Rightarrow> string option \<Rightarrow> shelf \<Rightarrow> bool" where
  "upload_fits lib sm obj c ct m \<longleftrightarrow>
     (if dedups sm then
        (\<forall>(obj', i) \<in> set (sh_objects m). sl_blake3 lib (it_content i) = sl_blake3 lib c \<longrightarrow> it_content i = c) \<and>
        (if twin c m = None then unshared obj m
         else (stored m obj = None \<and> ct \<noteq> None) \<or>
           (\<forall>(obj', i) \<in> set (sh_objects m). it_content i = c \<longrightarrow> obj' = obj))
      else unshared obj m)"

definition home_path :: "storage_manager \<Rightarrow> item \<Rightarrow> string" where
  "home_path sm i = get_file_path sm (fst (it_home i)) (snd (it_home i))"

text \<open>Uploads, reads and deletions are of objects in \<open>N\<close>. An upload has no expiry, compresses only if the
  service does, fits and succeeds, and new content is small enough for the cache and has a row
  that JSON can write. A bucket is made without an error; above the files of other buckets'
  objects no directory is dropped.\<close>

fun plain_request :: "storage_lib \<Rightarrow> storage_manager \<Rightarrow> path \<Rightarrow> (string \<times> string) set \<Rightarrow>
    storage_request \<Rightarrow> shelf \<Rightarrow> storage_error + storage_reply \<Rightarrow> bool" where
  "plain_request lib sm cwd N (Store b k c ct opts) m r \<longleftrightarrow>
     (b, k) \<in> N \<and> so_expires_at opts = None \<and>
     (wants_compression sm opts \<longrightarrow> cmp_enabled (sm_compression sm)) \<and> upload_fits lib sm (b, k) c ct m \<and>
     (\<exists>f. r = Inr (Stored f) \<and>
        (dedups sm \<and> twin c m \<noteq> None \<or>
         sf_file_size f \<le> int max_cached_content \<and> json_reads_back (sl_json lib) f))"
| "plain_request lib sm cwd N (Fetch b k) m r \<longleftrightarrow> (b, k) \<in> N"
| "plain_request lib sm cwd N (Remove b k) m r \<longleftrightarrow> (b, k) \<in> N"
| "plain_request lib sm cwd N (Make_bucket b) m r \<longleftrightarrow> r = Inr Finished"
| "plain_request lib sm cwd N (Drop_bucket b) m r \<longleftrightarrow>
     (\<forall>(obj, i) \<in> set (sh_objects m). fst obj \<noteq> b \<longrightarrow>
        \<not> starts_with (resolve cwd (path_join (sm_base_path sm) b)) (resolve cwd (home_path sm i)))"
| "plain_request lib sm cwd N (Inform b k) m r \<longleftrightarrow> True"
| "plain_request lib sm cwd N Sweep m r \<longleftrightarrow> True"
| "plain_request lib sm cwd N _ m r \<longleftrightarrow> False"

text \<open>Names that keep their files apart: no two objects in \<open>N\<close> have the same file, and no upload's
  temporary file is the file of another one.\<close>

definition kept_apart :: "storage_manager \<Rightarrow> path \<Rightarrow> (string \<times> string) set \<Rightarrow> bool" where
  "kept_apart sm cwd N \<longleftrightarrow>
     (\<forall>(b, k) \<in> N. no_colon b \<and>
       (\<forall>(b', k') \<in> N. (b, k) \<noteq> (b', k') \<longrightarrow>
          resolve cwd (get_file_path sm b k) \<noteq> resolve cwd (get_file_path sm b' k') \<and>
          resolve cwd (with_extension (get_file_path sm b k) ''tmp'') \<noteq> resolve cwd (get_file_path sm b' k')))"

definition library_laws :: "storage_lib \<Rightarrow> bool" where
  "library_laws lib \<longleftrightarrow>
     gzip_law (sl_codec lib) \<and> zstd_law (sl_codec lib) \<and> aead_law (sl_aead lib) \<and>
     (\<forall>f v. json_to_vec (sl_json lib) f = Inr v \<longrightarrow> json_from_slice (sl_json lib) v = Inr f)"

section \<open>The relation\<close>

text \<open>What a row says of its object, but for the counters and what only decoding needs.\<close>

definition row_sign ::
  "stored_file \<Rightarrow> (string \<times> string) \<times> string \<times> string \<times> string \<times> int \<times> time option" where
  "row_sign f = (object_of f, sf_file_path f, sf_hash_blake3 f, sf_content_type f, sf_original_size f, sf_expires_at f)"

definition item_sign ::
  "storage_lib \<Rightarrow> storage_manager \<Rightarrow> string \<times> string \<Rightarrow> item \<Rightarrow>
     (string \<times> string) \<times> string \<times> string \<times> string \<times> int \<times> time option" where
  "item_sign lib sm obj i =
     (obj, home_path sm i, sl_blake3 lib (it_content i), it_type i, int (length (it_content i)), None)"

text \<open>What lies around the objects: the environment, the keys, the buckets, the rows, and no cache
  entries for \<open>A\<close>.\<close>

record backdrop =
  bd_env :: environment
  bd_cwd :: path
  bd_keys :: "encryption_key list"
  bd_buckets :: "string set"
  bd_rows :: "((string \<times> string) \<times> string \<times> string \<times> string \<times> int \<times> time option) set"
  bd_absent :: "(string \<times> string) set"

definition row_listed :: "backdrop \<Rightarrow> db \<Rightarrow> bool" where
  "row_listed x d \<longleftrightarrow> db_wf d \<and> db_keys d = bd_keys x \<and> set (bucket_names d) = bd_buckets x \<and>
     row_sign ` set (db_files d) \<subseteq> bd_rows x"

definition entries_absent :: "backdrop \<Rightarrow> entries \<Rightarrow> bool" where
  "entries_absent x c \<longleftrightarrow>
     (\<forall>(b, k) \<in> bd_absent x. no_colon b \<and> c (metadata_key b k) = None \<and> c (content_key b k) = None)"

definition stands :: "backdrop \<Rightarrow> world \<Rightarrow> bool" where
  "stands x w \<longleftrightarrow> w_env w = bd_env x \<and> fs_cwd (w_fs w) = bd_cwd x \<and> row_listed x (w_db w) \<and>
     entries_absent x (w_cache w)"

definition backdrop_of ::
  "storage_lib \<Rightarrow> storage_manager \<Rightarrow> path \<Rightarrow> (string \<times> string) set \<Rightarrow> shelf \<Rightarrow> world \<Rightarrow> backdrop" where
  "backdrop_of lib sm cwd N m w =
     \<lparr>bd_env = w_env w, bd_cwd = cwd, bd_keys = db_keys (w_db w), bd_buckets = sh_buckets m,
      bd_rows = {item_sign lib sm obj i | obj i. stored m obj = Some i}, bd_absent = N - dom (stored m)\<rparr>"

definition object_held ::
  "storage_lib \<Rightarrow> storage_manager \<Rightarrow> string \<times> string \<Rightarrow> item \<Rightarrow> world \<Rightarrow> held \<Rightarrow> bool" where
  "object_held lib sm obj i w h \<longleftrightarrow>
     object_of (hd_row h) = obj \<and> sf_content_type (hd_row h) = it_type i \<and> hd_path h = home_path sm i \<and>
     held_ok lib sm h (it_content i) \<and> holds (sl_json lib) h w"

text \<open>With deduplication, equal contents share one home.\<close>

definition shelf_ok :: "storage_manager \<Rightarrow> (string \<times> string) set \<Rightarrow> shelf \<Rightarrow> bool" where
  "shelf_ok sm N m \<longleftrightarrow>
     distinct (map fst (sh_objects m)) \<and>
     (\<forall>obj i. stored m obj = Some i \<longrightarrow> obj \<in> N \<and> it_home i \<in> N \<and> fst obj \<in> sh_buckets m) \<and>
     (dedups sm \<longrightarrow> (\<forall>obj i obj' i'. stored m obj = Some i \<longrightarrow> stored m obj' = Some i' \<longrightarrow>
        it_content i = it_content i' \<longrightarrow> it_home i = it_home i'))"

definition represents ::
  "storage_lib \<Rightarrow> storage_manager \<Rightarrow> path \<Rightarrow> (string \<times> string) set \<Rightarrow> shelf \<Rightarrow> world \<Rightarrow> bool" where
  "represents lib sm cwd N m w \<longleftrightarrow>
     library_laws lib \<and> kept_apart sm cwd N \<and> quiet (w_env w) \<and> shelf_ok sm N m \<and>
     stands (backdrop_of lib sm cwd N m w) w \<and>
     (\<forall>obj i. stored m obj = Some i \<longrightarrow> (\<exists>h. object_held lib sm obj i w h))"

section \<open>What keeps the backdrop\<close>

named_theorems stands_intros

lemma stands_io:
  "(\<And>s y s'. f s = Inr (y, s') \<Longrightarrow> fs_cwd s' = fs_cwd s) \<Longrightarrow> keeps (stands x) (io_call f)"
  by (fastforce simp: keeps_def stands_def io_call_def Let_def split: option.splits sum.splits)

lemma stands_query:
  "(\<And>now c d y d'. row_listed x d \<Longrightarrow> stmt now c d = Inr (y, d') \<Longrightarrow> row_listed x d') \<Longrightarrow>
     keeps (stands x) (query_err g stmt)"
  by (fastforce simp: keeps_def stands_def query_err_def Let_def split: option.splits sum.splits)

lemma stands_external [stands_intros]: "keeps (stands x) (external f)"
  by (simp add: keeps_def stands_def external_def)

lemma entries_absent_evict: "entries_absent x c \<Longrightarrow> entries_absent x (evict p c)"
  by (auto simp: entries_absent_def evict_def)

lemma stands_backend:
  "(\<And>c. entries_absent x c \<Longrightarrow> entries_absent x (snd (f c))) \<Longrightarrow> keeps (stands x) (backend_call m g f)"
  using entries_absent_evict
  by (auto simp: keeps_def stands_def backend_call_def Let_def split: backend.splits option.splits)

lemma stands_calls [stands_intros]:
  "keeps (stands x) (read_query q)" "keeps (stands x) (random_bytes n)"
  "keeps (stands x) (get_file_content m b k)" "keeps (stands x) (invalidate_file m b k)"
  "keeps (stands x) (backend_get m n')" "keeps (stands x) (backend_del m ns)"
  unfolding read_query_def random_bytes_def get_file_content_def invalidate_file_def backend_get_def backend_del_def
  by (rule stands_query stands_external stands_backend; fastforce simp: entries_absent_def)+

lemma stands_get_metadata [stands_intros]: "keeps (stands x) (get_file_metadata json m b k)"
  unfolding get_file_metadata_def by (intro keeps_intros stands_intros)

lemma row_signs_access: "map row_sign (db_files (sql_update_access now i d)) = map row_sign (db_files d)"
  by (simp add: sql_update_access_def row_sign_def)

lemma row_listed_access: "row_listed x d \<Longrightarrow> row_listed x (sql_update_access now i d)"
  unfolding row_listed_def set_map [symmetric] row_signs_access
  by (simp add: db_wf_update_access) (simp add: sql_update_access_def bucket_names_def)

lemma stands_update_access [stands_intros]: "keeps (stands x) (db_update_access i)"
  unfolding db_update_access_def write_query_def
  by (rule stands_query) (auto intro: row_listed_access)

lemma row_listed_delete: "row_listed x d \<Longrightarrow> row_listed x (snd (sql_delete_file b k d))"
  using db_wf_delete_file [of d b k] by (auto simp: row_listed_def sql_delete_file_def bucket_names_def)

lemma stands_disk [stands_intros]:
  "keeps (stands x) (read_file p)" "keeps (stands x) (remove_file p)"
  unfolding read_file_def remove_file_def
  by (rule stands_io; auto simp: map_sum_def fs_remove_file_def dest!: at_file_Inr split: sum.splits if_splits)+

lemma stands_set:
  assumes "no_colon b" "(b, k) \<notin> bd_absent x"
  shows "keeps (stands x) (set_file_metadata json m b k f)" "keeps (stands x) (set_file_content m b k c)"
  unfolding set_file_metadata_def set_file_content_def backend_set_def
  using assms by (intro keeps_intros stands_backend; auto simp: entries_absent_def metadata_key_inj content_key_inj)+

lemma stands_delete_file [stands_intros]: "keeps (stands x) (delete_file sm b k)"
proof -
  have "keeps (stands x) (write_query (\<lambda>now d. snd (sql_delete_file b k d)))"
    unfolding write_query_def by (rule stands_query) (auto intro: row_listed_delete)
  then show ?thesis
    unfolding delete_file_def delete_transaction_def by (intro keeps_intros stands_intros)
qed

lemma stands_get_file:
  assumes "no_colon b" "(b, k) \<notin> bd_absent x"
  shows "keeps (stands x) (get_file lib sm b k)"
  unfolding get_file_def read_metadata_def has_expired_def read_content_def decode_content_def
    db_get_file_def get_key_def
  by (intro keeps_intros stands_intros stands_set [OF assms])


section \<open>Reading and deleting\<close>

lemma safe_run:
  "safe P t Q \<Longrightarrow> P w \<Longrightarrow> run_task t w = (r, w') \<Longrightarrow> P w' \<and> Q r"
proof (induction arbitrary: w rule: safe.induct)
  case (safe_Step f Q)
  obtain t u where f: "f w = (t, u)" by fastforce
  then have "run_task t u = (r, w')" using safe_Step.prems(2) by (simp split: prod.splits)
  then show ?case using safe_Step(1) [OF safe_Step.prems(1) f] by blast
qed (simp add: lift_result_def)

lemma operation_holds:
  assumes "held_ok lib sm h c" "leaves_alone sm h r" "holds (sl_json lib) h w"
    and "operation_of lib sm r w = (y, w')"
  shows "holds (sl_json lib) h w'"
  using safe_run [OF holds_task_of [OF assms(1,2)] assms(3)] assms(4) by (simp add: run_task_of)

lemma representsD:
  assumes "represents lib sm cwd N m w"
  shows "library_laws lib" "kept_apart sm cwd N" "quiet (w_env w)" "shelf_ok sm N m"
    "stands (backdrop_of lib sm cwd N m w) w"
    "stored m obj = Some i \<Longrightarrow> \<exists>h. object_held lib sm obj i w h"
  using assms unfolding represents_def by blast+

lemma shelf_okD:
  assumes "shelf_ok sm N m"
  shows "distinct (map fst (sh_objects m))"
    "stored m obj = Some i \<Longrightarrow> obj \<in> N \<and> it_home i \<in> N \<and> fst obj \<in> sh_buckets m"
    "dedups sm \<Longrightarrow> stored m obj = Some i \<Longrightarrow> stored m obj' = Some i' \<Longrightarrow> it_content i = it_content i' \<Longrightarrow>
      it_home i = it_home i'"
  using assms unfolding shelf_ok_def by blast+

lemma kept_apartD: "kept_apart sm cwd N \<Longrightarrow> (b, k) \<in> N \<Longrightarrow> no_colon b"
  by (auto simp: kept_apart_def)

lemma represents_cwd: "represents lib sm cwd N m w \<Longrightarrow> fs_cwd (w_fs w) = cwd"
  by (auto simp: represents_def stands_def backdrop_of_def)

lemma represents_wf: "represents lib sm cwd N m w \<Longrightarrow> db_wf (w_db w) \<and> set (bucket_names (w_db w)) = sh_buckets m"
  by (auto simp: represents_def stands_def backdrop_of_def row_listed_def)

lemma represents_rows:
  assumes "represents lib sm cwd N m w" "f \<in> set (db_files (w_db w))"
  obtains i where "stored m (object_of f) = Some i" "row_sign f = item_sign lib sm (object_of f) i"
proof -
  have "row_sign f \<in> bd_rows (backdrop_of lib sm cwd N m w)"
    using representsD(5) [OF assms(1)] assms(2) by (auto simp: stands_def row_listed_def)
  then show thesis using that by (auto simp: backdrop_of_def row_sign_def item_sign_def)
qed

lemma represents_absent:
  assumes "represents lib sm cwd N m w" "stored m (b, k) = None"
  shows "sql_get_file b k (w_db w) = None"
    "(b, k) \<in> N \<Longrightarrow> w_cache w (metadata_key b k) = None \<and> w_cache w (content_key b k) = None"
proof -
  show "sql_get_file b k (w_db w) = None"
  proof (cases "sql_get_file b k (w_db w)")
    case (Some f)
    then have "f \<in> set (db_files (w_db w))" "object_of f = (b, k)" using sql_get_file_Some [OF Some] by simp_all
    then show ?thesis using represents_rows [OF assms(1), of f] assms(2) by (metis option.distinct(1))
  qed
  assume "(b, k) \<in> N"
  then have "(b, k) \<in> bd_absent (backdrop_of lib sm cwd N m w)" using assms(2) by (auto simp: backdrop_of_def)
  then show "w_cache w (metadata_key b k) = None \<and> w_cache w (content_key b k) = None"
    using representsD(5) [OF assms(1)] by (auto simp: stands_def entries_absent_def)
qed

lemma represents_row:
  assumes "represents lib sm cwd N m w" "stored m (b, k) = Some i"
  obtains f where "sql_get_file b k (w_db w) = Some f" "f \<in> set (db_files (w_db w))"
    "row_sign f = item_sign lib sm (b, k) i"
proof -
  obtain h where "object_held lib sm (b, k) i w h" using representsD(6) [OF assms] by blast
  then obtain f where f: "sql_get_file b k (w_db w) = Some f" by (auto simp: object_held_def holds_def row_held_def)
  then have mem: "f \<in> set (db_files (w_db w))" "object_of f = (b, k)" using sql_get_file_Some [OF f] by simp_all
  obtain j where "stored m (object_of f) = Some j" "row_sign f = item_sign lib sm (object_of f) j"
    by (rule represents_rows [OF assms(1) mem(1)])
  then show thesis using that [OF f mem(1)] mem(2) assms(2) by simp
qed

lemma represents_same: "represents lib sm cwd N m w \<Longrightarrow> same_state w w' \<Longrightarrow> represents lib sm cwd N m w'"
  by (simp add: represents_def same_state_def backdrop_of_def stands_def object_held_def holds_def)

text \<open>How the relation is shown to hold again.\<close>

lemma representsI:
  assumes "represents lib sm cwd N m w" "w_env w' = w_env w" "fs_cwd (w_fs w') = cwd"
    and "shelf_ok sm N m'" "db_wf (w_db w')" "set (bucket_names (w_db w')) = sh_buckets m'"
    and "\<And>f. f \<in> set (db_files (w_db w')) \<Longrightarrow>
      \<exists>i. stored m' (object_of f) = Some i \<and> row_sign f = item_sign lib sm (object_of f) i"
    and "\<And>b k. (b, k) \<in> N \<Longrightarrow> stored m' (b, k) = None \<Longrightarrow>
      w_cache w' (metadata_key b k) = None \<and> w_cache w' (content_key b k) = None"
    and "\<And>obj i. stored m' obj = Some i \<Longrightarrow> \<exists>h. object_held lib sm obj i w' h"
  shows "represents lib sm cwd N m' w'"
  unfolding represents_def
proof (intro conjI allI impI)
  have "row_sign ` set (db_files (w_db w')) \<subseteq> bd_rows (backdrop_of lib sm cwd N m' w')"
    using assms(7) by (force simp: backdrop_of_def)
  moreover have "entries_absent (backdrop_of lib sm cwd N m' w') (w_cache w')"
    unfolding entries_absent_def
  proof (clarify)
    fix b k assume "(b, k) \<in> bd_absent (backdrop_of lib sm cwd N m' w')"
    then have "(b, k) \<in> N" "stored m' (b, k) = None" by (auto simp: backdrop_of_def)
    then show "no_colon b \<and> w_cache w' (metadata_key b k) = None \<and> w_cache w' (content_key b k) = None"
      using assms(8) kept_apartD [OF representsD(2) [OF assms(1)]] by blast
  qed
  ultimately show "stands (backdrop_of lib sm cwd N m' w') w'"
    using assms(3,5,6) by (simp add: stands_def row_listed_def) (simp add: backdrop_of_def)
qed (use representsD(1-4) [OF assms(1)] assms in simp_all)

text \<open>A request that leaves all objects and the backdrop as they are.\<close>

lemma others_held:
  assumes "object_held lib sm obj i w h" "leaves_alone sm h r" "operation_of lib sm r w = (y, w')"
  shows "object_held lib sm obj i w' h"
  using assms operation_holds [of lib sm h "it_content i" r w y w'] by (auto simp: object_held_def)

lemma represents_keep:
  assumes rep: "represents lib sm cwd N m w" and run: "operation_of lib sm r w = (y, w')"
    and alone: "\<And>obj i h. stored m obj = Some i \<Longrightarrow> object_held lib sm obj i w h \<Longrightarrow> leaves_alone sm h r"
    and st: "stands (backdrop_of lib sm cwd N m w) w'"
  shows "represents lib sm cwd N m w'"
proof -
  have "stands (backdrop_of lib sm cwd N m w') w'" "w_env w' = w_env w"
    using st by (simp_all add: stands_def backdrop_of_def row_listed_def entries_absent_def)
  moreover have "\<exists>h. object_held lib sm obj i w' h" if "stored m obj = Some i" for obj i
    using representsD(6) [OF rep that] others_held [OF _ alone [OF that] run] by blast
  ultimately show ?thesis using representsD(1-4) [OF rep] by (simp add: represents_def)
qed

lemma represents_empty:
  assumes "library_laws lib" "kept_apart sm (fs_cwd (w_fs w)) N" "quiet (w_env w)" "db_wf (w_db w)"
    and "db_files (w_db w) = []" "w_cache w = Map.empty"
  shows "represents lib sm (fs_cwd (w_fs w)) N (empty_shelf (set (bucket_names (w_db w)))) w"
  using assms kept_apartD [OF assms(2)]
  by (auto simp: represents_def stands_def row_listed_def entries_absent_def backdrop_of_def empty_shelf_def
      shelf_ok_def)

end
