(* ===== verification/Storage_Shelf.thy ===== *)
theory Storage_Shelf
  imports Storage_Map
begin

text \<open>
  Every request to the storage does to the shelf what the specification says: one lemma for each
  kind of request, and the refinement.
\<close>

section \<open>Reading\<close>

lemma row_sign_fields:
  assumes "row_sign f = item_sign lib sm obj i"
  shows "object_of f = obj" "sf_file_path f = home_path sm i" "sf_hash_blake3 f = sl_blake3 lib (it_content i)"
    "sf_content_type f = it_type i" "sf_original_size f = int (length (it_content i))" "sf_expires_at f = None"
  using assms by (auto simp: row_sign_def item_sign_def)

lemma represents_fetch:
  assumes rep: "represents lib sm cwd N m w" and run: "operation_of lib sm (Fetch b k) w = (y, w')" and N: "(b, k) \<in> N"
  shows "map_answers lib (Fetch b k) m y \<and> represents lib sm cwd N m w'"
proof (cases "stored m (b, k)")
  case None
  note absent = represents_absent [OF rep None]
  have "get_file lib sm b k w = (Inl (NotFound b k), tick (tick w))"
    using absent(1) absent(2) [OF N] representsD(3) [OF rep]
    by (simp add: get_file_def read_metadata_def get_file_metadata_miss db_get_file_quiet bind_op_def)
  then have "y = Inl (NotFound b k)" "same_state w w'" using run by (auto simp: same_state_def)
  then show ?thesis using represents_same [OF rep] None by simp
next
  case (Some i)
  have colon: "no_colon b" using kept_apartD [OF representsD(2) [OF rep] N] .
  obtain h where h: "object_held lib sm (b, k) i w h" using representsD(6) [OF rep Some] by blast
  have bk: "b = hd_bucket h" "k = hd_key h" using h by (auto simp: object_held_def)
  have "fetched h (it_content i) y"
    using safe_run [OF safe_own_fetch [of lib sm h "it_content i"], unfolded run_task_of, of w y w'] h run
    by (simp only: object_held_def bk)
  moreover have "quiet (hd_env h)" using h representsD(3) [OF rep] by (simp add: object_held_def holds_def)
  ultimately have y: "y = Inr (Content (it_content i) (Some (it_type i)))"
    using h by (auto simp: fetched_def object_held_def split: sum.splits)
  have "(b, k) \<notin> bd_absent (backdrop_of lib sm cwd N m w)" using Some by (auto simp: backdrop_of_def)
  from keepsD [OF stands_get_file [OF colon this, of lib sm] representsD(5) [OF rep]]
  have "stands (backdrop_of lib sm cwd N m w) w'"
    using run by (auto simp: bind_op_def split: prod.splits sum.splits)
  then have "represents lib sm cwd N m w'" using represents_keep [OF rep run] colon by simp
  then show ?thesis using y Some by simp
qed

lemma represents_inform:
  assumes rep: "represents lib sm cwd N m w" and run: "operation_of lib sm (Inform b k) w = (y, w')"
  shows "map_answers lib (Inform b k) m y \<and> represents lib sm cwd N m w'"
proof (cases "stored m (b, k)")
  case None
  then have "get_file_info sm b k w = (Inl (NotFound b k), tick w)"
    using represents_absent(1) [OF rep None] representsD(3) [OF rep]
    by (simp add: get_file_info_def db_get_file_quiet bind_op_def)
  then show ?thesis using run None represents_same [OF rep] by auto
next
  case (Some i)
  obtain f where f: "sql_get_file b k (w_db w) = Some f" "row_sign f = item_sign lib sm (b, k) i"
    by (rule represents_row [OF rep Some])
  have "get_file_info sm b k w = (Inr (file_info_from f), tick w)"
    using f(1) row_sign_fields(6) [OF f(2)] representsD(3) [OF rep]
    by (simp add: get_file_info_def db_get_file_quiet has_expired_def bind_op_def)
  then show ?thesis
    using run Some row_sign_fields [OF f(2)] represents_same [OF rep] by (auto simp: file_info_from_def)
qed

lemma represents_sweep:
  assumes rep: "represents lib sm cwd N m w" and run: "operation_of lib sm Sweep w = (y, w')"
  shows "map_answers lib Sweep m y \<and> represents lib sm cwd N m w'"
proof -
  have "sf_expires_at f = None" if "f \<in> set (db_files (w_db w))" for f
    by (rule represents_rows [OF rep that]) (rule row_sign_fields(6))
  then have "sql_expired now (w_db w) = []" for now
    by (auto simp: sql_expired_def filter_empty_conv)
  then have "y = Inr (Swept 0)" "same_state w w'"
    using run representsD(3) [OF rep]
    by (auto simp: sweep_expired_files_def db_list_expired_files_def read_query_quiet bind_op_def)
  then show ?thesis using represents_same [OF rep] by simp
qed

section \<open>Removing\<close>

lemma shelf_ok_less:
  assumes "shelf_ok sm N m" "distinct (map fst (sh_objects m'))" "stored m' \<subseteq>\<^sub>m stored m"
    and "\<And>obj i. stored m' obj = Some i \<Longrightarrow> fst obj \<in> sh_buckets m'"
  shows "shelf_ok sm N m'"
proof -
  have "stored m obj = Some i" if "stored m' obj = Some i" for obj i
    using assms(3) that by (metis map_le_def domI)
  then show ?thesis using assms(2,4) shelf_okD [OF assms(1)] unfolding shelf_ok_def by blast
qed

lemma delete_file_reply:
  assumes "quiet (w_env w)"
  shows "fst (delete_file sm b k w) =
    (if sql_get_file b k (w_db w) = None then Inl (NotFound b k) else Inr ())"
  using assms
  by (auto simp: delete_file_def delete_transaction_def bind_op_def read_query_quiet write_query_quiet ok_or_def
      split: option.splits)

lemma represents_remove:
  assumes rep: "represents lib sm cwd N m w" and run: "operation_of lib sm (Remove b k) w = (y, w')" and N: "(b, k) \<in> N"
  shows "map_answers lib (Remove b k) m y \<and> represents lib sm cwd N (after_request sm (Remove b k) m) w'"
proof -
  let ?m = "after_request sm (Remove b k) m"
  note quiet = representsD(3) [OF rep]
  have m: "stored ?m = (stored m)((b, k) := None)" by (simp add: delete_conv')
  obtain r where r: "delete_file sm b k w = (r, w')" and y: "y = map_sum id (\<lambda>_. Finished) r"
    using run by (cases "delete_file sm b k w"; cases "fst (delete_file sm b k w)") (auto simp: bind_op_def)
  show ?thesis
  proof (cases "stored m (b, k)")
    case None
    then have "r = Inl (NotFound b k)"
      using delete_file_reply [OF quiet, of sm b k] r represents_absent(1) [OF rep None] by simp
    moreover from this have "same_state w w'" using delete_file_Inl r by simp
    moreover have "AList.delete (b, k) (sh_objects m) = sh_objects m"
      using None by (simp add: AList.delete_id map_of_eq_None_iff)
    ultimately show ?thesis using represents_same [OF rep] None y by simp
  next
    case (Some i)
    obtain f where "sql_get_file b k (w_db w) = Some f" by (rule represents_row [OF rep Some])
    then have ok: "r = Inr ()" using delete_file_reply [OF quiet, of sm b k] r by simp
    note eff = delete_file_effect [OF quiet r [unfolded ok]]
    have st: "stands (backdrop_of lib sm cwd N m w) w'"
      using keepsD_eq [OF stands_delete_file representsD(5) [OF rep] r] .
    have "represents lib sm cwd N ?m w'"
    proof (rule representsI [OF rep])
      show "shelf_ok sm N ?m"
      proof (rule shelf_ok_less [OF representsD(4) [OF rep]])
        show "stored ?m \<subseteq>\<^sub>m stored m" unfolding m by (auto simp: map_le_def)
        fix obj i assume "stored ?m obj = Some i"
        then have "stored m obj = Some i" unfolding m by (auto split: if_splits)
        then show "fst obj \<in> sh_buckets ?m" using shelf_okD(2) [OF representsD(4) [OF rep]] by simp
      qed (use shelf_okD(1) [OF representsD(4) [OF rep]] in \<open>simp add: distinct_delete\<close>)
    next
      fix f assume "f \<in> set (db_files (w_db w'))"
      then have f: "f \<in> set (db_files (w_db w))" "object_of f \<noteq> (b, k)"
        using eff by (auto simp: sql_delete_file_def is_object_def)
      obtain i where "stored m (object_of f) = Some i" "row_sign f = item_sign lib sm (object_of f) i"
        by (rule represents_rows [OF rep f(1)])
      then show "\<exists>i. stored ?m (object_of f) = Some i \<and> row_sign f = item_sign lib sm (object_of f) i"
        unfolding m using f(2) by simp
    next
      fix b' k' assume "(b', k') \<in> N" "stored ?m (b', k') = None"
      then have "(b', k') = (b, k) \<or> (b', k') \<in> bd_absent (backdrop_of lib sm cwd N m w)"
        unfolding m by (auto simp: backdrop_of_def split: if_splits)
      then show "w_cache w' (metadata_key b' k') = None \<and> w_cache w' (content_key b' k') = None"
        using eff st by (auto simp: stands_def entries_absent_def)
    next
      fix obj i assume "stored ?m obj = Some i"
      then have obj: "stored m obj = Some i" "obj \<noteq> (b, k)" unfolding m by (auto split: if_splits)
      then obtain h where h: "object_held lib sm obj i w h" using representsD(6) [OF rep] by blast
      then have "leaves_alone sm h (Remove b k)" using obj(2) by (auto simp: object_held_def)
      from others_held [OF h this run] show "\<exists>h. object_held lib sm obj i w' h" by blast
    qed (use eff st in \<open>simp_all add: stands_def row_listed_def backdrop_of_def\<close>)
    then show ?thesis using Some y ok by simp
  qed
qed

section \<open>Buckets\<close>

text \<open>No call changes the working directory.\<close>

abbreviation at_cwd :: "path \<Rightarrow> world \<Rightarrow> bool" where
  "at_cwd c \<equiv> on_fs (\<lambda>s. fs_cwd s = c)"

lemma at_cwd_calls:
  "keeps (at_cwd c) (create_dir_all p)" "keeps (at_cwd c) (create_parent_dir p)"
  "keeps (at_cwd c) (file_create p)" "keeps (at_cwd c) (rename_file p q)" "keeps (at_cwd c) (remove_file p)"
  "keeps (at_cwd c) (remove_dir_all p)"
  unfolding create_dir_all_def create_parent_dir_def file_create_def rename_file_def remove_file_def remove_dir_all_def
  by (rule keeps_io_call_fs; auto simp: map_sum_def fs_create_dir_all_def fs_create_file_def fs_rename_def
      fs_remove_file_def fs_remove_dir_all_def dest!: at_path_Inr at_file_Inr
      split: sum.splits option.splits node.splits if_splits)+

lemma at_cwd_write_handle: "keeps (at_cwd c) (write_handle h x)"
  by (auto simp: keeps_def on_fs_def write_handle_def Let_def fs_write_def split: option.splits)

lemma at_cwd_store_file: "keeps (at_cwd c) (store_file lib sm b k x ct opts)"
  unfolding store_file_def ensure_bucket_exists_def create_bucket_def store_new_def finish_upload_def
    save_or_cleanup_def write_file_atomic_def write_file_optimized_def Let_def
  by (intro keeps_intros at_cwd_calls at_cwd_write_handle)

lemma sql_create_bucket_names:
  "sql_create_bucket now b d = Inr d' \<Longrightarrow> set (bucket_names d') = insert b (set (bucket_names d))"
  by (auto simp: sql_create_bucket_def sql_bucket_exists_def bucket_names_def split: if_splits)

text \<open>What the making of a bucket leaves.\<close>

lemma create_bucket_effect:
  assumes "quiet (w_env w)" "create_bucket sm b w = (Inr (), w')"
  shows "w_env w' = w_env w" "w_cache w' = w_cache w" "db_files (w_db w') = db_files (w_db w)"
    "set (bucket_names (w_db w')) = insert b (set (bucket_names (w_db w)))"
proof -
  obtain w1 now d where w1: "create_dir_all (path_join (sm_base_path sm) b) w = (Inr (), w1)"
    and d: "sql_create_bucket now b (w_db w1) = Inr d" "w_env w' = w_env w1" "w_cache w' = w_cache w1" "w_db w' = d"
    using assms
    by (auto simp: create_bucket_def bind_op_result_Inr query_err_def Let_def and_then_def
        split: option.splits sum.splits)
  have "w_env w1 = w_env w" "w_cache w1 = w_cache w" "w_db w1 = w_db w"
    using w1 by (auto simp: create_dir_all_def io_call_def Let_def split: option.splits sum.splits)
  moreover have "db_files d = db_files (w_db w1)"
    using d(1) by (auto simp: sql_create_bucket_def split: if_splits)
  ultimately show "w_env w' = w_env w" "w_cache w' = w_cache w" "db_files (w_db w') = db_files (w_db w)"
    "set (bucket_names (w_db w')) = insert b (set (bucket_names (w_db w)))"
    using d(2-4) sql_create_bucket_names [OF d(1)] by simp_all
qed

lemma represents_make_bucket:
  assumes rep: "represents lib sm cwd N m w" and run: "operation_of lib sm (Make_bucket b) w = (Inr Finished, w')"
  shows "represents lib sm cwd N (after_request sm (Make_bucket b) m) w'"
proof -
  let ?m = "after_request sm (Make_bucket b) m"
  have make: "create_bucket sm b w = (Inr (), w')" using run by (auto simp: bind_op_result_Inr)
  note eff = create_bucket_effect [OF representsD(3) [OF rep] make]
  have m: "stored ?m = stored m" by simp
  show ?thesis
  proof (rule representsI [OF rep eff(1)])
    have "keeps (at_cwd cwd) (create_bucket sm b)"
      unfolding create_bucket_def by (intro keeps_intros at_cwd_calls)
    from keepsD_eq [OF this _ make] show "fs_cwd (w_fs w') = cwd"
      using represents_cwd [OF rep] by (simp add: on_fs_def)
    show "shelf_ok sm N ?m"
      by (rule shelf_ok_less [OF representsD(4) [OF rep]])
        (use shelf_okD [OF representsD(4) [OF rep]] in auto)
    show "db_wf (w_db w')"
      using keepsD_eq [OF keeps_create_bucket(1) _ make] represents_wf [OF rep] by (simp add: on_db_def)
  next
    fix f assume "f \<in> set (db_files (w_db w'))"
    then have "f \<in> set (db_files (w_db w))" using eff by simp
    from represents_rows [OF rep this]
    show "\<exists>i. stored ?m (object_of f) = Some i \<and> row_sign f = item_sign lib sm (object_of f) i"
      unfolding m by metis
  next
    fix obj i assume "stored ?m obj = Some i"
    then have "stored m obj = Some i" by (simp only: m)
    from representsD(6) [OF rep this] obtain h where h: "object_held lib sm obj i w h" by blast
    from others_held [OF h _ run] show "\<exists>h. object_held lib sm obj i w' h" by auto
  qed (use eff represents_wf [OF rep] represents_absent(2) [OF rep] in auto)
qed

text \<open>What dropping a bucket leaves.\<close>

definition without_entries :: "string \<Rightarrow> string set \<Rightarrow> entries \<Rightarrow> entries" where
  "without_entries b ks c =
     (\<lambda>n. if \<exists>k \<in> ks. n = metadata_key b k \<or> n = content_key b k then None else c n)"

lemma remove_file_rest:
  "w_env (snd (remove_file p w)) = w_env w" "w_db (snd (remove_file p w)) = w_db w"
  "w_cache (snd (remove_file p w)) = w_cache w"
  by (auto simp: remove_file_def io_call_def Let_def split: option.splits sum.splits)

lemma remove_bucket_file_effect:
  assumes "quiet (w_env w)"
  shows "\<exists>w'. remove_bucket_file sm b (k, p) w = (Inr (), w') \<and> w_env w' = w_env w \<and> w_db w' = w_db w \<and>
    w_cache w' = without_entries b {k} (w_cache w)"
proof -
  define w1 where "w1 = (if sql_count_references p (w_db w) = 0 then snd (remove_file p (tick w)) else tick w)"
  have w1: "w_env w1 = w_env w" "w_db w1 = w_db w" "w_cache w1 = w_cache w"
    by (simp_all add: w1_def remove_file_rest)
  have "remove_bucket_file sm b (k, p) w = (Inr (), snd (invalidate_file (sm_cache sm) b k w1))"
    using assms
    by (simp add: remove_bucket_file_def try_op_def read_query_quiet bind_op_def ignore_def w1_def Let_def
        split: prod.split)
  moreover have "quiet (w_env w1)" using assms w1 by simp
  ultimately show ?thesis
    using w1 by (intro exI [of _ "snd (invalidate_file (sm_cache sm) b k w1)"])
      (auto simp: invalidate_file_quiet without_entries_def fun_eq_iff)
qed

lemma remove_bucket_files_effect:
  "quiet (w_env w) \<Longrightarrow> \<exists>w'. for_each (remove_bucket_file sm b) fs w = (Inr (), w') \<and> w_env w' = w_env w \<and>
     w_db w' = w_db w \<and> w_cache w' = without_entries b (fst ` set fs) (w_cache w)"
proof (induction fs arbitrary: w)
  case (Cons kp fs)
  obtain k p where kp: "kp = (k, p)" by fastforce
  obtain w1 where w1: "remove_bucket_file sm b (k, p) w = (Inr (), w1)" "w_env w1 = w_env w" "w_db w1 = w_db w"
    "w_cache w1 = without_entries b {k} (w_cache w)"
    using remove_bucket_file_effect [OF Cons.prems] by blast
  moreover obtain w2 where "for_each (remove_bucket_file sm b) fs w1 = (Inr (), w2)" "w_env w2 = w_env w1"
    "w_db w2 = w_db w1" "w_cache w2 = without_entries b (fst ` set fs) (w_cache w1)"
    using Cons.IH [of w1] Cons.prems w1(2) by auto
  ultimately show ?case
    by (intro exI [of _ w2]) (auto simp: kp bind_op_def without_entries_def fun_eq_iff)
qed (simp add: without_entries_def)

lemma delete_bucket_effect:
  assumes "quiet (w_env w)" "delete_bucket sm b w = (r, w')"
  shows "b \<notin> set (bucket_names (w_db w)) \<Longrightarrow> r = Inl (InvalidBucket b) \<and> same_state w w'"
    and "b \<in> set (bucket_names (w_db w)) \<Longrightarrow> r = Inr () \<and> w_env w' = w_env w \<and>
      w_db w' = snd (sql_delete_bucket b (w_db w)) \<and>
      w_cache w' = without_entries b {sf_key f |f. f \<in> set (db_files (w_db w)) \<and> sf_bucket f = b} (w_cache w)"
proof -
  let ?files = "map (\<lambda>f. (sf_key f, sf_file_path f)) (filter (\<lambda>f. sf_bucket f = b) (db_files (w_db w)))"
  have count: "fst (sql_delete_bucket b (w_db w)) = 0 \<longleftrightarrow> b \<notin> set (bucket_names (w_db w))"
    by (auto simp: sql_delete_bucket_def bucket_names_def filter_empty_conv)
  show "r = Inl (InvalidBucket b) \<and> same_state w w'" if "b \<notin> set (bucket_names (w_db w))"
    using assms that count
    by (auto simp: delete_bucket_def bind_op_def read_query_quiet throw_def same_state_def)
  assume b: "b \<in> set (bucket_names (w_db w))"
  define w1 where "w1 = (tick (tick (tick (tick w))))\<lparr>w_db := snd (sql_delete_bucket b (w_db w))\<rparr>"
  have q: "quiet (w_env w1)" using assms(1) by (simp add: w1_def)
  obtain w2 where w2: "for_each (remove_bucket_file sm b) ?files w1 = (Inr (), w2)" "w_env w2 = w_env w1"
    "w_db w2 = w_db w1" "w_cache w2 = without_entries b (fst ` set ?files) (w_cache w1)"
    using remove_bucket_files_effect [OF q] by blast
  have "delete_bucket sm b w = (Inr (), snd (remove_dir_all (path_join (sm_base_path sm) b) w2))"
    using assms(1) b count w2(1)
    by (simp add: delete_bucket_def bind_op_def read_query_quiet write_query_quiet w1_def [symmetric])
  moreover have "w_env (snd (remove_dir_all p w2)) = w_env w2" "w_db (snd (remove_dir_all p w2)) = w_db w2"
    "w_cache (snd (remove_dir_all p w2)) = w_cache w2" for p
    by (auto simp: remove_dir_all_def io_call_def Let_def split: option.splits sum.splits)
  moreover have "fst ` set ?files = {sf_key f |f. f \<in> set (db_files (w_db w)) \<and> sf_bucket f = b}" by force
  ultimately show "r = Inr () \<and> w_env w' = w_env w \<and> w_db w' = snd (sql_delete_bucket b (w_db w)) \<and>
      w_cache w' = without_entries b {sf_key f |f. f \<in> set (db_files (w_db w)) \<and> sf_bucket f = b} (w_cache w)"
    using assms(2) w2 by (simp add: w1_def)
qed

lemma map_of_filter_keys:
  "map_of (filter (\<lambda>(x, y). P x) xs) x = (if P x then map_of xs x else None)"
  by (induction xs) auto

lemma at_cwd_delete_bucket: "keeps (at_cwd c) (delete_bucket sm b)"
  unfolding delete_bucket_def remove_bucket_file_def Let_def
  by (intro keeps_intros at_cwd_calls | simp split: prod.split)+

lemma represents_drop_bucket:
  assumes rep: "represents lib sm cwd N m w" and run: "operation_of lib sm (Drop_bucket b) w = (y, w')"
    and plain: "plain_request lib sm cwd N (Drop_bucket b) m y"
  shows "map_answers lib (Drop_bucket b) m y \<and> represents lib sm cwd N (after_request sm (Drop_bucket b) m) w'"
proof -
  let ?m = "after_request sm (Drop_bucket b) m"
  note quiet = representsD(3) [OF rep] and ok = representsD(4) [OF rep]
  have m: "stored ?m obj = (if fst obj = b then None else stored m obj)" for obj
    using map_of_filter_keys [of "\<lambda>obj. fst obj \<noteq> b" "sh_objects m" obj] by simp
  obtain r where r: "delete_bucket sm b w = (r, w')" and y: "y = map_sum id (\<lambda>_. Finished) r"
    using run by (cases "delete_bucket sm b w"; cases "fst (delete_bucket sm b w)") (auto simp: bind_op_def)
  have names: "set (bucket_names (w_db w)) = sh_buckets m" using represents_wf [OF rep] by blast
  show ?thesis
  proof (cases "b \<in> sh_buckets m")
    case False
    then have "r = Inl (InvalidBucket b)" "same_state w w'"
      using delete_bucket_effect(1) [OF quiet r] names by simp_all
    moreover have "fst obj \<noteq> b" if "(obj, i) \<in> set (sh_objects m)" for obj i
      using shelf_okD(2) [OF ok, of obj i] map_of_is_SomeI [OF shelf_okD(1) [OF ok] that] False by auto
    then have "filter (\<lambda>(obj, i). fst obj \<noteq> b) (sh_objects m) = sh_objects m" by (auto simp: filter_id_conv)
    moreover have "sh_buckets m - {b} = sh_buckets m" using False by simp
    ultimately have "?m = m" by simp
    then show ?thesis using represents_same [OF rep] \<open>r = _\<close> \<open>same_state w w'\<close> False y by simp
  next
    case True
    have res: "r = Inr ()" and env: "w_env w' = w_env w" and db: "w_db w' = snd (sql_delete_bucket b (w_db w))"
      and cache: "w_cache w' = without_entries b {sf_key f |f. f \<in> set (db_files (w_db w)) \<and> sf_bucket f = b} (w_cache w)"
      using delete_bucket_effect(2) [OF quiet r] True names by simp_all
    have files: "db_files (w_db w') = filter (\<lambda>f. sf_bucket f \<noteq> b) (db_files (w_db w))"
      using True names by (simp add: db sql_delete_bucket_def sql_bucket_exists_def)
    have "represents lib sm cwd N ?m w'"
    proof (rule representsI [OF rep env])
      show "fs_cwd (w_fs w') = cwd"
        using keepsD_eq [OF at_cwd_delete_bucket [of cwd] _ r] represents_cwd [OF rep] by (simp add: on_fs_def)
      show "shelf_ok sm N ?m"
      proof (rule shelf_ok_less [OF ok])
        show "distinct (map fst (sh_objects ?m))" using shelf_okD(1) [OF ok] by (simp add: distinct_map_filter)
        show "stored ?m \<subseteq>\<^sub>m stored m" unfolding map_le_def dom_def m by auto
        fix obj i assume "stored ?m obj = Some i"
        then have "stored m obj = Some i" "fst obj \<noteq> b" unfolding m by (auto split: if_splits)
        then show "fst obj \<in> sh_buckets ?m" using shelf_okD(2) [OF ok] by simp
      qed
      show "db_wf (w_db w')" unfolding db using represents_wf [OF rep] by (intro db_wf_delete_bucket) simp
      show "set (bucket_names (w_db w')) = sh_buckets ?m"
        using names by (auto simp: db sql_delete_bucket_def bucket_names_def)
    next
      fix f assume "f \<in> set (db_files (w_db w'))"
      then have f: "f \<in> set (db_files (w_db w))" "sf_bucket f \<noteq> b" using files by simp_all
      obtain i where "stored m (object_of f) = Some i" "row_sign f = item_sign lib sm (object_of f) i"
        by (rule represents_rows [OF rep f(1)])
      then show "\<exists>i. stored ?m (object_of f) = Some i \<and> row_sign f = item_sign lib sm (object_of f) i"
        unfolding m using f(2) by simp
    next
      fix b' k' assume N: "(b', k') \<in> N" and "stored ?m (b', k') = None"
      then consider "stored m (b', k') = None" | i where "b' = b" "stored m (b, k') = Some i"
        unfolding m by (auto split: if_splits)
      then show "w_cache w' (metadata_key b' k') = None \<and> w_cache w' (content_key b' k') = None"
      proof cases
        case 1
        then show ?thesis using represents_absent(2) [OF rep _ N] by (simp add: cache without_entries_def)
      next
        case 2
        obtain f where "f \<in> set (db_files (w_db w))" "row_sign f = item_sign lib sm (b, k') i"
          by (rule represents_row [OF rep 2(2)])
        then have "k' \<in> {sf_key f |f. f \<in> set (db_files (w_db w)) \<and> sf_bucket f = b}"
          using row_sign_fields(1) by fastforce
        then show ?thesis unfolding cache without_entries_def 2(1) by auto
      qed
    next
      fix obj i assume "stored ?m obj = Some i"
      then have obj: "stored m obj = Some i" "fst obj \<noteq> b" unfolding m by (auto split: if_splits)
      then obtain h where h: "object_held lib sm obj i w h" using representsD(6) [OF rep] by blast
      have "\<not> starts_with (resolve cwd (path_join (sm_base_path sm) b)) (resolve cwd (home_path sm i))"
        using plain map_of_SomeD [OF obj(1)] obj(2) by auto
      then have "leaves_alone sm h (Drop_bucket b)"
        using h obj(2) quiet represents_cwd [OF rep]
        by (auto simp: object_held_def hd_place_def holds_def file_held_def)
      from others_held [OF h this run] show "\<exists>h. object_held lib sm obj i w' h" by blast
    qed
    then show ?thesis using True y res by simp
  qed
qed

section \<open>Uploading\<close>

text \<open>The rows after an upload, and the buckets.\<close>

lemma sql_save_file_rows:
  assumes "sql_save_file f d = Inr d'" "g \<in> set (db_files d')"
  shows "row_sign g = row_sign f \<or> (g \<in> set (db_files d) \<and> object_of g \<noteq> object_of f)"
  using assms
  by (auto simp: sql_save_file_def overwrite_row_def fresh_row_def is_object_def sql_get_file_None image_iff row_sign_def
      split: if_splits; metis)

lemma sql_save_file_buckets: "sql_save_file f d = Inr d' \<Longrightarrow> db_buckets d' = db_buckets d"
  by (auto simp: sql_save_file_def split: if_splits)

lemma keeps_buckets_save: "keeps (on_db (\<lambda>d. db_buckets d = bs)) (db_save_file f)"
  unfolding db_save_file_def by (rule keeps_query_db) (auto dest: sql_save_file_buckets split: sum.splits)

lemma keeps_buckets_store:
  "keeps (on_db (\<lambda>d. db_buckets d = bs)) (store_new lib sm b k c ct opts hs)"
  "keeps (on_db (\<lambda>d. db_buckets d = bs)) (store_alias g b k ct opts hs)"
  unfolding store_new_def finish_upload_def save_or_cleanup_def store_alias_def Let_def
  by (intro keeps_intros keeps_buckets_save keeps_encrypt_content keeps_create_parent_dir_db keeps_write_file_atomic_db)+

lemma ensure_bucket_effect:
  assumes "quiet (w_env w)" "ensure_bucket_exists sm b w = (Inr (), w')"
  shows "set (bucket_names (w_db w')) = insert b (set (bucket_names (w_db w)))"
proof (cases "sql_bucket_exists b (w_db w)")
  case True
  then show ?thesis using assms ensure_bucket_exists_quiet [of w b sm] by (auto simp: sql_bucket_exists_def)
next
  case False
  then have "create_bucket sm b (tick w) = (Inr (), w')"
    using assms by (simp add: ensure_bucket_exists_def read_query_quiet bind_op_def)
  then show ?thesis using create_bucket_effect(4) [of "tick w" sm b w'] assms(1) by simp
qed

lemma store_file_buckets:
  assumes "quiet (w_env w)" "store_file lib sm b k c ct opts w = (Inr f, w')"
  shows "set (bucket_names (w_db w')) = insert b (set (bucket_names (w_db w)))"
proof -
  let ?rest = "\<lambda>h. if dedups sm then
      bind_op (db_get_file_by_hash (fst h)) (\<lambda>existing. case existing of
          Some f \<Rightarrow> if sf_bucket f = b \<and> sf_key f = k then ret f else store_alias f b k ct opts h
        | None \<Rightarrow> store_new lib sm b k c ct opts h)
    else store_new lib sm b k c ct opts h"
  obtain w1 where w1: "ensure_bucket_exists sm b w = (Inr (), w1)"
    and rest: "?rest (sl_blake3 lib c, sl_md5 lib c) w1 = (Inr f, w')"
    using assms(2) by (auto simp: store_file_def compute_hashes_parallel_def bind_op_result_Inr Let_def)
  have "keeps (on_db (\<lambda>d. db_buckets d = db_buckets (w_db w1))) (?rest (sl_blake3 lib c, sl_md5 lib c))"
    unfolding db_get_file_by_hash_def by (intro keeps_intros keeps_buckets_store)
  from keepsD_eq [OF this _ rest] have "bucket_names (w_db w') = bucket_names (w_db w1)"
    by (simp add: on_db_def bucket_names_def)
  then show ?thesis using ensure_bucket_effect [OF assms(1) w1] by simp
qed

text \<open>Content that is there: what \<open>store_file\<close> does.\<close>

lemma store_file_hit:
  assumes quiet: "quiet (w_env w)" and dedup: "dedups sm"
    and row: "g0 \<in> set (db_files (w_db w))" "sf_hash_blake3 g0 = sl_blake3 lib c"
    and store: "store_file lib sm b k c ct opts w = (Inr f, w')"
  obtains w1 g where "ensure_bucket_exists sm b w = (Inr (), w1)" "w_env w1 = w_env w" "w_cache w1 = w_cache w"
    "db_files (w_db w1) = db_files (w_db w)" "g \<in> set (db_files (w_db w))" "sf_hash_blake3 g = sl_blake3 lib c"
    "if is_object b k g then f = g \<and> w' = tick w1
     else store_alias g b k ct opts (sl_blake3 lib c, sl_md5 lib c) (tick w1) = (Inr f, w')"
proof -
  let ?h = "(sl_blake3 lib c, sl_md5 lib c)"
  obtain w1 where w1: "ensure_bucket_exists sm b w = (Inr (), w1)"
    and rest: "bind_op (db_get_file_by_hash (sl_blake3 lib c)) (\<lambda>existing. case existing of
          Some f \<Rightarrow> if sf_bucket f = b \<and> sf_key f = k then ret f else store_alias f b k ct opts ?h
        | None \<Rightarrow> store_new lib sm b k c ct opts ?h) w1 = (Inr f, w')"
    using store dedup by (auto simp: store_file_def compute_hashes_parallel_def bind_op_result_Inr Let_def)
  have env: "w_env w1 = w_env w" "w_cache w1 = w_cache w"
    using keepsD_eq [OF keeps_env_cache(7) _ w1, of "w_env w"] keepsD_eq [OF keeps_env_cache(8) _ w1, of "w_cache w"]
    by (auto simp: on_env_def on_cache_def)
  have files: "db_files (w_db w1) = db_files (w_db w)"
    using keepsD_eq [OF keeps_ensure_bucket_rows _ w1, of "db_keys (w_db w)" "db_files (w_db w)"] by (simp add: on_db_def)
  let ?found = "sql_file_by_hash (env_choice (w_env w1) (w_tick w1)) (sl_blake3 lib c) (w_db w1)"
  have "?found \<noteq> None" using row by (auto simp: sql_file_by_hash_def files filter_empty_conv Let_def)
  then obtain g where g: "?found = Some g" by blast
  have hash: "sf_hash_blake3 g = sl_blake3 lib c"
  proof -
    let ?rows = "filter (\<lambda>f. sf_hash_blake3 f = sl_blake3 lib c) (db_files (w_db w1))"
    have "?rows \<noteq> []" "g = ?rows ! (env_choice (w_env w1) (w_tick w1) mod length ?rows)"
      using g by (auto simp: sql_file_by_hash_def Let_def split: if_splits)
    then have "g \<in> set ?rows" using nth_mem [of "env_choice (w_env w1) (w_tick w1) mod length ?rows" ?rows] by simp
    then show ?thesis by simp
  qed
  have "if is_object b k g then f = g \<and> w' = tick w1
      else store_alias g b k ct opts ?h (tick w1) = (Inr f, w')"
    using rest g quiet env by (cases "is_object b k g") (auto simp: db_get_file_by_hash_quiet bind_op_def is_object_def)
  with that [OF w1 env files _ hash] sql_file_by_hash_row [OF g] show thesis by (simp add: files)
qed

text \<open>What an upload does to the bucket's row is no matter to the objects.\<close>

lemma held_after_ensure:
  assumes "object_held lib sm obj i w h" "ensure_bucket_exists sm b w = (Inr (), w1)"
  shows "holds (sl_json lib) h w1"
  using safe_run [OF holds_ensure_bucket [of "sl_json lib" h sm b], of w "Inr ()" w1] assms
  by (simp add: run_task_simps object_held_def)

lemma held_after_alias:
  assumes "holds (sl_json lib) h w" "store_alias g b k ct opts hs w = (Inr f, w')"
    and "(b, k) \<noteq> object_of (hd_row h)" "g \<in> set (db_files (w_db w))"
  shows "holds (sl_json lib) h w'"
proof -
  have "path_apart h (sf_file_path g)" using assms(1) row_held_apart [OF _ assms(4), of h] by (simp add: holds_def)
  from safe_run [OF holds_store_alias [OF assms(3) this], where w = w and r = "Inr f" and w' = w'] show ?thesis
    using assms(1,2) by (simp add: run_task_simps)
qed

lemma object_is_held:
  assumes laws: "library_laws lib" and b: "no_colon (sf_bucket f)" and quiet: "quiet (w_env w)"
    and enc: "encoded_as lib sm (w_db w) f raw (it_content i)" and disk: "content_at (w_fs w) (sf_file_path f) = Some raw"
    and f: "row_sign f = item_sign lib sm (object_of f) i"
    and meta: "\<And>v. w_cache w (metadata_key (sf_bucket f) (sf_key f)) = Some v \<Longrightarrow> json_from_slice (sl_json lib) v = Inr f"
    and cont: "\<And>x. w_cache w (content_key (sf_bucket f) (sf_key f)) = Some x \<Longrightarrow> x = raw"
    and row: "sql_get_file (sf_bucket f) (sf_key f) (w_db w) = Some g" "reads_alike g f" and wf: "db_wf (w_db w)"
    and apart: "\<And>g. g \<in> set (db_files (w_db w)) \<Longrightarrow>
      resolve (fs_cwd (w_fs w)) (sf_file_path g) = resolve (fs_cwd (w_fs w)) (sf_file_path f) \<Longrightarrow>
      sf_file_path g = sf_file_path f"
  shows "\<exists>h. object_held lib sm (object_of f) i w h"
proof -
  define h where "h = \<lparr>hd_env = w_env w, hd_cwd = fs_cwd (w_fs w), hd_keys = db_keys (w_db w), hd_row = f, hd_raw = raw\<rparr>"
  have "held_ok lib sm h (it_content i)"
    unfolding held_ok_def
  proof (intro conjI)
    show "\<forall>d. db_keys d = hd_keys h \<longrightarrow> encoded_as lib sm d (hd_row h) (hd_raw h) (it_content i)"
    proof (intro allI impI)
      fix d :: db assume "db_keys d = hd_keys h"
      then have "db_keys d = db_keys (w_db w)" by (simp add: h_def)
      then show "encoded_as lib sm d (hd_row h) (hd_raw h) (it_content i)"
        using enc encoded_as_cong [of d "w_db w" lib sm f raw "it_content i"] by (simp add: h_def)
    qed
    show "\<forall>f v. json_to_vec (sl_json lib) f = Inr v \<longrightarrow> json_from_slice (sl_json lib) v = Inr f"
      using laws unfolding library_laws_def by blast
  qed (use b row_sign_fields(6) [OF f] quietD [OF quiet] in \<open>simp_all add: h_def\<close>)
  moreover have "holds (sl_json lib) h w"
    using meta cont row wf disk apart
    by (auto simp: holds_def h_def row_held_def file_held_def entries_held_def path_apart_def hd_path_def hd_place_def)
  moreover have "hd_path h = home_path sm i" "hd_row h = f" "sf_content_type f = it_type i"
    using row_sign_fields [OF f] by (simp_all add: h_def hd_path_def)
  ultimately show ?thesis by (intro exI [of _ h]) (simp add: object_held_def)
qed

text \<open>Two homes with one place are one home.\<close>

lemma kept_apart_two:
  assumes "kept_apart sm cwd N" "(b, k) \<in> N" "(b', k') \<in> N" "(b, k) \<noteq> (b', k')"
  shows "resolve cwd (get_file_path sm b k) \<noteq> resolve cwd (get_file_path sm b' k') \<and>
    resolve cwd (with_extension (get_file_path sm b k) ''tmp'') \<noteq> resolve cwd (get_file_path sm b' k')"
proof -
  have "\<forall>(b', k') \<in> N. (b, k) \<noteq> (b', k') \<longrightarrow>
      resolve cwd (get_file_path sm b k) \<noteq> resolve cwd (get_file_path sm b' k') \<and>
      resolve cwd (with_extension (get_file_path sm b k) ''tmp'') \<noteq> resolve cwd (get_file_path sm b' k')"
    using bspec [OF assms(1) [unfolded kept_apart_def] assms(2)] by simp
  from bspec [OF this assms(3)] show ?thesis using assms(4) by simp
qed

lemma homes_apart:
  assumes "kept_apart sm cwd N" "it_home i \<in> N" "it_home j \<in> N"
    and "resolve cwd (home_path sm i) = resolve cwd (home_path sm j)"
  shows "home_path sm i = home_path sm j"
proof (cases "it_home i = it_home j")
  case False
  obtain b k b' k' where homes: "it_home i = (b, k)" "it_home j = (b', k')" by fastforce
  then have "resolve cwd (get_file_path sm b k) \<noteq> resolve cwd (get_file_path sm b' k')"
    using kept_apart_two [OF assms(1), of b k b' k'] assms(2,3) False by simp
  then show ?thesis using assms(4) homes by (simp add: home_path_def)
qed (simp add: home_path_def)

lemma twin_Some: "twin c m = Some t \<Longrightarrow> \<exists>obj. (obj, t) \<in> set (sh_objects m) \<and> it_content t = c"
proof -
  assume "twin c m = Some t"
  then have "t \<in> set (map snd (sh_objects m))" "it_content t = c"
    by (auto simp: twin_def find_Some_iff)
  then show ?thesis by force
qed

lemma twin_None: "twin c m = None \<longleftrightarrow> (\<forall>(obj, i) \<in> set (sh_objects m). it_content i \<noteq> c)"
  by (auto simp: twin_def find_None_iff)

text \<open>An object is put on the shelf, which stays in order.\<close>

definition put_item :: "string \<times> string \<Rightarrow> item \<Rightarrow> shelf \<Rightarrow> shelf" where
  "put_item obj i m =
     \<lparr>sh_buckets = insert (fst obj) (sh_buckets m), sh_objects = AList.update obj i (sh_objects m)\<rparr>"

lemma stored_put: "stored (put_item obj i m) x = (if x = obj then Some i else stored m x)"
  by (simp add: put_item_def update_conv')

lemma buckets_put [simp]: "sh_buckets (put_item obj i m) = insert (fst obj) (sh_buckets m)"
  by (simp add: put_item_def)

lemma shelf_ok_put:
  assumes ok: "shelf_ok sm N m" and obj: "obj \<in> N" "it_home i \<in> N"
    and home: "\<And>obj' i'. dedups sm \<Longrightarrow> stored m obj' = Some i' \<Longrightarrow> obj' \<noteq> obj \<Longrightarrow> it_content i' = it_content i \<Longrightarrow>
      it_home i' = it_home i"
  shows "shelf_ok sm N (put_item obj i m)"
  unfolding shelf_ok_def
proof (intro conjI allI impI)
  show "distinct (map fst (sh_objects (put_item obj i m)))"
    using shelf_okD(1) [OF ok] by (simp add: put_item_def distinct_update)
  show "x \<in> N" "it_home j \<in> N" "fst x \<in> sh_buckets (put_item obj i m)" if "stored (put_item obj i m) x = Some j" for x j
    using that shelf_okD(2) [OF ok, of x j] obj unfolding stored_put by (auto split: if_splits)
  fix x j y j' assume "dedups sm" "stored (put_item obj i m) x = Some j" "stored (put_item obj i m) y = Some j'"
    "it_content j = it_content j'"
  then show "it_home j = it_home j'"
    using shelf_okD(3) [OF ok, of x j y j'] home [of x j] home [of y j'] unfolding stored_put by (auto split: if_splits)
qed

lemma put_rows:
  assumes rep: "represents lib sm cwd N m w" and save: "sql_save_file f d = Inr d'" "db_files d = db_files (w_db w)"
    and sign: "row_sign f = item_sign lib sm obj i" and g: "g \<in> set (db_files d')"
  shows "\<exists>j. stored (put_item obj i m) (object_of g) = Some j \<and> row_sign g = item_sign lib sm (object_of g) j"
proof (cases "row_sign g = row_sign f")
  case True
  then show ?thesis using sign row_sign_fields(1) [of g] by (simp add: stored_put)
next
  case False
  then have old: "g \<in> set (db_files (w_db w))" "object_of g \<noteq> obj"
    using sql_save_file_rows [OF save(1) g] save(2) row_sign_fields(1) [OF sign] by simp_all
  then show ?thesis using represents_rows [OF rep old(1)] stored_put by metis
qed

text \<open>The upload of an object brings the relation back when the object's own bytes are right and the
  other objects are still held.\<close>

lemma represents_put:
  assumes rep: "represents lib sm cwd N m w" and store: "store_file lib sm b k c ct opts w = (Inr f, w')"
    and N: "(b, k) \<in> N" and ok: "shelf_ok sm N (put_item (b, k) i m)"
    and save: "sql_save_file f d = Inr (w_db w')" "db_files d = db_files (w_db w)"
    and sign: "row_sign f = item_sign lib sm (b, k) i" and env: "w_env w' = w_env w"
    and enc: "encoded_as lib sm (w_db w') f raw (it_content i)" and disk: "content_at (w_fs w') (sf_file_path f) = Some raw"
    and meta: "\<And>v. w_cache w' (metadata_key b k) = Some v \<Longrightarrow> json_from_slice (sl_json lib) v = Inr f"
    and cont: "\<And>x. w_cache w' (content_key b k) = Some x \<Longrightarrow> x = raw"
    and cache: "\<And>b' k'. (b', k') \<in> N \<Longrightarrow> (b', k') \<noteq> (b, k) \<Longrightarrow>
      w_cache w' (metadata_key b' k') = w_cache w (metadata_key b' k') \<and>
      w_cache w' (content_key b' k') = w_cache w (content_key b' k')"
    and others: "\<And>obj j h. stored m obj = Some j \<Longrightarrow> obj \<noteq> (b, k) \<Longrightarrow> object_held lib sm obj j w h \<Longrightarrow>
      object_held lib sm obj j w' h"
  shows "represents lib sm cwd N (put_item (b, k) i m) w'"
proof -
  let ?m = "put_item (b, k) i m"
  note rows = put_rows [OF rep save sign]
  have fo: "object_of f = (b, k)" and bk: "sf_bucket f = b" "sf_key f = k" using row_sign_fields(1) [OF sign] by simp_all
  have cwd: "fs_cwd (w_fs w') = cwd"
    using keepsD_eq [OF at_cwd_store_file [of cwd] _ store] represents_cwd [OF rep] by (simp add: on_fs_def)
  have wf: "db_wf (w_db w')"
    using keepsD_eq [OF keeps_store_file(1) _ store] represents_wf [OF rep] by (simp add: on_db_def)
  have names: "set (bucket_names (w_db w')) = sh_buckets ?m"
    using store_file_buckets [OF representsD(3) [OF rep] store] represents_wf [OF rep] by simp
  have apart: "sf_file_path x = sf_file_path f" if x: "x \<in> set (db_files (w_db w'))"
    "resolve (fs_cwd (w_fs w')) (sf_file_path x) = resolve (fs_cwd (w_fs w')) (sf_file_path f)" for x
  proof -
    obtain j where j: "stored ?m (object_of x) = Some j" "row_sign x = item_sign lib sm (object_of x) j"
      using rows [OF x(1)] by blast
    then show ?thesis
      using homes_apart [OF representsD(2) [OF rep], of j i] shelf_okD(2) [OF ok j(1)] shelf_okD(2) [OF ok, of "(b, k)" i]
        x(2) cwd row_sign_fields(2) [OF j(2)] row_sign_fields(2) [OF sign] by (simp add: stored_put)
  qed
  obtain g where g: "sql_get_file (sf_bucket f) (sf_key f) (w_db w') = Some g" "reads_alike g f"
    using sql_get_saved [OF save(1) fo] bk unfolding reads_alike_def by metis
  have own: "\<exists>h. object_held lib sm (object_of f) i w' h"
    by (rule object_is_held [OF representsD(1) [OF rep] _ _ enc disk _ _ _ g wf apart])
      (use kept_apartD [OF representsD(2) [OF rep] N] representsD(3) [OF rep] env sign fo meta cont bk in simp_all)
  show ?thesis
  proof (rule representsI [OF rep env cwd ok wf names rows])
    fix b' k' assume "(b', k') \<in> N" "stored ?m (b', k') = None"
    then show "w_cache w' (metadata_key b' k') = None \<and> w_cache w' (content_key b' k') = None"
      using represents_absent(2) [OF rep, of b' k'] cache [of b' k'] unfolding stored_put by (auto split: if_splits)
  next
    fix obj j assume "stored ?m obj = Some j"
    then show "\<exists>h. object_held lib sm obj j w' h"
      using own fo others [of obj j] representsD(6) [OF rep, of obj j] unfolding stored_put
      by (cases "obj = (b, k)") auto
  qed
qed

text \<open>The bytes of a row that names a held object's file, with the same settings.\<close>

lemma alias_bytes:
  assumes rep: "represents lib sm cwd N m w" and g: "g \<in> set (db_files (w_db w))"
    and h: "object_held lib sm (object_of g) i w h" and held: "holds (sl_json lib) h w'"
    and f: "f = alias_row g b k ct opts hs u now"
  shows "encoded_as lib sm (w_db w') f (hd_raw h) (it_content i)" "content_at (w_fs w') (sf_file_path f) = Some (hd_raw h)"
proof -
  obtain g' where "sql_get_file (sf_bucket g) (sf_key g) (w_db w) = Some g'" "reads_alike g' (hd_row h)"
    using h by (auto simp: object_held_def holds_def row_held_def)
  then have gh: "reads_alike g (hd_row h)"
    using sql_get_file_iff [of "w_db w" "sf_bucket g" "sf_key g" g] represents_wf [OF rep] g by (simp add: is_object_def)
  then have "same_encoding f (hd_row h)" by (simp add: f alias_row_def reads_alike_def same_encoding_def)
  moreover have "encoded_as lib sm (w_db w') (hd_row h) (hd_raw h) (it_content i)"
    using h held held_okD(4) [of lib sm h "it_content i" "w_db w'"] by (simp add: object_held_def holds_def row_held_def)
  ultimately show "encoded_as lib sm (w_db w') f (hd_raw h) (it_content i)" by (rule encoded_as_same)
  have "sf_file_path f = hd_path h" using gh by (simp add: f alias_row_def reads_alike_def hd_path_def)
  then show "content_at (w_fs w') (sf_file_path f) = Some (hd_raw h)"
    using held by (simp add: holds_def file_held_def)
qed

text \<open>Content that is there, for an object that is not: its row becomes an alias of \<open>g\<close>.\<close>

lemma represents_alias:
  assumes rep: "represents lib sm cwd N m w" and store: "store_file lib sm b k c ct opts w = (Inr f, w')"
    and N: "(b, k) \<in> N" and gone: "stored m (b, k) = None" and ct: "ct \<noteq> None" and ttl: "so_expires_at opts = None"
    and g: "g \<in> set (db_files (w_db w))" "stored m (object_of g) = Some i" "row_sign g = item_sign lib sm (object_of g) i"
    and ens: "ensure_bucket_exists sm b w = (Inr (), w1)" "w_env w1 = w_env w" "w_cache w1 = w_cache w"
      "db_files (w_db w1) = db_files (w_db w)"
    and al: "store_alias g b k ct opts (sl_blake3 lib c, md) (tick w1) = (Inr f, w')" and c: "it_content i = c"
  shows "object_of f = (b, k) \<and> sf_original_size f = int (length c) \<and>
    represents lib sm cwd N
      (put_item (b, k) \<lparr>it_content = c, it_type = unwrap_or ct x, it_home = it_home i\<rparr> m) w'"
proof -
  let ?i = "\<lparr>it_content = c, it_type = unwrap_or ct x, it_home = it_home i\<rparr>"
  note ok = representsD(4) [OF rep]
  obtain u now where f: "f = alias_row g b k ct opts (sl_blake3 lib c, md) u now"
    and save: "sql_save_file f (w_db (tick w1)) = Inr (w_db w')"
    and rest: "w_fs w' = w_fs w1" "w_cache w' = w_cache w" "w_env w' = w_env w"
    using store_alias_Inr [OF al] ens by auto
  have sign: "row_sign f = item_sign lib sm (b, k) ?i"
    using row_sign_fields [OF g(3)] c ct ttl by (auto simp: f alias_row_def row_sign_def item_sign_def home_path_def)
  have others: "object_held lib sm obj j w' h" if "stored m obj = Some j" "object_held lib sm obj j w h" for obj j h
  proof -
    have "holds (sl_json lib) h (tick w1)" using held_after_ensure [OF that(2) ens(1)] by (simp add: holds_def)
    moreover have "(b, k) \<noteq> object_of (hd_row h)" using that gone by (auto simp: object_held_def)
    ultimately have "holds (sl_json lib) h w'" using held_after_alias [OF _ al] g(1) ens by simp
    then show ?thesis using that(2) by (simp add: object_held_def)
  qed
  obtain h where h: "object_held lib sm (object_of g) i w h" using representsD(6) [OF rep g(2)] by blast
  then have held: "holds (sl_json lib) h w'" using others [OF g(2) h] by (simp add: object_held_def)
  have none: "w_cache w' (metadata_key b k) = None" "w_cache w' (content_key b k) = None"
    using represents_absent(2) [OF rep gone N] rest by simp_all
  have ok': "shelf_ok sm N (put_item (b, k) ?i m)"
    by (rule shelf_ok_put [OF ok N]) (use shelf_okD(2) [OF ok g(2)] shelf_okD(3) [OF ok _ _ g(2)] c in simp_all)
  have "represents lib sm cwd N (put_item (b, k) ?i m) w'"
    by (rule represents_put [OF rep store N ok' save _ sign rest(3) _ alias_bytes(2) [OF rep g(1) h held f]])
      (use alias_bytes(1) [OF rep g(1) h held f] c ens others none rest in simp_all)
  then show ?thesis using row_sign_fields [OF sign] by simp
qed

text \<open>Content that is there, for the only object that has it.\<close>

lemma represents_again:
  assumes rep: "represents lib sm cwd N m w" and store: "store_file lib sm b k c ct opts w = (Inr f, w')"
    and b: "b \<in> sh_buckets m"
    and ens: "ensure_bucket_exists sm b w = (Inr (), w1)" "w_env w1 = w_env w" "w_cache w1 = w_cache w"
      "db_files (w_db w1) = db_files (w_db w)" and w': "w' = tick w1"
  shows "represents lib sm cwd N m w'"
proof (rule representsI [OF rep])
  show "fs_cwd (w_fs w') = cwd"
    using keepsD_eq [OF at_cwd_store_file [of cwd] _ store] represents_cwd [OF rep] by (simp add: on_fs_def)
  show "db_wf (w_db w')"
    using keepsD_eq [OF keeps_store_file(1) _ store] represents_wf [OF rep] by (simp add: on_db_def)
  show "set (bucket_names (w_db w')) = sh_buckets m"
    using store_file_buckets [OF representsD(3) [OF rep] store] represents_wf [OF rep] b by auto
next
  fix f assume "f \<in> set (db_files (w_db w'))"
  then have "f \<in> set (db_files (w_db w))" using w' ens by simp
  then show "\<exists>i. stored m (object_of f) = Some i \<and> row_sign f = item_sign lib sm (object_of f) i"
    using represents_rows [OF rep] by metis
next
  fix obj i assume "stored m obj = Some i"
  then obtain h where h: "object_held lib sm obj i w h" using representsD(6) [OF rep] by blast
  then show "\<exists>h. object_held lib sm obj i w' h"
    using held_after_ensure [OF h ens(1)] w' by (auto simp: object_held_def holds_def)
qed (use ens w' representsD(4) [OF rep] represents_absent(2) [OF rep] in auto)

lemma represents_present:
  assumes rep: "represents lib sm cwd N m w" and store: "store_file lib sm b k c ct opts w = (Inr f, w')"
    and N: "(b, k) \<in> N" and ttl: "so_expires_at opts = None" and dedup: "dedups sm" and twin: "twin c m = Some t"
    and fits: "upload_fits lib sm (b, k) c ct m"
  shows "object_of f = (b, k) \<and> sf_original_size f = int (length c) \<and>
    represents lib sm cwd N (after_request sm (Store b k c ct opts) m) w'"
proof -
  let ?m = "after_request sm (Store b k c ct opts) m"
  note quiet = representsD(3) [OF rep] and ok = representsD(4) [OF rep]
  obtain o0 where "(o0, t) \<in> set (sh_objects m)" and tc: "it_content t = c" using twin_Some [OF twin] by blast
  then have t: "stored m o0 = Some t" using shelf_okD(1) [OF ok] by simp
  obtain g0 where g0: "g0 \<in> set (db_files (w_db w))" "row_sign g0 = item_sign lib sm (fst o0, snd o0) t"
    by (rule represents_row [OF rep, of "fst o0" "snd o0" t]) (use t in simp)
  then have "sf_hash_blake3 g0 = sl_blake3 lib c" using row_sign_fields(3) tc by metis
  from store_file_hit [OF quiet dedup g0(1) this store] obtain w1 g where
    ens: "ensure_bucket_exists sm b w = (Inr (), w1)" "w_env w1 = w_env w" "w_cache w1 = w_cache w"
      "db_files (w_db w1) = db_files (w_db w)"
    and g: "g \<in> set (db_files (w_db w))" "sf_hash_blake3 g = sl_blake3 lib c"
    and res: "if is_object b k g then f = g \<and> w' = tick w1
      else store_alias g b k ct opts (sl_blake3 lib c, sl_md5 lib c) (tick w1) = (Inr f, w')" .
  obtain i where i: "stored m (object_of g) = Some i" "row_sign g = item_sign lib sm (object_of g) i"
    by (rule represents_rows [OF rep g(1)])
  have "sl_blake3 lib (it_content i) = sl_blake3 lib c" using g(2) row_sign_fields(3) [OF i(2)] by simp
  then have ic: "it_content i = c" using fits dedup map_of_SomeD [OF i(1)] by (fastforce simp: upload_fits_def)
  then have home: "it_home i = it_home t" using shelf_okD(3) [OF ok dedup i(1) t] tc by simp
  show ?thesis
  proof (cases "is_object b k g")
    case True
    then have bk: "object_of g = (b, k)" "f = g" "w' = tick w1" using res by (auto simp: is_object_def)
    then have b: "stored m (b, k) = Some i" "b \<in> sh_buckets m" using i(1) shelf_okD(2) [OF ok i(1)] by simp_all
    then have "?m = m" using dedup twin by (simp add: shelve_def insert_absorb)
    then show ?thesis
      using represents_again [OF rep store b(2) ens bk(3)] row_sign_fields [OF i(2)] bk ic by (simp del: after_request.simps)
  next
    case False
    have "\<not> (\<forall>(obj', i) \<in> set (sh_objects m). it_content i = c \<longrightarrow> obj' = (b, k))"
      using map_of_SomeD [OF i(1)] False ic by (fastforce simp: is_object_def)
    then have gone: "stored m (b, k) = None" and ct: "ct \<noteq> None"
      using fits dedup twin unfolding upload_fits_def by auto
    have "?m = put_item (b, k) \<lparr>it_content = c, it_type = unwrap_or ct (it_type t), it_home = it_home i\<rparr> m"
      using dedup twin gone home by (simp add: shelve_def put_item_def)
    then show ?thesis
      using represents_alias [OF rep store N gone ct ttl g(1) i ens _ ic] res False by (simp del: after_request.simps)
  qed
qed

text \<open>Content that is new: the other objects are left alone, for their bytes are in other files.\<close>

lemma unshared_is_elsewhere:
  assumes rep: "represents lib sm cwd N m w" and N: "(b, k) \<in> N"
    and o: "stored m obj = Some j" "obj \<noteq> (b, k)" "it_home j \<noteq> (b, k)" and h: "object_held lib sm obj j w h"
  shows "leaves_alone sm h (Store b k c ct opts)"
proof -
  obtain b' k' where home: "it_home j = (b', k')" by fastforce
  have "(b', k') \<in> N" "(b', k') \<noteq> (b, k)" using shelf_okD(2) [OF representsD(4) [OF rep] o(1)] o(3) home by auto
  then have "resolve cwd (get_file_path sm b k) \<noteq> resolve cwd (get_file_path sm b' k')"
    "resolve cwd (with_extension (get_file_path sm b k) ''tmp'') \<noteq> resolve cwd (get_file_path sm b' k')"
    using kept_apart_two [OF representsD(2) [OF rep] N, of b' k'] by auto
  moreover have "hd_cwd h = cwd" "hd_place h = resolve cwd (get_file_path sm b' k')" "object_of (hd_row h) = obj"
    using h represents_cwd [OF rep] home
    by (simp_all add: object_held_def hd_place_def holds_def file_held_def home_path_def)
  ultimately show ?thesis using kept_apartD [OF representsD(2) [OF rep] N] o(2) by simp
qed

lemma represents_new:
  assumes rep: "represents lib sm cwd N m w" and run: "operation_of lib sm (Store b k c ct opts) w = (Inr (Stored f), w')"
    and plain: "plain_request lib sm cwd N (Store b k c ct opts) m (Inr (Stored f))"
    and none: "dedups sm \<Longrightarrow> twin c m = None"
  shows "object_of f = (b, k) \<and> sf_original_size f = int (length c) \<and>
    represents lib sm cwd N (after_request sm (Store b k c ct opts) m) w'"
proof -
  let ?i = "\<lparr>it_content = c, it_type = unwrap_or ct ''application/octet-stream'', it_home = (b, k)\<rparr>"
  note quiet = representsD(3) [OF rep] and ok = representsD(4) [OF rep]
  have f: "sf_file_size f \<le> int max_cached_content" "json_reads_back (sl_json lib) f" and N: "(b, k) \<in> N"
    and ttl: "so_expires_at opts = None" and codec: "wants_compression sm opts \<Longrightarrow> cmp_enabled (sm_compression sm)"
    using plain none by auto
  have free: "it_home j \<noteq> (b, k)" if "stored m obj = Some j" "obj \<noteq> (b, k)" for obj j
    using plain none map_of_SomeD [OF that(1)] that(2) by (fastforce simp: upload_fits_def unshared_def split: if_splits)
  have fresh: "it_content j \<noteq> c \<and> sl_blake3 lib (it_content j) \<noteq> sl_blake3 lib c"
    if "dedups sm" "stored m obj = Some j" for obj j
    using plain none [OF that(1)] map_of_SomeD [OF that(2)] that(1) by (fastforce simp: upload_fits_def twin_None)
  have store: "store_file lib sm b k c ct opts w = (Inr f, w')" using run by (auto simp: bind_op_result_Inr)
  have "sf_hash_blake3 g \<noteq> sl_blake3 lib c" if g: "dedups sm" "g \<in> set (db_files (w_db w))" for g
  proof -
    obtain j where "stored m (object_of g) = Some j" "row_sign g = item_sign lib sm (object_of g) j"
      by (rule represents_rows [OF rep g(2)])
    then show ?thesis using fresh [OF g(1)] row_sign_fields(3) by metis
  qed
  from store_file_new [OF quiet this store] obtain w1 where w1: "quiet (w_env w1)"
    "w_cache w1 = w_cache w" "w_env w1 = w_env w" "db_files (w_db w1) = db_files (w_db w)"
    and new: "store_new lib sm b k c ct opts (sl_blake3 lib c, sl_md5 lib c) w1 = (Inr f, w')"
    by blast
  have codecs: "gzip_law (sl_codec lib)" "zstd_law (sl_codec lib)" "aead_law (sl_aead lib)"
    using representsD(1) [OF rep] by (simp_all add: library_laws_def)
  obtain raw v where enc: "encoded_as lib sm (w_db w') f raw c"
    and disk: "content_at (w_fs w') (sf_file_path f) = Some raw" "sf_file_size f = int (length raw)"
    and meta: "json_from_slice (sl_json lib) v = Inr f" "w_cache w' (metadata_key b k) = Some v"
    and cache: "w_cache w' = (if max_cached_content < length raw then (w_cache w1)(metadata_key b k \<mapsto> v)
       else (w_cache w1)(metadata_key b k \<mapsto> v, content_key b k \<mapsto> raw))"
    and db: "sql_save_file f (w_db w1) = Inr (w_db w')" and env: "w_env w' = w_env w1"
    and row: "object_of f = (b, k)" "sf_content_type f = unwrap_or ct ''application/octet-stream''"
      "sf_expires_at f = so_expires_at opts" "sf_file_path f = get_file_path sm b k"
      "sf_hash_blake3 f = fst (sl_blake3 lib c, sl_md5 lib c)"
    by (rule store_new_encoded [OF w1(1) f(2) codecs codec new])
  have size: "sf_original_size f = int (length c)" using store_new_quiet [OF w1(1) f(2) new] by blast
  have sign: "row_sign f = item_sign lib sm (b, k) ?i"
    using row ttl size by (simp add: row_sign_def item_sign_def home_path_def)
  have ok': "shelf_ok sm N (put_item (b, k) ?i m)"
    by (rule shelf_ok_put [OF ok N]) (use N fresh in auto)
  have kept: "w_cache w' (metadata_key b' k') = w_cache w (metadata_key b' k') \<and>
      w_cache w' (content_key b' k') = w_cache w (content_key b' k')" if "(b', k') \<in> N" "(b', k') \<noteq> (b, k)" for b' k'
    using that kept_apartD [OF representsD(2) [OF rep]] N w1(2)
    by (auto simp: cache metadata_key_inj content_key_inj split: if_splits)
  have others: "object_held lib sm obj j w' h"
    if "stored m obj = Some j" "obj \<noteq> (b, k)" "object_held lib sm obj j w h" for obj j h
    using others_held [OF that(3) unshared_is_elsewhere [OF rep N that(1,2) free [OF that(1,2)] that(3)] run] .
  have enc': "encoded_as lib sm (w_db w') f raw (it_content ?i)" using enc by simp
  have env': "w_env w' = w_env w" using env w1(3) by simp
  have cont: "w_cache w' (content_key b k) = Some raw" using cache f(1) disk(2) by simp
  have "represents lib sm cwd N (put_item (b, k) ?i m) w'"
    by (rule represents_put [OF rep store N ok' db w1(4) sign env' enc' disk(1) _ _ kept others])
      (use meta cont in simp_all)
  moreover have "after_request sm (Store b k c ct opts) m = put_item (b, k) ?i m"
    using none by (simp add: shelve_def put_item_def)
  ultimately show ?thesis using row(1) size by (simp del: after_request.simps)
qed

lemma represents_store:
  assumes rep: "represents lib sm cwd N m w" and run: "operation_of lib sm (Store b k c ct opts) w = (y, w')"
    and plain: "plain_request lib sm cwd N (Store b k c ct opts) m y"
  shows "map_answers lib (Store b k c ct opts) m y \<and> represents lib sm cwd N (after_request sm (Store b k c ct opts) m) w'"
proof -
  obtain f where y: "y = Inr (Stored f)" using plain by auto
  then have store: "store_file lib sm b k c ct opts w = (Inr f, w')" using run by (auto simp: bind_op_result_Inr)
  have "object_of f = (b, k) \<and> sf_original_size f = int (length c) \<and>
      represents lib sm cwd N (after_request sm (Store b k c ct opts) m) w'"
  proof (cases "dedups sm \<and> twin c m \<noteq> None")
    case True
    then obtain t where "twin c m = Some t" by blast
    with True show ?thesis using represents_present [OF rep store] plain by simp
  next
    case False
    then have "twin c m = None" if "dedups sm" using that by blast
    then show ?thesis by (rule represents_new [OF rep run [unfolded y] plain [unfolded y]])
  qed
  then show ?thesis using y by (simp del: after_request.simps)
qed

section \<open>The refinement\<close>

interpretation storage_map: simulation "operation_of lib sm" "after_request sm" "plain_request lib sm cwd N"
  "map_answers lib" "represents lib sm cwd N" for lib sm cwd N
proof
  fix m w r y w'
  assume rep: "represents lib sm cwd N m w" and run: "operation_of lib sm r w = (y, w')"
    and plain: "plain_request lib sm cwd N r m y"
  show "map_answers lib r m y \<and> represents lib sm cwd N (after_request sm r m) w'"
  proof (cases r)
    case (Store b k c ct opts)
    then show ?thesis using represents_store rep run plain by blast
  next
    case (Fetch b k)
    then show ?thesis using represents_fetch [OF rep run [unfolded Fetch]] plain by simp
  next
    case (Inform b k)
    then show ?thesis using represents_inform [OF rep run [unfolded Inform]] by simp
  next
    case (Remove b k)
    then show ?thesis using represents_remove [OF rep run [unfolded Remove]] plain by simp
  next
    case (Make_bucket b)
    then have "y = Inr Finished" using plain by simp
    then show ?thesis using represents_make_bucket [OF rep] run unfolding Make_bucket by simp
  next
    case (Drop_bucket b)
    then show ?thesis using represents_drop_bucket rep run plain by blast
  next
    case Sweep
    then show ?thesis using represents_sweep [OF rep run [unfolded Sweep]] by simp
  qed (use plain in simp_all)
qed

end
