(* ===== verification/Refinement_Properties.thy ===== *)
theory Refinement_Properties
  imports Storage_Shelf
begin

text \<open>
  The contract of the storage as a whole: requests that run one after the other are answered as
  a shelf of objects answers them.
\<close>

text \<open>C2 (refinement): the storage is a map from (bucket, key) to content and content type. Whatever
  sequence of uploads, reads, questions about objects, deletions, expiry sweeps and makings and
  droppings of buckets a service without objects and with an empty cache is given, one after the
  other, every read answers the content and the
  content type that the last upload of its object gave it, unless a deletion of it or of its
  bucket came after that, and then \<open>NotFound\<close>, as for an object that was never uploaded; the
  information tells the type, the length and the hash of that content; a deletion succeeds exactly
  for the objects, and for the buckets, that are there; a sweep removes nothing. What is done to
  one object never shows in another one, although they share the tables, the disk, the cache and,
  with deduplication, the very bytes: an object whose bytes are in another object's file outlives
  that object. Each upload chooses its compression and encryption, but may ask for compression only if
  the service has it enabled. The conditions: nothing fails and no cache entry is dropped (\<open>quiet\<close>).
  The uploads are those that
  succeed without an expiry; new content is of at most 1 MiB as stored and does not go into a file that
  another object's bytes are in; with deduplication on, equal hashes mean equal contents, and content
  that is there is uploaded, with its type, for a new object, or again
  for the only object that has it. Makings of buckets succeed, and no bucket is dropped whose directory
  has the bytes of objects of other buckets. The objects named have buckets without a colon, and no two
  of them share a file or a temporary file. The codecs, the cipher and JSON keep their laws. Reads of
  ranges are not among the requests. The
  findings \<open>forced_compression_is_not_undone\<close>, \<open>large_overwrite_serves_old_content\<close>,
  \<open>overwrite_changes_the_alias\<close>, \<open>colon_bucket_serves_another_object\<close>,
  \<open>alias_over_a_key_serves_the_old_content\<close>, \<open>bucket_deletion_destroys_aliased_bytes\<close> and
  \<open>temporary_name_destroys_an_object\<close> show why.\<close>

theorem storage_is_a_map:
  assumes "library_laws lib" "kept_apart sm (fs_cwd (w_fs w)) N" "quiet (w_env w)" "db_wf (w_db w)"
    and "db_files (w_db w) = []" "w_cache w = Map.empty"
    and "run_requests (operation_of lib sm) rs w = (ys, w')"
    and "all_along (plain_request lib sm (fs_cwd (w_fs w)) N) (after_request sm) rs ys
      (empty_shelf (set (bucket_names (w_db w))))"
  shows "all_along (map_answers lib) (after_request sm) rs ys (empty_shelf (set (bucket_names (w_db w))))"
  using storage_map.run_simulates [OF represents_empty [OF assms(1-6)] assms(7,8)] by simp

definition ex_names :: "(string \<times> string) set" where
  "ex_names = set [(''photos'', ''a.jpg''), (''photos'', ''b.png''), (''texts'', ''a.jpg'')]"

lemma ex_names_apart: "kept_apart ex_manager [] ex_names"
  by code_simp

lemma ex_library_laws: "library_laws (ex_lib (ex_json f))"
  using ex_gzip_law ex_zstd_law ex_aead_law
  by (simp add: library_laws_def ex_lib_def ex_json_def)

lemma ex_second_upload:
  "case fst (store_file (ex_lib (ex_json ex_row)) ex_manager ''texts'' ''a.jpg'' ex_content (Some ''text/plain'')
      default_options (snd (ex_store ex_row))) of Inr f \<Rightarrow> True | Inl e \<Rightarrow> False"
  by code_simp

text \<open>The second upload shares the bytes of the first, whose object is then deleted.\<close>

definition ex_requests :: "storage_request list" where
  "ex_requests =
     [Store ''photos'' ''a.jpg'' ex_content (Some ''image/jpeg'') default_options,
      Store ''texts'' ''a.jpg'' ex_content (Some ''text/plain'') default_options,
      Fetch ''photos'' ''a.jpg'', Fetch ''photos'' ''b.png'', Remove ''photos'' ''a.jpg'',
      Fetch ''photos'' ''a.jpg'', Sweep, Fetch ''texts'' ''a.jpg'', Drop_bucket ''texts'',
      Fetch ''texts'' ''a.jpg'']"

theorem storage_is_a_map_witness:
  "drop 2 (fst (run_requests (operation_of (ex_lib (ex_json ex_row)) ex_manager) ex_requests ex_world)) =
     [Inr (Content ex_content (Some ''image/jpeg'')), Inl (NotFound ''photos'' ''b.png''), Inr Finished,
      Inl (NotFound ''photos'' ''a.jpg''), Inr (Swept 0), Inr (Content ex_content (Some ''text/plain'')),
      Inr Finished, Inl (NotFound ''texts'' ''a.jpg'')]"
proof -
  let ?lib = "ex_lib (ex_json ex_row)" and ?bs = "set (bucket_names (w_db ex_world))"
  obtain ys w' where run: "run_requests (operation_of ?lib ex_manager) ex_requests ex_world = (ys, w')"
    by fastforce
  have "operation_of ?lib ex_manager (Store ''photos'' ''a.jpg'' ex_content (Some ''image/jpeg'') default_options)
      ex_world = (Inr (Stored ex_row), snd (ex_store ex_row))"
    using ex_store_row by (cases "ex_store ex_row") (simp add: ex_store_def)
  moreover obtain f w2 where "operation_of ?lib ex_manager (Store ''texts'' ''a.jpg'' ex_content (Some ''text/plain'')
      default_options) (snd (ex_store ex_row)) = (Inr (Stored f), w2)"
    using ex_second_upload
    by (cases "store_file ?lib ex_manager ''texts'' ''a.jpg'' ex_content (Some ''text/plain'') default_options
        (snd (ex_store ex_row))") (auto split: sum.splits)
  ultimately obtain y3 y4 y5 y6 y7 y8 y9 y10 where
    ys: "ys = [Inr (Stored ex_row), Inr (Stored f), y3, y4, y5, y6, y7, y8, y9, y10]"
    using run by (auto simp: ex_requests_def split: prod.splits simp del: operation_of.simps)
  have "cmp_enabled (sm_compression ex_manager)" by code_simp
  then have plain: "all_along (plain_request ?lib ex_manager [] ex_names) (after_request ex_manager) ex_requests ys
      (empty_shelf ?bs)"
    using ex_row_now(2) ex_json_reads_back ex_dedup
    by (simp add: ys ex_requests_def ex_names_def ex_lib_def default_options_def empty_shelf_def shelve_def twin_def
        upload_fits_def unshared_def)
  have "all_along (map_answers ?lib) (after_request ex_manager) ex_requests ys (empty_shelf ?bs)"
    by (rule storage_is_a_map [OF ex_library_laws _ _ ex_world_intact(1) _ _ run])
      (use ex_names_apart ex_env_quiet plain in \<open>simp_all add: ex_world_def\<close>)
  then have "drop 2 ys = [Inr (Content ex_content (Some ''image/jpeg'')), Inl (NotFound ''photos'' ''b.png''), Inr Finished,
      Inl (NotFound ''photos'' ''a.jpg''), Inr (Swept 0), Inr (Content ex_content (Some ''text/plain'')),
      Inr Finished, Inl (NotFound ''texts'' ''a.jpg'')]"
    using ex_dedup
    by (simp add: ys ex_requests_def empty_shelf_def shelve_def twin_def)
  then show ?thesis using run by simp
qed

end
