(* ===== verification/Content_Properties.thy ===== *)
theory Content_Properties
  imports Examples
begin

text \<open>
  What a stored object gives back: the properties of uploads, of deduplication and of the
  overwriting of rows, each applied to the example service.
\<close>

section \<open>An uploaded object\<close>

text \<open>C3 (roundtrip): an object stored by \<open>store_file\<close>, with any mix of compression and encryption,
  is read back by \<open>get_file\<close> with its bytes and its content type, while nothing fails, its
  content was not stored before and its expiry has not come. An object of more than 1 MiB needs a
  key without a cached content (see \<open>large_overwrite_serves_old_content\<close>), a compressed one the
  configured compression (see \<open>forced_compression_is_not_undone\<close>).\<close>

theorem store_then_get:
  assumes "quiet (w_env w)"
    and "json_reads_back (sl_json lib) f" "gzip_law (sl_codec lib)" "zstd_law (sl_codec lib)"
      "aead_law (sl_aead lib)"
    and "wants_compression sm opts \<longrightarrow> cmp_enabled (sm_compression sm)"
    and "stc_enable_deduplication (cf_storage (sm_config sm)) \<longrightarrow>
      (\<forall>g \<in> set (db_files (w_db w)). sf_hash_blake3 g \<noteq> sl_blake3 lib content)"
    and "store_file lib sm b k content ct opts w = (Inr f, w')"
    and "sf_file_size f \<le> int max_cached_content \<or> w_cache w (content_key b k) = None"
    and "unexpired (w_env w) f"
  shows "\<exists>w''. get_file lib sm b k w' =
    (Inr (content, Some (unwrap_or ct ''application/octet-stream'')), w'')"
proof -
  obtain w1 where "quiet (w_env w1)" "w_cache w1 = w_cache w" "w_env w1 = w_env w"
    "store_new lib sm b k content ct opts (sl_blake3 lib content, sl_md5 lib content) w1 = (Inr f, w')"
    using store_file_new [OF assms(1) _ assms(8)] assms(7) by blast
  then show ?thesis
    using store_new_get [OF _ assms(2-5)] assms(6,9,10) by metis
qed

theorem store_then_get_witness:
  "\<exists>w''. get_file (ex_lib (ex_json ex_row)) ex_manager ''photos'' ''a.jpg'' (snd (ex_store ex_row)) =
    (Inr (ex_content, Some ''image/jpeg''), w'')"
proof -
  have "store_file (ex_lib (ex_json ex_row)) ex_manager ''photos'' ''a.jpg'' ex_content
      (Some ''image/jpeg'') default_options ex_world = (Inr ex_row, snd (ex_store ex_row))"
    using ex_store_row by (cases "ex_store ex_row") (simp add: ex_store_def)
  moreover have "cmp_enabled (sm_compression ex_manager)" by code_simp
  ultimately show ?thesis
    using store_then_get [of ex_world "ex_lib (ex_json ex_row)" ex_row ex_manager default_options
        ex_content "''photos''" "''a.jpg''" "Some ''image/jpeg''" "snd (ex_store ex_row)"]
      ex_row_now ex_dedup_fresh ex_env_quiet ex_json_reads_back ex_gzip_law ex_zstd_law ex_aead_law
    by (simp add: ex_lib_def)
qed

section \<open>Content that is already stored\<close>

text \<open>Uploading the same content to the same key again answers the row that is
  there; the tables, the files and the cache stay as they are.\<close>

theorem identical_upload_changes_nothing:
  assumes "quiet (w_env w)" "stc_enable_deduplication (cf_storage (sm_config sm))"
    and "sql_bucket_exists (sf_bucket g) (w_db w)" "sole_copy lib content g (w_db w)"
  shows "\<exists>w'. store_file lib sm (sf_bucket g) (sf_key g) content ct opts w = (Inr g, w') \<and>
    same_state w w'"
  using store_file_duplicate [OF assms] by (simp add: is_object_def same_state_def)

theorem identical_upload_witness:
  "\<exists>w'. store_file (ex_lib no_json) ex_manager ''photos'' ''a.jpg'' ex_content None default_options
    ex_stored = (Inr ex_stored_row, w') \<and> same_state ex_stored w'"
  using identical_upload_changes_nothing [of ex_stored ex_manager ex_stored_row "ex_lib no_json"]
    ex_env_quiet ex_dedup ex_stored_bucket ex_sole
  by (simp add: ex_stored_object)

text \<open>C12 (roundtrip): content uploaded to a second key is not written again: the new row names
  the first one's file, and reading the new key decodes that file to the uploaded content, with
  the content type of the upload (or else of the first row). The conditions: nothing fails;
  deduplication is on and the bucket exists; exactly one row has the hash of the content, it belongs
  to another object, and its file decodes to the content, which \<open>store_then_get\<close> gives; the cache has no
  entries for the new key (with them the old content of the key is served, see
  \<open>alias_over_a_key_serves_the_old_content\<close>); the new row has not expired.\<close>

theorem duplicate_upload_then_get:
  assumes "quiet (w_env w)" "stc_enable_deduplication (cf_storage (sm_config sm))"
    and "sql_bucket_exists b (w_db w)" "sole_copy lib content g (w_db w)" "\<not> is_object b k g"
    and "store_file lib sm b k content ct opts w = (Inr f, w')"
    and "w_cache w (metadata_key b k) = None" "w_cache w (content_key b k) = None"
    and "content_at (w_fs w) (sf_file_path g) = Some raw" "encoded_as lib sm (w_db w) g raw content"
    and "unexpired (w_env w) f"
  shows "w_fs w' = w_fs w \<and> sf_file_path f = sf_file_path g \<and>
    (\<exists>w''. get_file lib sm b k w' = (Inr (content, Some (unwrap_or ct (sf_content_type g))), w''))"
  using alias_then_get [OF assms] store_alias_files [OF assms(1-6)] by simp

theorem duplicate_upload_witness:
  "\<exists>f w' w''. store_file (ex_lib no_json) ex_manager ''photos'' ''b.jpg'' ex_content None default_options
      ex_stored = (Inr f, w') \<and> sf_file_path f = ''/data/photos/a.jpg'' \<and>
    get_file (ex_lib no_json) ex_manager ''photos'' ''b.jpg'' w' = (Inr (ex_content, Some ''image/jpeg''), w'')"
proof -
  let ?r = "store_file (ex_lib no_json) ex_manager ''photos'' ''b.jpg'' ex_content None default_options ex_stored"
  have path: "sf_file_path ex_stored_row = ''/data/photos/a.jpg''" by code_simp
  have "(case fst ?r of Inr f \<Rightarrow> sf_expires_at f = None | Inl _ \<Rightarrow> False)" by code_simp
  then obtain f w' where r: "?r = (Inr f, w')" and "sf_expires_at f = None"
    by (cases ?r) (auto split: sum.splits)
  then have "unexpired (w_env ex_stored) f" by (simp add: unexpired_def)
  moreover have "\<not> is_object ''photos'' ''b.jpg'' ex_stored_row"
    by (simp add: is_object_def ex_stored_object)
  ultimately show ?thesis
    using duplicate_upload_then_get [OF _ ex_dedup ex_stored_bucket ex_sole _ r _ _ ex_stored_bytes
        ex_stored_decodes] ex_env_quiet r path
    by (simp add: ex_stored_object)
qed

end
