(* ===== verification/Expiry_Properties.thy ===== *)
theory Expiry_Properties
  imports Lifecycle_Properties Example_Service
begin

text \<open>
  An object past its expiry, seen from outside: no request that reads it is served.
\<close>

section \<open>Outdated objects\<close>

text \<open>The expiry has come, and the clock does not go back behind it.\<close>

definition past_expiry :: "environment \<Rightarrow> nat \<Rightarrow> stored_file \<Rightarrow> bool" where
  "past_expiry e n f \<longleftrightarrow> (\<exists>t. sf_expires_at f = Some t \<and> (\<forall>i \<ge> n. t \<le> env_now e i))"

text \<open>Wherever the service looks for the row of the object, in the cache or in the table, what it
  finds is past its expiry.\<close>

definition outdated :: "json_lib \<Rightarrow> string \<Rightarrow> string \<Rightarrow> environment \<Rightarrow> nat \<Rightarrow> world \<Rightarrow> bool" where
  "outdated json b k e n w \<longleftrightarrow> w_env w = e \<and> n \<le> w_tick w \<and>
     (\<forall>f. sql_get_file b k (w_db w) = Some f \<longrightarrow> past_expiry e n f) \<and>
     (\<forall>v f. w_cache w (metadata_key b k) = Some v \<longrightarrow> json_from_slice json v = Inr f \<longrightarrow> past_expiry e n f)"

named_theorems outdated_intros

lemma outdated_io: "keeps (outdated j b k e n) (io_call f)"
  by (auto simp: keeps_def outdated_def io_call_def Let_def split: option.splits sum.splits)

lemma outdated_query:
  "(\<And>now c d y d' f. stmt now c d = Inr (y, d') \<Longrightarrow> sql_get_file b k d' = Some f \<Longrightarrow> sql_get_file b k d = Some f) \<Longrightarrow>
     keeps (outdated j b k e n) (query_err g stmt)"
  by (fastforce simp: keeps_def outdated_def query_err_def Let_def split: option.splits sum.splits)

lemma outdated_external [outdated_intros]: "keeps (outdated j b k e n) (external f)"
  by (simp add: keeps_def outdated_def external_def)

lemma outdated_less:
  assumes "outdated j b k e n w" "w_env w' = w_env w" "w_tick w \<le> w_tick w'" "w_db w' = w_db w"
    and "w_cache w' \<subseteq>\<^sub>m w_cache w"
  shows "outdated j b k e n w'"
  using assms by (auto simp: outdated_def map_le_def dom_def)

lemma evict_less: "evict p c \<subseteq>\<^sub>m c"
  by (auto simp: evict_def map_le_def)

lemma outdated_backend:
  assumes "\<And>c. snd (f c) \<subseteq>\<^sub>m c"
  shows "keeps (outdated j b k e n) (backend_call m g f)"
  unfolding keeps_def
proof (intro allI impI)
  fix w assume "outdated j b k e n w"
  then show "outdated j b k e n (snd (backend_call m g f w))"
    by (rule outdated_less)
      (auto simp: backend_call_def Let_def evict_less map_le_trans [OF assms evict_less]
        split: backend.splits option.splits)
qed

lemma outdated_read [outdated_intros]: "keeps (outdated j b k e n) (read_query q)"
  unfolding read_query_def by (rule outdated_query) simp

lemma outdated_calls [outdated_intros]:
  "keeps (outdated j b k e n) (remove_file p)"
  "keeps (outdated j b k e n) (backend_get m x)" "keeps (outdated j b k e n) (backend_del m ns)"
  unfolding remove_file_def backend_get_def backend_del_def
  by (rule outdated_io outdated_backend; simp add: map_le_def dom_def)+

lemma outdated_invalidate [outdated_intros]: "keeps (outdated j b k e n) (invalidate_file m b' k')"
  unfolding invalidate_file_def by (intro keeps_intros outdated_intros)

lemma sql_get_deleted: "sql_get_file b k (snd (sql_delete_file b' k' d)) = Some f \<Longrightarrow> sql_get_file b k d = Some f"
  by (simp add: sql_get_delete split: if_splits)

lemma outdated_delete [outdated_intros]: "keeps (outdated j b k e n) (delete_file sm b' k')"
proof -
  have "keeps (outdated j b k e n) (write_query (\<lambda>now d. snd (sql_delete_file b' k' d)))"
    unfolding write_query_def by (rule outdated_query) (auto intro: sql_get_deleted)
  then show ?thesis
    unfolding delete_file_def delete_transaction_def by (intro keeps_intros outdated_intros)
qed

lemma outdated_metadata [outdated_intros]: "keeps (outdated j b k e n) (get_file_metadata j' m b' k')"
  unfolding get_file_metadata_def by (intro keeps_intros outdated_intros)

section \<open>No read is served\<close>

text \<open>Time only goes on.\<close>

definition later :: "environment \<Rightarrow> nat \<Rightarrow> world \<Rightarrow> bool" where
  "later e n w \<longleftrightarrow> w_env w = e \<and> n \<le> w_tick w"

lemma later_backend: "keeps (later e n) (backend_call m g f)"
  by (auto simp: keeps_def later_def backend_call_def Let_def split: backend.splits option.splits)

lemma later_metadata: "keeps (later e n) (set_file_metadata j m b k f)"
  unfolding set_file_metadata_def backend_set_def by (intro keeps_intros later_backend)

lemma has_expired_past:
  assumes "past_expiry e n f" "later e n w"
  shows "has_expired f w = (Inr True, tick w)"
  using assms by (auto simp: past_expiry_def later_def has_expired_def bind_op_def external_apply)

lemma outdated_row:
  assumes "outdated j b k e n w" "db_get_file b k w = (Inr f, w')"
  shows "past_expiry e n f \<and> later e n w'"
  using assms
  by (auto simp: outdated_def later_def db_get_file_def read_query_def query_err_def bind_op_def Let_def
      lift_result_def ok_or_def split: option.splits)

lemma outdated_cached:
  assumes "outdated j b k e n w" "get_file_metadata j m b k w = (Inr (Some f), w')"
  shows "past_expiry e n f"
proof -
  obtain r w1 where r: "backend_get m (metadata_key b k) w = (r, w1)" by fastforce
  have "\<exists>v. r = Inr (Some v) \<and> json_from_slice j v = Inr f"
    using assms(2) r
    by (cases r) (auto simp: get_file_metadata_def bind_op_def ignore_def split: option.split_asm sum.split_asm prod.split_asm)
  then obtain v where v: "r = Inr (Some v)" "json_from_slice j v = Inr f" by blast
  then have "w_cache w (metadata_key b k) = Some v"
    using r by (auto simp: backend_get_def backend_call_def Let_def evict_def split: backend.splits option.splits if_splits)
  with v(2) assms(1) show ?thesis by (simp add: outdated_def)
qed

lemma read_metadata_past:
  assumes "outdated (sl_json lib) b k e n w" "read_metadata lib sm b k w = (Inr f, w')"
  shows "past_expiry e n f \<and> later e n w'"
proof -
  obtain r w1 where r: "get_file_metadata (sl_json lib) (sm_cache sm) b k w = (r, w1)" by fastforce
  have out: "outdated (sl_json lib) b k e n w1" by (rule keepsD_eq [OF outdated_metadata assms(1) r])
  have db: "past_expiry e n f \<and> later e n w'"
    if m: "bind_op (db_get_file b k) (\<lambda>file.
        bind_op (ignore (set_file_metadata (sl_json lib) (sm_cache sm) b k file)) (\<lambda>_. ret file)) w1 = (Inr f, w')"
  proof -
    from m obtain w2 where w2: "db_get_file b k w1 = (Inr f, w2)"
      and w': "w' = snd (set_file_metadata (sl_json lib) (sm_cache sm) b k f w2)"
      by (auto simp: bind_op_result_Inr ignore_def split: prod.splits)
    then show ?thesis using outdated_row [OF out w2] keepsD [OF later_metadata, of e n w2] by simp
  qed
  show ?thesis
  proof (cases "\<exists>g. r = Inr (Some g)")
    case True
    then have "r = Inr (Some f)" "w' = w1" using assms(2) r by (auto simp: read_metadata_def)
    then show ?thesis using outdated_cached [OF assms(1)] r out by (simp add: outdated_def later_def)
  next
    case False
    then have "bind_op (db_get_file b k) (\<lambda>file.
        bind_op (ignore (set_file_metadata (sl_json lib) (sm_cache sm) b k file)) (\<lambda>_. ret file)) w1 = (Inr f, w')"
      using assms(2) r by (auto simp: read_metadata_def split: sum.splits option.splits)
    then show ?thesis by (rule db)
  qed
qed

lemma gone_is_refused:
  assumes "past_expiry e n f" "later e n w"
  shows "\<exists>x. fst (bind_op (has_expired f) (\<lambda>gone. if gone then bind_op (ignore m) (\<lambda>_. throw y) else m') w) = Inl x"
  by (simp add: has_expired_past [OF assms] bind_op_def ignore_def throw_def split: prod.split)

lemma get_file_past:
  assumes "outdated (sl_json lib) b k e n w"
  shows "\<exists>x. fst (get_file lib sm b k w) = Inl x"
proof (cases "read_metadata lib sm b k w")
  case (Pair r w1)
  show ?thesis
  proof (cases r)
    case (Inr f)
    with Pair read_metadata_past [OF assms] have "past_expiry e n f" "later e n w1" by simp_all
    from gone_is_refused [OF this] show ?thesis using Pair Inr by (simp add: get_file_def bind_op_def [of "read_metadata lib sm b k"])
  qed (simp add: get_file_def bind_op_def Pair)
qed

lemma get_file_info_past:
  assumes "outdated j b k e n w"
  shows "\<exists>x w'. get_file_info sm b k w = (Inl x, w') \<and> outdated j b k e n w'"
proof -
  have "keeps (outdated j b k e n) (get_file_info sm b k)"
    unfolding get_file_info_def db_get_file_def has_expired_def by (intro keeps_intros outdated_intros)
  from keepsD [OF this assms] have kept: "outdated j b k e n (snd (get_file_info sm b k w))" .
  obtain r w1 where r: "db_get_file b k w = (r, w1)" by fastforce
  have "\<exists>x. fst (get_file_info sm b k w) = Inl x"
  proof (cases r)
    case (Inr f)
    with r outdated_row [OF assms] have "past_expiry e n f" "later e n w1" by simp_all
    from gone_is_refused [OF this] show ?thesis using r Inr by (simp add: get_file_info_def bind_op_def [of "db_get_file b k"])
  qed (simp add: get_file_info_def bind_op_def r)
  then show ?thesis using kept by (metis prod.collapse)
qed

lemma full_download_past:
  assumes "outdated (sl_json (hl_storage lib)) b k e n w"
  shows "\<exists>x. fst (full_download lib st b k h w) = Inl x"
  using get_file_past [OF assms, of "as_storage st"]
  by (cases "get_file (hl_storage lib) (as_storage st) b k w") (auto simp: full_download_def bind_op_def)

text \<open>The object that a request reads: a download, a range of it or its \<open>/info\<close>, and over the S3 protocol
  a GET, a HEAD and the source of a copy.\<close>

fun object_read :: "call \<Rightarrow> (string \<times> string) option" where
  "object_read (File_call b p h) = Some (b, if ends_with ''/info'' p then trim_end_matches ''/info'' p else p)"
| "object_read (S3_get_object_call b k rq) = Some (b, k)"
| "object_read (S3_head_object_call b k rq) = Some (b, k)"
| "object_read (S3_put_object_call b k rq) =
     (case header_str (rq_headers rq) ''x-amz-copy-source'' of
        None \<Rightarrow> None
      | Some s \<Rightarrow> (case copy_source s of Inl e \<Rightarrow> None | Inr src \<Rightarrow> Some src))"
| "object_read _ = None"

lemma handle_file_request_past:
  assumes "outdated (sl_json (hl_storage lib)) b k e n w"
    and "k = (if ends_with ''/info'' p then trim_end_matches ''/info'' p else p)"
  shows "\<exists>x. fst (handle_file_request lib st b p h w) = Inl x"
proof -
  obtain x w' where info: "get_file_info (as_storage st) b k w = (Inl x, w')"
    "outdated (sl_json (hl_storage lib)) b k e n w'"
    using get_file_info_past [OF assms(1)] by blast
  have "\<exists>x. fst (range_request lib st b k v w) = Inl x" for v
    using full_download_past [OF info(2)] by (simp add: range_request_def info(1))
  then show ?thesis
    using full_download_past [OF assms(1)] info(1) assms(2)
    by (cases "require_download_token st h (Some b)")
      (auto simp: handle_file_request_def bind_op_def lift_result_def Let_def split: option.split)
qed

lemma outdated_tick: "outdated j b k e n w \<Longrightarrow> outdated j b k e n (tick w)"
  by (simp add: outdated_def)

lemma verified_past:
  assumes "outdated j b k e n w" "verify lib st rq w = (Inr u, w')"
  shows "outdated j b k e n w'"
  using assms outdated_tick
  by (auto simp: verify_def bind_op_def lift_result_def external_apply split: sum.splits)

lemma s3_reads_past:
  assumes "outdated (sl_json (hl_storage lib)) b k e n w"
  shows "\<exists>x. fst (get_object lib st b k rq w) = Inl x" "\<exists>x. fst (head_object lib st b k rq w) = Inl x"
    and "header_str (rq_headers rq) ''x-amz-copy-source'' = Some s \<Longrightarrow> copy_source s = Inr (b, k) \<Longrightarrow>
      \<exists>x. fst (put_object lib st b' k' rq w) = Inl x"
proof -
  obtain r v where v: "verify lib st rq w = (r, v)" by fastforce
  have out: "outdated (sl_json (hl_storage lib)) b k e n v" if "r = Inr u" for u
    using verified_past [OF assms] v that by blast
  note got = get_file_past [OF out, of _ "as_storage st"] and info = get_file_info_past [OF out, of _ "as_storage st"]
  show "\<exists>x. fst (get_object lib st b k rq w) = Inl x"
    using v got by (cases r; cases "get_file (hl_storage lib) (as_storage st) b k v")
      (auto simp: get_object_def bind_op_def map_err_op_def map_err_def)
  show "\<exists>x. fst (head_object lib st b k rq w) = Inl x"
    using v info by (cases r) (auto simp: head_object_def bind_op_def map_err_op_def map_err_def)
  show "\<exists>x. fst (put_object lib st b' k' rq w) = Inl x"
    if "header_str (rq_headers rq) ''x-amz-copy-source'' = Some s" "copy_source s = Inr (b, k)"
    using v got that by (cases r; cases "get_file (hl_storage lib) (as_storage st) b k v")
      (auto simp: put_object_def copy_object_def bind_op_def map_err_op_def map_err_def lift_result_def)
qed

text \<open>C19 (safety): an object whose row is past its expiry is not served. Whatever request reads it - a
  download, a range of one, its \<open>/info\<close>, an S3 GET or HEAD, an S3 copy of it - is refused, and whatever
  fails, the clean-up of the object that the request itself attempts included. Past its expiry is every
  row that the service can find for the object: the one of the table, if there is one, and the one in the
  cache, if there is one; and the clock does not go back behind it. (A cached row without an expiry,
  which an alias with an expiry leaves over a key, is served from the cache.)\<close>

theorem expired_is_never_served:
  assumes "object_read c = Some (b, k)"
    and "outdated (sl_json (hl_storage lib)) b k (w_env w) (w_tick w) w"
  shows "fst (serve lib st c w) \<noteq> Replied r"
proof -
  have rest: "fst (rest_answer m w) \<noteq> Replied r" if "\<exists>x. fst (m w) = Inl x" for m
    using that by (cases "m w") (auto simp: rest_answer_def split: prod.splits)
  have s3: "fst (s3_answer m w) \<noteq> Replied r" if "\<exists>x. fst (m w) = Inl x" for m
    using that by (cases "m w") (auto simp: s3_answer_def split: prod.splits)
  have put: "fst (s3_answer_or_panic m w) \<noteq> Replied r" if "\<exists>x. fst (m w) = Inl x" for m
    using that by (cases "m w") (auto simp: s3_answer_or_panic_def Let_def split: prod.splits failure.splits)
  have "fst (handle_call lib st c w) \<noteq> Replied r"
  proof (cases c)
    case (File_call b' p h)
    with assms(1) have b: "b' = b" "k = (if ends_with ''/info'' p then trim_end_matches ''/info'' p else p)" by auto
    show ?thesis using rest [of "handle_file_request lib st b p h"] handle_file_request_past [OF assms(2) b(2)]
      by (simp add: File_call b(1))
  next
    case (S3_get_object_call b' k' rq)
    then show ?thesis using s3 [of "get_object lib st b k rq"] s3_reads_past(1) [OF assms(2)] assms(1) by simp
  next
    case (S3_head_object_call b' k' rq)
    then show ?thesis using s3 [of "head_object lib st b k rq"] s3_reads_past(2) [OF assms(2)] assms(1) by simp
  next
    case (S3_put_object_call b' k' rq)
    with assms(1) obtain s where "header_str (rq_headers rq) ''x-amz-copy-source'' = Some s" "copy_source s = Inr (b, k)"
      by (auto split: option.splits sum.splits)
    then show ?thesis using put [of "put_object lib st b' k' rq"] s3_reads_past(3) [OF assms(2)] by (simp add: S3_put_object_call)
  qed (use assms(1) in simp_all)
  then show ?thesis by (simp add: serve_def)
qed

definition ex_ranged :: call where
  "ex_ranged = File_call ''photos'' ''a.jpg'' (ex_headers [(''range'', ''bytes=1-3'')])"

lemma ex_expired_outdated:
  "outdated (sl_json (hl_storage ex_hlib)) ''photos'' ''a.jpg'' (w_env ex_expired) (w_tick ex_expired) ex_expired"
proof -
  have "sql_get_file ''photos'' ''a.jpg'' (w_db ex_expired) = Some (ex_stored_row\<lparr>sf_expires_at := Some 900\<rparr>)"
    by (simp add: sql_get_file_def ex_expired_def is_object_def ex_stored_object)
  moreover have "w_env ex_expired = ex_env" "w_cache ex_expired = Map.empty" by (simp_all add: ex_expired_def)
  ultimately show ?thesis by (simp add: outdated_def past_expiry_def ex_env_def)
qed

theorem expired_is_never_served_witness: "\<forall>r. fst (serve ex_hlib ex_state ex_ranged ex_expired) \<noteq> Replied r"
proof -
  have "\<not> ends_with ''/info'' ''a.jpg''" by code_simp
  then have "object_read ex_ranged = Some (''photos'', ''a.jpg'')" by (simp add: ex_ranged_def)
  then show ?thesis using expired_is_never_served [OF _ ex_expired_outdated] by blast
qed

end
