(* ===== verification/Durability_Properties.thy ===== *)
theory Durability_Properties
  imports Examples
begin

text \<open>
  Writing: the atomic replacement of files, the files table as a map, failed uploads, and the
  places that objects have on the disk.
\<close>

section \<open>Files\<close>

text \<open>C13 (safety): a write of a file is all or nothing: whatever step fails, a reader of the path
  sees the old content until the rename and the new content after it, and after a success
  the temporary file is gone. The path must not be its own temporary name (see
  \<open>temporary_name_destroys_an_object\<close>).\<close>

theorem write_is_all_or_nothing:
  assumes "write_file_atomic p new w = (r, w')" "temp_place (w_fs w) p \<noteq> final_place (w_fs w) p"
  shows "if r = Inr () then w_fs w' = (w_fs w)\<lparr>fs_nodes := (fs_nodes (w_fs w))
             (temp_place (w_fs w) p := None, final_place (w_fs w) p \<mapsto> File new)\<rparr>
         else fs_nodes (w_fs w') (final_place (w_fs w) p) = fs_nodes (w_fs w) (final_place (w_fs w) p)"
  by (rule write_file_atomic_final [OF assms])

theorem write_is_all_or_nothing_witness:
  "fs_nodes (w_fs (snd (write_file_atomic ''/data/photos/a.jpg'' [1, 2] ex_stored))) [''data'', ''photos'', ''a.jpg'']
    = Some (File [1, 2])"
proof -
  let ?r = "write_file_atomic ''/data/photos/a.jpg'' [1, 2] ex_stored"
  have place: "final_place (w_fs ex_stored) ''/data/photos/a.jpg'' = [''data'', ''photos'', ''a.jpg'']"
    and ne: "temp_place (w_fs ex_stored) ''/data/photos/a.jpg'' \<noteq>
      final_place (w_fs ex_stored) ''/data/photos/a.jpg''" by code_simp+
  have ok: "fst ?r = Inr ()" by code_simp
  show ?thesis
    using write_is_all_or_nothing [OF prod.collapse [symmetric] ne, of "[1, 2]"] ok place by simp
qed

text \<open>A write of a file, whether it succeeds or fails, changes no file but the one
  it names and the temporary one beside it.\<close>

theorem write_touches_two_places:
  assumes "write_file_atomic p new w = (r, w')"
    and "q \<noteq> temp_place (w_fs w) p" "q \<noteq> final_place (w_fs w) p"
  shows "fs_nodes (w_fs w') q = fs_nodes (w_fs w) q"
  by (rule write_file_atomic_frame [OF assms])

theorem write_touches_two_places_witness:
  "fs_nodes (w_fs (snd (write_file_atomic ''/data/photos/c.jpg'' [1, 2] ex_stored))) [''data'', ''photos'', ''a.jpg'']
    = Some (File ex_bytes)"
proof -
  have "[''data'', ''photos'', ''a.jpg''] \<noteq> temp_place (w_fs ex_stored) ''/data/photos/c.jpg''"
    "[''data'', ''photos'', ''a.jpg''] \<noteq> final_place (w_fs ex_stored) ''/data/photos/c.jpg''"
    by code_simp+
  from write_touches_two_places [OF prod.collapse [symmetric] this, of "[1, 2]"]
  show ?thesis by (simp add: ex_stored_def)
qed

text \<open>C29 (functional): the files that new content of two objects is written to are different ones, whatever
  the working directory, if their buckets are plain names, their keys have no empty,
  \<open>.\<close> or \<open>..\<close> component and the base path is not empty. (With deduplication a row may name the file of
  another object; that is by design.)\<close>

theorem clean_keys_have_their_own_file:
  assumes "clean_name b" "clean_key k" "clean_name b'" "clean_key k'" "sm_base_path sm \<noteq> []"
    and "final_place s (get_file_path sm b k) = final_place s (get_file_path sm b' k')"
  shows "b = b' \<and> k = k'"
  using resolve_object_path_inj [OF assms(1-5)] assms(6)
  by (simp add: final_place_def get_file_path_def)

theorem clean_keys_witness:
  "final_place (w_fs ex_stored) (get_file_path ex_manager ''photos'' ''x/a.jpg'') \<noteq>
   final_place (w_fs ex_stored) (get_file_path ex_manager ''photos'' ''x/b.jpg'')"
proof
  assume same: "final_place (w_fs ex_stored) (get_file_path ex_manager ''photos'' ''x/a.jpg'') =
   final_place (w_fs ex_stored) (get_file_path ex_manager ''photos'' ''x/b.jpg'')"
  have clean: "clean_name ''photos''" "clean_key ''x/a.jpg''" "clean_key ''x/b.jpg''" "sm_base_path ex_manager \<noteq> []"
    by code_simp+
  from clean_keys_have_their_own_file [OF clean(1,2) clean(1,3,4) same] show False by simp
qed

section \<open>Rows\<close>

abbreviation delete_row :: "string \<times> string \<Rightarrow> db \<Rightarrow> db" where
  "delete_row \<equiv> \<lambda>(b, k) d. snd (sql_delete_file b k d)"

abbreviation contents_of :: "db \<Rightarrow> string \<times> string \<Rightarrow> stored_file option" where
  "contents_of d \<equiv> \<lambda>bk. map_option upload_columns ((\<lambda>(b, k). sql_get_file b k) bk d)"

text \<open>C30 (refinement): the files table is a map from (bucket, key) to what was last stored there:
  any sequence of inserts (which overwrite) and deletes has the effect of the same updates
  on a map.\<close>

theorem files_table_is_a_map:
  assumes "db_wf d" "run_commands sql_save_file delete_row cs d = Inr d'"
  shows "contents_of d' = map_commands object_of upload_columns cs (contents_of d)"
  by (rule files.run_refines [OF assms])

lemma ex_save_row: "sql_save_file (ex_row\<lparr>sf_id := 600\<rparr>) (w_db ex_stored) =
    Inr ((w_db ex_stored)\<lparr>db_files := [overwrite_row (ex_row\<lparr>sf_id := 600\<rparr>) ex_stored_row]\<rparr>)"
proof -
  have "row_lengths_ok (ex_row\<lparr>sf_id := 600\<rparr>)" "row_not_null (ex_row\<lparr>sf_id := 600\<rparr>)"
    "row_checks (ex_row\<lparr>sf_id := 600\<rparr>)" "key_reference_ok (w_db ex_stored) (ex_row\<lparr>sf_id := 600\<rparr>)"
    "is_object (sf_bucket ex_row) (sf_key ex_row) ex_stored_row"
    by code_simp+
  then show ?thesis by (simp add: sql_save_file_def sql_get_file_def)
qed

theorem files_table_is_a_map_witness:
  "\<exists>d'. run_commands sql_save_file delete_row [Put (ex_row\<lparr>sf_id := 600\<rparr>), Remove (''photos'', ''a.jpg'')]
      (w_db ex_stored) = Inr d' \<and> contents_of d' (''photos'', ''a.jpg'') = None"
proof -
  have "\<exists>d'. run_commands sql_save_file delete_row [Put (ex_row\<lparr>sf_id := 600\<rparr>), Remove (''photos'', ''a.jpg'')]
      (w_db ex_stored) = Inr d'"
    by (simp add: ex_save_row)
  then obtain d' where d': "run_commands sql_save_file delete_row
      [Put (ex_row\<lparr>sf_id := 600\<rparr>), Remove (''photos'', ''a.jpg'')] (w_db ex_stored) = Inr d'" ..
  have "contents_of d' (''photos'', ''a.jpg'') = None"
    using fun_cong [OF files_table_is_a_map [OF ex_stored_wf d'], of "(''photos'', ''a.jpg'')"]
    by (simp only: map_commands.simps fun_upd_same)
  with d' show ?thesis by blast
qed

text \<open>Overwriting an object keeps its row: the id stays (so the one that the
  upload reports is never stored), no row is added, and all uploaded columns are new.\<close>

theorem overwrite_keeps_the_row:
  assumes "sql_save_file f d = Inr d'" "sql_get_file (sf_bucket f) (sf_key f) d = Some old"
  shows "length (db_files d') = length (db_files d) \<and>
    (\<exists>new. sql_get_file (sf_bucket f) (sf_key f) d' = Some new \<and> sf_id new = sf_id old \<and>
       upload_columns new = upload_columns f)"
proof -
  have "length (db_files d') = length (db_files d)"
    using assms by (auto simp: sql_save_file_def split: if_splits)
  moreover have "object_of old = object_of f" using sql_get_file_Some [OF assms(2)] by simp
  moreover have "sf_id (overwrite_row f old) = sf_id old" by (simp add: overwrite_row_def)
  ultimately show ?thesis using sql_get_save_same [OF assms(1)] assms(2) by simp
qed

theorem overwrite_keeps_the_row_witness:
  "\<exists>d' new. sql_save_file (ex_row\<lparr>sf_id := 600\<rparr>) (w_db ex_stored) = Inr d' \<and>
    sql_get_file ''photos'' ''a.jpg'' d' = Some new \<and> sf_id new = sf_id ex_stored_row"
proof -
  have "sf_bucket ex_row = ''photos''" "sf_key ex_row = ''a.jpg''"
    by (simp_all add: ex_row_def upload_row_def)
  moreover from this have "sql_get_file ''photos'' ''a.jpg'' (w_db ex_stored) = Some ex_stored_row"
    by (simp add: sql_get_file_def is_object_def ex_stored_object)
  ultimately show ?thesis using overwrite_keeps_the_row [OF ex_save_row] ex_save_row by auto
qed

section \<open>Failed uploads\<close>

definition fails_keeping :: "(db \<Rightarrow> bool) \<Rightarrow> ('e, 'a) op \<Rightarrow> bool" where
  "fails_keeping P m \<longleftrightarrow> (\<forall>w e w'. m w = (Inl e, w') \<longrightarrow> P (w_db w) \<longrightarrow> P (w_db w'))"

lemma fails_keepingI: "keeps (on_db P) m \<Longrightarrow> fails_keeping P m"
  unfolding fails_keeping_def by (auto dest: keepsD_eq simp: on_db_def)

lemma fails_keeping_bind:
  assumes "keeps (on_db P) m" "\<And>x. fails_keeping P (f x)"
  shows "fails_keeping P (bind_op m f)"
  unfolding fails_keeping_def
proof (intro allI impI)
  fix w e w'
  assume run: "bind_op m f w = (Inl e, w')" and p: "P (w_db w)"
  from run show "P (w_db w')"
  proof (cases rule: bind_op_cases)
    case (err e')
    then show ?thesis using keepsD_eq [OF assms(1)] p by (auto simp: on_db_def)
  next
    case (ok x w1)
    have "P (w_db w1)" using keepsD_eq [OF assms(1) _ ok(1)] p by (simp add: on_db_def)
    then show ?thesis using assms(2) ok(2) by (auto simp: fails_keeping_def)
  qed
qed

lemma fails_keeping_then:
  assumes "fails_keeping P m" "\<And>x w. \<exists>y. fst (f x w) = Inr y"
  shows "fails_keeping P (bind_op m f)"
  unfolding fails_keeping_def
proof (intro allI impI)
  fix w e w'
  assume run: "bind_op m f w = (Inl e, w')" and p: "P (w_db w)"
  from run show "P (w_db w')"
  proof (cases rule: bind_op_cases)
    case (err e')
    then show ?thesis using assms(1) p by (auto simp: fails_keeping_def)
  next
    case (ok x w1)
    then show ?thesis using assms(2) [of x w1] by simp
  qed
qed

lemma fails_keeping_save: "fails_keeping P (db_save_file f)"
  by (auto simp: fails_keeping_def db_save_file_def query_err_def Let_def map_err_op_def
      split: option.splits sum.splits)

lemma fails_keeping_save_or_cleanup: "fails_keeping P (save_or_cleanup f p)"
  unfolding fails_keeping_def
proof (intro allI impI)
  fix w e w'
  assume run: "save_or_cleanup f p w = (Inl e, w')" and "P (w_db w)"
  obtain r w1 where save: "db_save_file f w = (r, w1)" by (cases "db_save_file f w")
  then obtain e' where r: "r = Inl e'"
    using run by (cases r) (auto simp: save_or_cleanup_def try_op_def ret_def)
  then have "P (w_db w1)" using fails_keeping_save [of P f] save \<open>P (w_db w)\<close> by (simp add: fails_keeping_def)
  moreover have "w_db (snd (remove_file p w1)) = w_db w1" using remove_file_state [OF refl, of p w1] by simp
  ultimately show "P (w_db w')"
    using run save r by (simp add: save_or_cleanup_def try_op_def bind_op_def ignore_def throw_def split: prod.splits)
qed

lemma fails_keeping_store_new: "fails_keeping P (store_new lib sm b k c ct opts h)"
  unfolding store_new_def finish_upload_def Let_def case_prod_unfold
  by (intro fails_keeping_bind keeps_intros fails_keeping_then fails_keeping_save_or_cleanup)
    (simp_all add: bind_op_def ignore_def ret_def split: prod.splits)

lemma fails_keeping_store_alias: "fails_keeping P (store_alias g b k ct opts h)"
  unfolding store_alias_def Let_def
  by (intro fails_keeping_bind keeps_intros fails_keeping_then fails_keeping_save) (simp add: ret_def)

text \<open>C21 (error): an upload that fails, at whatever step, leaves the files table as it was: no row
  appears, changes or disappears (the bytes of an overwritten object do not always survive, see
  \<open>failed_overwrite_loses_the_old_bytes\<close>).\<close>

theorem failed_upload_changes_no_row:
  assumes "store_file lib sm b k content ct opts w = (Inl e, w')"
  shows "db_files (w_db w') = db_files (w_db w)"
proof -
  let ?P = "\<lambda>d. db_keys d = db_keys (w_db w) \<and> db_files d = db_files (w_db w)"
  have "fails_keeping ?P (store_file lib sm b k content ct opts)"
    unfolding store_file_def Let_def db_get_file_by_hash_def
    by (intro fails_keeping_bind keeps_ensure_bucket_rows keeps_read_query
        fails_keeping_store_new fails_keeping_store_alias
        fails_keepingI [OF keeps_ret] | simp split: if_split option.split | intro conjI allI impI)+
  then show ?thesis using assms by (auto simp: fails_keeping_def)
qed

theorem failed_upload_witness:
  "db_files (w_db (snd (store_file (ex_lib no_json) ex_manager ''photos'' ''a.jpg'' [1, 2, 3] None
    (default_options\<lparr>so_encryption_key_id := Some ''nokey''\<rparr>) ex_stored))) = [ex_stored_row]"
proof -
  let ?r = "store_file (ex_lib no_json) ex_manager ''photos'' ''a.jpg'' [1, 2, 3] None
    (default_options\<lparr>so_encryption_key_id := Some ''nokey''\<rparr>) ex_stored"
  have "fst ?r = Inl (Validation ''Unknown or inactive encryption_key_id: nokey'')" by code_simp
  from failed_upload_changes_no_row [OF prod.collapse [symmetric, of ?r, unfolded this]]
  show ?thesis by simp
qed

end
