(* ===== verification/Codec_Properties.thy ===== *)
theory Codec_Properties
  imports Example_Service
begin

text \<open>
  Compression, encryption and ranges: what is encoded is decoded, and what a range request
  is given is the slice it asked for.
\<close>

section \<open>Compression and encryption\<close>

text \<open>C16 (roundtrip): what \<open>compress\<close> made smaller is decompressed to the original by any manager
  with compression enabled, whatever its own algorithm: the format byte decides.\<close>

theorem compressed_is_decompressed:
  assumes "gzip_law lib" "zstd_law lib" "compress lib cfg data = Inr z" "length z < length data"
    and "cmp_enabled cfg'"
  shows "decompress lib cfg' z = Inr data"
  by (rule decompress_compress [OF assms])

theorem compressed_is_decompressed_witness:
  "decompress ex_codec ((cf_compression ex_config)\<lparr>cmp_algorithm := ''gzip''\<rparr>) [2, 42] = Inr ex_content"
proof -
  have "compress ex_codec (cf_compression ex_config) ex_content = Inr [2, 42]" by code_simp
  then show ?thesis
    by (rule compressed_is_decompressed [OF ex_gzip_law ex_zstd_law])
      (simp_all add: ex_content_def ex_config_def)
qed

text \<open>Streaming a range out of compressed data gives the slice of the full
  decompression, for every start within the content and every length, however the decoder
  portions its output.\<close>

theorem streamed_range_is_a_slice:
  assumes "cmp_enabled cfg" "decompress lib cfg (format # data) = Inr whole"
    and "format = 1 \<or> format = 2" "start \<le> length whole"
  shows "decompress_range lib (format # data) start len = Inr (Some (take len (drop start whole)))"
  by (rule decompress_range_agrees [OF assms])

theorem streamed_range_is_a_slice_witness:
  "decompress_range ex_codec [2, 42] 4 6 = Inr (Some (replicate 6 7))"
proof -
  have "decompress ex_codec (cf_compression ex_config) [2, 42] = Inr ex_content" by code_simp
  from streamed_range_is_a_slice [OF _ this, of 4 6] show ?thesis
    by (simp add: ex_config_def ex_content_def)
qed

text \<open>C17 (roundtrip): what the manager encrypted under a twelve-byte nonce it decrypts again, with
  the key of the service and with a stored key alike.\<close>

theorem encrypted_is_decrypted:
  assumes "aead_law lib" "length nonce = 12"
  shows "(encrypt lib m nonce data a = Inr c \<longrightarrow> decrypt lib m c a = Inr data) \<and>
    (encrypt_with_key lib nonce data a key = Inr c \<longrightarrow> decrypt_with_key lib c a key = Inr data)"
  using decrypt_encrypt [OF assms] decrypt_with_key_encrypt_with_key [OF assms] by blast

theorem encrypted_is_decrypted_witness:
  "decrypt ex_aead (sm_crypto ex_manager) ex_bytes AesGcm = Inr [2, 42]"
proof -
  have "encrypt ex_aead (sm_crypto ex_manager) (map of_nat [4..<16]) [2, 42] AesGcm = Inr ex_bytes"
    by code_simp
  then show ?thesis
    using encrypted_is_decrypted [OF ex_aead_law, of "map of_nat [4..<16]"] by simp
qed

text \<open>A service that starts with encryption enabled has one key, of 32 bytes, for
  the configured algorithm; any other key or algorithm stops the start.\<close>

theorem cipher_has_one_key:
  assumes "crypto_new lib random cfg = Inr m" "cry_enabled cfg"
  shows "cm_config m = cfg \<and>
    (\<exists>key. length key = 32 \<and>
       ((cry_algorithm cfg = ''aes-gcm'' \<and> cm_aes_key m = Some key \<and> cm_chacha_key m = None) \<or>
        (cry_algorithm cfg = ''chacha20poly1305'' \<and> cm_aes_key m = None \<and>
         cm_chacha_key m = Some key)))"
  by (rule crypto_new_key [OF assms])

theorem cipher_has_one_key_witness:
  "\<exists>m key. crypto_new ex_aead [] (cf_crypto ex_config) = Inr m \<and> length key = 32 \<and> cm_aes_key m = Some key"
proof -
  have new: "crypto_new ex_aead [] (cf_crypto ex_config) = Inr (sm_crypto ex_manager)" by code_simp
  have "cry_enabled (cf_crypto ex_config)" "cry_algorithm (cf_crypto ex_config) = ''aes-gcm''"
    by (simp_all add: ex_config_def)
  with cipher_has_one_key [OF new] new show ?thesis by auto
qed

section \<open>Ranges\<close>

text \<open>C26 (bounds): a range that \<open>parse_range_header\<close> accepts is not empty and lies within the file,
  for every header and every length, in 64-bit arithmetic.\<close>

theorem accepted_range_is_within:
  assumes "parse_range_header v n = Some (s, e)"
  shows "s \<le> e \<and> e < n"
  by (rule parse_range_sound [OF assms])

theorem accepted_range_is_within_witness:
  "(5 :: u64) \<le> 19 \<and> (19 :: u64) < 20"
proof -
  have "parse_range_header ''bytes=5-99'' 20 = Some (5, 19)" by code_simp
  from accepted_range_is_within [OF this] show ?thesis .
qed

text \<open>C27 (functional): the three forms that players send mean what RFC 7233 says: \<open>a-b\<close> is that span
  cut to the file, \<open>a-\<close> is the rest from \<open>a\<close>, \<open>-k\<close> is the last \<open>k\<close> bytes (all, if the file is
  shorter); each is refused exactly when it selects nothing.\<close>

theorem range_forms:
  assumes "a < 2 ^ 64" "b < 2 ^ 64"
  shows "parse_range_header (''bytes='' @ show_nat a @ CHR ''-'' # show_nat b) n =
      (if a \<le> b \<and> a < unat n then Some (of_nat a, min (of_nat b) (saturating_sub n 1)) else None) \<and>
    parse_range_header (''bytes='' @ show_nat a @ ''-'') n =
      (if a < unat n then Some (of_nat a, n - 1) else None) \<and>
    parse_range_header (''bytes='' @ CHR ''-'' # show_nat b) n =
      (if b = 0 \<or> n = 0 then None else Some (saturating_sub n (of_nat b), n - 1))"
  using parse_range_closed [OF assms] parse_range_open [OF assms(1)] parse_range_suffix [OF assms(2)]
  by blast

theorem range_forms_witness:
  "parse_range_header (''bytes='' @ show_nat 5 @ CHR ''-'' # show_nat 9) 20 = Some (5, 9)"
proof -
  have "min 9 (saturating_sub 20 1) = (9 :: u64)" by code_simp
  with range_forms [of 5 9 20] show ?thesis by simp
qed

text \<open>C23 (functional): the fast path for plain files, a seek and a read, gives exactly the requested
  slice of the file on the disk, cut to the recorded size, and never a shorter one.\<close>

theorem plain_range_is_the_slice:
  assumes "get_file_range_if_plain lib sm b k s e w = (Inr (Some (buf, ct, n)), w')"
  shows "\<exists>f w1 c. read_metadata lib sm b k w = (Inr f, w1) \<and> \<not> is_compressed f \<and> \<not> is_encrypted f \<and>
    n = i64_as_u64 (sf_file_size f) \<and> ct = sf_content_type f \<and>
    content_at (w_fs w) (sf_file_path f) = Some c \<and>
    s \<le> min e (saturating_sub n 1) \<and>
    buf = slice_inclusive c s (min e (saturating_sub n 1)) \<and>
    length buf = unat (min e (saturating_sub n 1)) + 1 - unat s"
  by (rule get_file_range_if_plain_Some [OF assms])

definition ex_plain :: world where
  "ex_plain = ex_stored\<lparr>
     w_db := (w_db ex_stored)\<lparr>db_files := [ex_stored_row\<lparr>sf_is_compressed := Some False,
       sf_is_encrypted := Some False, sf_file_size := 5, sf_original_size := 5\<rparr>]\<rparr>,
     w_fs := \<lparr>fs_cwd = [], fs_nodes = [[''data''] \<mapsto> Dir, [''data'', ''photos''] \<mapsto> Dir,
        [''data'', ''photos'', ''a.jpg''] \<mapsto> File [1, 2, 3, 4, 5]]\<rparr>\<rparr>"

theorem plain_range_witness:
  "\<exists>c. content_at (w_fs ex_plain) ''/data/photos/a.jpg'' = Some c \<and> [2, 3, 4] = slice_inclusive c 1 3"
proof -
  let ?r = "get_file_range_if_plain (ex_lib no_json) ex_manager ''photos'' ''a.jpg'' 1 3 ex_plain"
  have "fst ?r = Inr (Some ([2, 3, 4], ''image/jpeg'', 5))" by code_simp
  from plain_range_is_the_slice [OF prod.collapse [symmetric, of ?r, unfolded this]]
  obtain f w1 c where f: "read_metadata (ex_lib no_json) ex_manager ''photos'' ''a.jpg'' ex_plain = (Inr f, w1)"
    and c: "content_at (w_fs ex_plain) (sf_file_path f) = Some c"
      "[2, 3, 4] = slice_inclusive c 1 (min 3 (saturating_sub 5 1))"
    by blast
  have "(case fst (read_metadata (ex_lib no_json) ex_manager ''photos'' ''a.jpg'' ex_plain) of
      Inr f \<Rightarrow> sf_file_path f = ''/data/photos/a.jpg'' | Inl _ \<Rightarrow> False)" by code_simp
  then have "sf_file_path f = ''/data/photos/a.jpg''" using f by simp
  moreover have "min 3 (saturating_sub 5 1) = 3" by code_simp
  ultimately show ?thesis using c by auto
qed

text \<open>C24 (equivalence): the fast path for compressed files, which streams the decompression, gives
  the slice that reading and decompressing the whole file would have given: when it answers a part of
  an object, the row is of a compressed and not encrypted file, and if the file has one of the two
  known format bytes and decompresses as a whole, and the part starts within the result or at its end,
  the part is the slice of it between the start and the clamped end. Compression is
  enabled in the service (without it the whole read answers the stored bytes as they are).\<close>

theorem compressed_range_is_the_slice:
  assumes "get_compressed_file_range lib sm b k s e w = (Inr (Some (buf, ct, n)), w')"
    and "cmp_enabled (sm_compression sm)"
  shows "\<exists>f w1 c. read_metadata lib sm b k w = (Inr f, w1) \<and> is_compressed f \<and> \<not> is_encrypted f \<and>
    n = i64_as_u64 (sf_original_size f) \<and> content_at (w_fs w) (sf_file_path f) = Some c \<and>
    (\<forall>whole format data. c = format # data \<and> format \<in> {1, 2} \<and> unat s \<le> length whole \<and>
       decompress (sl_codec lib) (sm_compression sm) c = Inr whole \<longrightarrow>
       buf = slice_inclusive whole s (min e (saturating_sub n 1)))"
proof -
  from get_compressed_file_range_Some [OF assms(1)] obtain f w1 c where
    f: "read_metadata lib sm b k w = (Inr f, w1)" "is_compressed f" "\<not> is_encrypted f"
      "n = i64_as_u64 (sf_original_size f)" "content_at (w_fs w) (sf_file_path f) = Some c"
    and dec: "decompress_range (sl_codec lib) c (unat s) (unat (min e (saturating_sub n 1)) + 1 - unat s) =
      Inr (Some buf)"
    by blast
  have "buf = slice_inclusive whole s (min e (saturating_sub n 1))"
    if "c = format # data" "format \<in> {1, 2}" "unat s \<le> length whole"
      "decompress (sl_codec lib) (sm_compression sm) c = Inr whole" for whole format data
    using decompress_range_is_slice [OF assms(2), of "sl_codec lib" format data whole s
        "min e (saturating_sub n 1)" buf] that dec by blast
  with f show ?thesis by blast
qed

definition ex_packed :: world where
  "ex_packed = ex_stored\<lparr>
     w_db := (w_db ex_stored)\<lparr>db_files := [ex_stored_row\<lparr>sf_is_encrypted := Some False,
       sf_file_size := 2\<rparr>]\<rparr>,
     w_fs := \<lparr>fs_cwd = [], fs_nodes = [[''data''] \<mapsto> Dir, [''data'', ''photos''] \<mapsto> Dir,
        [''data'', ''photos'', ''a.jpg''] \<mapsto> File [2, 42]]\<rparr>\<rparr>"

theorem compressed_range_witness:
  "[7, 7, 7] = slice_inclusive ex_content 1 3"
proof -
  let ?r = "get_compressed_file_range (ex_lib no_json) ex_manager ''photos'' ''a.jpg'' 1 3 ex_packed"
  have run: "fst ?r = Inr (Some ([7, 7, 7], ''image/jpeg'', 20))" by code_simp
  have on: "cmp_enabled (sm_compression ex_manager)" by code_simp
  from compressed_range_is_the_slice [OF prod.collapse [symmetric, of ?r, unfolded run] on]
  obtain f w1 c where f: "read_metadata (ex_lib no_json) ex_manager ''photos'' ''a.jpg'' ex_packed = (Inr f, w1)"
    and c: "content_at (w_fs ex_packed) (sf_file_path f) = Some c"
    and slice: "\<forall>whole format data. c = format # data \<and> format \<in> {1, 2} \<and> unat (1 :: u64) \<le> length whole \<and>
       decompress (sl_codec (ex_lib no_json)) (sm_compression ex_manager) c = Inr whole \<longrightarrow>
       [7, 7, 7] = slice_inclusive whole 1 (min 3 (saturating_sub 20 1))"
    by blast
  have "(case fst (read_metadata (ex_lib no_json) ex_manager ''photos'' ''a.jpg'' ex_packed) of
      Inr f \<Rightarrow> content_at (w_fs ex_packed) (sf_file_path f) = Some [2, 42] | Inl _ \<Rightarrow> False)" by code_simp
  then have "c = 2 # [42]" using f c by simp
  moreover have "decompress (sl_codec (ex_lib no_json)) (sm_compression ex_manager) [2, 42] = Inr ex_content"
    by code_simp
  moreover have "min 3 (saturating_sub 20 1) = (3 :: u64)" by code_simp
  ultimately show ?thesis using slice by (simp add: ex_content_def)
qed

text \<open>C25 (functional): a download without a fast path answers 200 with the whole object, or, when
  the range header is accepted for the length of the object, 206 with exactly that slice of it.\<close>

theorem download_is_the_object_or_its_slice:
  assumes "full_download lib st b k rh w = (Inr r, w')"
  shows "\<exists>c ct w1. get_file (hl_storage lib) (as_storage st) b k w = (Inr (c, ct), w1) \<and>
    (case (case rh of None \<Rightarrow> None | Some v \<Rightarrow> parse_range_header v (of_nat (length c))) of
       None \<Rightarrow> rs_status r = 200 \<and> rs_body r = Content_body c
     | Some (s, e) \<Rightarrow> rs_status r = 206 \<and> rs_body r = Content_body (slice_inclusive c s e))"
proof -
  from full_download_Inr [OF assms] obtain c ct w1 where
    "get_file (hl_storage lib) (as_storage st) b k w = (Inr (c, ct), w1)"
    and "rs_body r = Content_body (case (case rh of None \<Rightarrow> None
        | Some v \<Rightarrow> parse_range_header v (of_nat (length c))) of
        None \<Rightarrow> c | Some (s, e) \<Rightarrow> slice_inclusive c s e)"
    and "rs_status r = (if (case rh of None \<Rightarrow> None
        | Some v \<Rightarrow> parse_range_header v (of_nat (length c))) = None then 200 else 206)"
    by blast
  then show ?thesis by (intro exI [of _ c] exI [of _ ct] exI [of _ w1]) (auto split: option.split)
qed

theorem download_is_the_object_or_its_slice_witness:
  "\<exists>r w'. full_download ex_hlib ex_state ''photos'' ''a.jpg'' (Some ''bytes=1-3'') ex_stored = (Inr r, w') \<and>
    rs_status r = 206 \<and> rs_body r = Content_body [7, 7, 7]"
proof -
  let ?d = "full_download ex_hlib ex_state ''photos'' ''a.jpg'' (Some ''bytes=1-3'') ex_stored"
  have "(case fst ?d of Inr r \<Rightarrow> True | Inl _ \<Rightarrow> False)"
    by code_simp
  then obtain r w' where d: "?d = (Inr r, w')" by (cases ?d) (auto split: sum.splits)
  have "(case fst (get_file (ex_lib no_json) ex_manager ''photos'' ''a.jpg'' ex_stored) of
      Inr (c, _) \<Rightarrow> c = ex_content | Inl _ \<Rightarrow> False)" by code_simp
  moreover have "parse_range_header ''bytes=1-3'' (of_nat (length ex_content)) = Some (1, 3)" by code_simp
  moreover have "slice_inclusive ex_content 1 3 = [7, 7, 7]" by code_simp
  ultimately have "rs_status r = 206 \<and> rs_body r = Content_body [7, 7, 7]"
    using download_is_the_object_or_its_slice [OF d] by (auto simp: ex_hlib_def)
  then show ?thesis using d by blast
qed

end
