(* ===== verification/Access_Properties.thy ===== *)
theory Access_Properties
  imports Example_Service
begin

text \<open>
  Who may do what: the download token, the limits of an upload and the signatures of the S3
  API, with what a refused request leaves behind.
\<close>

section \<open>The download token\<close>

text \<open>The calls that read files over the REST API: the bucket that each names, if any, and its headers.\<close>

fun rest_read :: "call \<Rightarrow> (string option \<times> header_map) option" where
  "rest_read (File_call b p h) = Some (Some b, h)"
| "rest_read (List_call b q h) = Some (Some b, h)"
| "rest_read (Search_call q h) = Some (sq_bucket q, h)"
| "rest_read _ = None"

lemma require_token_decides:
  "require_download_token st h bucket =
    (if as_download_protection_token st \<noteq> None \<and>
        header_str h ''x-activator-write-token'' \<noteq> as_download_protection_token st \<and>
        (case as_protected_read_buckets st of None \<Rightarrow> True
         | Some names \<Rightarrow> (case bucket of None \<Rightarrow> True | Some b \<Rightarrow> b \<in> set names))
     then Inl (Forbidden ''valid X-Activator-Write-Token header required to read this bucket'') else Inr ())"
  by (auto simp: require_download_token_def download_is_authorized_def Let_def list_ex_iff split: option.splits)

lemma no_token_no_gate: "require_download_token (st\<lparr>as_download_protection_token := None\<rparr>) h bucket = Inr ()"
  by (simp add: require_download_token_def download_is_authorized_def)

lemma token_is_not_storage: "as_storage (st\<lparr>as_download_protection_token := t\<rparr>) = as_storage st"
  by simp

lemma reads_ignore_the_token:
  "full_download lib (st\<lparr>as_download_protection_token := t\<rparr>) b k v = full_download lib st b k v"
  "range_request lib (st\<lparr>as_download_protection_token := t\<rparr>) b k r = range_request lib st b k r"
  unfolding range_request_def range_fast_path_def full_download_def token_is_not_storage by (rule refl)+

text \<open>C11 (safety): the REST calls that read files - a download or its \<open>/info\<close>, a listing, a
  search - are refused with 403 exactly when a token is configured, the request does not carry it,
  and the bucket is in scope: every bucket without an allowlist; with one, a listed bucket or a
  search that names none. A refused call reads and changes nothing but the clock; any other is
  answered as if no token were configured. (The gate is not there for the S3 protocol, whose reads
  are signed.)\<close>

theorem download_gate:
  assumes "rest_read c = Some (bucket, h)"
  shows "serve lib st c w =
    (if as_download_protection_token st \<noteq> None \<and>
        header_str h ''x-activator-write-token'' \<noteq> as_download_protection_token st \<and>
        (case as_protected_read_buckets st of None \<Rightarrow> True
         | Some names \<Rightarrow> (case bucket of None \<Rightarrow> True | Some b \<Rightarrow> b \<in> set names))
     then (Refused 403 (snd (into_response (env_now (w_env w) (w_tick w))
             (Forbidden ''valid X-Activator-Write-Token header required to read this bucket''))), tick w)
     else serve lib (st\<lparr>as_download_protection_token := None\<rparr>) c w)"
proof (cases "require_download_token st h bucket")
  case (Inl e)
  with require_token_decides [of st h bucket] show ?thesis using assms
    by (cases c) (auto simp: serve_rest rest_answer_def handle_file_request_def list_files_handler_def
        search_files_handler_def bind_op_def into_response_def split: if_splits)
next
  case (Inr u)
  then have go: "require_download_token st h bucket = Inr ()" by simp
  then have "serve lib st c w = serve lib (st\<lparr>as_download_protection_token := None\<rparr>) c w"
    using assms
    by (cases c) (simp_all add: serve_rest rest_answer_def handle_file_request_def list_files_handler_def
        search_files_handler_def bind_op_def no_token_no_gate reads_ignore_the_token Let_def
        cong: option.case_cong)
  with require_token_decides [of st h bucket] go show ?thesis by (auto split: if_splits)
qed

theorem download_gate_witness:
  "fst (serve ex_hlib ex_state (List_call ''private'' \<lparr>lq_prefix = None, lq_limit = None, lq_offset = None\<rparr> no_headers)
     ex_stored) =
   Refused 403 \<lparr>eb_error = ''Forbidden: valid X-Activator-Write-Token header required to read this bucket'',
     eb_status = 403, eb_timestamp = env_now (w_env ex_stored) (w_tick ex_stored)\<rparr>"
  by (subst download_gate [where bucket = "Some ''private''" and h = no_headers])
    (simp_all add: header_str_def no_headers_def into_response_def)

text \<open>A read without the required token gets 403 from the download, the listing and
  the search alike, and nothing is read or changed on its behalf.\<close>

theorem refused_reads_do_nothing:
  assumes "\<not> download_is_authorized (as_download_protection_token st) (as_protected_read_buckets st)
      (Some b) (header_str h ''x-activator-write-token'')"
  shows "\<exists>e. fst (into_response now e) = 403 \<and> handle_file_request lib st b p h w = (Inl e, w) \<and>
    list_files_handler st b q h w = (Inl e, w) \<and>
    (sq_bucket s = Some b \<longrightarrow> search_files_handler lib st s h w = (Inl e, w))"
proof -
  let ?e = "Forbidden ''valid X-Activator-Write-Token header required to read this bucket''"
  have gate: "require_download_token st h (Some b) = Inl ?e"
    using assms by (simp add: require_download_token_def)
  then have "handle_file_request lib st b p h w = (Inl ?e, w)" "list_files_handler st b q h w = (Inl ?e, w)"
    "sq_bucket s = Some b \<longrightarrow> search_files_handler lib st s h w = (Inl ?e, w)"
    by (simp_all add: handle_file_request_def list_files_handler_def search_files_handler_def
        bind_op_def lift_result_def)
  moreover have "fst (into_response now ?e) = 403" by (simp add: into_response_def)
  ultimately show ?thesis by blast
qed

theorem refused_reads_witness:
  "\<exists>e. fst (into_response 0 e) = 403 \<and>
    handle_file_request ex_hlib ex_state ''private'' ''a.jpg'' no_headers ex_stored = (Inl e, ex_stored)"
  using refused_reads_do_nothing [of ex_state "''private''" no_headers 0 ex_hlib "''a.jpg''" ex_stored]
  by (auto simp: download_is_authorized_def header_str_def no_headers_def)

section \<open>Uploads\<close>

lemma filename_step_same:
  "(case given of Some name \<Rightarrow> ret name | None \<Rightarrow> bind_op now_op (\<lambda>now. ret (g now))) w =
    (Inr x :: storage_error failure + string, w1) \<Longrightarrow> same_state w w1"
  by (auto simp: bind_op_def ret_def external_apply same_state_def split: option.splits)

lemma read_body_Inl: "read_body body n = Inl e \<Longrightarrow> client_error e"
  by (auto simp: read_body_def to_bytes_def map_err_def split: request_body.splits if_splits)

lemma check_length_Inl: "check_length h n = Inl e \<Longrightarrow> client_error e"
  by (auto simp: check_length_def split: option.splits if_splits)

text \<open>C31 (bounds): an upload is refused with 413 before anything is stored when its body is larger
  than the configured maximum, whether or not a length was announced, and also when the length that
  its header announces is larger, whatever the body is.\<close>

theorem oversized_upload_is_refused:
  assumes "(\<exists>content. body = Whole content \<and> max_file_size (as_storage st) < length content) \<or>
    (\<exists>n. content_length_of h = Some n \<and> max_file_size (as_storage st) < n)"
  shows "\<exists>e w'. serve lib st (Upload_call b q h body) w = (Refused 413 e, w') \<and> same_state w w'"
proof -
  let ?max = "max_file_size (as_storage st)"
  define m :: "(storage_error failure, string) op" where "m = (case extract_filename_from_content_disposition lib h of Some name \<Rightarrow> ret name
    | None \<Rightarrow> bind_op now_op (\<lambda>now. ret (''file_'' @ show_int (now div 1000000000) @ ''.bin'')))"
  obtain name w1 where m: "m w = (Inr name, w1)"
    by (cases "extract_filename_from_content_disposition lib h")
      (auto simp: m_def bind_op_def ret_def external_apply)
  have same: "same_state w w1" by (rule filename_step_same [OF m [unfolded m_def]])
  have len: "(check_length h ?max = Inr () \<and> (\<forall>n. content_length_of h = Some n \<longrightarrow> n \<le> ?max)) \<or>
      (\<exists>msg. check_length h ?max = Inl (PayloadTooLarge msg))"
    by (auto simp: check_length_def split: option.split)
  have "contains_str ''length limit exceeded'' ''length limit exceeded''" by code_simp
  then have body: "\<exists>msg. read_body (Whole content) ?max = Inl (PayloadTooLarge msg)" if "?max < length content" for content
    using that by (simp add: read_body_def to_bytes_def map_err_def)
  obtain msg where "upload_file lib st b q h body w = (Inl (Failed (PayloadTooLarge msg)), w1)"
    using assms len body m unfolding upload_file_def m_def [symmetric]
    by (fastforce simp: bind_op_def map_err_def)
  then show ?thesis using same
    by (simp add: serve_rest rest_answer_or_panic_def into_response_def same_state_def)
qed

theorem oversized_upload_witness:
  "\<exists>e w'. serve ex_hlib ex_state (Upload_call ''photos'' (ex_query None)
      (ex_headers [(''content-length'', ''999999999999999'')]) (Whole [1])) ex_stored =
    (Refused 413 e, w') \<and> same_state ex_stored w'"
proof -
  have "content_length_of (ex_headers [(''content-length'', ''999999999999999'')]) = Some 999999999999999" by code_simp
  moreover have "max_file_size (as_storage ex_state) < 999999999999999" by code_simp
  ultimately show ?thesis by (intro oversized_upload_is_refused) blast
qed

text \<open>An upload with a \<open>ttl_seconds\<close> that is not positive stores nothing.\<close>

theorem bad_ttl_stores_nothing:
  assumes "uq_ttl_seconds q = Some n" "n \<le> 0"
  shows "\<exists>e w'. upload_file lib st b q h body w = (Inl (Failed e), w') \<and> same_state w w' \<and>
    client_error e"
proof -
  define m :: "(storage_error failure, string) op" where "m = (case extract_filename_from_content_disposition lib h of Some name \<Rightarrow> ret name
    | None \<Rightarrow> bind_op now_op (\<lambda>now. ret (''file_'' @ show_int (now div 1000000000) @ ''.bin'')))"
  obtain name w1 where m: "m w = (Inr name, w1)"
    by (cases "extract_filename_from_content_disposition lib h")
      (auto simp: m_def bind_op_def ret_def external_apply)
  have same: "same_state w w1" by (rule filename_step_same [OF m [unfolded m_def]])
  have ttl: "expiry_of lib (uq_ttl_seconds q) w1 =
      (Inl (Failed (BadRequest (''ttl_seconds must be a positive number, got '' @ show_int n))), w1)"
    using assms by (simp add: expiry_of_def throw_def)
  let ?max = "max_file_size (as_storage st)"
  show ?thesis
  proof (cases "check_length h ?max")
    case (Inl e)
    then show ?thesis
      using m same check_length_Inl [OF Inl] unfolding upload_file_def m_def [symmetric]
      by (simp add: bind_op_def lift_result_def map_err_def)
  next
    case len: (Inr u)
    show ?thesis
    proof (cases "read_body body ?max")
      case (Inl e)
      then show ?thesis
        using m same len read_body_Inl [OF Inl] unfolding upload_file_def m_def [symmetric]
        by (simp add: bind_op_def lift_result_def map_err_def)
    next
      case (Inr c)
      then show ?thesis
        using m same len ttl unfolding upload_file_def m_def [symmetric]
        by (simp add: bind_op_def lift_result_def map_err_def throw_def)
    qed
  qed
qed

theorem bad_ttl_witness:
  "\<exists>e w'. upload_file ex_hlib ex_state ''photos'' (ex_query (Some (- 5))) no_headers (Whole [1]) ex_stored =
    (Inl (Failed e), w') \<and> same_state ex_stored w'"
  using bad_ttl_stores_nothing [of "ex_query (Some (- 5))" "- 5" ex_hlib ex_state "''photos''"
      no_headers "Whole [1]" ex_stored]
  by (auto simp: ex_query_def)

section \<open>Signatures\<close>

text \<open>The comparison that looks at every byte decides equality.\<close>

theorem constant_time_comparison_is_equality: "constant_time_eq a b \<longleftrightarrow> a = b"
  by (rule constant_time_eq_iff)

text \<open>C28 (safety): a signed request is accepted exactly when it names the configured access key, is
  at most 900 seconds off the clock, declares no payload but its own (or an unsigned one) and
  carries the signature computed with the secret key over what was received.\<close>

theorem signature_decides:
  "verify_sigv4 lib now headers verb u body cfg = Inr () \<longleftrightarrow>
     (\<exists>auth parsed amz_date t payload.
        header_str headers ''authorization'' = Some auth \<and> parse_authorization auth = Some parsed \<and>
        pa_access_key parsed = s3c_access_key cfg \<and>
        header_str headers ''x-amz-date'' = Some amz_date \<and> parse_amz_date lib amz_date = Some t \<and>
        skew_seconds now t \<le> 900 \<and> hashed_payload_of lib headers u body = Inr payload \<and>
        pa_signature parsed =
          computed_signature lib (s3c_secret_key cfg) verb u headers payload amz_date parsed)"
  by (rule verify_sigv4_iff)

text \<open>An \<open>Authorization\<close> header in the standard form is parsed back into its parts,
  the header names lower-cased and sorted.\<close>

theorem standard_header_is_parsed:
  assumes "plain_text access_key" "plain_text date" "plain_text region" "plain_text signature"
    and "CHR ''/'' \<notin> set access_key" "CHR ''/'' \<notin> set date" "CHR ''/'' \<notin> set region"
    and "names \<noteq> []" "\<forall>n \<in> set names. plain_text n \<and> CHR '';'' \<notin> set n"
  shows "parse_authorization (authorization_header access_key date region names signature) =
    Some \<lparr>pa_access_key = access_key, pa_date = date, pa_region = region,
          pa_signed_headers = sort (map to_lowercase names), pa_signature = signature\<rparr>"
  using parse_authorization_header [OF assms(1-8)] assms(9) by blast

theorem standard_header_witness:
  "\<exists>p. parse_authorization (authorization_header ''AK'' ''20240101'' ''us-east-1'' [''host'', ''x-amz-date''] ''abc'') =
    Some p \<and> pa_access_key p = ''AK''"
proof -
  have "plain_text ''AK''" "plain_text ''20240101''" "plain_text ''us-east-1''" "plain_text ''abc''"
    "\<forall>n \<in> set [''host'', ''x-amz-date'']. plain_text n \<and> CHR '';'' \<notin> set n"
    by code_simp+
  then show ?thesis
    using standard_header_is_parsed [of "''AK''" "''20240101''" "''us-east-1''" "''abc''" "[''host'', ''x-amz-date'']"]
    by simp
qed

text \<open>The percent encoding of the canonical request loses nothing: decoding gives
  the text back, with or without its slashes kept, so different texts have different encodings.\<close>

theorem uri_encoding_is_injective:
  "percent_decode (uri_encode s keep) = s \<and> (uri_encode s keep = uri_encode t keep \<longleftrightarrow> s = t)"
  using percent_decode_uri_encode uri_encode_inj by blast

lemma verify_same: "verify lib st rq w = (r, w') \<Longrightarrow> same_state w w'"
  by (auto simp: verify_def bind_op_def lift_result_def external_apply same_state_def split: sum.splits)

lemma bind_verify:
  "verify lib st rq w = (Inl e, w') \<Longrightarrow> bind_op (verify lib st rq) f w = (Inl e, w')"
  by (simp add: bind_op_def)

text \<open>C10 (safety): every S3 call whose signature does not verify is answered with exactly the error of
  that check, whatever it asks for. The answer is made of the request, the configured account, the
  clock and a new request id, and of nothing that is stored; the tables, the disk and the cache
  are neither read nor changed.\<close>

theorem unsigned_calls_do_nothing:
  assumes "signed_request c = Some rq" "as_s3_config st = Some account"
    and "verify_sigv4 (hl_sig lib) (env_now (w_env w) (w_tick w)) (rq_headers rq) (rq_verb rq) (rq_uri rq)
      (rq_body rq) account = Inl e"
  shows "serve lib st c w =
    (S3_refused (s3_status e) \<lparr>seb_code = s3_code e, seb_message = s3_message e, seb_resource = s3_resource e,
       seb_request_id = env_uuid (w_env w) (Suc (w_tick w))\<rparr>, tick (tick w))"
proof -
  have v: "verify lib st rq w = (Inl e, tick w)"
    using assms(2,3) by (simp add: verify_def bind_op_def require_s3_config_def external_apply)
  show ?thesis
    unfolding serve_mounted [OF assms(2)] using assms(1)
    by (cases c)
      (simp_all add: s3_answer_def s3_answer_or_panic_def s3_list_buckets_def s3_create_bucket_def
        s3_delete_bucket_def list_objects_v2_def put_object_def get_object_def head_object_def
        delete_object_def bucket_post_def Let_def bind_verify v bind_op_def map_err_op_def map_err_def
        s3_error_response_def)
qed

theorem unsigned_calls_witness:
  "fst (serve ex_hlib ex_state (S3_delete_bucket_call ''photos''
      \<lparr>rq_verb = ''DELETE'', rq_uri = \<lparr>uri_path = ''/v2/photos'', uri_query = None\<rparr>,
       rq_headers = no_headers, rq_body = []\<rparr>) ex_stored) =
    S3_refused 403 \<lparr>seb_code = ''AccessDenied'', seb_message = ''Missing Authorization header'', seb_resource = [],
      seb_request_id = env_uuid (w_env ex_stored) (Suc (w_tick ex_stored))\<rparr>"
proof -
  let ?rq = "\<lparr>rq_verb = ''DELETE'', rq_uri = \<lparr>uri_path = ''/v2/photos'', uri_query = None\<rparr>,
    rq_headers = no_headers, rq_body = []\<rparr>"
  have "verify_sigv4 (hl_sig ex_hlib) (env_now (w_env ex_stored) (w_tick ex_stored)) (rq_headers ?rq) (rq_verb ?rq)
      (rq_uri ?rq) (rq_body ?rq) ex_account = Inl (access_denied ''Missing Authorization header'')"
    by (simp add: verify_sigv4_def header_str_def no_headers_def)
  from unsigned_calls_do_nothing [OF _ _ this, of "S3_delete_bucket_call ''photos'' ?rq" ex_state] show ?thesis
    by (simp add: access_denied_def s3_new_def)
qed

end
