(* ===== verification/Findings.thy ===== *)
theory Findings
  imports Example_Service
begin

text \<open>
  Where the code does not do what it means to: each theorem runs the model on a small case (or,
  for large contents, states the general one) and shows what the service answers or destroys.
\<close>

definition as_is :: store_options where
  "as_is = default_options\<lparr>so_compress := Some False, so_encrypt := Some False\<rparr>"

definition put :: "storage_manager \<Rightarrow> string \<Rightarrow> string \<Rightarrow> bytes \<Rightarrow> store_options \<Rightarrow> (storage_error, stored_file) op" where
  "put sm b k c opts = store_file (ex_lib no_json) sm b k c None opts"

definition look :: "string \<Rightarrow> string \<Rightarrow> world \<Rightarrow> storage_error + bytes \<times> string option" where
  "look b k w = fst (get_file (ex_lib no_json) ex_manager b k w)"

text \<open>The same state with nothing in the cache.\<close>

definition cold :: "world \<Rightarrow> world" where
  "cold w = w\<lparr>w_cache := Map.empty\<rparr>"

section \<open>Lost and mixed-up contents\<close>

text \<open>Storing \<open>x.txt\<close> writes through the temporary file \<open>x.tmp\<close>, which may be another object.\<close>

theorem temporary_name_destroys_an_object:
  "(case put ex_manager ''photos'' ''x.tmp'' [1, 2, 3] as_is ex_world of (Inr f, w1) \<Rightarrow>
    (case put ex_manager ''photos'' ''x.txt'' [4, 5] as_is w1 of (Inr g, w2) \<Rightarrow>
       content_at (w_fs w1) ''/data/photos/x.tmp'' = Some [1, 2, 3] \<and>
       content_at (w_fs w2) ''/data/photos/x.tmp'' = None
     | _ \<Rightarrow> False) | _ \<Rightarrow> False)"
  by code_simp

text \<open>An alias names the file of another key; overwriting that key changes what the alias reads.\<close>

theorem overwrite_changes_the_alias:
  "(case put ex_manager ''photos'' ''a.jpg'' [1, 2, 3] as_is ex_world of (Inr f, w1) \<Rightarrow>
    (case put ex_manager ''photos'' ''b.jpg'' [1, 2, 3] as_is w1 of (Inr g, w2) \<Rightarrow>
      (case put ex_manager ''photos'' ''a.jpg'' [9, 9] as_is w2 of (Inr h, w3) \<Rightarrow>
         look ''photos'' ''b.jpg'' (cold w3) = Inr ([9, 9], Some ''application/octet-stream'')
     | _ \<Rightarrow> False) | _ \<Rightarrow> False) | _ \<Rightarrow> False)"
  by code_simp

text \<open>Overwriting a key by an alias leaves its old content in the cache, and its old file on the disk.\<close>

theorem alias_over_a_key_serves_the_old_content:
  "(case put ex_manager ''photos'' ''k.jpg'' [5] as_is ex_world of (Inr f, w1) \<Rightarrow>
    (case put ex_manager ''photos'' ''a.jpg'' [1, 2, 3] as_is w1 of (Inr g, w2) \<Rightarrow>
      (case put ex_manager ''photos'' ''k.jpg'' [1, 2, 3] as_is w2 of (Inr h, w3) \<Rightarrow>
         look ''photos'' ''k.jpg'' w3 = Inr ([5], Some ''application/octet-stream'') \<and>
         content_at (w_fs w3) ''/data/photos/k.jpg'' = Some [5]
     | _ \<Rightarrow> False) | _ \<Rightarrow> False) | _ \<Rightarrow> False)"
  by code_simp

text \<open>Buckets may contain colons, and then two objects share a cache entry.\<close>

theorem colon_bucket_serves_another_object:
  "(case put ex_manager ''a'' ''b:c'' [1, 2, 3] as_is ex_world of (Inr f, w1) \<Rightarrow>
    (case put ex_manager ''a:b'' ''c'' [4] as_is w1 of (Inr g, w2) \<Rightarrow>
       look ''a'' ''b:c'' w2 = Inr ([4], Some ''application/octet-stream'')
     | _ \<Rightarrow> False) | _ \<Rightarrow> False)"
  by code_simp

text \<open>Deleting a bucket spares the files that other buckets alias, and then removes their directory.\<close>

theorem bucket_deletion_destroys_aliased_bytes:
  "(case put ex_manager ''photos'' ''a.jpg'' [1, 2, 3] as_is ex_world of (Inr f, w1) \<Rightarrow>
    (case put ex_manager ''backup'' ''b.jpg'' [1, 2, 3] as_is w1 of (Inr g, w2) \<Rightarrow>
      (case delete_bucket ex_manager ''photos'' w2 of (Inr _, w3) \<Rightarrow>
         sql_get_file ''backup'' ''b.jpg'' (w_db w3) \<noteq> None \<and>
         look ''backup'' ''b.jpg'' (cold w3) = Inl (NotFound ''backup'' ''b.jpg'')
     | _ \<Rightarrow> False) | _ \<Rightarrow> False) | _ \<Rightarrow> False)"
  by code_simp

text \<open>Compression that an upload asks for is not undone when the service has it switched off.\<close>

definition plain_manager :: storage_manager where
  "plain_manager = ex_manager\<lparr>
     sm_config := ex_config\<lparr>cf_compression := (cf_compression ex_config)\<lparr>cmp_enabled := False\<rparr>\<rparr>,
     sm_compression := (cf_compression ex_config)\<lparr>cmp_enabled := False\<rparr>\<rparr>"

theorem forced_compression_is_not_undone:
  "(case put plain_manager ''photos'' ''a.jpg'' ex_content (as_is\<lparr>so_compress := Some True\<rparr>) ex_world of
      (Inr f, w1) \<Rightarrow>
        fst (get_file (ex_lib no_json) plain_manager ''photos'' ''a.jpg'' w1) =
          Inr ([2, 42], Some ''application/octet-stream'')
     | _ \<Rightarrow> False)"
  by code_simp

section \<open>Failures in the middle\<close>

definition db_fails_at :: "nat \<Rightarrow> world \<Rightarrow> world" where
  "db_fails_at n w = w\<lparr>w_env := (w_env w)\<lparr>env_db_fault := (\<lambda>t. if t = n then Some ''down'' else None)\<rparr>\<rparr>"

definition io_fails_at :: "nat \<Rightarrow> io_error \<Rightarrow> world \<Rightarrow> world" where
  "io_fails_at n e w = w\<lparr>w_env := (w_env w)\<lparr>env_io_fault := (\<lambda>t. if t = n then Some e else None)\<rparr>\<rparr>"

text \<open>An overwrite replaces the file before the row; when the row cannot be saved, the clean-up
  removes the new bytes, and the old ones are gone too.\<close>

theorem failed_overwrite_loses_the_old_bytes:
  "(case put ex_manager ''photos'' ''a.jpg'' [1, 2, 3] as_is ex_world of (Inr f, w1) \<Rightarrow>
    (case put ex_manager ''photos'' ''a.jpg'' [9, 9] as_is (db_fails_at (w_tick w1 + 9) w1) of
      (Inl e, w2) \<Rightarrow>
         e = Database ''down'' \<and> sql_get_file ''photos'' ''a.jpg'' (w_db w2) \<noteq> None \<and>
         content_at (w_fs w2) ''/data/photos/a.jpg'' = None
     | _ \<Rightarrow> False) | _ \<Rightarrow> False)"
  by code_simp

text \<open>A read that fails because the process has too many files open is taken for a missing file:
  \<open>os error 24\<close> contains \<open>os error 2\<close>. The row and the file are deleted.\<close>

theorem too_many_open_files_deletes_the_object:
  "(case get_file (ex_lib no_json) ex_manager ''photos'' ''a.jpg''
      (io_fails_at (w_tick ex_stored + 3) (Os_error ''Too many open files'' 24) ex_stored) of
      (Inl e, w1) \<Rightarrow>
         e = NotFound ''photos'' ''a.jpg'' \<and> sql_get_file ''photos'' ''a.jpg'' (w_db w1) = None \<and>
         content_at (w_fs w1) ''/data/photos/a.jpg'' = None
     | _ \<Rightarrow> False)"
  by code_simp

text \<open>A bucket is deleted; the count of the references to one of its files fails and is taken for 0:
  the file goes although a row of another bucket names it.\<close>

theorem failed_count_deletes_a_shared_file:
  "(case put ex_manager ''backup'' ''b.jpg'' ex_content as_is ex_stored of (Inr g, w1) \<Rightarrow>
    (case delete_bucket ex_manager ''photos'' (db_fails_at (w_tick w1 + 4) w1) of (Inr _, w2) \<Rightarrow>
       sql_get_file ''backup'' ''b.jpg'' (w_db w2) \<noteq> None \<and>
       content_at (w_fs w2) ''/data/photos/a.jpg'' = None
     | _ \<Rightarrow> False) | _ \<Rightarrow> False)"
  by code_simp

text \<open>Uploading the content of an expired object again answers the expired row, whose expiry stays:
  the upload succeeds and the object is gone at the first read.\<close>

theorem upload_over_an_expired_object_is_lost:
  "(case put ex_manager ''photos'' ''a.jpg'' [1, 2, 3] (as_is\<lparr>so_expires_at := Some 900\<rparr>) ex_world of
     (Inr f, w1) \<Rightarrow>
    (case put ex_manager ''photos'' ''a.jpg'' [1, 2, 3] as_is w1 of (Inr g, w2) \<Rightarrow>
       look ''photos'' ''a.jpg'' w2 = Inl (NotFound ''photos'' ''a.jpg'')
     | _ \<Rightarrow> False) | _ \<Rightarrow> False)"
  by code_simp

section \<open>Large objects\<close>

text \<open>Contents over 1 MiB are not cached, and nothing removes the smaller content that a key had in
  the cache before: reads go on serving it, under the new row.\<close>

theorem large_overwrite_serves_old_content:
  assumes "quiet (w_env w)" "json_reads_back (sl_json lib) f"
    and "store_new lib sm b k content ct opts h w = (Inr f, w')"
    and "int max_cached_content < sf_file_size f" "\<not> is_compressed f" "\<not> is_encrypted f"
    and "w_cache w (content_key b k) = Some old" "unexpired (w_env w) f"
  shows "\<exists>w''. get_file lib sm b k w' =
    (Inr (old, Some (unwrap_or ct ''application/octet-stream'')), w'')"
proof -
  from store_new_quiet [OF assms(1-3)] obtain v where
    v: "json_from_slice (sl_json lib) v = Inr f" "w_cache w' (metadata_key b k) = Some v"
    and c: "w_cache w' (content_key b k) = Some old"
    and f: "sf_content_type f = unwrap_or ct ''application/octet-stream''" "w_env w' = w_env w"
    using assms(4,7) by auto
  have "encoded_as lib sm (w_db w') f old old"
    using assms(5,6) by (simp add: encoded_as_def decode_content_def same_state_def bind_op_def)
  moreover have "raw_content w' b k f = Some old" using c by (simp add: raw_content_def)
  moreover have "read_metadata lib sm b k w' = (Inr f, tick w')"
    using read_metadata_hit v assms(1) f(2) by metis
  ultimately show ?thesis
    using get_file_row [of lib sm b k w' f "tick w'"] assms(1,8) f by (simp add: same_state_def)
qed

end
