(* ===== verification/Findings_Api.thy ===== *)
theory Findings_Api
  imports Example_Service
begin

text \<open>
  Findings about the HTTP interfaces: what a request gets past a check, or is answered against
  what the comments and the README say.
\<close>

section \<open>Names\<close>

definition disposition :: "string \<Rightarrow> header_map" where
  "disposition s = ex_headers [(''content-disposition'', s)]"

text \<open>The file name of an upload is the object's key and goes into its path as it is: it may leave
  the storage directory by \<open>..\<close> or be absolute.\<close>

theorem uploads_leave_the_storage_directory:
  "extract_filename_from_content_disposition ex_hlib (disposition ''attachment; filename=../../etc/passwd'') =
     Some ''../../etc/passwd'' \<and>
   final_place (w_fs ex_stored) (get_file_path ex_manager ''photos'' ''../../etc/passwd'') = [''etc'', ''passwd''] \<and>
   get_file_path ex_manager ''photos'' ''/etc/passwd'' = ''/etc/passwd''"
  by code_simp

text \<open>The extended form of RFC 5987 that the code claims to handle is not recognised.\<close>

theorem extended_filename_is_not_recognised:
  "extract_filename_from_content_disposition ex_hlib
     (disposition (''attachment; filename*=UTF-8'' @ [CHR 0x27, CHR 0x27] @ ''na.txt'')) = None"
  by code_simp

text \<open>A key that ends in \<open>/info\<close> names another object: deleting \<open>a.jpg/info\<close> deletes \<open>a.jpg\<close>.\<close>

theorem info_key_deletes_another_object:
  "(case handle_file_delete ex_state ''photos'' ''a.jpg/info'' ex_stored of (Inr r, w1) \<Rightarrow>
      rs_status r = 204 \<and> sql_get_file ''photos'' ''a.jpg'' (w_db w1) = None
    | _ \<Rightarrow> False)"
  by code_simp

section \<open>Reading\<close>

text \<open>A search with an empty bucket parameter is checked as the bucket of that name and run over all
  buckets: it lists the protected ones without the token.\<close>

definition private_world :: world where
  "private_world = ex_stored\<lparr>w_db := (w_db ex_stored)\<lparr>db_files := [ex_stored_row\<lparr>sf_bucket := ''private''\<rparr>]\<rparr>\<rparr>"

theorem empty_bucket_search_evades_the_token:
  "(case search_files_handler ex_hlib ex_state \<lparr>sq_bucket = None, sq_query = ''a'', sq_limit = None\<rparr>
      no_headers private_world of (Inl (Forbidden _), _) \<Rightarrow> True | _ \<Rightarrow> False) \<and>
   (case search_files_handler ex_hlib ex_state \<lparr>sq_bucket = Some [], sq_query = ''a'', sq_limit = None\<rparr>
      no_headers private_world of (Inr r, _) \<Rightarrow>
        (case rs_body r of Infos_body fs \<Rightarrow> map fi_bucket fs = [''private''] | _ \<Rightarrow> False)
    | _ \<Rightarrow> False)"
  by code_simp

text \<open>The wildcards of \<open>LIKE\<close> in a prefix are not escaped: \<open>a_b\<close> lists \<open>axb\<close>.\<close>

theorem prefix_is_a_pattern: "like (''a_b'' @ ''%'') ''axb.txt'' \<and> \<not> starts_with ''a_b'' ''axb.txt''"
  by code_simp

text \<open>A malformed range is answered with 416, not with the whole file.\<close>

theorem malformed_range_is_unsatisfiable:
  "(case handle_file_request ex_hlib ex_state ''photos'' ''a.jpg'' (ex_headers [(''range'', ''bytes=abc'')])
      ex_stored of (Inr r, _) \<Rightarrow> rs_status r = 416 | _ \<Rightarrow> False)"
  by code_simp

text \<open>The size that listings and HEAD report is that of the stored form, not of the content.\<close>

theorem reported_size_is_the_stored_one:
  "ct_size (object_entry ex_hlib (file_info_from ex_stored_row)) = 30 \<and> length ex_content = 20"
  by code_simp

end
