(* ===== verification/Findings_Races.thy ===== *)
theory Findings_Races
  imports Storage_Tasks Findings
begin

text \<open>
  Races: interleavings of two requests after which an object is lost, mixed up or served stale,
  though each request succeeds or would be harmless alone. The schedules give the calls of the
  first request (0) and of the second (1) in their order.
\<close>

definition race :: "nat list \<Rightarrow> storage_request \<Rightarrow> storage_request \<Rightarrow>
    (storage_error, storage_reply) task list \<times> world" where
  "race order r1 r2 = interleave order (map (task_of (ex_lib no_json) ex_manager) [r1, r2], ex_stored)"

fun succeeded :: "('e, 'a) task \<Rightarrow> bool" where
  "succeeded (Done (Inr r)) = True"
| "succeeded _ = False"

text \<open>\<open>c.jpg\<close> and \<open>c.png\<close> share the temporary file \<open>c.tmp\<close>. The second write overwrites it before the
  first one renames it: the first succeeds, and its file has the bytes of the second.\<close>

theorem writes_swap_their_contents:
  "(case interleave [0, 1, 0, 1] ([t_write_file_atomic ''/data/photos/c.jpg'' [1, 2, 3],
      t_write_file_atomic ''/data/photos/c.png'' [7, 8]], ex_stored) of (ts, w) \<Rightarrow>
        (case ts of [Done (Inr _), Done (Inl _)] \<Rightarrow>
           content_at (w_fs w) ''/data/photos/c.jpg'' = Some [7, 8] \<and>
           content_at (w_fs w) ''/data/photos/c.png'' = None
         | _ \<Rightarrow> False))"
  by code_simp

text \<open>An upload finds its content under another key; that key is deleted, with its file, before the
  upload saves its row. Both succeed and the uploaded object has no bytes.\<close>

theorem deletion_races_an_alias:
  "(case race (replicate 2 0 @ replicate 6 1 @ replicate 3 0)
      (Store ''photos'' ''b.jpg'' ex_content None as_is) (Remove ''photos'' ''a.jpg'') of (ts, w) \<Rightarrow>
        succeeded (ts ! 0) \<and> succeeded (ts ! 1) \<and>
        sql_get_file ''photos'' ''b.jpg'' (w_db w) \<noteq> None \<and>
        look ''photos'' ''b.jpg'' w = Inl (NotFound ''photos'' ''b.jpg''))"
  by code_simp

text \<open>A key is deleted and uploaded again; the file goes after the new upload has written it.\<close>

theorem deletion_removes_the_new_file:
  "(case race (replicate 4 0 @ replicate 10 1 @ replicate 2 0)
      (Remove ''photos'' ''a.jpg'') (Store ''photos'' ''a.jpg'' [1, 2, 3] None as_is) of (ts, w) \<Rightarrow>
        succeeded (ts ! 0) \<and> succeeded (ts ! 1) \<and>
        sql_get_file ''photos'' ''a.jpg'' (w_db w) \<noteq> None \<and>
        content_at (w_fs w) ''/data/photos/a.jpg'' = None)"
  by code_simp

text \<open>A read has fetched the old bytes when an upload replaces them, row, file and cache; then the
  read puts the old bytes into the cache. Later reads decode them by the new row.\<close>

theorem read_caches_overwritten_bytes:
  "(case race (replicate 5 0 @ replicate 10 1 @ replicate 2 0)
      (Fetch ''photos'' ''a.jpg'') (Store ''photos'' ''a.jpg'' [1, 2, 3] None as_is) of (ts, w) \<Rightarrow>
        succeeded (ts ! 0) \<and> succeeded (ts ! 1) \<and>
        content_at (w_fs w) ''/data/photos/a.jpg'' = Some [1, 2, 3] \<and>
        look ''photos'' ''a.jpg'' w = Inr (ex_bytes, Some ''application/octet-stream''))"
  by code_simp

end
