(* ===== verification/Spec2Isabelle.thy ===== *)
theory Spec2Isabelle
  imports End_To_End S3_Listing Restarts Sound_Rows Refinement_Properties Content_Properties
    Expiry_Properties Durability_Properties Cache_Properties Codec_Properties Access_Properties
    Service_Properties Concurrency_Properties Findings Findings_Api Findings_Races
begin

text \<open>
  The verification of the storage service of this repository: the Rust program under
  \<^verbatim>\<open>src/local-storage/src\<close>, which keeps objects (a bucket, a key, bytes) as files on a disk and
  rows in PostgreSQL, and serves them over a REST API and over the S3 protocol.

  \<^bold>\<open>The parts and how they interact.\<close> A request reaches a handler through the router and, for
  the routes of the REST API other than uploads, through a limiter of 100 running requests
  (\<^verbatim>\<open>app.rs\<close>). The handlers (\<^verbatim>\<open>handlers/\<close>, \<^verbatim>\<open>s3/\<close>) check the download token or the S3
  signature and call the storage manager (\<^verbatim>\<open>storage.rs\<close>). An upload creates the bucket, looks the
  content's hash up (an equal content becomes a row that names the existing file), compresses,
  encrypts, writes the file through a temporary one, saves the row and fills the cache. A read
  takes the row from the cache or the database, checks the expiry, takes the bytes from the
  cache or the disk, decrypts, decompresses and counts the access. A delete removes the row in a
  transaction, the file if no other row names it, and the cache entries. A sweep deletes what
  has expired, a preload service fills the cache with popular files, and the start-up runs the
  migrations with a bounded number of attempts (\<^verbatim>\<open>main.rs\<close>).

  \<^bold>\<open>The theories\<close>, in the order of their imports, and what they model:

  \<^item> \<open>Prelude\<close>: the string, number and parsing functions of the standard library that the code
    uses, and facts on lists, maps and words that the components share.
  \<^item> \<open>Errors\<close>, \<open>S3_Error\<close>, \<open>Models\<close>, \<open>Config\<close>: \<^verbatim>\<open>errors.rs\<close>, \<^verbatim>\<open>s3/error.rs\<close>, \<^verbatim>\<open>models.rs\<close>,
    \<^verbatim>\<open>config.rs\<close>. Every error variant with its status and message; the rows; \<^verbatim>\<open>Config::load\<close>
    as a function of the process environment.
  \<^item> \<open>Compression\<close>, \<open>Crypto\<close>: \<^verbatim>\<open>compression.rs\<close>, \<^verbatim>\<open>crypto.rs\<close>, over codecs and ciphers that
    are parameters; the readers of the decoders return portions of any size, and the loops that
    read them are functions with a measure.
  \<^item> \<open>File_System\<close>, \<open>Performance_Optimizations\<close>: a disk of directories and files with Unix path
    resolution, and \<^verbatim>\<open>performance_optimizations.rs\<close> on it.
  \<^item> \<open>Object_Table\<close>, \<open>Database\<close>, \<open>Database_Manager\<close>: the interface of a table with one row per
    object (the locale \<open>object_table\<close>), interpreted on the statements of \<^verbatim>\<open>database.rs\<close> with the
    constraints of the migrations, and the methods of \<^verbatim>\<open>DatabaseManager\<close>.
  \<^item> \<open>World\<close>: the state of the service (database, disk, cache, environment) and the operations on
    it, composed with \<open>bind_op\<close> (the \<^verbatim>\<open>?\<close> operator) and \<open>try_op\<close> (a \<^verbatim>\<open>match\<close> on the result).
  \<^item> \<open>Lossy_Cache\<close>, \<open>Cache\<close>: the interface of a cache that may forget (the locale
    \<open>lossy_cache\<close>), interpreted for the contents and for the metadata of \<^verbatim>\<open>cache.rs\<close>; both
    back ends, the preload loop, the statistics.
  \<^item> \<open>Encryption_Keys\<close>: \<^verbatim>\<open>encryption_keys.rs\<close>.
  \<^item> \<open>Storage\<close>: \<^verbatim>\<open>storage.rs\<close>, one operation per method. \<open>Storage_Integrity\<close>, \<open>Storage_Delete\<close>,
    \<open>Storage_Roundtrip\<close>, \<open>Storage_Alias\<close>: the lemmas about its operations.
  \<^item> \<open>Http\<close>, \<open>Handlers\<close>: headers, and every handler of \<^verbatim>\<open>handlers/\<close>. \<open>S3_Auth\<close>, \<open>S3_Xml\<close>,
    \<open>S3_Handlers\<close>: \<^verbatim>\<open>s3/auth.rs\<close>, \<^verbatim>\<open>s3/xml.rs\<close>, \<^verbatim>\<open>s3/handlers.rs\<close>. A document is a tree of elements
    under the names of its \<^verbatim>\<open>serde\<close> attributes, and a client's reader of such trees inverts it.
  \<^item> \<open>App\<close>: the routers of \<^verbatim>\<open>app.rs\<close> and \<^verbatim>\<open>s3/mod.rs\<close>, the limiter as a step relation, the tasks
    of \<^verbatim>\<open>main.rs\<close>. \<open>Service\<close>: all calls as one function on the state (the router, then the
    handler) and the states they reach.
  \<^item> \<open>Examples\<close>, \<open>Example_Service\<close>: a small codec, cipher and JSON library that keep the laws, a
    configuration and states, to which the properties are applied.
  \<^item> \<open>Tasks\<close>: requests that run at the same time. A task is a tree of calls (\<open>Done\<close> a result, or
    \<open>Step\<close>, a call on the state and what follows on its result); \<open>interleave\<close> runs a list of them by
    a schedule; \<open>safe P t Q\<close> is the rule of rely and guarantee: from every state of \<open>P\<close>, whatever other
    tasks that keep \<open>P\<close> do in between, every call of \<open>t\<close> keeps \<open>P\<close> and a result has \<open>Q\<close>.
    \<open>Storage_Tasks\<close>: the methods of the storage manager as tasks, with the proof that a task that runs
    alone is the operation of \<open>Storage\<close>. \<open>Held_Objects\<close>, \<open>Held_Requests\<close>: an object whose row, bytes
    and cache entries are as some upload left them, and that the requests about other objects keep it so.
  \<^item> \<open>Simulation\<close>, \<open>Storage_Map\<close>, \<open>Storage_Shelf\<close>: the interface between a program that answers
    requests and its specification (the locale \<open>simulation\<close>), interpreted for the storage and a shelf of
    buckets and objects: each object has its content, its content type and the object in whose file its
    bytes are, which deduplication shares. \<open>represents\<close> relates the shelf to the tables, the disk and
    the cache; \<open>Storage_Shelf\<close> has one lemma for each kind of request.
  \<^item> \<open>Sound_Rows\<close>: the interface between the statements that write rows and a property of rows (the
    locale \<open>row_contract\<close>), which holds of every row in every state, and its interpretation for what a
    row says of itself and of its bytes.
  \<^item> \<open>Start_Up\<close>: \<^verbatim>\<open>main\<close> of \<^verbatim>\<open>main.rs\<close> from the environment variables to the state of the handlers
    and the background tasks; what a start needs, what it owes to the configuration, and restarts.
    \<open>Restarts\<close>: a process that ends in the middle of its requests, and the next one.
  \<^item> \<open>Range_Facts\<close> and the theories whose names end in \<open>Properties\<close>, with \<open>End_To_End\<close> and \<open>S3_End_To_End\<close>: the
    properties; \<open>S3_Listing\<close> and \<open>Expiry_Properties\<close> follow a request up to the answer that the client reads.
    \<open>Findings\<close>, \<open>Findings_Api\<close> and \<open>Findings_Races\<close>: runs of the model that show where
    the code does not do what it means to, the last with two requests at the same time.

  \<^bold>\<open>What the lemmas show.\<close> Contents: what is uploaded is what is read, compressed and encrypted as the
  upload and the configuration say, under a second key as well, over HTTP and S3 as in the manager, and
  a range is the slice of it; an upload is read after a restart; all this when nothing fails and under
  the conditions that the texts of the properties list, which the findings show to be needed. Safety: a
  delete, a sweep or an upload leaves the bytes and rows of other objects alone, no object whose rows
  are past their expiry is served, whatever fails, an upload or delete that fails changes no row, a
  write is all or nothing; REST reads that lack the token and S3 calls that lack the signature get
  exactly the answer that says so, and nothing is read or changed for them. Invariants: in every state
  that can be reached, whatever fails, every row is sound (its hashes and sizes are those of contents, its
  marks and its algorithms agree, its path is one the service makes) and the constraints of the tables
  and of the disk hold. Refinement: the storage answers any
  sequence of uploads, reads, deletions, sweeps and makings and droppings of buckets as a map from
  objects to contents does, deduplication included, the files table is a map from objects to rows, the
  pages of a listing are the objects of the bucket, an S3 listing is read back as the page that it is,
  the caches are maps that may forget, a read with the cache is a read without it.
  Concurrency: any interleaving of requests keeps the rows sound, a read is right while other objects are
  written and deleted, it is answered under a fair schedule when nothing fails, and an object survives a
  process that is killed in the middle of such requests.

  \<^bold>\<open>The environment.\<close> The record \<open>environment\<close> decides what the program does not: which call of
  the database, the disk or Redis fails and with which text, the clock, random bytes and ids,
  which cache entry is dropped when, which row a \<^verbatim>\<open>LIMIT 1\<close> takes. It is read at the count of
  calls made so far, so a theorem for every environment holds for faults at any point. \<open>quiet\<close>
  is the environment in which nothing fails or is dropped; the theorems that need it say so.

  \<^bold>\<open>Parameters and their laws.\<close> gzip, zstd, AES-GCM, ChaCha20-Poly1305, serde_json, SHA-256,
  HMAC, BLAKE3, MD5, hex, percent decoding, the date parser, quick_xml and the validity of a
  header value are arguments of the definitions. What the code relies on is stated where it is
  needed: \<open>gzip_law\<close> and \<open>zstd_law\<close> (the decoder of an encoding yields the input),
  \<open>aead_law\<close> (decryption under the same key and nonce inverts encryption) and
  \<open>json_reads_back\<close>. The examples instantiate each of them.

  \<^bold>\<open>Bounds.\<close> The migrations stop after 31 runs (\<open>max_attempts\<close> is 30, as in the source). The
  loops that read a decoder end by the measure of the bytes that are left, so they are total and
  need no fuel. \<open>run_ttl_sweep\<close> takes the number of ticks of the timer, which is arbitrary.
  Range arithmetic is on 64-bit words, with the saturating subtraction of the source; sizes from
  the database are \<open>int\<close> within the bounds that the table's constraints and \<open>db_wf\<close> give.

  \<^bold>\<open>Steps.\<close> Outside the theories on tasks each call of the service runs to its end. There a task may
  be interrupted after each call of the database, the disk or the cache; the writing of the
  temporary file, the opening and reading of a file, a statement that changes rows with the
  commit of its transaction, and the two deletions of an invalidation are one step each. The
  listings and the calls on buckets and keys that are one statement are one step anyway.

  \<^bold>\<open>Not modelled.\<close> How the tree of an XML document is written down, and how the body of a delete request is
  parsed; log lines; CORS and the timeout layer of the router;
  connection pools; the indexes and the statistics triggers of the migrations, which no code
  reads; durability across a power failure (\<open>sync_all\<close> may fail but has no other effect);
  symbolic links and permissions; that PostgreSQL cuts off spaces at the end of a text that is too long
  for its column and refuses zero bytes in it; a connection that is lost between a commit and its
  confirmation, so that an error is reported of a change that was made. \<^verbatim>\<open>lib.rs\<close> and \<^verbatim>\<open>handlers/mod.rs\<close> only declare modules. The
  tests and the web interface are not part of the implementation.
\<close>

end
